(* ===== verification/Prelude.thy ===== *)
theory Prelude
  imports Main "HOL-Library.Sublist" "HOL-Library.Code_Target_Nat"
begin

text \<open>
  Shared vocabulary of the development. A database table is a list of row records; this
  theory holds the row-list operations the source's SQL and ORM calls mean (lookup by key,
  insert, update, delete, conditional update, \<open>scalar_one_or_none\<close>) with their laws, the
  interface \<open>keyed_table\<close> of a table inside a larger state, results with an error, and
  a few lemmas on lists. The collections \<open>table_simps\<close> and \<open>table_intros\<close> carry
  the component proofs.
\<close>

named_theorems table_simps "rewrite rules of the row-list operations"
named_theorems table_intros "membership and uniqueness rules of the row-list operations"

section \<open>Row lists\<close>

definition fetch :: "('r \<Rightarrow> 'k) \<Rightarrow> 'k \<Rightarrow> 'r list \<Rightarrow> 'r option" where
  "fetch key k rows = find (\<lambda>r. key r = k) rows"

definition modify :: "('r \<Rightarrow> 'k) \<Rightarrow> 'k \<Rightarrow> ('r \<Rightarrow> 'r) \<Rightarrow> 'r list \<Rightarrow> 'r list" where
  "modify key k f rows = map (\<lambda>r. if key r = k then f r else r) rows"

definition erase :: "('r \<Rightarrow> 'k) \<Rightarrow> 'k \<Rightarrow> 'r list \<Rightarrow> 'r list" where
  "erase key k rows = filter (\<lambda>r. key r \<noteq> k) rows"

definition update_where :: "('r \<Rightarrow> bool) \<Rightarrow> ('r \<Rightarrow> 'r) \<Rightarrow> 'r list \<Rightarrow> 'r list" where
  "update_where p f rows = map (\<lambda>r. if p r then f r else r) rows"

definition exists_key :: "('r \<Rightarrow> 'k) \<Rightarrow> 'k \<Rightarrow> 'r list \<Rightarrow> bool" where
  "exists_key key k rows = list_ex (\<lambda>r. key r = k) rows"

definition unique_key :: "('r \<Rightarrow> 'k) \<Rightarrow> 'r list \<Rightarrow> bool" where
  "unique_key key rows = distinct (map key rows)"

lemma fetch_Nil [simp]: "fetch key k [] = None"
  by (simp add: fetch_def)

lemma fetch_Cons [simp]:
  "fetch key k (r # rs) = (if key r = k then Some r else fetch key k rs)"
  by (simp add: fetch_def)

lemma fetch_Some_key: "fetch key k rows = Some r \<Longrightarrow> key r = k"
  by (induction rows) (auto split: if_splits)

lemma fetch_Some_mem: "fetch key k rows = Some r \<Longrightarrow> r \<in> set rows"
  by (induction rows) (auto split: if_splits)

lemmas fetch_SomeD = fetch_Some_key fetch_Some_mem

lemma fetch_None_iff: "fetch key k rows = None \<longleftrightarrow> k \<notin> key ` set rows"
  by (induction rows) auto

lemma exists_key_iff [simp]: "exists_key key k rows \<longleftrightarrow> k \<in> key ` set rows"
  by (auto simp: exists_key_def list_ex_iff)

lemma fetch_unique:
  "unique_key key rows \<Longrightarrow> r \<in> set rows \<Longrightarrow> fetch key (key r) rows = Some r"
  by (induction rows) (auto simp: unique_key_def)

lemma fetch_append:
  "fetch key k (xs @ ys) = (case fetch key k xs of None \<Rightarrow> fetch key k ys | Some r \<Rightarrow> Some r)"
  by (induction xs) auto

lemma modify_Nil [simp]: "modify key k f [] = []"
  by (simp add: modify_def)

lemma modify_Cons [simp]:
  "modify key k f (r # rs) = (if key r = k then f r else r) # modify key k f rs"
  by (simp add: modify_def)

lemma map_key_modify [table_simps]:
  assumes "\<And>r. key' (f r) = key' r"
  shows "map key' (modify key k f rows) = map key' rows"
  using assms by (simp add: modify_def)

lemma image_key_modify [table_simps]:
  assumes "\<And>r. key' (f r) = key' r"
  shows "key' ` set (modify key k f rows) = key' ` set rows"
  using map_key_modify [of key' f key k rows, OF assms] by (metis list.set_map)

lemma fetch_modify_same [table_simps]:
  assumes "\<And>r. key (f r) = key r"
  shows "fetch key k (modify key k f rows) = map_option f (fetch key k rows)"
  using assms by (induction rows) auto

lemma fetch_modify_other [table_simps]:
  assumes "\<And>r. key (f r) = key r" and "k' \<noteq> k"
  shows "fetch key k' (modify key k f rows) = fetch key k' rows"
  using assms by (induction rows) auto

lemma set_modify: "set (modify key k f rows) = (\<lambda>r. if key r = k then f r else r) ` set rows"
  by (simp add: modify_def)

lemma modify_mem_cases:
  assumes "r \<in> set (modify key k f rows)"
  obtains (old) "r \<in> set rows" "key r \<noteq> k"
    | (new) r0 where "r0 \<in> set rows" "key r0 = k" "r = f r0"
  using assms by (auto simp: set_modify split: if_splits)

lemma modify_absent: "k \<notin> key ` set rows \<Longrightarrow> modify key k f rows = rows"
  by (induction rows) auto

lemma set_erase [table_simps]: "set (erase key k rows) = {r \<in> set rows. key r \<noteq> k}"
  by (auto simp: erase_def)

lemma unique_erase [table_intros]: "unique_key key' rows \<Longrightarrow> unique_key key' (erase key k rows)"
  by (simp add: unique_key_def erase_def distinct_map_filter)

lemma unique_filter [table_intros]: "unique_key key rows \<Longrightarrow> unique_key key (filter p rows)"
  by (simp add: unique_key_def distinct_map_filter)

lemma fetch_erase_same [table_simps]: "fetch key k (erase key k rows) = None"
  by (auto simp: fetch_None_iff set_erase)

lemma fetch_erase_other [table_simps]:
  "k' \<noteq> k \<Longrightarrow> fetch key k' (erase key k rows) = fetch key k' rows"
  by (induction rows) (auto simp: erase_def)

lemma set_update_where: "set (update_where p f rows) = (\<lambda>r. if p r then f r else r) ` set rows"
  by (simp add: update_where_def)

lemma map_key_update_where [table_simps]:
  assumes "\<And>r. key (f r) = key r"
  shows "map key (update_where p f rows) = map key rows"
  using assms by (simp add: update_where_def)

lemma image_key_update_where [table_simps]:
  assumes "\<And>r. key (f r) = key r"
  shows "key ` set (update_where p f rows) = key ` set rows"
  using map_key_update_where [of key f p rows, OF assms] by (metis list.set_map)

lemma fetch_update_where [table_simps]:
  assumes "\<And>r. key (f r) = key r"
  shows "fetch key k (update_where p f rows) =
    map_option (\<lambda>r. if p r then f r else r) (fetch key k rows)"
  using assms by (induction rows) (auto simp: update_where_def)

lemma unique_key_update_where [table_intros]:
  "(\<And>r. key (f r) = key r) \<Longrightarrow> unique_key key rows \<Longrightarrow> unique_key key (update_where p f rows)"
  by (simp add: unique_key_def map_key_update_where)

lemma unique_key_modify [table_intros]:
  "(\<And>r. key' (f r) = key' r) \<Longrightarrow> unique_key key' rows \<Longrightarrow> unique_key key' (modify key k f rows)"
  by (simp add: unique_key_def map_key_modify)

lemma unique_key_append [table_intros]:
  "unique_key key rows \<Longrightarrow> key r \<notin> key ` set rows \<Longrightarrow> unique_key key (rows @ [r])"
  by (auto simp: unique_key_def)

lemma unique_key_Nil [simp]: "unique_key key []"
  by (simp add: unique_key_def)

lemma unique_key_Cons [simp]:
  "unique_key key (r # rs) \<longleftrightarrow> key r \<notin> key ` set rs \<and> unique_key key rs"
  by (simp add: unique_key_def)

lemma unique_key_eq:
  "unique_key key rows \<Longrightarrow> r \<in> set rows \<Longrightarrow> r' \<in> set rows \<Longrightarrow> key r = key r' \<Longrightarrow> r = r'"
  by (auto simp: unique_key_def distinct_map dest: inj_onD)

lemma unique_key_filter_one:
  assumes "unique_key key rows"
  shows "filter (\<lambda>r. key r = k) rows = (case fetch key k rows of None \<Rightarrow> [] | Some r \<Rightarrow> [r])"
  using assms
proof (induction rows)
  case (Cons r rs)
  then show ?case
    by (auto simp: filter_empty_conv fetch_None_iff [symmetric] split: option.splits)
qed simp

section \<open>A table inside a state\<close>

text \<open>
  What the ORM relies on for each mapped class: a primary key, a place of the table in the
  database, and a way to change that place alone. \<open>keyed_table\<close> gives the laws of
  \<open>session.get\<close> against inserts, updates and deletes, proved once for all tables.
\<close>

locale keyed_table =
  fixes key :: "'r \<Rightarrow> 'k"
    and rows :: "'s \<Rightarrow> 'r list"
    and change :: "('r list \<Rightarrow> 'r list) \<Rightarrow> 's \<Rightarrow> 's"
  assumes rows_change: "rows (change f s) = f (rows s)"
begin

lemma get_inserted:
  "key r \<notin> key ` set (rows s) \<Longrightarrow> fetch key (key r) (rows (change (\<lambda>rs. rs @ [r]) s)) = Some r"
  by (simp add: rows_change fetch_append fetch_None_iff [symmetric])

lemma get_after_insert_other:
  "key r \<noteq> k \<Longrightarrow> fetch key k (rows (change (\<lambda>rs. rs @ [r]) s)) = fetch key k (rows s)"
  by (simp add: rows_change fetch_append split: option.splits)

lemma get_modified:
  "(\<And>r. key (f r) = key r) \<Longrightarrow>
   fetch key k (rows (change (modify key k f) s)) = map_option f (fetch key k (rows s))"
  by (simp add: rows_change fetch_modify_same)

lemma get_modified_other:
  "(\<And>r. key (f r) = key r) \<Longrightarrow> k' \<noteq> k \<Longrightarrow>
   fetch key k' (rows (change (modify key k f) s)) = fetch key k' (rows s)"
  by (simp add: rows_change fetch_modify_other)

lemma get_erased: "fetch key k (rows (change (erase key k) s)) = None"
  by (simp add: rows_change fetch_erase_same)

lemma unique_insert:
  "unique_key key (rows s) \<Longrightarrow> key r \<notin> key ` set (rows s) \<Longrightarrow>
   unique_key key (rows (change (\<lambda>rs. rs @ [r]) s))"
  by (simp add: rows_change unique_key_append)

lemma unique_modified:
  "(\<And>r. key (f r) = key r) \<Longrightarrow> unique_key key (rows s) \<Longrightarrow>
   unique_key key (rows (change (modify key k f) s))"
  by (simp add: rows_change unique_key_modify)

lemma get_update_where:
  "(\<And>r. key (f r) = key r) \<Longrightarrow>
   fetch key k (rows (change (update_where p f) s)) =
     map_option (\<lambda>r. if p r then f r else r) (fetch key k (rows s))"
  by (simp add: rows_change fetch_update_where)

end

section \<open>Results and lists\<close>

abbreviation is_ok :: "'e + 'a \<Rightarrow> bool" where
  "is_ok r \<equiv> (case r of Inl _ \<Rightarrow> False | Inr _ \<Rightarrow> True)"

lemma filter_dedup_pairs:
  assumes "distinct xs"
  shows "set (remdups [x. x \<leftarrow> xs, y \<leftarrow> ys, P x y]) = {x \<in> set xs. \<exists>y \<in> set ys. P x y}"
  by auto

lemma dropWhile_all: "list_all p xs \<Longrightarrow> dropWhile p (xs @ ys) = dropWhile p ys"
  by (induction xs) auto

lemma takeWhile_all: "list_all p xs \<Longrightarrow> takeWhile p (xs @ ys) = xs @ takeWhile p ys"
  by (induction xs) auto

lemma list_all_takeWhile: "list_all p (takeWhile p xs)"
  by (induction xs) auto

end
