(* ===== verification/PyValues.thy ===== *)
theory PyValues
  imports Prelude "HOL-Library.Word"
begin

text \<open>
  The Python values the server's code handles: exceptions, binary64 floats, JSON values as
  \<open>json.loads\<close> returns them, UUIDs, and the string operations the source calls
  (\<open>startswith\<close>, \<open>removeprefix\<close>, \<open>strip\<close>, \<open>rstrip\<close>, \<open>replace\<close>, zero-padded decimals). A
  Python \<open>str\<close> is a list of characters with code points below 256.
\<close>

section \<open>Exceptions\<close>

text \<open>
  The exceptions the modelled code can raise. \<open>HTTPException\<close> carries the status code;
  \<open>IntegrityError\<close> and \<open>DBAPIError\<close> are a violated constraint and a value the column's
  type refuses; \<open>ExternalError\<close> is whatever a service outside the repository raised.
\<close>

datatype exn =
    HTTPException nat
  | AttributeError
  | TypeError
  | ValueError
  | KeyError
  | IndexError
  | ZeroDivisionError
  | OverflowError
  | RuntimeError
  | RecursionError
  | JSONDecodeError
  | MultipleResultsFound
  | InvalidRequestError
  | IntegrityError
  | DBAPIError
  | ExternalError

text \<open>The status an endpoint's exception is answered with: uncaught ones become 500.\<close>

fun http_status :: "exn \<Rightarrow> nat" where
  "http_status (HTTPException n) = n"
| "http_status _ = 500"

section \<open>Floats\<close>

text \<open>
  A binary64 value: \<open>Fin s m e\<close> is \<open>\<plusminus> m * 2 ^ e\<close>. The code only stores floats and
  converts integers to them, so no arithmetic is needed.
\<close>

datatype pyfloat = Fin bool nat int | Inf bool | NaN

fun bit_length :: "nat \<Rightarrow> nat" where
  "bit_length n = (if n = 0 then 0 else Suc (bit_length (n div 2)))"

declare bit_length.simps [simp del]

text \<open>Round to the nearest multiple of \<open>2 ^ k\<close>, ties to even; the result counts those multiples.\<close>

definition round_half_even :: "nat \<Rightarrow> nat \<Rightarrow> nat" where
  "round_half_even k n =
     (let q = n div 2 ^ k; r = n mod 2 ^ k; h = 2 ^ k
      in if 2 * r > h \<or> (2 * r = h \<and> odd q) then Suc q else q)"

text \<open>\<open>float(n)\<close> of an integer: exact up to 53 bits, rounded above, an error past the largest float.\<close>

definition float_of_int :: "int \<Rightarrow> exn + pyfloat" where
  "float_of_int n =
     (let a = nat \<bar>n\<bar>; k = bit_length a - 53; m = round_half_even k a
      in if m * 2 ^ k \<ge> 2 ^ 1024 then Inl OverflowError else Inr (Fin (n < 0) m (int k)))"

lemma float_of_int_exact:
  assumes "\<bar>n\<bar> < 2 ^ 53"
  shows "float_of_int n = Inr (Fin (n < 0) (nat \<bar>n\<bar>) 0)"
proof -
  have bl: "m < 2 ^ b \<Longrightarrow> bit_length m \<le> b" for m b
  proof (induction b arbitrary: m)
    case 0
    then show ?case by (simp add: bit_length.simps)
  next
    case (Suc b)
    then have "m div 2 < 2 ^ b" by simp
    then have "bit_length (m div 2) \<le> b" by (rule Suc.IH)
    then show ?case by (simp add: bit_length.simps [of m])
  qed
  from assms have a: "nat \<bar>n\<bar> < 2 ^ 53" by (simp add: nat_less_iff)
  then have "bit_length (nat \<bar>n\<bar>) - 53 = 0" using bl [of "nat \<bar>n\<bar>" 53] by simp
  moreover have "\<not> nat \<bar>n\<bar> \<ge> 2 ^ 1024"
  proof -
    have "(2::nat) ^ 53 \<le> 2 ^ 1024" by (rule power_increasing) simp_all
    with a show ?thesis by linarith
  qed
  ultimately show ?thesis
    by (simp add: float_of_int_def round_half_even_def Let_def)
qed

section \<open>JSON values\<close>

text \<open>What \<open>json.loads\<close> returns. A dict has distinct keys, in insertion order.\<close>

datatype json =
    JNull
  | JBool bool
  | JInt int
  | JFloat pyfloat
  | JStr string
  | JArr "json list"
  | JObj "(string \<times> json) list"

fun truthy :: "json \<Rightarrow> bool" where
  "truthy JNull = False"
| "truthy (JBool b) = b"
| "truthy (JInt n) = (n \<noteq> 0)"
| "truthy (JFloat (Fin s m e)) = (m \<noteq> 0)"
| "truthy (JFloat _) = True"
| "truthy (JStr s) = (s \<noteq> [])"
| "truthy (JArr xs) = (xs \<noteq> [])"
| "truthy (JObj kvs) = (kvs \<noteq> [])"

text \<open>\<open>x.get(k, d)\<close>: only a dict has the method.\<close>

fun jget :: "json \<Rightarrow> string \<Rightarrow> json \<Rightarrow> exn + json" where
  "jget (JObj kvs) k d = Inr (case map_of kvs k of None \<Rightarrow> d | Some v \<Rightarrow> v)"
| "jget _ k d = Inl AttributeError"

text \<open>\<open>k in x\<close> and \<open>x[k]\<close> for a dict \<open>x\<close>.\<close>

fun jfield :: "json \<Rightarrow> string \<Rightarrow> json option" where
  "jfield (JObj kvs) k = map_of kvs k"
| "jfield _ k = None"

text \<open>\<open>x or y\<close>.\<close>

definition py_or :: "json \<Rightarrow> json \<Rightarrow> json" where
  "py_or x y = (if truthy x then x else y)"

text \<open>\<open>for v in x\<close>: a list gives its elements, a dict its keys, a string its characters.\<close>

fun py_iter :: "json \<Rightarrow> exn + json list" where
  "py_iter (JArr xs) = Inr xs"
| "py_iter (JObj kvs) = Inr (map (JStr \<circ> fst) kvs)"
| "py_iter (JStr s) = Inr (map (\<lambda>c. JStr [c]) s)"
| "py_iter _ = Inl TypeError"

text \<open>\<open>float(value) if isinstance(value, (int, float)) else None\<close>; a bool is an int.\<close>

fun float_or_none :: "json \<Rightarrow> exn + pyfloat option" where
  "float_or_none (JBool b) = Inr (Some (Fin False (if b then 1 else 0) 0))"
| "float_or_none (JInt n) = (case float_of_int n of Inl e \<Rightarrow> Inl e | Inr f \<Rightarrow> Inr (Some f))"
| "float_or_none (JFloat f) = Inr (Some f)"
| "float_or_none _ = Inr None"

section \<open>Strings\<close>

definition startswith :: "string \<Rightarrow> string \<Rightarrow> bool" where
  "startswith s p = prefix p s"

definition removeprefix :: "string \<Rightarrow> string \<Rightarrow> string" where
  "removeprefix s p = (if prefix p s then drop (length p) s else s)"

definition is_space :: "char \<Rightarrow> bool" where
  "is_space c = ((of_char c :: nat) \<in> {9, 10, 11, 12, 13, 28, 29, 30, 31, 32, 133, 160})"

definition strip :: "string \<Rightarrow> string" where
  "strip s = rev (dropWhile is_space (rev (dropWhile is_space s)))"

definition rstrip_char :: "char \<Rightarrow> string \<Rightarrow> string" where
  "rstrip_char c s = rev (dropWhile (\<lambda>d. d = c) (rev s))"

text \<open>\<open>s.replace(c, t)\<close> for a one-character \<open>c\<close>.\<close>

definition replace_char :: "char \<Rightarrow> string \<Rightarrow> string \<Rightarrow> string" where
  "replace_char c t s = concat (map (\<lambda>d. if d = c then t else [d]) s)"

definition contains :: "string \<Rightarrow> string \<Rightarrow> bool" where
  "contains s t = sublist t s"

section \<open>Decimal and hexadecimal digits\<close>

definition digit_char :: "nat \<Rightarrow> char" where
  "digit_char d = char_of (48 + d)"

definition is_digit :: "char \<Rightarrow> bool" where
  "is_digit c = (48 \<le> (of_char c :: nat) \<and> (of_char c :: nat) \<le> 57)"

definition digit_val :: "char \<Rightarrow> nat" where
  "digit_val c = of_char c - 48"

text \<open>\<open>f"{n:0wd}"\<close> for \<open>n < 10 ^ w\<close>.\<close>

primrec pad :: "nat \<Rightarrow> nat \<Rightarrow> string" where
  "pad 0 n = []"
| "pad (Suc w) n = pad w (n div 10) @ [digit_char (n mod 10)]"

lemma pad_numeral [simp]:
  "pad 2 n = [digit_char (n div 10 mod 10), digit_char (n mod 10)]"
  "pad 4 n = [digit_char (n div 1000 mod 10), digit_char (n div 100 mod 10),
     digit_char (n div 10 mod 10), digit_char (n mod 10)]"
  "pad 6 n = [digit_char (n div 100000 mod 10), digit_char (n div 10000 mod 10),
     digit_char (n div 1000 mod 10), digit_char (n div 100 mod 10),
     digit_char (n div 10 mod 10), digit_char (n mod 10)]"
proof -
  have n: "2 = Suc (Suc 0)" "4 = Suc (Suc (Suc (Suc 0)))" "6 = Suc (Suc (Suc (Suc (Suc (Suc 0)))))"
    by simp_all
  have d: "m div 10 div 10 = m div 100" "m div 100 div 10 = m div 1000" "m div 1000 div 10 = m div 10000"
    "m div 10000 div 10 = m div 100000" for m :: nat
    by (simp_all add: div_mult2_eq [symmetric])
  show "pad 2 n = [digit_char (n div 10 mod 10), digit_char (n mod 10)]"
    "pad 4 n = [digit_char (n div 1000 mod 10), digit_char (n div 100 mod 10),
       digit_char (n div 10 mod 10), digit_char (n mod 10)]"
    "pad 6 n = [digit_char (n div 100000 mod 10), digit_char (n div 10000 mod 10),
       digit_char (n div 1000 mod 10), digit_char (n div 100 mod 10),
       digit_char (n div 10 mod 10), digit_char (n mod 10)]"
    by (simp_all only: n pad.simps d append.simps)
qed

text \<open>\<open>str(n)\<close> of a natural number.\<close>

fun str_of_nat :: "nat \<Rightarrow> string" where
  "str_of_nat n = (if n < 10 then [digit_char n] else str_of_nat (n div 10) @ [digit_char (n mod 10)])"

declare str_of_nat.simps [simp del]

definition str_of_int :: "int \<Rightarrow> string" where
  "str_of_int n = (if n < 0 then ''-'' @ str_of_nat (nat (- n)) else str_of_nat (nat n))"

definition digits_val :: "string \<Rightarrow> nat" where
  "digits_val ds = foldl (\<lambda>a c. 10 * a + digit_val c) 0 ds"

text \<open>A fixed number of ASCII digits read as a number.\<close>

definition read_digits :: "string \<Rightarrow> nat option" where
  "read_digits ds = (if ds \<noteq> [] \<and> list_all is_digit ds then Some (digits_val ds) else None)"

lemma digit_char_simps [simp]:
  "d < 10 \<Longrightarrow> is_digit (digit_char d)"
  "d < 10 \<Longrightarrow> digit_val (digit_char d) = d"
  by (simp_all add: digit_char_def is_digit_def digit_val_def)

lemma length_pad [simp]: "length (pad w n) = w"
  by (induction w arbitrary: n) auto

lemma pad_digits: "list_all is_digit (pad w n)"
  by (induction w arbitrary: n) auto

lemma digits_val_pad: "n < 10 ^ w \<Longrightarrow> digits_val (pad w n) = n"
proof (induction w arbitrary: n)
  case 0
  then show ?case by (simp add: digits_val_def)
next
  case (Suc w)
  then have "digits_val (pad w (n div 10)) = n div 10" by (auto intro!: Suc.IH)
  then show ?case by (simp add: digits_val_def)
qed

lemma read_digits_pad: "n < 10 ^ w \<Longrightarrow> 0 < w \<Longrightarrow> read_digits (pad w n) = Some n"
  using length_pad [of w n] by (auto simp: read_digits_def pad_digits digits_val_pad simp del: length_pad)

lemma str_of_nat_digits: "list_all is_digit (str_of_nat n)"
proof (induction n rule: str_of_nat.induct)
  case (1 n)
  then show ?case by (cases "n < 10") (simp_all add: str_of_nat.simps [of n])
qed

lemma digits_val_str_of_nat: "digits_val (str_of_nat n) = n"
proof (induction n rule: str_of_nat.induct)
  case (1 n)
  then show ?case
    by (cases "n < 10") (simp_all add: str_of_nat.simps [of n] digits_val_def)
qed

lemma str_of_nat_inject: "str_of_nat m = str_of_nat n \<longleftrightarrow> m = n"
  by (metis digits_val_str_of_nat)

text \<open>The digit \<open>d < 16\<close> in lower-case hexadecimal.\<close>

definition hex_char :: "nat \<Rightarrow> char" where
  "hex_char d = (if d < 10 then char_of (48 + d) else char_of (87 + d))"

primrec hex :: "nat \<Rightarrow> nat \<Rightarrow> string" where
  "hex 0 n = []"
| "hex (Suc w) n = hex w (n div 16) @ [hex_char (n mod 16)]"

lemma length_hex [simp]: "length (hex w n) = w"
  by (induction w arbitrary: n) auto

lemma hex_char_inject: "a < 16 \<Longrightarrow> b < 16 \<Longrightarrow> hex_char a = hex_char b \<longleftrightarrow> a = b"
  by (auto simp: hex_char_def take_bit_nat_eq_self dest!: arg_cong [of _ _ "of_char :: char \<Rightarrow> nat"]
      split: if_splits)

lemma hex_inject: "a < 16 ^ w \<Longrightarrow> b < 16 ^ w \<Longrightarrow> hex w a = hex w b \<longleftrightarrow> a = b"
proof (induction w arbitrary: a b)
  case (Suc w)
  have ih: "hex w (a div 16) = hex w (b div 16) \<longleftrightarrow> a div 16 = b div 16"
    using Suc.prems by (intro Suc.IH) auto
  have "hex (Suc w) a = hex (Suc w) b \<longleftrightarrow> a div 16 = b div 16 \<and> a mod 16 = b mod 16"
    by (simp add: ih hex_char_inject)
  also have "\<dots> \<longleftrightarrow> a = b" by (metis div_mod_decomp)
  finally show ?case .
qed simp

section \<open>UUIDs\<close>

text \<open>\<open>uuid.UUID\<close>: 128 bits; \<open>str(u)\<close> is the 8-4-4-4-12 form and \<open>u.hex\<close> the 32 digits.\<close>

type_synonym uuid = "128 word"

definition uuid_hex :: "uuid \<Rightarrow> string" where
  "uuid_hex u = hex 32 (unat u)"

definition uuid_str :: "uuid \<Rightarrow> string" where
  "uuid_str u = (let h = uuid_hex u in
     take 8 h @ ''-'' @ take 4 (drop 8 h) @ ''-'' @ take 4 (drop 12 h) @ ''-'' @
     take 4 (drop 16 h) @ ''-'' @ drop 20 h)"

lemma length_uuid_hex [simp]: "length (uuid_hex u) = 32"
  by (simp add: uuid_hex_def)

lemma uuid_hex_inject: "uuid_hex u = uuid_hex v \<longleftrightarrow> u = v"
proof -
  have "unat u < 16 ^ 32" "unat v < 16 ^ 32"
    using unsigned_less [of u] unsigned_less [of v] by simp_all
  then show ?thesis by (simp add: uuid_hex_def hex_inject word_unat_eq_iff)
qed

lemma uuid_str_filter: "filter (\<lambda>c. c \<noteq> CHR ''-'') (uuid_str u) = uuid_hex u"
proof -
  have nd: "hex_char d \<noteq> CHR ''-''" if "d < 16" for d
    using that
    by (auto simp: hex_char_def take_bit_nat_eq_self dest!: arg_cong [of _ _ "of_char :: char \<Rightarrow> nat"])
  have "CHR ''-'' \<notin> set (hex w n)" for w n
    by (induction w arbitrary: n) (auto simp: nd [THEN not_sym])
  then have "CHR ''-'' \<notin> set (uuid_hex u)" by (simp add: uuid_hex_def)
  then have t: "filter (\<lambda>c. c \<noteq> CHR ''-'') (take m (drop n (uuid_hex u))) = take m (drop n (uuid_hex u))"
    for m n
    by (intro filter_True) (metis in_set_dropD in_set_takeD)
  have t0: "filter (\<lambda>c. c \<noteq> CHR ''-'') (take 8 (uuid_hex u)) = take 8 (uuid_hex u)"
    using t [of 8 0] by simp
  have t20: "filter (\<lambda>c. c \<noteq> CHR ''-'') (drop 20 (uuid_hex u)) = drop 20 (uuid_hex u)"
    using t [of 12 20] by simp
  have j: "take 4 (drop 16 h) @ drop 20 h = drop 16 h" "take 4 (drop 12 h) @ drop 16 h = drop 12 h"
    "take 4 (drop 8 h) @ drop 12 h = drop 8 h" "take 8 h @ drop 8 h = h" for h :: string
    using append_take_drop_id [of 4 "drop 16 h"] append_take_drop_id [of 4 "drop 12 h"]
      append_take_drop_id [of 4 "drop 8 h"] append_take_drop_id [of 8 h] by simp_all
  show ?thesis
    by (simp add: uuid_str_def Let_def t t0 t20 j)
qed

lemma uuid_str_inject: "uuid_str u = uuid_str v \<longleftrightarrow> u = v"
  by (metis uuid_str_filter uuid_hex_inject)

section \<open>Slugs\<close>

text \<open>The characters and the pattern \<open>^[A-Za-z0-9_-]+$\<close> of wire identifiers.\<close>

definition slug_char :: "char \<Rightarrow> bool" where
  "slug_char c = (let n = (of_char c :: nat) in
     (65 \<le> n \<and> n \<le> 90) \<or> (97 \<le> n \<and> n \<le> 122) \<or> (48 \<le> n \<and> n \<le> 57) \<or> n = 95 \<or> n = 45)"

definition slug_pattern :: "string \<Rightarrow> bool" where
  "slug_pattern s = (s \<noteq> [] \<and> list_all slug_char s)"

end
