(* ===== verification/Jwks.thy ===== *)
theory Jwks
  imports Settings
begin

text \<open>
  \<open>server/app/utils/jwks.py\<close>: the cache of the identity provider's public keys. The HTTP request
  is an argument: the reply it got, or how it failed. Times are the readings of \<open>time.time()\<close> in
  microseconds, one for the staleness test and one after the fetch. The lock makes \<open>get_key\<close>
  atomic. The result pairs what the call returned or raised with the cache afterwards.
\<close>

datatype http_reply =
    Unreachable
  | ErrorStatus
  | NotJson
  | Body json

record jwks_cache =
  jc_url :: string
  jc_ttl :: int
  jc_timeout :: int
  jc_keys :: "(json \<times> json) list"
  jc_fetched_at :: int

definition new_cache :: "string \<Rightarrow> int \<Rightarrow> int \<Rightarrow> jwks_cache" where
  "new_cache url ttl timeout =
     \<lparr>jc_url = url, jc_ttl = ttl, jc_timeout = timeout, jc_keys = [], jc_fetched_at = 0\<rparr>"

definition is_stale :: "int \<Rightarrow> jwks_cache \<Rightarrow> bool" where
  "is_stale now c = (now - jc_fetched_at c > jc_ttl c * 1000000)"

text \<open>A dict's key must be hashable; a later entry with the same key replaces the earlier one.\<close>

fun hashable :: "json \<Rightarrow> bool" where
  "hashable (JArr _) = False"
| "hashable (JObj _) = False"
| "hashable _ = True"

definition dict_set :: "'k \<Rightarrow> 'v \<Rightarrow> ('k \<times> 'v) list \<Rightarrow> ('k \<times> 'v) list" where
  "dict_set k v m = (if k \<in> fst ` set m then map (\<lambda>(k', v'). if k' = k then (k', v) else (k', v')) m
     else m @ [(k, v)])"

text \<open>The loop over the keys of the reply.\<close>

fun collect_keys :: "json list \<Rightarrow> (json \<times> json) list \<Rightarrow> exn + (json \<times> json) list" where
  "collect_keys [] m = Inr m"
| "collect_keys (k # ks) m =
     (case jget k ''kid'' JNull of
        Inl e \<Rightarrow> Inl e
      | Inr kid \<Rightarrow>
          if truthy kid then (if hashable kid then collect_keys ks (dict_set kid k m) else Inl TypeError)
          else collect_keys ks m)"

definition fetch_jwks :: "http_reply \<Rightarrow> int \<Rightarrow> jwks_cache \<Rightarrow> exn + jwks_cache" where
  "fetch_jwks reply now c =
     (case reply of
        Unreachable \<Rightarrow> Inl ExternalError
      | ErrorStatus \<Rightarrow> Inl ExternalError
      | NotJson \<Rightarrow> Inl ValueError
      | Body jwks \<Rightarrow>
          (case jget jwks ''keys'' (JArr []) of
             Inl e \<Rightarrow> Inl e
           | Inr (JArr ks) \<Rightarrow>
               (case collect_keys ks [] of
                  Inl e \<Rightarrow> Inl e
                | Inr m \<Rightarrow> Inr (c\<lparr>jc_keys := m, jc_fetched_at := now\<rparr>))
           | Inr _ \<Rightarrow> Inl ValueError))"

definition get_key :: "http_reply \<Rightarrow> int \<Rightarrow> int \<Rightarrow> json \<Rightarrow> jwks_cache \<Rightarrow> (exn + json option) \<times> jwks_cache" where
  "get_key reply now now' kid c =
     (if \<not> is_stale now c \<and> \<not> hashable kid then (Inl TypeError, c)
      else if is_stale now c \<or> kid \<notin> fst ` set (jc_keys c) then
        (case fetch_jwks reply now' c of
           Inl _ \<Rightarrow> (Inr None, c)
         | Inr c' \<Rightarrow> if hashable kid then (Inr (map_of (jc_keys c') kid), c') else (Inl TypeError, c'))
      else (Inr (map_of (jc_keys c) kid), c))"

text \<open>The process-wide singleton: only the first call's arguments count.\<close>

definition get_cache :: "jwks_cache option \<Rightarrow> string \<Rightarrow> int \<Rightarrow> int \<Rightarrow> jwks_cache" where
  "get_cache cache url ttl timeout = (case cache of None \<Rightarrow> new_cache url ttl timeout | Some c \<Rightarrow> c)"

definition reset_cache_for_tests :: "jwks_cache option \<Rightarrow> jwks_cache option" where
  "reset_cache_for_tests cache = None"

section \<open>What a returned key is\<close>

text \<open>
  \<open>origin\<close> of a cache: the fetches that succeeded, latest first, each with its time. A key comes
  from the latest of them, which is at most the TTL old when the key is returned.
\<close>

definition offered :: "json \<Rightarrow> json \<Rightarrow> json \<Rightarrow> bool" where
  "offered jwks kid k =
     (\<exists>ks. jget jwks ''keys'' (JArr []) = Inr (JArr ks) \<and> k \<in> set ks \<and> jget k ''kid'' JNull = Inr kid)"

lemma set_dict_set: "set (dict_set k v m) \<subseteq> insert (k, v) (set m)"
  by (auto simp: dict_set_def split: if_splits)

lemma collect_keys_sound:
  assumes "collect_keys ks m = Inr m'" "(kid, k) \<in> set m'"
  shows "(kid, k) \<in> set m \<or> (k \<in> set ks \<and> jget k ''kid'' JNull = Inr kid \<and> truthy kid)"
  using assms
proof (induction ks arbitrary: m)
  case (Cons x ks)
  from Cons.prems(1) obtain i where i: "jget x ''kid'' JNull = Inr i"
    by (auto split: sum.splits)
  show ?case
  proof (cases "truthy i")
    case True
    with i Cons.prems have "collect_keys ks (dict_set i x m) = Inr m'" by (simp split: if_splits)
    from Cons.IH [OF this Cons.prems(2)] i True set_dict_set [of i x m] show ?thesis by auto
  next
    case False
    with i Cons.prems have "collect_keys ks m = Inr m'" by simp
    from Cons.IH [OF this Cons.prems(2)] show ?thesis by auto
  qed
qed simp

text \<open>The cache's content is what one reply offered.\<close>

definition cached_from :: "json \<Rightarrow> jwks_cache \<Rightarrow> bool" where
  "cached_from jwks c = (\<forall>(kid, k) \<in> set (jc_keys c). offered jwks kid k)"

lemma fetch_jwks_Inr:
  assumes "fetch_jwks reply now c = Inr c'"
  obtains jwks where "reply = Body jwks" "cached_from jwks c'" "jc_fetched_at c' = now" "jc_ttl c' = jc_ttl c"
proof -
  from assms obtain jwks ks m where r: "reply = Body jwks" "jget jwks ''keys'' (JArr []) = Inr (JArr ks)"
    "collect_keys ks [] = Inr m" "c' = c\<lparr>jc_keys := m, jc_fetched_at := now\<rparr>"
    by (auto simp: fetch_jwks_def split: http_reply.splits sum.splits json.splits)
  have "offered jwks kid k" if "(kid, k) \<in> set m" for kid k
    unfolding offered_def using collect_keys_sound [OF r(3) that] r(2) by auto
  then have "cached_from jwks c'" by (auto simp: cached_from_def r(4))
  with r show ?thesis by (intro that [of jwks]) auto
qed

lemma get_key_fresh:
  assumes "get_key reply now now' kid c = (Inr (Some k), c')"
  shows "(c' = c \<and> \<not> is_stale now c \<and> (kid, k) \<in> set (jc_keys c)) \<or>
    (\<exists>jwks. reply = Body jwks \<and> jc_fetched_at c' = now' \<and> cached_from jwks c' \<and> (kid, k) \<in> set (jc_keys c'))"
proof (cases "is_stale now c \<or> kid \<notin> fst ` set (jc_keys c)")
  case True
  have c1: "fetch_jwks reply now' c = Inr c' \<and> map_of (jc_keys c') kid = Some k"
  proof (cases "fetch_jwks reply now' c")
    case (Inl e)
    with assms True show ?thesis unfolding get_key_def by (simp only: if_True if_False split: if_splits) simp_all
  next
    case (Inr c1)
    with assms True show ?thesis unfolding get_key_def by (auto split: if_split_asm)
  qed
  then have f: "fetch_jwks reply now' c = Inr c'" by simp
  obtain jwks where "reply = Body jwks" "cached_from jwks c'" "jc_fetched_at c' = now'"
    using fetch_jwks_Inr [OF f] by metis
  with c1 show ?thesis by (metis map_of_SomeD)
next
  case False
  then have "map_of (jc_keys c) kid = Some k \<and> c' = c"
    using assms unfolding get_key_def by (auto split: if_split_asm)
  with False show ?thesis by (metis map_of_SomeD)
qed

end
