(* ===== verification/PyTime.thy ===== *)
theory PyTime
  imports PyValues
begin

text \<open>
  Dates and instants: the calendar of Python's \<open>datetime\<close> (ordinals, \<open>isoformat\<close>,
  \<open>fromisoformat\<close>, \<open>strftime\<close> as used for command ids) and \<open>app/utils/time.py\<close>. An instant
  is a number of microseconds since 1970-01-01T00:00:00Z: what a TIMESTAMPTZ column stores
  and what the comparisons of aware datetimes compare. The round trip of \<open>parse_iso8601\<close>
  and \<open>isoformat\<close> is the main result.
\<close>

type_synonym instant = int

record datetime =
  dt_year :: nat
  dt_month :: nat
  dt_day :: nat
  dt_hour :: nat
  dt_minute :: nat
  dt_second :: nat
  dt_micro :: nat

section \<open>The calendar\<close>

definition is_leap :: "nat \<Rightarrow> bool" where
  "is_leap y = (y mod 4 = 0 \<and> (y mod 100 \<noteq> 0 \<or> y mod 400 = 0))"

definition month_starts :: "nat list" where
  "month_starts = [0, 31, 59, 90, 120, 151, 181, 212, 243, 273, 304, 334]"

definition month_lengths :: "nat list" where
  "month_lengths = [31, 28, 31, 30, 31, 30, 31, 31, 30, 31, 30, 31]"

definition days_in_month :: "nat \<Rightarrow> nat \<Rightarrow> nat" where
  "days_in_month y m = (if m = 2 \<and> is_leap y then 29 else month_lengths ! (m - 1))"

definition days_before_year :: "nat \<Rightarrow> nat" where
  "days_before_year y = (let p = y - 1 in p * 365 + p div 4 - p div 100 + p div 400)"

definition days_before_month :: "bool \<Rightarrow> nat \<Rightarrow> nat" where
  "days_before_month leap m = month_starts ! (m - 1) + (if 2 < m \<and> leap then 1 else 0)"

text \<open>\<open>datetime._ymd2ord\<close>: day 1 is 0001-01-01.\<close>

definition ymd2ord :: "nat \<Rightarrow> nat \<Rightarrow> nat \<Rightarrow> nat" where
  "ymd2ord y m d = days_before_year y + days_before_month (is_leap y) m + d"

text \<open>Month and day of the day number \<open>n\<close> (from 0) of a year.\<close>

definition month_day :: "bool \<Rightarrow> nat \<Rightarrow> nat \<times> nat" where
  "month_day leap n =
     (let m = (n + 50) div 32
      in if n < days_before_month leap m
         then (m - 1, n - days_before_month leap (m - 1) + 1)
         else (m, n - days_before_month leap m + 1))"

text \<open>\<open>datetime._ord2ymd\<close>.\<close>

definition ord2ymd :: "nat \<Rightarrow> nat \<times> nat \<times> nat" where
  "ord2ymd ord =
     (let n = ord - 1; n400 = n div 146097; n = n mod 146097;
          n100 = n div 36524; n = n mod 36524;
          n4 = n div 1461; n = n mod 1461;
          n1 = n div 365; n = n mod 365;
          y = n400 * 400 + 1 + n100 * 100 + n4 * 4 + n1
      in if n1 = 4 \<or> n100 = 4 then (y - 1, 12, 31)
         else (let (m, d) = month_day (n1 = 3 \<and> (n4 \<noteq> 24 \<or> n100 = 3)) n in (y, m, d)))"

text \<open>The constructor's range checks; out of range is a \<open>ValueError\<close>.\<close>

definition valid_date :: "nat \<Rightarrow> nat \<Rightarrow> nat \<Rightarrow> bool" where
  "valid_date y m d = (1 \<le> y \<and> y \<le> 9999 \<and> 1 \<le> m \<and> m \<le> 12 \<and> 1 \<le> d \<and> d \<le> days_in_month y m)"

definition valid_datetime :: "datetime \<Rightarrow> bool" where
  "valid_datetime t =
     (valid_date (dt_year t) (dt_month t) (dt_day t) \<and>
      dt_hour t < 24 \<and> dt_minute t < 60 \<and> dt_second t < 60 \<and> dt_micro t < 1000000)"

lemma month_day_correct:
  assumes "n < 365 + (if leap then 1 else 0)" and "month_day leap n = (m, d)"
  shows "days_before_month leap m + d = n + 1 \<and> 1 \<le> m \<and> m \<le> 12 \<and> 1 \<le> d \<and>
    d \<le> (if m = 2 \<and> leap then 29 else month_lengths ! (m - 1))"
proof -
  define q where "q = (n + 50) div 32"
  have lo: "32 * q \<le> n + 50" and hi: "n + 50 < 32 * q + 32" by (auto simp: q_def)
  have "1 \<le> q" "q \<le> 12" using assms(1) lo hi by (auto split: if_splits)
  then have "q = 1 \<or> q = 2 \<or> q = 3 \<or> q = 4 \<or> q = 5 \<or> q = 6 \<or> q = 7 \<or> q = 8 \<or> q = 9 \<or> q = 10
    \<or> q = 11 \<or> q = 12"
    by presburger
  then show ?thesis
    using assms lo hi unfolding month_day_def q_def [symmetric]
    by (elim disjE) (auto simp: Let_def days_before_month_def month_starts_def month_lengths_def
        split: if_splits)
qed

text \<open>A year counted from 400-, 100-, 4- and 1-year cycles.\<close>

lemma days_before_year_cycles:
  assumes "b < 4" "c < 25" "e < 4"
  shows "days_before_year (a * 400 + 1 + b * 100 + c * 4 + e) = 146097 * a + 36524 * b + 1461 * c + 365 * e"
proof -
  define p where "p = a * 400 + b * 100 + c * 4 + e"
  have "p div 4 = a * 100 + b * 25 + c" "p div 100 = a * 4 + b" "p div 400 = a"
    using assms by (auto simp: p_def)
  moreover have "a * 400 + 1 + b * 100 + c * 4 + e - 1 = p" by (simp add: p_def)
  ultimately show ?thesis
    by (simp only: days_before_year_def Let_def)
qed

lemma is_leap_cycles:
  assumes "b < 4" "c < 25" "e < 4"
  shows "is_leap (a * 400 + 1 + b * 100 + c * 4 + e) \<longleftrightarrow> e = 3 \<and> (c \<noteq> 24 \<or> b = 3)"
proof -
  define y where "y = a * 400 + 1 + b * 100 + c * 4 + e"
  have "y = (e + 1) + 4 * (100 * a + 25 * b + c)" "y = (4 * c + e + 1) + 100 * (4 * a + b)"
    "y = (100 * b + 4 * c + e + 1) + 400 * a"
    by (simp_all add: y_def)
  then have "y mod 4 = (e + 1) mod 4" "y mod 100 = (4 * c + e + 1) mod 100"
    "y mod 400 = (100 * b + 4 * c + e + 1) mod 400"
    by (metis mod_mult_self2)+
  moreover have "(e + 1) mod 4 = 0 \<longleftrightarrow> e = 3" using assms by (auto simp: mod_Suc)
  moreover have "(4 * c + 4) mod 100 = 0 \<longleftrightarrow> c = 24" using assms by (cases "c = 24") auto
  moreover have "(100 * b + 100) mod 400 = 0 \<longleftrightarrow> b = 3" using assms by (cases "b = 3") auto
  ultimately have "y mod 4 = 0 \<longleftrightarrow> e = 3" "e = 3 \<Longrightarrow> y mod 100 = 0 \<longleftrightarrow> c = 24"
    "e = 3 \<Longrightarrow> c = 24 \<Longrightarrow> y mod 400 = 0 \<longleftrightarrow> b = 3"
    by (simp_all add: algebra_simps)
  then show ?thesis
    unfolding y_def [symmetric] is_leap_def by (cases "e = 3"; cases "c = 24") simp_all
qed

text \<open>The parts of a year of \<^const>\<open>ord2ymd\<close>: either a regular day or the last day of a cycle.\<close>

lemma ord2ymd_cases:
  assumes "1 \<le> ord"
  obtains (regular) a b c e n where "b < 4" "c < 25" "e < 4"
      "n < 365 + (if e = 3 \<and> (c \<noteq> 24 \<or> b = 3) then 1 else 0)"
      "ord = 146097 * a + 36524 * b + 1461 * c + 365 * e + n + 1"
      "ord2ymd ord = (let (m, d) = month_day (e = 3 \<and> (c \<noteq> 24 \<or> b = 3)) n
        in (a * 400 + 1 + b * 100 + c * 4 + e, m, d))"
    | (last) a b c where "b < 4" "c < 25" "c \<noteq> 24 \<or> b = 3"
      "ord = 146097 * a + 36524 * b + 1461 * c + 365 * 3 + 366"
      "ord2ymd ord = (a * 400 + 1 + b * 100 + c * 4 + 3, 12, 31)"
proof -
  define a where "a = (ord - 1) div 146097"
  define r1 where "r1 = (ord - 1) mod 146097"
  define b where "b = r1 div 36524"
  define r2 where "r2 = r1 mod 36524"
  define c where "c = r2 div 1461"
  define r3 where "r3 = r2 mod 1461"
  define e where "e = r3 div 365"
  define n where "n = r3 mod 365"
  have o: "ord2ymd ord = (let y = a * 400 + 1 + b * 100 + c * 4 + e
      in if e = 4 \<or> b = 4 then (y - 1, 12, 31)
         else (let (m, d) = month_day (e = 3 \<and> (c \<noteq> 24 \<or> b = 3)) n in (y, m, d)))"
    by (simp add: ord2ymd_def Let_def a_def b_def c_def e_def n_def r1_def r2_def r3_def)
  have ord: "ord = 146097 * a + r1 + 1" using assms by (simp add: a_def r1_def)
  have r: "r1 = 36524 * b + r2" "r2 = 1461 * c + r3" "r3 = 365 * e + n"
    "r1 < 146097" "r2 < 36524" "r3 < 1461" "n < 365"
    by (simp_all add: r1_def b_def r2_def c_def r3_def e_def n_def)
  then have bnd: "b \<le> 4" "c < 25" "e \<le> 4" "b = 4 \<Longrightarrow> r2 = 0" "e = 4 \<Longrightarrow> n = 0" "e = 4 \<Longrightarrow> c < 24"
    by linarith+
  consider "b = 4" | "b < 4" "e = 4" | "b < 4" "e < 4" using bnd by linarith
  then show ?thesis
  proof cases
    case 1
    then have "c = 0" "e = 0" "n = 0" using r bnd by simp_all
    then show ?thesis
      using 1 o ord r by (intro last [of 3 24 a]) (simp_all add: Let_def)
  next
    case 2
    then show ?thesis
      using o ord r bnd by (intro last [of b c a]) (simp_all add: Let_def)
  next
    case 3
    then show ?thesis
      using o ord r bnd by (intro regular [of b c e n a]) (auto simp: Let_def)
  qed
qed

lemma ord2ymd_correct:
  assumes "1 \<le> ord" and "ord2ymd ord = (y, m, d)"
  shows "ymd2ord y m d = ord \<and> 1 \<le> y \<and> 1 \<le> m \<and> m \<le> 12 \<and> 1 \<le> d \<and> d \<le> days_in_month y m"
  using assms(1)
proof (cases rule: ord2ymd_cases)
  case (regular a b c e n)
  define L where "L = (e = 3 \<and> (c \<noteq> 24 \<or> b = 3))"
  from regular assms(2) have md: "month_day L n = (m, d)" and y: "y = a * 400 + 1 + b * 100 + c * 4 + e"
    by (auto simp: L_def Let_def split: prod.splits)
  have "is_leap y = L" using is_leap_cycles [OF regular(1-3)] by (simp add: y L_def)
  moreover have "n < 365 + (if L then 1 else 0)" using regular(4) by (simp add: L_def)
  moreover have "days_before_year y + n + 1 = ord"
    using days_before_year_cycles [OF regular(1-3)] regular(5) by (simp add: y)
  ultimately show ?thesis
    using month_day_correct [OF _ md] by (auto simp: ymd2ord_def days_in_month_def y)
next
  case (last a b c)
  have "is_leap y" "days_before_year y = 146097 * a + 36524 * b + 1461 * c + 365 * 3"
    using is_leap_cycles [of b c 3 a] days_before_year_cycles [of b c 3 a] last assms(2) by auto
  with last assms(2) show ?thesis
    by (auto simp: ymd2ord_def days_before_month_def month_starts_def days_in_month_def month_lengths_def)
qed

lemma year_step_arith:
  fixes a a' b b' c c' p :: nat
  assumes "a' \<le> a + 1" "b \<le> b'" "c \<le> c'" "a \<le> p" "a' \<le> Suc p"
  shows "p * 365 + b - a + c \<le> Suc p * 365 + b' - a' + c'"
proof -
  obtain e where e: "p = a + e" using assms(4) by (auto simp: le_iff_add)
  obtain e' where e': "Suc p = a' + e'" using assms(5) by (auto simp: le_iff_add)
  have "p * 365 + b - a + c = 364 * a + 365 * e + b + c" by (simp add: e)
  moreover have "Suc p * 365 + b' - a' + c' = 364 * a' + 365 * e' + b' + c'" unfolding e' by simp
  ultimately show ?thesis using assms e e' by linarith
qed

lemma days_before_year_mono: "y \<le> z \<Longrightarrow> days_before_year y \<le> days_before_year z"
proof -
  define f where "f p = p * 365 + p div 4 - p div 100 + p div 400" for p :: nat
  have "f p \<le> f (Suc p)" for p
  proof -
    have "Suc p div 100 \<le> p div 100 + 1" "p div 4 \<le> Suc p div 4" "p div 400 \<le> Suc p div 400"
      by (simp_all add: div_le_mono div_Suc)
    moreover have "p div 100 \<le> p" "Suc p div 100 \<le> Suc p" by (rule div_le_dividend)+
    ultimately show ?thesis unfolding f_def by (intro year_step_arith)
  qed
  then have "mono f" by (simp add: mono_iff_le_Suc)
  then show "y \<le> z \<Longrightarrow> ?thesis" by (simp add: days_before_year_def Let_def f_def mono_def diff_le_mono)
qed

text \<open>3652059 is the ordinal of 9999-12-31.\<close>

lemma ord2ymd_valid:
  assumes "1 \<le> ord" "ord \<le> 3652059" "ord2ymd ord = (y, m, d)"
  shows "valid_date y m d"
proof -
  note c = ord2ymd_correct [OF assms(1,3)]
  have "y \<le> 9999"
  proof (rule ccontr)
    assume "\<not> y \<le> 9999"
    then have "days_before_year 10000 \<le> days_before_year y" by (intro days_before_year_mono) simp
    then have "3652059 < ord" using c by (auto simp: ymd2ord_def days_before_year_def)
    with assms(2) show False by simp
  qed
  with c show ?thesis by (simp add: valid_date_def)
qed

section \<open>Instants\<close>

definition day_us :: int where "day_us = 86400000000"

text \<open>The instant of a wall-clock time whose UTC offset is \<open>off\<close> microseconds.\<close>

definition instant_of :: "datetime \<Rightarrow> int \<Rightarrow> instant" where
  "instant_of t off =
     (int (ymd2ord (dt_year t) (dt_month t) (dt_day t)) - 719163) * day_us
     + int (dt_hour t) * 3600000000 + int (dt_minute t) * 60000000 + int (dt_second t) * 1000000
     + int (dt_micro t) - off"

text \<open>The UTC wall clock of an instant, and the instants a UTC \<open>datetime\<close> can express.\<close>

definition utc_datetime :: "instant \<Rightarrow> datetime" where
  "utc_datetime i =
     (let us = nat (i + 719162 * day_us); days = us div 86400000000; r = us mod 86400000000;
          (y, m, d) = ord2ymd (days + 1)
      in \<lparr>dt_year = y, dt_month = m, dt_day = d, dt_hour = r div 3600000000,
          dt_minute = r div 60000000 mod 60, dt_second = r div 1000000 mod 60,
          dt_micro = r mod 1000000\<rparr>)"

definition representable :: "instant \<Rightarrow> bool" where
  "representable i = (- 719162 * day_us \<le> i \<and> i < 2932897 * day_us)"

lemma dec_arith:
  fixes r q k :: nat
  assumes "r = q * 1000000 + u" "q = k * 60 + s" "k = h * 60 + m"
  shows "r = h * 3600000000 + m * 60000000 + s * 1000000 + u"
  using assms by simp

lemma utc_datetime_correct:
  assumes "representable i"
  shows "valid_datetime (utc_datetime i) \<and> instant_of (utc_datetime i) 0 = i"
proof -
  define us where "us = nat (i + 719162 * day_us)"
  define days where "days = us div 86400000000"
  define r where "r = us mod 86400000000"
  obtain y m d where o: "ord2ymd (days + 1) = (y, m, d)" by (cases "ord2ymd (days + 1)")
  have i: "i = int us - 719162 * day_us" and us: "us < 3652059 * 86400000000"
    using assms by (auto simp: us_def representable_def day_us_def)
  have r: "r < 86400000000" "us = days * 86400000000 + r" by (auto simp: r_def days_def)
  have "days + 1 \<le> 3652059" using us r by linarith
  then have v: "valid_date y m d" and yo: "ymd2ord y m d = days + 1"
    using ord2ymd_valid [OF _ _ o] ord2ymd_correct [OF _ o] by simp_all
  have t: "utc_datetime i = \<lparr>dt_year = y, dt_month = m, dt_day = d, dt_hour = r div 3600000000,
          dt_minute = r div 60000000 mod 60, dt_second = r div 1000000 mod 60,
          dt_micro = r mod 1000000\<rparr>"
    using o
    by (simp add: utc_datetime_def Let_def us_def [symmetric] days_def [symmetric] r_def [symmetric])
  have dec: "r = r div 3600000000 * 3600000000 + r div 60000000 mod 60 * 60000000
      + r div 1000000 mod 60 * 1000000 + r mod 1000000"
  proof -
    define q where "q = r div 1000000"
    define k where "k = q div 60"
    have "r div 60000000 = k" "r div 3600000000 = k div 60"
      by (simp_all add: k_def q_def div_mult2_eq [symmetric])
    moreover have "r = q * 1000000 + r mod 1000000" "q = k * 60 + q mod 60" "k = k div 60 * 60 + k mod 60"
      by (simp_all add: q_def k_def)
    ultimately show ?thesis unfolding q_def [symmetric] by (metis dec_arith)
  qed
  have "instant_of (utc_datetime i) 0 = i"
    unfolding instant_of_def t using yo i r(2) arg_cong [OF dec, of int] by (simp add: day_us_def)
  moreover have "valid_datetime (utc_datetime i)"
    using v r(1) by (simp add: t valid_datetime_def div_less_iff_less_mult)
  ultimately show ?thesis by simp
qed

section \<open>Printing\<close>

text \<open>\<open>datetime.isoformat()\<close> of a UTC datetime, and the command id's \<open>%Y%m%d-%H%M%S-%f\<close>.\<close>

definition iso_date :: "datetime \<Rightarrow> string" where
  "iso_date t = pad 4 (dt_year t) @ ''-'' @ pad 2 (dt_month t) @ ''-'' @ pad 2 (dt_day t)"

definition iso_time :: "datetime \<Rightarrow> string" where
  "iso_time t = pad 2 (dt_hour t) @ '':'' @ pad 2 (dt_minute t) @ '':'' @ pad 2 (dt_second t) @
     (if dt_micro t = 0 then [] else ''.'' @ pad 6 (dt_micro t))"

definition isoformat :: "instant \<Rightarrow> string" where
  "isoformat i = (let t = utc_datetime i in iso_date t @ ''T'' @ iso_time t @ ''+00:00'')"

definition strftime_cmd :: "instant \<Rightarrow> string" where
  "strftime_cmd i = (let t = utc_datetime i in
     pad 4 (dt_year t) @ pad 2 (dt_month t) @ pad 2 (dt_day t) @ ''-'' @
     pad 2 (dt_hour t) @ pad 2 (dt_minute t) @ pad 2 (dt_second t) @ ''-'' @ pad 6 (dt_micro t))"

section \<open>Parsing\<close>

text \<open>
  \<open>datetime.fromisoformat\<close> as the standard library documents it (Python 3.12): calendar and
  week dates, basic or extended, an optional time with up to six significant fraction digits,
  an optional offset. Every departure is a \<open>ValueError\<close>.
\<close>

definition rd :: "nat \<Rightarrow> string \<Rightarrow> nat option" where
  "rd w s = (if w \<le> length s then read_digits (take w s) else None)"

definition at :: "string \<Rightarrow> nat \<Rightarrow> char \<Rightarrow> bool" where
  "at s i c = (i < length s \<and> s ! i = c)"

text \<open>\<open>_find_isoformat_datetime_separator\<close>: where the date part ends.\<close>

definition find_separator :: "string \<Rightarrow> exn + nat" where
  "find_separator s =
     (if length s = 7 then Inr 7
      else if at s 4 CHR ''-'' then
        (if at s 5 CHR ''W'' then
           (if 8 < length s \<and> at s 8 CHR ''-'' then
              (if length s = 9 then Inl ValueError
               else if 10 < length s \<and> is_digit (s ! 10) then Inr 8 else Inr 10)
            else Inr 8)
         else Inr 10)
      else if at s 4 CHR ''W'' then
        (let idx = 7 + length (takeWhile is_digit (drop 7 s))
         in if idx < 9 then Inr idx else if even idx then Inr 7 else Inr 8)
      else Inr 8)"

text \<open>\<open>_isoweek_to_gregorian\<close>.\<close>

definition isoweek_to_gregorian :: "nat \<Rightarrow> nat \<Rightarrow> nat \<Rightarrow> exn + nat \<times> nat \<times> nat" where
  "isoweek_to_gregorian y w d =
     (let first = ymd2ord y 1 1; wd = (first + 6) mod 7;
          long = (first mod 7 = 4 \<or> (first mod 7 = 3 \<and> is_leap y));
          week1 = (if 3 < wd then first - wd + 7 else first - wd)
      in if y = 0 \<or> w = 0 \<or> 53 < w \<or> (w = 53 \<and> \<not> long) \<or> d = 0 \<or> 7 < d then Inl ValueError
         else Inr (ord2ymd (week1 + (w - 1) * 7 + (d - 1))))"

definition parse_isoformat_date :: "string \<Rightarrow> exn + nat \<times> nat \<times> nat" where
  "parse_isoformat_date s =
     (let sep = at s 4 CHR ''-''; r = drop (if sep then 5 else 4) s
      in case rd 4 s of
           None \<Rightarrow> Inl ValueError
         | Some y \<Rightarrow>
             if at r 0 CHR ''W'' then
               (case rd 2 (drop 1 r) of
                  None \<Rightarrow> Inl ValueError
                | Some w \<Rightarrow>
                    (let q = drop 3 r in
                     if q = [] then isoweek_to_gregorian y w 1
                     else if sep \<and> \<not> at q 0 CHR ''-'' then Inl ValueError
                     else (let p = drop (if sep then 1 else 0) q in
                       case rd 1 p of
                         None \<Rightarrow> Inl ValueError
                       | Some d \<Rightarrow> if length p = 1 then isoweek_to_gregorian y w d else Inl ValueError)))
             else
               (case rd 2 r of
                  None \<Rightarrow> Inl ValueError
                | Some m \<Rightarrow>
                    if at r 2 CHR ''-'' \<noteq> sep then Inl ValueError
                    else (let p = drop (if sep then 3 else 2) r in
                      case rd 2 p of
                        None \<Rightarrow> Inl ValueError
                      | Some d \<Rightarrow> if length p = 2 then Inr (y, m, d) else Inl ValueError)))"

text \<open>The fraction after the seconds: six digits are kept, further digits are dropped.\<close>

definition parse_fraction :: "string \<Rightarrow> exn + nat" where
  "parse_fraction r =
     (if r = [] then Inr 0
      else if \<not> (at r 0 CHR ''.'' \<or> at r 0 CHR '','') then Inl ValueError
      else (let f = drop 1 r; n = min 6 (length f) in
        case rd n f of
          None \<Rightarrow> Inl ValueError
        | Some v \<Rightarrow> if list_all is_digit (drop n f) then Inr (v * 10 ^ (6 - n)) else Inl ValueError))"

text \<open>\<open>_parse_hh_mm_ss_ff\<close>: \<open>HH[:?MM[:?SS[{.,}f...]]]\<close>.\<close>

definition parse_hh_mm_ss_ff :: "string \<Rightarrow> exn + nat \<times> nat \<times> nat \<times> nat" where
  "parse_hh_mm_ss_ff s =
     (case rd 2 s of
        None \<Rightarrow> Inl ValueError
      | Some h \<Rightarrow>
          if drop 2 s = [] then Inr (h, 0, 0, 0)
          else (let sep = at s 2 CHR '':''; r = drop (if sep then 3 else 2) s in
            case rd 2 r of
              None \<Rightarrow> Inl ValueError
            | Some m \<Rightarrow>
                if drop 2 r = [] then Inr (h, m, 0, 0)
                else if sep \<and> \<not> at r 2 CHR '':'' then Inl ValueError
                else (let q = drop (if sep then 3 else 2) r in
                  case rd 2 q of
                    None \<Rightarrow> Inl ValueError
                  | Some sec \<Rightarrow>
                      (case parse_fraction (drop 2 q) of
                         Inl e \<Rightarrow> Inl e
                       | Inr us \<Rightarrow> Inr (h, m, sec, us)))))"

text \<open>The offset in microseconds, or \<open>None\<close> for a naive time.\<close>

definition parse_offset :: "bool \<Rightarrow> string \<Rightarrow> exn + int" where
  "parse_offset neg z =
     (if length z \<in> {0, 1, 3} then Inl ValueError
      else case parse_hh_mm_ss_ff z of
        Inl e \<Rightarrow> Inl e
      | Inr (h, m, sec, us) \<Rightarrow>
          (let off = int h * 3600000000 + int m * 60000000 + int sec * 1000000 + int us
           in if off < day_us then Inr (if neg then - off else off) else Inl ValueError))"

definition parse_isoformat_time :: "string \<Rightarrow> exn + (nat \<times> nat \<times> nat \<times> nat) \<times> int option" where
  "parse_isoformat_time s =
     (let c = (if CHR ''-'' \<in> set s then CHR ''-'' else if CHR ''+'' \<in> set s then CHR ''+'' else CHR ''Z'');
          t = takeWhile (\<lambda>d. d \<noteq> c) s; z = drop (length t + 1) s
      in if length s < 2 then Inl ValueError
         else case parse_hh_mm_ss_ff t of
           Inl e \<Rightarrow> Inl e
         | Inr hms \<Rightarrow>
             if c \<notin> set s then Inr (hms, None)
             else if c = CHR ''Z'' then (if z = [] then Inr (hms, Some 0) else Inl ValueError)
             else (case parse_offset (c = CHR ''-'') z of
                     Inl e \<Rightarrow> Inl e
                   | Inr off \<Rightarrow> Inr (hms, Some off)))"

definition fromisoformat :: "string \<Rightarrow> exn + datetime \<times> int option" where
  "fromisoformat s =
     (if length s < 7 then Inl ValueError
      else case find_separator s of
        Inl e \<Rightarrow> Inl e
      | Inr k \<Rightarrow>
          (case parse_isoformat_date (take k s) of
             Inl e \<Rightarrow> Inl e
           | Inr (y, m, d) \<Rightarrow>
               (case (if drop (k + 1) s = [] then Inr ((0, 0, 0, 0), None)
                      else parse_isoformat_time (drop (k + 1) s)) of
                  Inl e \<Rightarrow> Inl e
                | Inr ((h, mi, sec, us), off) \<Rightarrow>
                    (let t = \<lparr>dt_year = y, dt_month = m, dt_day = d, dt_hour = h, dt_minute = mi,
                              dt_second = sec, dt_micro = us\<rparr>
                     in if valid_datetime t then Inr (t, off) else Inl ValueError))))"

section \<open>app/utils/time.py\<close>

text \<open>
  \<open>utcnow\<close> reads the clock, so the instant it returned is an argument of every function that
  calls it. \<open>parse_iso8601\<close> gets whatever \<open>body.get(...)\<close> returned: a falsy value means now,
  a value that is no string has no \<open>replace\<close>.
\<close>

definition utcnow :: "instant \<Rightarrow> instant" where
  "utcnow now = now"

definition parse_iso8601 :: "instant \<Rightarrow> json \<Rightarrow> exn + instant" where
  "parse_iso8601 now v =
     (if \<not> truthy v then Inr (utcnow now)
      else case v of
        JStr s \<Rightarrow>
          (case fromisoformat (replace_char CHR ''Z'' ''+00:00'' s) of
             Inl e \<Rightarrow> Inl e
           | Inr (t, None) \<Rightarrow> Inr (instant_of t 0)
           | Inr (t, Some off) \<Rightarrow> Inr (instant_of t off))
      | _ \<Rightarrow> Inl AttributeError)"

section \<open>Round trips\<close>

lemma not_digit_chars [simp]:
  "is_digit CHR ''-'' = False" "is_digit CHR '':'' = False" "is_digit CHR ''+'' = False"
  "is_digit CHR ''.'' = False" "is_digit CHR '','' = False" "is_digit CHR ''W'' = False"
  "is_digit CHR ''Z'' = False" "is_digit CHR ''T'' = False"
  by (simp_all add: is_digit_def)

lemma digit_char_neq [simp]:
  assumes "d < 10"
  shows "digit_char d \<noteq> CHR ''-''" "digit_char d \<noteq> CHR '':''" "digit_char d \<noteq> CHR ''+''"
    "digit_char d \<noteq> CHR ''.''" "digit_char d \<noteq> CHR '',''" "digit_char d \<noteq> CHR ''W''"
    "digit_char d \<noteq> CHR ''Z''" "digit_char d \<noteq> CHR ''T''"
  using digit_char_simps(1) [OF assms] by (auto simp del: digit_char_simps)

lemma read_digits_numeral:
  "n < 10000 \<Longrightarrow> read_digits [digit_char (n div 1000 mod 10), digit_char (n div 100 mod 10),
     digit_char (n div 10 mod 10), digit_char (n mod 10)] = Some n"
  "n < 100 \<Longrightarrow> read_digits [digit_char (n div 10 mod 10), digit_char (n mod 10)] = Some n"
  "n < 1000000 \<Longrightarrow> read_digits [digit_char (n div 100000 mod 10), digit_char (n div 10000 mod 10),
     digit_char (n div 1000 mod 10), digit_char (n div 100 mod 10),
     digit_char (n div 10 mod 10), digit_char (n mod 10)] = Some n"
  using read_digits_pad [of n 4] read_digits_pad [of n 2] read_digits_pad [of n 6] by simp_all

lemma days_in_month_le: "days_in_month y m \<le> 31 \<or> 12 < m \<or> m = 0"
proof -
  have "m = 0 \<or> m = 1 \<or> m = 2 \<or> m = 3 \<or> m = 4 \<or> m = 5 \<or> m = 6 \<or> m = 7 \<or> m = 8 \<or> m = 9 \<or> m = 10
    \<or> m = 11 \<or> m = 12 \<or> 12 < m"
    by presburger
  then show ?thesis by (elim disjE) (auto simp: days_in_month_def month_lengths_def)
qed

lemma valid_datetime_bounds:
  assumes "valid_datetime t"
  shows "dt_year t < 10000" "dt_month t < 100" "dt_day t < 100" "dt_hour t < 100"
    "dt_minute t < 100" "dt_second t < 100" "dt_micro t < 1000000"
  using assms days_in_month_le [of "dt_year t" "dt_month t"]
  by (auto simp: valid_datetime_def valid_date_def)

lemma parse_iso_date:
  assumes "valid_datetime t"
  shows "parse_isoformat_date (iso_date t) = Inr (dt_year t, dt_month t, dt_day t)"
proof -
  note b = valid_datetime_bounds [OF assms]
  show ?thesis
    by (simp add: parse_isoformat_date_def iso_date_def rd_def at_def Let_def
        read_digits_numeral(1) [OF b(1)] read_digits_numeral(2) [OF b(2)] read_digits_numeral(2) [OF b(3)])
qed

lemma parse_iso_time:
  assumes "valid_datetime t"
  shows "parse_hh_mm_ss_ff (iso_time t) = Inr (dt_hour t, dt_minute t, dt_second t, dt_micro t)"
proof -
  note b = valid_datetime_bounds [OF assms]
  show ?thesis
    by (simp add: parse_hh_mm_ss_ff_def iso_time_def rd_def at_def parse_fraction_def Let_def
        read_digits_numeral(2) [OF b(4)] read_digits_numeral(2) [OF b(5)] read_digits_numeral(2) [OF b(6)]
        read_digits_numeral(3) [OF b(7)])
qed

lemma set_iso_time: "set (iso_time t) \<inter> {CHR ''-'', CHR ''+'', CHR ''Z''} = {}"
  by (auto simp: iso_time_def digit_char_neq [THEN not_sym])

lemma length_iso: "length (iso_date t) = 10" "8 \<le> length (iso_time t)"
  by (simp_all add: iso_date_def iso_time_def)

lemma parse_iso_offset: "parse_offset False ''00:00'' = Inr 0"
  by code_simp

lemma parse_time_utc:
  assumes "valid_datetime t"
  shows "parse_isoformat_time (iso_time t @ ''+00:00'') =
    Inr ((dt_hour t, dt_minute t, dt_second t, dt_micro t), Some 0)"
proof -
  have tw: "takeWhile (\<lambda>d. d \<noteq> CHR ''+'') (iso_time t @ ''+00:00'') = iso_time t"
    using set_iso_time [of t] by (subst takeWhile_append2) auto
  show ?thesis
    using set_iso_time [of t] length_iso(2) [of t]
    by (simp add: parse_isoformat_time_def Let_def tw parse_iso_time [OF assms] parse_iso_offset)
qed

lemma fromisoformat_utc:
  assumes "valid_datetime t"
  shows "fromisoformat (iso_date t @ ''T'' @ iso_time t @ ''+00:00'') = Inr (t, Some 0)"
proof -
  have sep: "find_separator (iso_date t @ r) = Inr 10" if "r \<noteq> []" for r
    using that by (simp add: find_separator_def iso_date_def at_def)
  have t: "\<lparr>dt_year = dt_year t, dt_month = dt_month t, dt_day = dt_day t, dt_hour = dt_hour t,
      dt_minute = dt_minute t, dt_second = dt_second t, dt_micro = dt_micro t\<rparr> = t"
    by (cases t) simp
  show ?thesis
    using assms length_iso [of t]
    by (simp add: fromisoformat_def sep parse_iso_date parse_time_utc Let_def del: append_Cons) (simp add: t)
qed

lemma replace_Z_iso:
  "replace_char CHR ''Z'' r (iso_date t) = iso_date t"
  "replace_char CHR ''Z'' r (iso_time t) = iso_time t"
  by (simp_all add: replace_char_def iso_date_def iso_time_def)

lemma replace_char_append:
  "replace_char c r (xs @ ys) = replace_char c r xs @ replace_char c r ys"
  by (simp add: replace_char_def)

text \<open>What the platform prints it reads back: both \<open>isoformat()\<close> and the gateways' \<open>Z\<close> form.\<close>

lemma parse_iso8601_isoformat_aux:
  assumes "representable i"
  shows "parse_iso8601 now (JStr (isoformat i)) = Inr i"
    and "parse_iso8601 now (JStr (iso_date (utc_datetime i) @ ''T'' @ iso_time (utc_datetime i) @ ''Z'')) = Inr i"
proof -
  note c = utc_datetime_correct [OF assms]
  have z: "replace_char CHR ''Z'' ''+00:00'' ''T'' = ''T''" "replace_char CHR ''Z'' ''+00:00'' ''Z'' = ''+00:00''"
    "replace_char CHR ''Z'' ''+00:00'' ''+00:00'' = ''+00:00''"
    by (simp_all add: replace_char_def)
  show "parse_iso8601 now (JStr (isoformat i)) = Inr i"
    using c fromisoformat_utc [of "utc_datetime i"]
    by (simp add: parse_iso8601_def isoformat_def Let_def replace_char_append replace_Z_iso z del: append_Cons)
  show "parse_iso8601 now (JStr (iso_date (utc_datetime i) @ ''T'' @ iso_time (utc_datetime i) @ ''Z'')) = Inr i"
    using c fromisoformat_utc [of "utc_datetime i"]
    by (simp add: parse_iso8601_def Let_def replace_char_append replace_Z_iso z del: append_Cons)
qed

end
