(* ===== verification/Models.thy ===== *)
theory Models
  imports PyTime
begin

text \<open>
  The data model of \<open>server/app/models.py\<close>: one record per ORM class, the database as one list
  of rows per table, and the statements the session flushes. An INSERT or UPDATE is refused the
  way PostgreSQL refuses it: \<open>DBAPIError\<close> for a value the column's type does not take (NUL in a
  text, a VARCHAR too long, an integer or timestamp out of range, JSON that JSONB does not
  accept), \<open>IntegrityError\<close> for a violated NOT NULL, UNIQUE, CHECK or foreign key. The rows'
  server-side defaults (\<open>now()\<close>) are arguments. The surrogate BIGSERIAL \<open>telemetry.id\<close>, which
  no code reads, is left out. \<open>wf_db\<close> is the invariant the schema promises, and every
  statement of this theory keeps it.
\<close>

section \<open>Rows\<close>

record company =
  co_id :: uuid
  co_name :: string
  co_type :: string
  co_status :: string
  co_created_at :: instant
  co_updated_at :: instant

record site =
  st_id :: uuid
  st_company_id :: uuid
  st_name :: string
  st_address :: "string option"
  st_latitude :: "pyfloat option"
  st_longitude :: "pyfloat option"
  st_created_at :: instant

record user =
  us_id :: uuid
  us_keycloak_user_id :: string
  us_email :: string
  us_name :: string
  us_status :: string
  us_created_at :: instant

record company_role =
  cr_id :: uuid
  cr_user_id :: uuid
  cr_company_id :: uuid
  cr_role :: string
  cr_created_at :: instant

record permission =
  pm_id :: uuid
  pm_user_id :: uuid
  pm_gateway_id :: uuid
  pm_permission :: string
  pm_created_at :: instant

record gateway_profile =
  gp_id :: uuid
  gp_name :: string
  gp_model :: string
  gp_hardware_schema :: json
  gp_description :: "string option"
  gp_created_at :: instant

record gateway =
  gw_id :: uuid
  gw_serial_number :: string
  gw_name :: string
  gw_company_id :: uuid
  gw_site_id :: "uuid option"
  gw_gateway_profile_id :: "uuid option"
  gw_status :: string
  gw_firmware_version :: "string option"
  gw_app_version :: "string option"
  gw_config_version :: int
  gw_last_seen_at :: "instant option"
  gw_registered_at :: instant

record sensor_profile =
  sp_id :: uuid
  sp_name :: string
  sp_vendor :: "string option"
  sp_model :: "string option"
  sp_protocol :: string
  sp_description :: "string option"
  sp_profile_schema :: json
  sp_enabled :: bool
  sp_created_at :: instant

record sensor_channel =
  sc_id :: uuid
  sc_gateway_id :: uuid
  sc_slug :: string
  sc_sensor_profile_id :: uuid
  sc_display_name :: string
  sc_interface_name :: string
  sc_protocol :: string
  sc_address :: "string option"
  sc_slave_id :: "int option"
  sc_polling_interval_sec :: int
  sc_enabled :: bool
  sc_config :: "json option"
  sc_created_at :: instant

record actuator_channel =
  ac_id :: uuid
  ac_gateway_id :: uuid
  ac_slug :: string
  ac_display_name :: string
  ac_actuator_type :: string
  ac_hardware_channel :: string
  ac_default_state :: string
  ac_current_state :: "string option"
  ac_enabled :: bool
  ac_safety_config :: "json option"
  ac_created_at :: instant

record telemetry_row =
  te_company_id :: uuid
  te_site_id :: "uuid option"
  te_gateway_id :: uuid
  te_sensor_channel_id :: uuid
  te_measurement_key :: string
  te_ts :: instant
  te_value_double :: "pyfloat option"
  te_value_text :: "string option"
  te_value_bool :: "bool option"
  te_value_json :: "json option"
  te_unit :: "string option"
  te_quality :: "string option"
  te_raw :: json

record latest_row =
  tl_gateway_id :: uuid
  tl_sensor_channel_id :: uuid
  tl_measurement_key :: string
  tl_ts :: instant
  tl_value_double :: "pyfloat option"
  tl_value_text :: "string option"
  tl_value_bool :: "bool option"
  tl_value_json :: "json option"
  tl_unit :: "string option"
  tl_quality :: "string option"

record command =
  cm_id :: string
  cm_gateway_id :: uuid
  cm_actuator_channel_id :: "uuid option"
  cm_action :: string
  cm_issued_by :: "uuid option"
  cm_issued_at :: instant
  cm_expires_at :: instant
  cm_timeout_ms :: int
  cm_require_ack :: bool
  cm_reason :: "string option"
  cm_status :: string
  cm_response :: "json option"
  cm_completed_at :: "instant option"

record audit_log =
  al_id :: uuid
  al_user_id :: "uuid option"
  al_action :: string
  al_target_type :: "string option"
  al_target_id :: "string option"
  al_payload :: "json option"
  al_ts :: instant

text \<open>
  The tables. \<open>partitions\<close> lists the months that have a telemetry partition of their own; rows
  of other months are in the DEFAULT partition.
\<close>

record db =
  companies :: "company list"
  sites :: "site list"
  users :: "user list"
  company_roles :: "company_role list"
  permissions :: "permission list"
  gateway_profiles :: "gateway_profile list"
  gateways :: "gateway list"
  sensor_profiles :: "sensor_profile list"
  sensor_channels :: "sensor_channel list"
  actuator_channels :: "actuator_channel list"
  telemetry :: "telemetry_row list"
  telemetry_latest :: "latest_row list"
  commands :: "command list"
  audit_logs :: "audit_log list"
  partitions :: "(nat \<times> nat) list"

definition empty_db :: db where
  "empty_db = \<lparr>companies = [], sites = [], users = [], company_roles = [], permissions = [],
     gateway_profiles = [], gateways = [], sensor_profiles = [], sensor_channels = [],
     actuator_channels = [], telemetry = [], telemetry_latest = [], commands = [],
     audit_logs = [], partitions = []\<rparr>"

definition latest_key :: "latest_row \<Rightarrow> uuid \<times> uuid \<times> string" where
  "latest_key r = (tl_gateway_id r, tl_sensor_channel_id r, tl_measurement_key r)"

definition perm_key :: "permission \<Rightarrow> uuid \<times> uuid \<times> string" where
  "perm_key p = (pm_user_id p, pm_gateway_id p, pm_permission p)"

definition role_key :: "company_role \<Rightarrow> uuid \<times> uuid \<times> string" where
  "role_key r = (cr_user_id r, cr_company_id r, cr_role r)"

definition sc_wire :: "sensor_channel \<Rightarrow> uuid \<times> string" where
  "sc_wire c = (sc_gateway_id c, sc_slug c)"

definition ac_wire :: "actuator_channel \<Rightarrow> uuid \<times> string" where
  "ac_wire c = (ac_gateway_id c, ac_slug c)"

section \<open>Column types\<close>

definition text_ok :: "string \<Rightarrow> bool" where
  "text_ok s = (CHR 0x00 \<notin> set s)"

definition varchar_ok :: "nat \<Rightarrow> string \<Rightarrow> bool" where
  "varchar_ok n s = (text_ok s \<and> length s \<le> n)"

definition int4_ok :: "int \<Rightarrow> bool" where
  "int4_ok n = (- 2147483648 \<le> n \<and> n \<le> 2147483647)"

definition opt_ok :: "('a \<Rightarrow> bool) \<Rightarrow> 'a option \<Rightarrow> bool" where
  "opt_ok p x = (case x of None \<Rightarrow> True | Some v \<Rightarrow> p v)"

text \<open>JSONB refuses the tokens NaN and Infinity and the character \<open>\u0000\<close>.\<close>

fun jsonb_ok :: "json \<Rightarrow> bool" where
  "jsonb_ok (JFloat (Fin _ _ _)) = True"
| "jsonb_ok (JFloat _) = False"
| "jsonb_ok (JStr s) = text_ok s"
| "jsonb_ok (JArr xs) = list_all jsonb_ok xs"
| "jsonb_ok (JObj kvs) = list_all (\<lambda>kv. text_ok (fst kv) \<and> jsonb_ok (snd kv)) kvs"
| "jsonb_ok _ = True"

text \<open>Binding a JSON value to a text column (\<open>lim\<close> for VARCHAR): NULL, the string, or an error.\<close>

definition bind_text :: "nat option \<Rightarrow> json \<Rightarrow> exn + string option" where
  "bind_text lim v =
     (case v of
        JNull \<Rightarrow> Inr None
      | JStr s \<Rightarrow>
          if text_ok s \<and> (case lim of None \<Rightarrow> True | Some n \<Rightarrow> length s \<le> n) then Inr (Some s)
          else Inl DBAPIError
      | _ \<Rightarrow> Inl DBAPIError)"

definition bind_ts :: "instant \<Rightarrow> exn + instant" where
  "bind_ts i = (if representable i then Inr i else Inl DBAPIError)"

section \<open>The schema's invariant\<close>

definition keys_ok :: "db \<Rightarrow> bool" where
  "keys_ok d =
     (unique_key co_id (companies d) \<and> unique_key st_id (sites d) \<and>
      unique_key us_id (users d) \<and> unique_key us_keycloak_user_id (users d) \<and>
      unique_key us_email (users d) \<and>
      unique_key cr_id (company_roles d) \<and> unique_key role_key (company_roles d) \<and>
      unique_key pm_id (permissions d) \<and> unique_key perm_key (permissions d) \<and>
      unique_key gp_id (gateway_profiles d) \<and>
      unique_key gw_id (gateways d) \<and> unique_key gw_serial_number (gateways d) \<and>
      unique_key sp_id (sensor_profiles d) \<and>
      unique_key sc_id (sensor_channels d) \<and> unique_key sc_wire (sensor_channels d) \<and>
      unique_key ac_id (actuator_channels d) \<and> unique_key ac_wire (actuator_channels d) \<and>
      unique_key latest_key (telemetry_latest d) \<and>
      unique_key cm_id (commands d) \<and> unique_key al_id (audit_logs d))"

definition ref_ok :: "('r \<Rightarrow> 'k) \<Rightarrow> 'r list \<Rightarrow> 'k \<Rightarrow> bool" where
  "ref_ok key rows k = exists_key key k rows"

definition refs_ok :: "db \<Rightarrow> bool" where
  "refs_ok d =
     (list_all (\<lambda>s. ref_ok co_id (companies d) (st_company_id s)) (sites d) \<and>
      list_all (\<lambda>r. ref_ok us_id (users d) (cr_user_id r) \<and>
        ref_ok co_id (companies d) (cr_company_id r)) (company_roles d) \<and>
      list_all (\<lambda>p. ref_ok us_id (users d) (pm_user_id p)) (permissions d) \<and>
      list_all (\<lambda>g. ref_ok co_id (companies d) (gw_company_id g) \<and>
        opt_ok (ref_ok st_id (sites d)) (gw_site_id g) \<and>
        opt_ok (ref_ok gp_id (gateway_profiles d)) (gw_gateway_profile_id g)) (gateways d) \<and>
      list_all (\<lambda>c. ref_ok gw_id (gateways d) (sc_gateway_id c) \<and>
        ref_ok sp_id (sensor_profiles d) (sc_sensor_profile_id c)) (sensor_channels d) \<and>
      list_all (\<lambda>c. ref_ok gw_id (gateways d) (ac_gateway_id c)) (actuator_channels d) \<and>
      list_all (\<lambda>c. ref_ok gw_id (gateways d) (cm_gateway_id c) \<and>
        opt_ok (ref_ok ac_id (actuator_channels d)) (cm_actuator_channel_id c) \<and>
        opt_ok (ref_ok us_id (users d)) (cm_issued_by c)) (commands d) \<and>
      list_all (\<lambda>a. opt_ok (ref_ok us_id (users d)) (al_user_id a)) (audit_logs d))"

text \<open>The CHECK constraints of migration 0002.\<close>

definition serial_check :: "string \<Rightarrow> bool" where
  "serial_check s = (slug_pattern s \<and> length s \<le> 64)"

definition formats_ok :: "db \<Rightarrow> bool" where
  "formats_ok d =
     (list_all (\<lambda>g. serial_check (gw_serial_number g)) (gateways d) \<and>
      list_all (\<lambda>c. serial_check (sc_slug c)) (sensor_channels d) \<and>
      list_all (\<lambda>c. serial_check (ac_slug c)) (actuator_channels d))"

definition wf_db :: "db \<Rightarrow> bool" where
  "wf_db d = (keys_ok d \<and> refs_ok d \<and> formats_ok d)"

end
