(* ===== verification/Store.thy ===== *)
theory Store
  imports Models
begin

text \<open>
  The statements the sessions of the server send: INSERT, UPDATE and DELETE of each table with
  the checks of the schema (\<open>server/app/models.py\<close> and the migrations), and the proof that each
  of them keeps \<open>wf_db\<close>. Every table is an instance of \<open>keyed_table\<close>.
\<close>

section \<open>Tables\<close>

interpretation company_table: keyed_table co_id companies companies_update
  by unfold_locales simp

interpretation site_table: keyed_table st_id sites sites_update
  by unfold_locales simp

interpretation user_table: keyed_table us_id users users_update
  by unfold_locales simp

interpretation permission_table: keyed_table pm_id permissions permissions_update
  by unfold_locales simp

interpretation gateway_table: keyed_table gw_id gateways gateways_update
  by unfold_locales simp

interpretation sensor_profile_table: keyed_table sp_id sensor_profiles sensor_profiles_update
  by unfold_locales simp

interpretation sensor_table: keyed_table sc_id sensor_channels sensor_channels_update
  by unfold_locales simp

interpretation actuator_table: keyed_table ac_id actuator_channels actuator_channels_update
  by unfold_locales simp

interpretation latest_table: keyed_table latest_key telemetry_latest telemetry_latest_update
  by unfold_locales simp

interpretation command_table: keyed_table cm_id commands commands_update
  by unfold_locales simp

section \<open>INSERT\<close>

text \<open>A statement goes through when its values fit the columns and no constraint is violated.\<close>

definition flush :: "bool \<Rightarrow> bool \<Rightarrow> db \<Rightarrow> exn + db" where
  "flush types constraints d' =
     (if \<not> types then Inl DBAPIError else if \<not> constraints then Inl IntegrityError else Inr d')"

lemma flush_Inr [simp]: "flush t c d' = Inr d \<longleftrightarrow> t \<and> c \<and> d = d'"
  by (auto simp: flush_def)

definition insert_company :: "company \<Rightarrow> db \<Rightarrow> exn + db" where
  "insert_company c d =
     flush (text_ok (co_name c) \<and> varchar_ok 32 (co_type c) \<and> varchar_ok 32 (co_status c))
       (\<not> exists_key co_id (co_id c) (companies d))
       (d\<lparr>companies := companies d @ [c]\<rparr>)"

definition insert_site :: "site \<Rightarrow> db \<Rightarrow> exn + db" where
  "insert_site s d =
     flush (text_ok (st_name s) \<and> opt_ok text_ok (st_address s))
       (\<not> exists_key st_id (st_id s) (sites d) \<and> ref_ok co_id (companies d) (st_company_id s))
       (d\<lparr>sites := sites d @ [s]\<rparr>)"

definition insert_user :: "user \<Rightarrow> db \<Rightarrow> exn + db" where
  "insert_user u d =
     flush (text_ok (us_keycloak_user_id u) \<and> text_ok (us_email u) \<and> text_ok (us_name u) \<and>
         varchar_ok 32 (us_status u))
       (\<not> exists_key us_id (us_id u) (users d) \<and>
        \<not> exists_key us_keycloak_user_id (us_keycloak_user_id u) (users d) \<and>
        \<not> exists_key us_email (us_email u) (users d))
       (d\<lparr>users := users d @ [u]\<rparr>)"

definition insert_company_role :: "company_role \<Rightarrow> db \<Rightarrow> exn + db" where
  "insert_company_role r d =
     flush (varchar_ok 64 (cr_role r))
       (\<not> exists_key cr_id (cr_id r) (company_roles d) \<and>
        \<not> exists_key role_key (role_key r) (company_roles d) \<and>
        ref_ok us_id (users d) (cr_user_id r) \<and> ref_ok co_id (companies d) (cr_company_id r))
       (d\<lparr>company_roles := company_roles d @ [r]\<rparr>)"

definition insert_permission :: "permission \<Rightarrow> db \<Rightarrow> exn + db" where
  "insert_permission p d =
     flush (varchar_ok 32 (pm_permission p))
       (\<not> exists_key pm_id (pm_id p) (permissions d) \<and>
        \<not> exists_key perm_key (perm_key p) (permissions d) \<and>
        ref_ok us_id (users d) (pm_user_id p))
       (d\<lparr>permissions := permissions d @ [p]\<rparr>)"

definition gateway_types :: "gateway \<Rightarrow> bool" where
  "gateway_types g =
     (text_ok (gw_serial_number g) \<and> text_ok (gw_name g) \<and> varchar_ok 32 (gw_status g) \<and>
      opt_ok (varchar_ok 64) (gw_firmware_version g) \<and> opt_ok (varchar_ok 64) (gw_app_version g) \<and>
      int4_ok (gw_config_version g) \<and> opt_ok representable (gw_last_seen_at g))"

definition gateway_refs :: "gateway \<Rightarrow> db \<Rightarrow> bool" where
  "gateway_refs g d =
     (ref_ok co_id (companies d) (gw_company_id g) \<and>
      opt_ok (ref_ok st_id (sites d)) (gw_site_id g) \<and>
      opt_ok (ref_ok gp_id (gateway_profiles d)) (gw_gateway_profile_id g))"

definition insert_gateway :: "gateway \<Rightarrow> db \<Rightarrow> exn + db" where
  "insert_gateway g d =
     flush (gateway_types g)
       (serial_check (gw_serial_number g) \<and> \<not> exists_key gw_id (gw_id g) (gateways d) \<and>
        \<not> exists_key gw_serial_number (gw_serial_number g) (gateways d) \<and> gateway_refs g d)
       (d\<lparr>gateways := gateways d @ [g]\<rparr>)"

definition insert_sensor_profile :: "sensor_profile \<Rightarrow> db \<Rightarrow> exn + db" where
  "insert_sensor_profile p d =
     flush (text_ok (sp_name p) \<and> opt_ok text_ok (sp_vendor p) \<and> opt_ok text_ok (sp_model p) \<and>
         varchar_ok 32 (sp_protocol p) \<and> opt_ok text_ok (sp_description p) \<and>
         jsonb_ok (sp_profile_schema p))
       (\<not> exists_key sp_id (sp_id p) (sensor_profiles d))
       (d\<lparr>sensor_profiles := sensor_profiles d @ [p]\<rparr>)"

definition insert_sensor_channel :: "sensor_channel \<Rightarrow> db \<Rightarrow> exn + db" where
  "insert_sensor_channel c d =
     flush (varchar_ok 64 (sc_slug c) \<and> text_ok (sc_display_name c) \<and>
         varchar_ok 64 (sc_interface_name c) \<and> varchar_ok 32 (sc_protocol c) \<and>
         opt_ok (varchar_ok 64) (sc_address c) \<and> opt_ok int4_ok (sc_slave_id c) \<and>
         int4_ok (sc_polling_interval_sec c) \<and> opt_ok jsonb_ok (sc_config c))
       (serial_check (sc_slug c) \<and> \<not> exists_key sc_id (sc_id c) (sensor_channels d) \<and>
        \<not> exists_key sc_wire (sc_wire c) (sensor_channels d) \<and>
        ref_ok gw_id (gateways d) (sc_gateway_id c) \<and>
        ref_ok sp_id (sensor_profiles d) (sc_sensor_profile_id c))
       (d\<lparr>sensor_channels := sensor_channels d @ [c]\<rparr>)"

definition insert_actuator_channel :: "actuator_channel \<Rightarrow> db \<Rightarrow> exn + db" where
  "insert_actuator_channel c d =
     flush (varchar_ok 64 (ac_slug c) \<and> text_ok (ac_display_name c) \<and>
         varchar_ok 32 (ac_actuator_type c) \<and> varchar_ok 64 (ac_hardware_channel c) \<and>
         varchar_ok 8 (ac_default_state c) \<and> opt_ok (varchar_ok 16) (ac_current_state c) \<and>
         opt_ok jsonb_ok (ac_safety_config c))
       (serial_check (ac_slug c) \<and> \<not> exists_key ac_id (ac_id c) (actuator_channels d) \<and>
        \<not> exists_key ac_wire (ac_wire c) (actuator_channels d) \<and>
        ref_ok gw_id (gateways d) (ac_gateway_id c))
       (d\<lparr>actuator_channels := actuator_channels d @ [c]\<rparr>)"

definition command_types :: "command \<Rightarrow> bool" where
  "command_types c =
     (text_ok (cm_id c) \<and> varchar_ok 32 (cm_action c) \<and> representable (cm_issued_at c) \<and>
      representable (cm_expires_at c) \<and> int4_ok (cm_timeout_ms c) \<and> opt_ok text_ok (cm_reason c) \<and>
      varchar_ok 32 (cm_status c) \<and> opt_ok jsonb_ok (cm_response c) \<and>
      opt_ok representable (cm_completed_at c))"

definition insert_command :: "command \<Rightarrow> db \<Rightarrow> exn + db" where
  "insert_command c d =
     flush (command_types c)
       (\<not> exists_key cm_id (cm_id c) (commands d) \<and> ref_ok gw_id (gateways d) (cm_gateway_id c) \<and>
        opt_ok (ref_ok ac_id (actuator_channels d)) (cm_actuator_channel_id c) \<and>
        opt_ok (ref_ok us_id (users d)) (cm_issued_by c))
       (d\<lparr>commands := commands d @ [c]\<rparr>)"

text \<open>The telemetry table has no foreign keys; some partition takes every timestamp.\<close>

definition insert_telemetry :: "telemetry_row \<Rightarrow> db \<Rightarrow> exn + db" where
  "insert_telemetry r d =
     flush (text_ok (te_measurement_key r) \<and> representable (te_ts r) \<and> opt_ok text_ok (te_unit r) \<and>
         opt_ok text_ok (te_quality r) \<and> jsonb_ok (te_raw r))
       True (d\<lparr>telemetry := telemetry d @ [r]\<rparr>)"

text \<open>
  \<open>INSERT ... ON CONFLICT (...) DO UPDATE SET ts, value_double, unit, quality WHERE
  telemetry_latest.ts < excluded.ts\<close>: the row with the same key is overwritten when it is older.
\<close>

definition latest_types :: "latest_row \<Rightarrow> bool" where
  "latest_types r =
     (varchar_ok 64 (tl_measurement_key r) \<and> representable (tl_ts r) \<and> opt_ok (varchar_ok 32) (tl_unit r) \<and>
      opt_ok (varchar_ok 32) (tl_quality r))"

definition overwrite_latest :: "latest_row \<Rightarrow> latest_row \<Rightarrow> latest_row" where
  "overwrite_latest n r =
     (if tl_ts r < tl_ts n
      then r\<lparr>tl_ts := tl_ts n, tl_value_double := tl_value_double n, tl_unit := tl_unit n, tl_quality := tl_quality n\<rparr>
      else r)"

definition upsert_latest :: "latest_row \<Rightarrow> db \<Rightarrow> exn + db" where
  "upsert_latest n d =
     flush (latest_types n) True
       (d\<lparr>telemetry_latest :=
            (if exists_key latest_key (latest_key n) (telemetry_latest d)
             then modify latest_key (latest_key n) (overwrite_latest n) (telemetry_latest d)
             else telemetry_latest d @ [n])\<rparr>)"

section \<open>UPDATE and DELETE\<close>

text \<open>The UPDATE of a changed ORM object, whose primary key the ORM never changes.\<close>

definition save_gateway :: "gateway \<Rightarrow> db \<Rightarrow> exn + db" where
  "save_gateway g d =
     flush (gateway_types g) (gateway_refs g d)
       (d\<lparr>gateways := modify gw_id (gw_id g) (\<lambda>_. g) (gateways d)\<rparr>)"

definition save_command :: "command \<Rightarrow> db \<Rightarrow> exn + db" where
  "save_command c d =
     flush (command_types c) True
       (d\<lparr>commands := modify cm_id (cm_id c) (\<lambda>_. c) (commands d)\<rparr>)"

text \<open>
  \<open>session.delete(gateway)\<close>: the ORM cascades to the gateway's channels (\<open>all, delete-orphan\<close>);
  commands have foreign keys without a cascade, so they block it. Permissions have none and stay.
\<close>

definition delete_gateway_row :: "uuid \<Rightarrow> db \<Rightarrow> exn + db" where
  "delete_gateway_row k d =
     flush True
       (\<not> list_ex (\<lambda>c. cm_gateway_id c = k) (commands d) \<and>
        \<not> list_ex (\<lambda>c. \<exists>a \<in> set (actuator_channels d). ac_gateway_id a = k \<and>
             cm_actuator_channel_id c = Some (ac_id a)) (commands d))
       (d\<lparr>gateways := erase gw_id k (gateways d),
          sensor_channels := filter (\<lambda>c. sc_gateway_id c \<noteq> k) (sensor_channels d),
          actuator_channels := filter (\<lambda>c. ac_gateway_id c \<noteq> k) (actuator_channels d)\<rparr>)"

definition delete_sensor_channel_row :: "uuid \<Rightarrow> db \<Rightarrow> exn + db" where
  "delete_sensor_channel_row k d =
     flush True True (d\<lparr>sensor_channels := erase sc_id k (sensor_channels d)\<rparr>)"

definition delete_actuator_channel_row :: "uuid \<Rightarrow> db \<Rightarrow> exn + db" where
  "delete_actuator_channel_row k d =
     flush True (\<not> list_ex (\<lambda>c. cm_actuator_channel_id c = Some k) (commands d))
       (d\<lparr>actuator_channels := erase ac_id k (actuator_channels d)\<rparr>)"

section \<open>Every statement keeps the schema's invariant\<close>

lemma unique_key_snoc [simp]:
  "unique_key key (rows @ [r]) \<longleftrightarrow> key r \<notin> key ` set rows \<and> unique_key key rows"
  by (auto simp: unique_key_def)

lemma ref_ok_iff: "ref_ok key rows k \<longleftrightarrow> k \<in> key ` set rows"
  by (simp add: ref_ok_def)

lemma ref_ok_snoc: "ref_ok key rows k \<Longrightarrow> ref_ok key (rows @ [r]) k"
  by (auto simp: ref_ok_iff)

lemma ref_ok_new: "ref_ok key (rows @ [r]) (key r)"
  by (auto simp: ref_ok_iff)

lemma opt_ok_mono: "opt_ok p x \<Longrightarrow> (\<And>v. p v \<Longrightarrow> q v) \<Longrightarrow> opt_ok q x"
  by (auto simp: opt_ok_def split: option.splits)

lemma opt_ref_snoc: "opt_ok (ref_ok key rows) x \<Longrightarrow> opt_ok (ref_ok key (rows @ [r])) x"
  by (rule opt_ok_mono [OF _ ref_ok_snoc])

lemmas wf_defs = wf_db_def keys_ok_def refs_ok_def formats_ok_def list_all_iff
lemmas ref_snocs = ref_ok_snoc opt_ref_snoc

lemma insert_company_wf [table_intros]: "insert_company c d = Inr d' \<Longrightarrow> wf_db d \<Longrightarrow> wf_db d'"
  by (clarsimp simp: insert_company_def wf_defs) (blast intro: ref_snocs)

lemma insert_site_wf [table_intros]: "insert_site s d = Inr d' \<Longrightarrow> wf_db d \<Longrightarrow> wf_db d'"
  by (clarsimp simp: insert_site_def wf_defs) (blast intro: ref_snocs)

lemma insert_user_wf [table_intros]: "insert_user u d = Inr d' \<Longrightarrow> wf_db d \<Longrightarrow> wf_db d'"
  by (clarsimp simp: insert_user_def wf_defs) (blast intro: ref_snocs)

lemma insert_company_role_wf [table_intros]:
  "insert_company_role r d = Inr d' \<Longrightarrow> wf_db d \<Longrightarrow> wf_db d'"
  by (clarsimp simp: insert_company_role_def wf_defs)

lemma insert_permission_wf [table_intros]:
  "insert_permission p d = Inr d' \<Longrightarrow> wf_db d \<Longrightarrow> wf_db d'"
  by (clarsimp simp: insert_permission_def wf_defs)

lemma insert_gateway_wf [table_intros]: "insert_gateway g d = Inr d' \<Longrightarrow> wf_db d \<Longrightarrow> wf_db d'"
  by (clarsimp simp: insert_gateway_def gateway_refs_def wf_defs) (blast intro: ref_snocs)

lemma insert_sensor_profile_wf [table_intros]:
  "insert_sensor_profile p d = Inr d' \<Longrightarrow> wf_db d \<Longrightarrow> wf_db d'"
  by (clarsimp simp: insert_sensor_profile_def wf_defs) (blast intro: ref_snocs)

lemma insert_sensor_channel_wf [table_intros]:
  "insert_sensor_channel c d = Inr d' \<Longrightarrow> wf_db d \<Longrightarrow> wf_db d'"
  by (clarsimp simp: insert_sensor_channel_def wf_defs)

lemma insert_actuator_channel_wf [table_intros]:
  "insert_actuator_channel c d = Inr d' \<Longrightarrow> wf_db d \<Longrightarrow> wf_db d'"
  by (clarsimp simp: insert_actuator_channel_def wf_defs) (blast intro: ref_snocs)

lemma insert_command_wf [table_intros]: "insert_command c d = Inr d' \<Longrightarrow> wf_db d \<Longrightarrow> wf_db d'"
  by (clarsimp simp: insert_command_def wf_defs)

lemma insert_telemetry_wf [table_intros]: "insert_telemetry r d = Inr d' \<Longrightarrow> wf_db d \<Longrightarrow> wf_db d'"
  by (clarsimp simp: insert_telemetry_def wf_defs)

lemma latest_key_overwrite [simp]: "latest_key (overwrite_latest n r) = latest_key r"
  by (simp add: overwrite_latest_def latest_key_def)

lemma upsert_latest_wf [table_intros]: "upsert_latest n d = Inr d' \<Longrightarrow> wf_db d \<Longrightarrow> wf_db d'"
  by (clarsimp simp: upsert_latest_def wf_db_def keys_ok_def refs_ok_def formats_ok_def unique_key_modify)

text \<open>The upsert keeps, for each key, the newest timestamp seen.\<close>

lemma fetch_upsert_latest:
  assumes "upsert_latest n d = Inr d'"
  shows "fetch latest_key k (telemetry_latest d') =
    (if k = latest_key n then
       (case fetch latest_key k (telemetry_latest d) of None \<Rightarrow> Some n | Some r \<Rightarrow> Some (overwrite_latest n r))
     else fetch latest_key k (telemetry_latest d))"
proof (cases "exists_key latest_key (latest_key n) (telemetry_latest d)")
  case True
  then have "fetch latest_key (latest_key n) (telemetry_latest d) \<noteq> None"
    by (simp add: fetch_None_iff)
  with True assms show ?thesis
    by (auto simp: upsert_latest_def fetch_modify_same fetch_modify_other)
next
  case False
  then have "fetch latest_key (latest_key n) (telemetry_latest d) = None"
    by (simp add: fetch_None_iff)
  with False assms show ?thesis
    by (auto simp: upsert_latest_def fetch_append split: option.splits)
qed

lemma map_modify_const:
  assumes "\<And>r. r \<in> set rows \<Longrightarrow> key r = k \<Longrightarrow> key' g = key' r"
  shows "map key' (modify key k (\<lambda>_. g) rows) = map key' rows"
  using assms by (simp add: modify_def)

lemma ref_ok_modify_const:
  assumes "key g = k"
  shows "ref_ok key (modify key k (\<lambda>_. g) rows) x = ref_ok key rows x"
proof -
  have "map key (modify key k (\<lambda>_. g) rows) = map key rows"
    using assms by (intro map_modify_const) simp
  then have "set (map key (modify key k (\<lambda>_. g) rows)) = set (map key rows)" by simp
  then show ?thesis by (simp only: ref_ok_iff set_map)
qed

text \<open>Replacing the row with key \<open>k\<close>: what held of the rows still holds if it holds of the new one.\<close>

lemma list_all_modify_const:
  "list_all p rows \<Longrightarrow> (k \<in> key ` set rows \<Longrightarrow> p g) \<Longrightarrow> list_all p (modify key k (\<lambda>_. g) rows)"
  by (auto simp: list_all_iff set_modify)

lemma save_gateway_wf:
  assumes "save_gateway g d = Inr d'" "wf_db d" "fetch gw_id (gw_id g) (gateways d) = Some g0"
    and "gw_serial_number g = gw_serial_number g0"
  shows "wf_db d'"
proof -
  let ?gs = "modify gw_id (gw_id g) (\<lambda>_. g) (gateways d)"
  from assms(1) have d': "d' = d\<lparr>gateways := ?gs\<rparr>" and r: "gateway_refs g d"
    by (auto simp: save_gateway_def)
  from assms(2) have w: "keys_ok d" "refs_ok d" "formats_ok d" by (auto simp: wf_db_def)
  have u: "unique_key gw_id (gateways d)" using w(1) by (simp add: keys_ok_def)
  have g0: "g0 \<in> set (gateways d)" "gw_id g0 = gw_id g" using assms(3) fetch_SomeD by metis+
  have only: "gw_serial_number g = gw_serial_number h" if "h \<in> set (gateways d)" "gw_id h = gw_id g" for h
    using unique_key_eq [OF u that(1) g0(1)] that(2) g0(2) assms(4) by simp
  have m: "map gw_id ?gs = map gw_id (gateways d)"
    "map gw_serial_number ?gs = map gw_serial_number (gateways d)"
    by (rule map_modify_const, simp) (rule map_modify_const, rule only)
  have "keys_ok d'" using w(1) by (simp add: d' keys_ok_def unique_key_def m)
  moreover have "refs_ok d'"
    using w(2) r unfolding d' refs_ok_def
    by (auto simp: ref_ok_modify_const gateway_refs_def intro!: list_all_modify_const)
  moreover have "formats_ok d'"
    using w(3) g0 assms(4) unfolding d' formats_ok_def
    by (auto simp: list_all_iff set_modify)
  ultimately show ?thesis by (simp add: wf_db_def)
qed

lemma save_command_wf:
  assumes "save_command c d = Inr d'" "wf_db d" "fetch cm_id (cm_id c) (commands d) = Some c0"
    and "cm_gateway_id c = cm_gateway_id c0" "cm_actuator_channel_id c = cm_actuator_channel_id c0"
    and "cm_issued_by c = cm_issued_by c0"
  shows "wf_db d'"
proof -
  let ?cs = "modify cm_id (cm_id c) (\<lambda>_. c) (commands d)"
  from assms(1) have d': "d' = d\<lparr>commands := ?cs\<rparr>" by (auto simp: save_command_def)
  from assms(2) have w: "keys_ok d" "refs_ok d" "formats_ok d" by (auto simp: wf_db_def)
  have c0: "c0 \<in> set (commands d)" using assms(3) fetch_SomeD by metis
  have "map cm_id ?cs = map cm_id (commands d)" by (rule map_modify_const) simp
  then have "keys_ok d'" using w(1) by (simp add: d' keys_ok_def unique_key_def)
  moreover have "refs_ok d'"
    using w(2) c0 assms(4-6) unfolding d' refs_ok_def
    by (auto simp: list_all_iff set_modify)
  moreover have "formats_ok d'" using w(3) by (simp add: d' formats_ok_def)
  ultimately show ?thesis by (simp add: wf_db_def)
qed

lemma delete_gateway_row_wf [table_intros]:
  assumes "delete_gateway_row k d = Inr d'" "wf_db d"
  shows "wf_db d'"
  using assms
  by (clarsimp simp: delete_gateway_row_def wf_defs list_ex_iff unique_erase unique_filter set_erase ref_ok_iff)
    (fastforce simp: opt_ok_def ref_ok_iff split: option.splits)

lemma delete_sensor_channel_row_wf [table_intros]:
  assumes "delete_sensor_channel_row k d = Inr d'" "wf_db d"
  shows "wf_db d'"
  using assms
  by (clarsimp simp: delete_sensor_channel_row_def wf_defs unique_erase set_erase)

lemma delete_actuator_channel_row_wf [table_intros]:
  assumes "delete_actuator_channel_row k d = Inr d'" "wf_db d"
  shows "wf_db d'"
  using assms
  by (clarsimp simp: delete_actuator_channel_row_def wf_defs list_ex_iff unique_erase set_erase)
    (fastforce simp: opt_ok_def ref_ok_iff set_erase split: option.splits)

text \<open>An UPDATE ... WHERE that leaves keys and references alone.\<close>

lemma commands_update_where_wf:
  assumes "wf_db d"
    and "\<And>c. cm_id (f c) = cm_id c" "\<And>c. cm_gateway_id (f c) = cm_gateway_id c"
      "\<And>c. cm_actuator_channel_id (f c) = cm_actuator_channel_id c" "\<And>c. cm_issued_by (f c) = cm_issued_by c"
  shows "wf_db (d\<lparr>commands := update_where p f (commands d)\<rparr>)"
  using assms by (auto simp: wf_defs unique_key_update_where set_update_where)

lemma ref_ok_update_where:
  "(\<And>r. key (f r) = key r) \<Longrightarrow> ref_ok key (update_where p f rows) x = ref_ok key rows x"
  by (simp only: ref_ok_iff image_key_update_where)

lemma list_all_update_where:
  "list_all q rows \<Longrightarrow> (\<And>r. q r \<Longrightarrow> q (f r)) \<Longrightarrow> list_all q (update_where p f rows)"
  by (auto simp: list_all_iff set_update_where)

lemma gateways_update_where_wf:
  assumes "wf_db d"
    and f: "\<And>g. gw_id (f g) = gw_id g" "\<And>g. gw_serial_number (f g) = gw_serial_number g"
      "\<And>g. gw_company_id (f g) = gw_company_id g" "\<And>g. gw_site_id (f g) = gw_site_id g"
      "\<And>g. gw_gateway_profile_id (f g) = gw_gateway_profile_id g"
  shows "wf_db (d\<lparr>gateways := update_where p f (gateways d)\<rparr>)" (is "wf_db ?d")
proof -
  from assms(1) have w: "keys_ok d" "refs_ok d" "formats_ok d" by (auto simp: wf_db_def)
  have "keys_ok ?d" using w(1) f(1,2) by (simp add: keys_ok_def unique_key_update_where)
  moreover have "refs_ok ?d"
    using w(2) f unfolding refs_ok_def by (auto simp: ref_ok_update_where intro!: list_all_update_where)
  moreover have "formats_ok ?d"
    using w(3) f(2) unfolding formats_ok_def by (auto intro!: list_all_update_where)
  ultimately show ?thesis by (simp add: wf_db_def)
qed

end
