(* ===== verification/Auth.thy ===== *)
theory Auth
  imports Jwks Store
begin

text \<open>
  \<open>server/app/auth.py\<close>: from the Authorization header to the user row. The functions of the
  third-party \<open>jose\<close> package are the fields of \<open>jose\<close>, an argument of every function that calls
  them; \<open>None\<close> is a raised \<open>JWTError\<close>. The JWKS request and its clock readings are arguments as in
  \<open>Jwks\<close>.
\<close>

record jose =
  unverified_header :: "string \<Rightarrow> json option"
  decode_unverified :: "string \<Rightarrow> json option"
  decode_verified :: "string \<Rightarrow> json \<Rightarrow> string list \<Rightarrow> string \<Rightarrow> string \<Rightarrow> json option"

record web =
  web_reply :: http_reply
  web_now :: int
  web_now' :: int

definition HTTP_401 :: exn where "HTTP_401 = HTTPException 401"
definition HTTP_403 :: exn where "HTTP_403 = HTTPException 403"

definition decode_jwt ::
  "settings \<Rightarrow> jose \<Rightarrow> web \<Rightarrow> string \<Rightarrow> jwks_cache option \<Rightarrow> (exn + json) \<times> jwks_cache option" where
  "decode_jwt s j w token cache =
     (if \<not> kc_verify_signature s then
        (case decode_unverified j token of None \<Rightarrow> Inl HTTP_401 | Some raw \<Rightarrow> Inr raw, cache)
      else
        (case unverified_header j token of
           None \<Rightarrow> (Inl HTTP_401, cache)
         | Some hdr \<Rightarrow>
             (case jget hdr ''kid'' JNull of
                Inl e \<Rightarrow> (Inl e, cache)
              | Inr kid \<Rightarrow>
                  if \<not> truthy kid then (Inl HTTP_401, cache)
                  else
                    (let c = get_cache cache (jwks_url s) (kc_jwks_cache_ttl_sec s) (kc_jwks_fetch_timeout_sec s)
                     in case get_key (web_reply w) (web_now w) (web_now' w) kid c of
                          (Inl e, c') \<Rightarrow> (Inl e, Some c')
                        | (Inr None, c') \<Rightarrow> (Inl HTTP_401, Some c')
                        | (Inr (Some key), c') \<Rightarrow>
                            (case decode_verified j token key (kc_allowed_algorithms s) (kc_audience s) (kc_issuer s) of
                               None \<Rightarrow> Inl HTTP_401
                             | Some raw \<Rightarrow> Inr raw, Some c')))))"

record token_payload =
  tp_raw :: json
  tp_sub :: json
  tp_email :: json
  tp_preferred_username :: json
  tp_realm_roles :: json

definition token_payload_of :: "json \<Rightarrow> exn + token_payload" where
  "token_payload_of raw =
     (case (jget raw ''sub'' (JStr []), jget raw ''email'' (JStr []), jget raw ''preferred_username'' (JStr []),
            jget raw ''realm_access'' JNull) of
        (Inr sub, Inr email, Inr name, Inr access) \<Rightarrow>
          (case jget (py_or access (JObj [])) ''roles'' (JArr []) of
             Inl e \<Rightarrow> Inl e
           | Inr roles \<Rightarrow> Inr \<lparr>tp_raw = raw, tp_sub = sub, tp_email = email,
                            tp_preferred_username = name, tp_realm_roles = roles\<rparr>)
      | _ \<Rightarrow> Inl AttributeError)"

text \<open>\<open>role in self.realm_roles\<close>: membership, a substring of a string, a key of a dict.\<close>

definition has_role :: "token_payload \<Rightarrow> string \<Rightarrow> exn + bool" where
  "has_role t role =
     (case tp_realm_roles t of
        JArr xs \<Rightarrow> Inr (JStr role \<in> set xs)
      | JStr s \<Rightarrow> Inr (contains s role)
      | JObj kvs \<Rightarrow> Inr (role \<in> fst ` set kvs)
      | _ \<Rightarrow> Inl TypeError)"

definition get_token ::
  "settings \<Rightarrow> jose \<Rightarrow> web \<Rightarrow> string option \<Rightarrow> jwks_cache option \<Rightarrow> (exn + token_payload) \<times> jwks_cache option" where
  "get_token s j w authorization cache =
     (case authorization of
        None \<Rightarrow> (Inl HTTP_401, cache)
      | Some a \<Rightarrow>
          if a = [] \<or> \<not> startswith a ''Bearer '' then (Inl HTTP_401, cache)
          else (case decode_jwt s j w (strip (removeprefix a ''Bearer '')) cache of
                  (Inl e, c) \<Rightarrow> (Inl e, c)
                | (Inr raw, c) \<Rightarrow> (token_payload_of raw, c)))"

text \<open>\<open>scalar_one_or_none\<close> of a query's rows.\<close>

definition scalar_one_or_none :: "'a list \<Rightarrow> exn + 'a option" where
  "scalar_one_or_none xs = (case xs of [] \<Rightarrow> Inr None | [x] \<Rightarrow> Inr (Some x) | _ \<Rightarrow> Inl MultipleResultsFound)"

definition get_current_user :: "token_payload \<Rightarrow> db \<Rightarrow> exn + user" where
  "get_current_user t d =
     (if \<not> truthy (tp_sub t) then Inl HTTP_401
      else case bind_text None (tp_sub t) of
        Inl e \<Rightarrow> Inl e
      | Inr sub \<Rightarrow>
          (case scalar_one_or_none (filter (\<lambda>u. Some (us_keycloak_user_id u) = sub) (users d)) of
             Inl e \<Rightarrow> Inl e
           | Inr None \<Rightarrow> Inl HTTP_403
           | Inr (Some u) \<Rightarrow> Inr u))"

text \<open>The dependency chain of an endpoint: header, token, user.\<close>

definition authenticate ::
  "settings \<Rightarrow> jose \<Rightarrow> web \<Rightarrow> string option \<Rightarrow> db \<Rightarrow> jwks_cache option \<Rightarrow> (exn + user) \<times> jwks_cache option" where
  "authenticate s j w authorization d cache =
     (case get_token s j w authorization cache of
        (Inl e, c) \<Rightarrow> (Inl e, c)
      | (Inr t, c) \<Rightarrow> (get_current_user t d, c))"

section \<open>Who gets in\<close>

lemma scalar_one_or_none_Some: "scalar_one_or_none xs = Inr (Some x) \<longleftrightarrow> xs = [x]"
  by (auto simp: scalar_one_or_none_def split: list.splits)

lemma scalar_one_or_none_None: "scalar_one_or_none xs = Inr None \<longleftrightarrow> xs = []"
  by (auto simp: scalar_one_or_none_def split: list.splits)

lemma scalar_unique:
  assumes "unique_key key rows"
  shows "scalar_one_or_none (filter (\<lambda>r. key r = k) rows) = Inr (fetch key k rows)"
  using unique_key_filter_one [OF assms, of k]
  by (simp add: scalar_one_or_none_def split: option.splits)

lemma get_current_user_Inr:
  assumes "get_current_user t d = Inr u"
  obtains sub where "tp_sub t = JStr sub" "sub \<noteq> []" "u \<in> set (users d)" "us_keycloak_user_id u = sub"
proof -
  from assms obtain sub where b: "bind_text None (tp_sub t) = Inr sub" and tr: "truthy (tp_sub t)"
    and f: "filter (\<lambda>u. Some (us_keycloak_user_id u) = sub) (users d) = [u]"
    by (auto simp: get_current_user_def scalar_one_or_none_Some split: sum.splits option.splits if_splits)
  have u: "u \<in> set (users d)" "Some (us_keycloak_user_id u) = sub"
    using arg_cong [OF f, of set] by auto
  with b tr show ?thesis
    by (intro that [of "us_keycloak_user_id u"]) (auto simp: bind_text_def split: json.splits if_splits)
qed

lemma decode_jwt_verified:
  assumes "kc_verify_signature s" "decode_jwt s j w token cache = (Inr raw, cache')"
  obtains hdr kid key c c' where "unverified_header j token = Some hdr" "jget hdr ''kid'' JNull = Inr kid"
    "truthy kid" "c = get_cache cache (jwks_url s) (kc_jwks_cache_ttl_sec s) (kc_jwks_fetch_timeout_sec s)"
    "get_key (web_reply w) (web_now w) (web_now' w) kid c = (Inr (Some key), c')" "cache' = Some c'"
    "decode_verified j token key (kc_allowed_algorithms s) (kc_audience s) (kc_issuer s) = Some raw"
  using assms
  by (auto simp: decode_jwt_def Let_def split: option.splits sum.splits if_splits prod.splits)

section \<open>The cache over a sequence of requests\<close>

text \<open>
  The process starts without a cache; every request leaves the one of its authentication to the
  next, whether it was admitted or not. A cache is \<open>stocked\<close> when it is the one the settings ask for
  and all its keys were offered in one earlier reply of the identity provider, at the time it
  remembers.
\<close>

fun cache_of :: "settings \<Rightarrow> jose \<Rightarrow> (web \<times> string option \<times> db) list \<Rightarrow> jwks_cache option \<Rightarrow> jwks_cache option" where
  "cache_of s j [] cache = cache"
| "cache_of s j ((w, a, d) # xs) cache = cache_of s j xs (snd (authenticate s j w a d cache))"

definition stocked :: "settings \<Rightarrow> web set \<Rightarrow> jwks_cache \<Rightarrow> bool" where
  "stocked s ws c =
     (jc_url c = jwks_url s \<and> jc_ttl c = kc_jwks_cache_ttl_sec s \<and>
      (jc_keys c = [] \<or>
       (\<exists>w \<in> ws. \<exists>jwks. web_reply w = Body jwks \<and> cached_from jwks c \<and> jc_fetched_at c = web_now' w)))"

lemma stocked_mono: "stocked s ws c \<Longrightarrow> ws \<subseteq> ws' \<Longrightarrow> stocked s ws' c"
  by (auto simp: stocked_def)

lemma stocked_new: "stocked s ws (new_cache (jwks_url s) (kc_jwks_cache_ttl_sec s) t)"
  by (simp add: stocked_def new_cache_def)

lemma fetch_jwks_url: "fetch_jwks reply now c = Inr c' \<Longrightarrow> jc_url c' = jc_url c"
  by (auto simp: fetch_jwks_def split: http_reply.splits sum.splits json.splits)

lemma get_key_stocked:
  assumes "stocked s ws c" "get_key (web_reply w) (web_now w) (web_now' w) kid c = (r, c')"
  shows "stocked s (insert w ws) c'"
proof -
  have "c' = c \<or> fetch_jwks (web_reply w) (web_now' w) c = Inr c'"
    using assms(2) by (auto simp: get_key_def split: if_splits sum.splits)
  then show ?thesis
  proof
    assume "fetch_jwks (web_reply w) (web_now' w) c = Inr c'"
    note f = this
    then show ?thesis
      by (rule fetch_jwks_Inr) (use assms(1) fetch_jwks_url [OF f] in \<open>auto simp: stocked_def\<close>)
  qed (use assms(1) in \<open>auto intro: stocked_mono\<close>)
qed

definition stocked_opt :: "settings \<Rightarrow> web set \<Rightarrow> jwks_cache option \<Rightarrow> bool" where
  "stocked_opt s ws cache = (case cache of None \<Rightarrow> True | Some c \<Rightarrow> stocked s ws c)"

lemma get_cache_stocked:
  "stocked_opt s ws cache \<Longrightarrow> stocked s ws (get_cache cache (jwks_url s) (kc_jwks_cache_ttl_sec s) t)"
  by (auto simp: stocked_opt_def get_cache_def stocked_new split: option.splits)

lemma decode_jwt_stocked:
  assumes "stocked_opt s ws cache" "decode_jwt s j w token cache = (r, cache')"
  shows "stocked_opt s (insert w ws) cache'"
proof (cases "cache' = cache")
  case True
  with assms(1) show ?thesis by (auto simp: stocked_opt_def intro: stocked_mono split: option.splits)
next
  case False
  with assms(2) obtain kid x c' where
    "get_key (web_reply w) (web_now w) (web_now' w) kid (get_cache cache (jwks_url s) (kc_jwks_cache_ttl_sec s) (kc_jwks_fetch_timeout_sec s)) = (x, c')"
    "cache' = Some c'"
    by (auto simp: decode_jwt_def Let_def split: option.splits sum.splits if_splits prod.splits)
  with get_key_stocked [OF get_cache_stocked [OF assms(1)]] show ?thesis by (simp add: stocked_opt_def)
qed

lemma authenticate_stocked:
  assumes "stocked_opt s ws cache"
  shows "stocked_opt s (insert w ws) (snd (authenticate s j w a d cache))"
proof -
  have "stocked_opt s (insert w ws) cache"
    using assms by (auto simp: stocked_opt_def intro: stocked_mono split: option.splits)
  then show ?thesis
    using decode_jwt_stocked [OF assms]
    by (auto simp: authenticate_def get_token_def split: option.splits prod.splits sum.splits if_splits)
qed

lemma cache_of_stocked: "stocked_opt s ws cache \<Longrightarrow> stocked_opt s (ws \<union> fst ` set xs) (cache_of s j xs cache)"
proof (induction xs arbitrary: ws cache)
  case (Cons x xs)
  obtain w a d where x: "x = (w, a, d)" by (cases x)
  from Cons.IH [OF authenticate_stocked [OF Cons.prems, of w j a d]] show ?case by (simp add: x)
qed simp

text \<open>The key a token is verified with was offered by the provider, now or at most a TTL ago.\<close>

lemma get_key_offered:
  assumes "stocked s ws c" "get_key (web_reply w) (web_now w) (web_now' w) kid c = (Inr (Some key), c')"
  shows "(\<exists>jwks. web_reply w = Body jwks \<and> offered jwks kid key) \<or>
    (\<exists>v \<in> ws. \<exists>jwks. web_reply v = Body jwks \<and> offered jwks kid key \<and>
       web_now w - web_now' v \<le> kc_jwks_cache_ttl_sec s * 1000000)"
  using get_key_fresh [OF assms(2)]
proof
  assume h: "c' = c \<and> \<not> is_stale (web_now w) c \<and> (kid, key) \<in> set (jc_keys c)"
  then obtain v jwks where "v \<in> ws" "web_reply v = Body jwks" "cached_from jwks c" "jc_fetched_at c = web_now' v"
    using assms(1) by (auto simp: stocked_def)
  with h assms(1) show ?thesis by (auto simp: is_stale_def stocked_def cached_from_def not_less)
qed (auto simp: cached_from_def)

end
