(* ===== verification/Lookups.thy ===== *)
theory Lookups
  imports Auth
begin

text \<open>
  \<open>server/worker/handlers/_lookups.py\<close>: the worker's in-memory caches from wire identifiers to
  UUIDs. The three dicts are the fields of \<open>worker_cache\<close>; \<open>clk n\<close> is the n-th reading of
  \<open>time.monotonic()\<close> in microseconds and \<open>wc_reads\<close> counts the readings. An absent row is
  cached too. \<open>ttl_cache\<close> is the contract of a cached lookup.
\<close>

type_synonym entry = "uuid option \<times> int"

record worker_cache =
  wc_gateways :: "string \<Rightarrow> entry option"
  wc_sensors :: "uuid \<times> string \<Rightarrow> entry option"
  wc_actuators :: "uuid \<times> string \<Rightarrow> entry option"
  wc_reads :: nat

definition empty_cache :: worker_cache where
  "empty_cache = \<lparr>wc_gateways = \<lambda>_. None, wc_sensors = \<lambda>_. None, wc_actuators = \<lambda>_. None, wc_reads = 0\<rparr>"

definition TTL :: int where "TTL = 60000000"

definition expired :: "int \<Rightarrow> entry \<Rightarrow> bool" where
  "expired now e = (snd e < now)"

text \<open>\<open>cached is not None and not _expired(cached)\<close>, and the number of clock readings so far.\<close>

definition cached :: "(nat \<Rightarrow> int) \<Rightarrow> nat \<Rightarrow> entry option \<Rightarrow> uuid option option \<times> nat" where
  "cached clk n e =
     (case e of
        None \<Rightarrow> (None, n)
      | Some c \<Rightarrow> (if expired (clk n) c then None else Some (fst c), Suc n))"

section \<open>Queries\<close>

text \<open>A bound string with a NUL is refused by the driver.\<close>

definition select_gateway :: "db \<Rightarrow> string \<Rightarrow> exn + uuid option" where
  "select_gateway d serial =
     (if \<not> text_ok serial then Inl DBAPIError
      else scalar_one_or_none (map gw_id (filter (\<lambda>g. gw_serial_number g = serial) (gateways d))))"

definition select_sensor :: "db \<Rightarrow> uuid \<times> string \<Rightarrow> exn + uuid option" where
  "select_sensor d k =
     (if \<not> text_ok (snd k) then Inl DBAPIError
      else scalar_one_or_none (map sc_id (filter (\<lambda>c. sc_wire c = k) (sensor_channels d))))"

definition select_actuator :: "db \<Rightarrow> uuid \<times> string \<Rightarrow> exn + uuid option" where
  "select_actuator d k =
     (if \<not> text_ok (snd k) then Inl DBAPIError
      else scalar_one_or_none (map ac_id (filter (\<lambda>c. ac_wire c = k) (actuator_channels d))))"

section \<open>Cached lookups\<close>

definition gateway_uuid_by_serial ::
  "(nat \<Rightarrow> int) \<Rightarrow> db \<Rightarrow> string \<Rightarrow> worker_cache \<Rightarrow> (exn + uuid option) \<times> worker_cache" where
  "gateway_uuid_by_serial clk d serial c =
     (case cached clk (wc_reads c) (wc_gateways c serial) of
        (Some v, n) \<Rightarrow> (Inr v, c\<lparr>wc_reads := n\<rparr>)
      | (None, n) \<Rightarrow>
          (case select_gateway d serial of
             Inl e \<Rightarrow> (Inl e, c\<lparr>wc_reads := n\<rparr>)
           | Inr v \<Rightarrow> (Inr v, c\<lparr>wc_gateways := (wc_gateways c)(serial \<mapsto> (v, clk n + TTL)), wc_reads := Suc n\<rparr>)))"

definition sensor_channel_uuid_by_slug ::
  "(nat \<Rightarrow> int) \<Rightarrow> db \<Rightarrow> uuid \<times> string \<Rightarrow> worker_cache \<Rightarrow> (exn + uuid option) \<times> worker_cache" where
  "sensor_channel_uuid_by_slug clk d k c =
     (case cached clk (wc_reads c) (wc_sensors c k) of
        (Some v, n) \<Rightarrow> (Inr v, c\<lparr>wc_reads := n\<rparr>)
      | (None, n) \<Rightarrow>
          (case select_sensor d k of
             Inl e \<Rightarrow> (Inl e, c\<lparr>wc_reads := n\<rparr>)
           | Inr v \<Rightarrow> (Inr v, c\<lparr>wc_sensors := (wc_sensors c)(k \<mapsto> (v, clk n + TTL)), wc_reads := Suc n\<rparr>)))"

definition actuator_channel_by_slug ::
  "(nat \<Rightarrow> int) \<Rightarrow> db \<Rightarrow> uuid \<times> string \<Rightarrow> worker_cache \<Rightarrow> (exn + uuid option) \<times> worker_cache" where
  "actuator_channel_by_slug clk d k c =
     (case cached clk (wc_reads c) (wc_actuators c k) of
        (Some v, n) \<Rightarrow> (Inr v, c\<lparr>wc_reads := n\<rparr>)
      | (None, n) \<Rightarrow>
          (case select_actuator d k of
             Inl e \<Rightarrow> (Inl e, c\<lparr>wc_reads := n\<rparr>)
           | Inr v \<Rightarrow> (Inr v, c\<lparr>wc_actuators := (wc_actuators c)(k \<mapsto> (v, clk n + TTL)), wc_reads := Suc n\<rparr>)))"

definition invalidate_gateway :: "string \<Rightarrow> worker_cache \<Rightarrow> worker_cache" where
  "invalidate_gateway serial c = c\<lparr>wc_gateways := (wc_gateways c)(serial := None)\<rparr>"

definition invalidate_all :: "worker_cache \<Rightarrow> worker_cache" where
  "invalidate_all c = c\<lparr>wc_gateways := \<lambda>_. None, wc_sensors := \<lambda>_. None, wc_actuators := \<lambda>_. None\<rparr>"

section \<open>The contract of a cached lookup\<close>

text \<open>
  \<open>lookup\<close> answers from the entry while it has not expired; otherwise it asks the database,
  remembers a successful answer with its expiry time and passes an error on. The client's view: an
  answer is what the database held at most a TTL ago. \<open>hist t\<close> is the database at clock time \<open>t\<close>.
\<close>

locale ttl_cache =
  fixes entries :: "'s \<Rightarrow> 'k \<Rightarrow> (uuid option \<times> int) option"
    and reads :: "'s \<Rightarrow> nat"
    and query :: "'d \<Rightarrow> 'k \<Rightarrow> exn + uuid option"
    and lookup :: "(nat \<Rightarrow> int) \<Rightarrow> 'd \<Rightarrow> 'k \<Rightarrow> 's \<Rightarrow> (exn + uuid option) \<times> 's"
    and ttl :: int
  assumes ttl_pos: "0 \<le> ttl"
    and hit: "entries s k = Some (v, e) \<Longrightarrow> clk (reads s) \<le> e \<Longrightarrow>
      \<exists>s'. lookup clk d k s = (Inr v, s') \<and> entries s' = entries s \<and> reads s' = Suc (reads s)"
    and miss: "(entries s k = None \<and> n = reads s) \<or>
        (\<exists>v e. entries s k = Some (v, e) \<and> e < clk (reads s) \<and> n = Suc (reads s)) \<Longrightarrow>
      (case query d k of
         Inl x \<Rightarrow> \<exists>s'. lookup clk d k s = (Inl x, s') \<and> entries s' = entries s \<and> reads s' = n
       | Inr v \<Rightarrow> \<exists>s'. lookup clk d k s = (Inr v, s') \<and>
           entries s' = (entries s)(k \<mapsto> (v, clk n + ttl)) \<and> reads s' = Suc n)"
begin

text \<open>Every entry was the database's answer a TTL before it expires, and that is not in the future.\<close>

definition good :: "(nat \<Rightarrow> int) \<Rightarrow> (int \<Rightarrow> 'd) \<Rightarrow> 's \<Rightarrow> bool" where
  "good clk hist s =
     (\<forall>k v e. entries s k = Some (v, e) \<longrightarrow>
        query (hist (e - ttl)) k = Inr v \<and> (\<exists>m < reads s. e - ttl = clk m))"

lemma lookup_cases:
  obtains (from_cache) v e s' where "entries s k = Some (v, e)" "clk (reads s) \<le> e" "lookup clk d k s = (Inr v, s')"
      "entries s' = entries s" "reads s' = Suc (reads s)"
    | (query_failed) x n s' where "reads s \<le> n" "n \<le> Suc (reads s)" "query d k = Inl x" "lookup clk d k s = (Inl x, s')"
      "entries s' = entries s" "reads s' = n"
    | (from_query) v n s' where "reads s \<le> n" "n \<le> Suc (reads s)" "query d k = Inr v" "lookup clk d k s = (Inr v, s')"
      "entries s' = (entries s)(k \<mapsto> (v, clk n + ttl))" "reads s' = Suc n"
proof (cases "\<exists>v e. entries s k = Some (v, e) \<and> clk (reads s) \<le> e")
  case True
  then obtain v e where e: "entries s k = Some (v, e)" "clk (reads s) \<le> e" by auto
  from hit [of s k v e clk d, OF e] e show ?thesis using that(1) by metis
next
  case False
  define n where "n = (if entries s k = None then reads s else Suc (reads s))"
  have c: "(entries s k = None \<and> n = reads s) \<or>
      (\<exists>v e. entries s k = Some (v, e) \<and> e < clk (reads s) \<and> n = Suc (reads s))"
    using False by (cases "entries s k") (auto simp: n_def not_le)
  then have n: "reads s \<le> n" "n \<le> Suc (reads s)" by auto
  show ?thesis
  proof (cases "query d k")
    case (Inl x)
    with miss [of s k n clk d, OF c] n show ?thesis using that(2) by auto
  next
    case (Inr v)
    with miss [of s k n clk d, OF c] n show ?thesis using that(3) by auto
  qed
qed

lemma good_same:
  assumes "good clk hist s" "entries s' = entries s" "reads s \<le> reads s'"
  shows "good clk hist s'"
  using assms by (auto simp: good_def) (metis less_le_trans)+

lemma good_lookup:
  assumes g: "good clk hist s" and d: "\<And>n. reads s \<le> n \<Longrightarrow> n < reads s' \<Longrightarrow> hist (clk n) = d"
    and l: "lookup clk d k s = (r, s')"
  shows "good clk hist s'"
proof (rule lookup_cases [of s k clk d])
  fix v n s1
  assume m: "reads s \<le> n" "n \<le> Suc (reads s)" "query d k = Inr v" "lookup clk d k s = (Inr v, s1)"
    "entries s1 = (entries s)(k \<mapsto> (v, clk n + ttl))" "reads s1 = Suc n"
  then have "s1 = s'" "hist (clk n) = d" using l d by auto
  moreover have "\<exists>m < Suc n. e - ttl = clk m" if "entries s k' = Some (w, e)" for k' w e
  proof -
    from g that obtain m where "m < reads s" "e - ttl = clk m" unfolding good_def by blast
    with m(1) show ?thesis by (intro exI [of _ m]) simp
  qed
  ultimately show ?thesis using g m by (auto simp: good_def)
qed (use l good_same [OF g] in auto)

text \<open>An answer is at most a TTL old.\<close>

lemma lookup_fresh:
  assumes g: "good clk hist s" and mono: "mono clk"
    and d: "\<And>n. reads s \<le> n \<Longrightarrow> n < reads s' \<Longrightarrow> hist (clk n) = d"
    and l: "lookup clk d k s = (Inr v, s')"
  shows "\<exists>t. clk (reads s) - ttl \<le> t \<and> t \<le> clk (Suc (reads s)) \<and> query (hist t) k = Inr v"
proof (rule lookup_cases [of s k clk d])
  fix w e s1
  assume h: "entries s k = Some (w, e)" "clk (reads s) \<le> e" "lookup clk d k s = (Inr w, s1)"
  from g h(1) obtain m where q: "query (hist (e - ttl)) k = Inr w" and m: "m < reads s" "e - ttl = clk m"
    unfolding good_def by blast
  have "e - ttl \<le> clk (Suc (reads s))" using m mono by (metis less_Suc_eq less_imp_le monoD)
  moreover have "w = v" using h(3) l by simp
  ultimately show ?thesis using q h(2) by (intro exI [of _ "e - ttl"]) auto
next
  fix w n s1
  assume m: "reads s \<le> n" "n \<le> Suc (reads s)" "query d k = Inr w" "lookup clk d k s = (Inr w, s1)"
    and r: "reads s1 = Suc n"
  then have "clk (reads s) \<le> clk n" "clk n \<le> clk (Suc (reads s))" "w = v" "n < reads s'"
    using mono l by (auto dest: monoD)
  with m d [of n] ttl_pos show ?thesis by (intro exI [of _ "clk n"]) auto
qed (use l in auto)

text \<open>Until it expires, an entry stays and answers, whatever is looked up and whatever the database has become.\<close>

lemma lookup_reads: "lookup clk d k s = (r, s') \<Longrightarrow> reads s \<le> reads s'"
  by (rule lookup_cases [of s k clk d]) auto

lemma lookup_keeps:
  assumes e: "entries s k = Some (v, e)" and mono: "mono clk" and l: "lookup clk d k' s = (r, s')"
    and t: "clk (reads s') \<le> e"
  shows "entries s' k = Some (v, e)"
proof (cases "k' = k")
  case True
  have "clk (reads s) \<le> e" using monoD [OF mono lookup_reads [OF l]] t by simp
  from hit [of s k v e clk d, OF e this] show ?thesis using l True e by auto
next
  case False
  show ?thesis
    by (rule lookup_cases [of s k' clk d]) (use e l False in simp_all)
qed

lemma lookup_stored:
  assumes "lookup clk d k s = (Inr v, s')" "entries s k = None"
  shows "entries s' k = Some (v, clk (reads s) + ttl)" "reads s' = Suc (reads s)"
proof -
  have "case query d k of
         Inl x \<Rightarrow> \<exists>s'. lookup clk d k s = (Inl x, s') \<and> entries s' = entries s \<and> reads s' = reads s
       | Inr v \<Rightarrow> \<exists>s'. lookup clk d k s = (Inr v, s') \<and>
           entries s' = (entries s)(k \<mapsto> (v, clk (reads s) + ttl)) \<and> reads s' = Suc (reads s)"
    by (rule miss) (simp add: assms(2))
  then show "entries s' k = Some (v, clk (reads s) + ttl)" "reads s' = Suc (reads s)"
    using assms(1) by (auto split: sum.splits)
qed

lemma lookup_hit:
  assumes "entries s k = Some (v, e)" "clk (reads s) \<le> e"
  obtains s' where "lookup clk d k s = (Inr v, s')"
  using hit [of s k v e clk d, OF assms] by blast

text \<open>A cache that has nothing unexpired to say against the database answers with the database.\<close>

lemma lookup_agrees:
  assumes "query d k = Inr v" "\<And>w e. entries s k = Some (w, e) \<Longrightarrow> w = v \<or> e < clk (reads s)"
  obtains s' where "lookup clk d k s = (Inr v, s')"
proof (rule lookup_cases [of s k clk d])
  fix w e s' assume "entries s k = Some (w, e)" "clk (reads s) \<le> e" "lookup clk d k s = (Inr w, s')"
  with assms(2) [of w e] show thesis by (intro that) auto
qed (use assms(1) that in simp_all)

end

lemma cached_simps:
  "cached clk n None = (None, n)"
  "cached clk n (Some (v, e)) = (if e < clk n then None else Some v, Suc n)"
  by (simp_all add: cached_def expired_def)

interpretation gateway_lookup: ttl_cache wc_gateways wc_reads select_gateway gateway_uuid_by_serial TTL
  by unfold_locales
    (auto simp: gateway_uuid_by_serial_def cached_simps TTL_def split: sum.splits option.splits)

interpretation sensor_lookup: ttl_cache wc_sensors wc_reads select_sensor sensor_channel_uuid_by_slug TTL
  by unfold_locales
    (auto simp: sensor_channel_uuid_by_slug_def cached_simps TTL_def split: sum.splits option.splits)

interpretation actuator_lookup: ttl_cache wc_actuators wc_reads select_actuator actuator_channel_by_slug TTL
  by unfold_locales
    (auto simp: actuator_channel_by_slug_def cached_simps TTL_def split: sum.splits option.splits)

lemma sensor_lookup_gateways:
  "sensor_channel_uuid_by_slug clk d k c = (r, c') \<Longrightarrow> wc_gateways c' = wc_gateways c"
  by (auto simp: sensor_channel_uuid_by_slug_def split: prod.splits option.splits sum.splits)

lemma gateway_lookup_sensors:
  "gateway_uuid_by_serial clk d k c = (r, c') \<Longrightarrow> wc_sensors c' = wc_sensors c"
  by (auto simp: gateway_uuid_by_serial_def split: prod.splits option.splits sum.splits)

end
