(* ===== verification/Handlers.thy ===== *)
theory Handlers
  imports Lookups
begin

text \<open>
  The message handlers of \<open>server/worker/handlers\<close>: telemetry, heartbeat, state and command
  responses. A handler gets the clock's reading, the gateway the topic named and the parsed body;
  it ends with the database it committed or the exception it raised, and the lookup cache. A
  handler that returns early leaves the database as it is. \<open>message_handler\<close> is the contract the
  dispatcher relies on: a handler keeps the schema's invariant and touches its gateway only.
\<close>

section \<open>Telemetry\<close>

definition telemetry_row_of ::
  "gateway \<Rightarrow> uuid \<Rightarrow> string \<Rightarrow> instant \<Rightarrow> pyfloat option \<Rightarrow> string option \<Rightarrow> string option \<Rightarrow> json \<Rightarrow> telemetry_row" where
  "telemetry_row_of gw ch key ts val unit quality raw =
     \<lparr>te_company_id = gw_company_id gw, te_site_id = gw_site_id gw, te_gateway_id = gw_id gw,
      te_sensor_channel_id = ch, te_measurement_key = key, te_ts = ts, te_value_double = val,
      te_value_text = None, te_value_bool = None, te_value_json = None, te_unit = unit,
      te_quality = quality, te_raw = raw\<rparr>"

definition latest_row_of ::
  "gateway \<Rightarrow> uuid \<Rightarrow> string \<Rightarrow> instant \<Rightarrow> pyfloat option \<Rightarrow> string option \<Rightarrow> string option \<Rightarrow> latest_row" where
  "latest_row_of gw ch key ts val unit quality =
     \<lparr>tl_gateway_id = gw_id gw, tl_sensor_channel_id = ch, tl_measurement_key = key, tl_ts = ts,
      tl_value_double = val, tl_value_text = None, tl_value_bool = None, tl_value_json = None,
      tl_unit = unit, tl_quality = quality\<rparr>"

text \<open>One value whose channel is known: both statements, or neither when the key is empty.\<close>

definition store_value :: "gateway \<Rightarrow> instant \<Rightarrow> uuid \<Rightarrow> json \<Rightarrow> db \<Rightarrow> exn + db" where
  "store_value gw ts ch v d =
     (case (jget v ''measurement_key'' (JStr []), jget v ''value'' JNull, jget v ''unit'' JNull,
            jget v ''quality'' (JStr ''good'')) of
        (Inr key, Inr val, Inr unit, Inr quality) \<Rightarrow>
          if \<not> truthy key then Inr d
          else (case float_or_none val of
                  Inl e \<Rightarrow> Inl e
                | Inr x \<Rightarrow>
                    (case (bind_text None key, bind_text None unit, bind_text None quality) of
                       (Inr (Some k), Inr un, Inr q) \<Rightarrow>
                         (case insert_telemetry (telemetry_row_of gw ch k ts x un q v) d of
                            Inl e \<Rightarrow> Inl e
                          | Inr d1 \<Rightarrow> upsert_latest (latest_row_of gw ch k ts x un q) d1)
                     | _ \<Rightarrow> Inl DBAPIError))
      | _ \<Rightarrow> Inl AttributeError)"

definition telemetry_value ::
  "(nat \<Rightarrow> int) \<Rightarrow> gateway \<Rightarrow> instant \<Rightarrow> json \<Rightarrow> db \<Rightarrow> worker_cache \<Rightarrow> (exn + db) \<times> worker_cache" where
  "telemetry_value clk gw ts v d c =
     (case jget v ''sensor_channel_id'' JNull of
        Inl e \<Rightarrow> (Inl e, c)
      | Inr (JStr slug) \<Rightarrow>
          if slug = [] then (Inr d, c)
          else (case sensor_channel_uuid_by_slug clk d (gw_id gw, slug) c of
                  (Inl e, c') \<Rightarrow> (Inl e, c')
                | (Inr None, c') \<Rightarrow> (Inr d, c')
                | (Inr (Some ch), c') \<Rightarrow> (store_value gw ts ch v d, c'))
      | Inr _ \<Rightarrow> (Inr d, c))"

fun telemetry_values ::
  "(nat \<Rightarrow> int) \<Rightarrow> gateway \<Rightarrow> instant \<Rightarrow> json list \<Rightarrow> db \<Rightarrow> worker_cache \<Rightarrow> (exn + db) \<times> worker_cache" where
  "telemetry_values clk gw ts [] d c = (Inr d, c)"
| "telemetry_values clk gw ts (v # vs) d c =
     (case telemetry_value clk gw ts v d c of
        (Inl e, c') \<Rightarrow> (Inl e, c')
      | (Inr d', c') \<Rightarrow> telemetry_values clk gw ts vs d' c')"

definition seen_online :: "instant \<Rightarrow> gateway \<Rightarrow> gateway" where
  "seen_online ts gw = gw\<lparr>gw_last_seen_at := Some ts, gw_status := ''online''\<rparr>"

definition telemetry_handle ::
  "(nat \<Rightarrow> int) \<Rightarrow> instant \<Rightarrow> uuid \<Rightarrow> json \<Rightarrow> db \<Rightarrow> worker_cache \<Rightarrow> (exn + db) \<times> worker_cache" where
  "telemetry_handle clk now g body d c =
     (case (jget body ''values'' JNull, jget body ''timestamp'' JNull) of
        (Inr vs, Inr stamp) \<Rightarrow>
          (let vals = py_or vs (JArr [])
           in if \<not> truthy vals then (Inr d, c)
              else case parse_iso8601 now stamp of
                Inl e \<Rightarrow> (Inl e, c)
              | Inr ts \<Rightarrow>
                  (case fetch gw_id g (gateways d) of
                     None \<Rightarrow> (Inr d, c)
                   | Some gw \<Rightarrow>
                       (case py_iter vals of
                          Inl e \<Rightarrow> (Inl e, c)
                        | Inr xs \<Rightarrow>
                            (case telemetry_values clk gw ts xs d c of
                               (Inl e, c') \<Rightarrow> (Inl e, c')
                             | (Inr d', c') \<Rightarrow> (save_gateway (seen_online ts gw) d', c')))))
      | _ \<Rightarrow> (Inl AttributeError, c))"

section \<open>Heartbeat\<close>

definition heartbeat_handle :: "instant \<Rightarrow> uuid \<Rightarrow> json \<Rightarrow> db \<Rightarrow> exn + db" where
  "heartbeat_handle now g body d =
     (case fetch gw_id g (gateways d) of
        None \<Rightarrow> Inr d
      | Some gw \<Rightarrow>
          (case jget body ''timestamp'' JNull of
             Inl e \<Rightarrow> Inl e
           | Inr stamp \<Rightarrow>
               (case parse_iso8601 now stamp of
                  Inl e \<Rightarrow> Inl e
                | Inr ts \<Rightarrow>
                    save_gateway (gw\<lparr>gw_last_seen_at := Some ts,
                      gw_status := (if gw_status gw = ''offline'' then ''online'' else gw_status gw)\<rparr>) d)))"

section \<open>State\<close>

definition state_status :: "json \<Rightarrow> string" where
  "state_status v =
     (case v of
        JStr s \<Rightarrow> if s \<in> {''online'', ''offline'', ''shutdown''} then s else ''offline''
      | _ \<Rightarrow> ''offline'')"

text \<open>\<open>body[k]\<close> bound to a VARCHAR(64) if the body has the key; else the column keeps its value.\<close>

definition state_version :: "json \<Rightarrow> string \<Rightarrow> string option \<Rightarrow> exn + string option" where
  "state_version body k old =
     (case jfield body k of None \<Rightarrow> Inr old | Some v \<Rightarrow> bind_text (Some 64) v)"

text \<open>\<open>isinstance(v, int)\<close> holds of a bool.\<close>

definition state_config :: "json \<Rightarrow> int \<Rightarrow> int" where
  "state_config body old =
     (case jfield body ''config_version'' of
        Some (JInt n) \<Rightarrow> n
      | Some (JBool b) \<Rightarrow> (if b then 1 else 0)
      | _ \<Rightarrow> old)"

definition state_seen :: "instant \<Rightarrow> json \<Rightarrow> json \<Rightarrow> instant option \<Rightarrow> exn + instant option" where
  "state_seen now body status old =
     (if status = JStr ''online'' then
        (case jget body ''timestamp'' JNull of
           Inl e \<Rightarrow> Inl e
         | Inr stamp \<Rightarrow> (case parse_iso8601 now stamp of Inl e \<Rightarrow> Inl e | Inr ts \<Rightarrow> Inr (Some ts)))
      else if status = JStr ''offline'' \<and> jget body ''reason'' JNull = Inr (JStr ''lwt'') then Inr (Some (utcnow now))
      else Inr old)"

definition state_handle :: "instant \<Rightarrow> uuid \<Rightarrow> json \<Rightarrow> db \<Rightarrow> exn + db" where
  "state_handle now g body d =
     (case fetch gw_id g (gateways d) of
        None \<Rightarrow> Inr d
      | Some gw \<Rightarrow>
          (case jget body ''status'' (JStr ''online'') of
             Inl e \<Rightarrow> Inl e
           | Inr status \<Rightarrow>
               (case state_seen now body status (gw_last_seen_at gw) of
                  Inl e \<Rightarrow> Inl e
                | Inr seen \<Rightarrow>
                    (case (state_version body ''app_version'' (gw_app_version gw),
                           state_version body ''firmware_version'' (gw_firmware_version gw)) of
                       (Inr app, Inr fw) \<Rightarrow>
                         save_gateway (gw\<lparr>gw_status := state_status status, gw_app_version := app,
                           gw_firmware_version := fw, gw_config_version := state_config body (gw_config_version gw),
                           gw_last_seen_at := seen\<rparr>) d
                     | _ \<Rightarrow> Inl DBAPIError))))"

section \<open>Command responses\<close>

text \<open>
  \<open>session.get(Command, x)\<close> takes a scalar, a one-element list or a dict with the key column; a
  scalar that is no string does not bind to the TEXT column, an unhashable one is no identity.
\<close>

definition pk_ident :: "json \<Rightarrow> exn + json" where
  "pk_ident v =
     (case v of
        JArr [x] \<Rightarrow> Inr x
      | JArr _ \<Rightarrow> Inl InvalidRequestError
      | JObj [(k, x)] \<Rightarrow> if k = ''id'' then Inr x else Inl InvalidRequestError
      | JObj _ \<Rightarrow> Inl InvalidRequestError
      | _ \<Rightarrow> Inr v)"

definition get_command_row :: "json \<Rightarrow> db \<Rightarrow> exn + command option" where
  "get_command_row v d =
     (case pk_ident v of
        Inl e \<Rightarrow> Inl e
      | Inr (JStr s) \<Rightarrow> if text_ok s then Inr (fetch cm_id s (commands d)) else Inl DBAPIError
      | Inr JNull \<Rightarrow> Inr None
      | Inr (JArr _) \<Rightarrow> Inl TypeError
      | Inr (JObj _) \<Rightarrow> Inl TypeError
      | Inr _ \<Rightarrow> Inl DBAPIError)"

definition answered :: "json \<Rightarrow> string \<Rightarrow> instant \<Rightarrow> command \<Rightarrow> command" where
  "answered body status ts cmd = cmd\<lparr>cm_status := status, cm_response := Some body, cm_completed_at := Some ts\<rparr>"

definition command_response_handle :: "instant \<Rightarrow> uuid \<Rightarrow> json \<Rightarrow> db \<Rightarrow> exn + db" where
  "command_response_handle now g body d =
     (case (jget body ''command_id'' JNull, jget body ''status'' (JStr ''executed''), jget body ''executed_at'' JNull) of
        (Inr cid, Inr status, Inr stamp) \<Rightarrow>
          if \<not> truthy cid then Inr d
          else (case get_command_row cid d of
                  Inl e \<Rightarrow> Inl e
                | Inr None \<Rightarrow> Inr d
                | Inr (Some cmd) \<Rightarrow>
                    if cm_gateway_id cmd \<noteq> g then Inr d
                    else (case parse_iso8601 now stamp of
                            Inl e \<Rightarrow> Inl e
                          | Inr ts \<Rightarrow>
                              (case bind_text (Some 32) status of
                                 Inl e \<Rightarrow> Inl e
                               | Inr None \<Rightarrow> Inl (if jsonb_ok body \<and> representable ts then IntegrityError else DBAPIError)
                               | Inr (Some s) \<Rightarrow> save_command (answered body s ts cmd) d)))
      | _ \<Rightarrow> Inl AttributeError)"

section \<open>What a message may change\<close>

text \<open>
  \<open>touches_only g d d'\<close>: from \<open>d\<close> to \<open>d'\<close> only rows of gateway \<open>g\<close> changed, and of those only
  telemetry, the gateway's own columns and its commands.
\<close>

definition touches_only :: "uuid \<Rightarrow> db \<Rightarrow> db \<Rightarrow> bool" where
  "touches_only g d d' =
     (companies d' = companies d \<and> sites d' = sites d \<and> users d' = users d \<and>
      company_roles d' = company_roles d \<and> permissions d' = permissions d \<and>
      gateway_profiles d' = gateway_profiles d \<and> sensor_profiles d' = sensor_profiles d \<and>
      sensor_channels d' = sensor_channels d \<and> actuator_channels d' = actuator_channels d \<and>
      audit_logs d' = audit_logs d \<and> partitions d' = partitions d \<and>
      map gw_serial_number (gateways d') = map gw_serial_number (gateways d) \<and>
      filter (\<lambda>r. gw_id r \<noteq> g) (gateways d') = filter (\<lambda>r. gw_id r \<noteq> g) (gateways d) \<and>
      filter (\<lambda>r. cm_gateway_id r \<noteq> g) (commands d') = filter (\<lambda>r. cm_gateway_id r \<noteq> g) (commands d) \<and>
      filter (\<lambda>r. te_gateway_id r \<noteq> g) (telemetry d') = filter (\<lambda>r. te_gateway_id r \<noteq> g) (telemetry d) \<and>
      filter (\<lambda>r. tl_gateway_id r \<noteq> g) (telemetry_latest d') =
        filter (\<lambda>r. tl_gateway_id r \<noteq> g) (telemetry_latest d))"

lemma touches_refl [intro, simp]: "touches_only g d d"
  by (simp add: touches_only_def)

lemma touches_trans: "touches_only g d d' \<Longrightarrow> touches_only g d' d'' \<Longrightarrow> touches_only g d d''"
  by (simp add: touches_only_def)

lemma filter_modify_key:
  assumes "\<And>r. r \<in> set rows \<Longrightarrow> key r = k \<Longrightarrow> \<not> p r \<and> \<not> p (f r)"
  shows "filter p (modify key k f rows) = filter p rows"
  using assms by (induction rows) auto

lemma save_gateway_touches:
  assumes "save_gateway g' d = Inr d'" "wf_db d" "fetch gw_id (gw_id g') (gateways d) = Some g0"
    "gw_serial_number g' = gw_serial_number g0"
  shows "touches_only (gw_id g') d d'"
proof -
  have u: "unique_key gw_id (gateways d)" using assms(2) by (simp add: wf_db_def keys_ok_def)
  have g0: "g0 \<in> set (gateways d)" "gw_id g0 = gw_id g'" using fetch_SomeD [OF assms(3)] by simp_all
  have "map gw_serial_number (modify gw_id (gw_id g') (\<lambda>_. g') (gateways d)) = map gw_serial_number (gateways d)"
  proof (rule map_modify_const)
    fix r assume r: "r \<in> set (gateways d)" "gw_id r = gw_id g'"
    have "r = g0" by (rule unique_key_eq [OF u r(1) g0(1)]) (simp add: r(2) g0(2))
    then show "gw_serial_number g' = gw_serial_number r" using assms(4) by simp
  qed
  then show ?thesis
    using assms(1) by (auto simp: save_gateway_def touches_only_def intro!: filter_modify_key)
qed

lemma save_command_touches:
  assumes "save_command c' d = Inr d'" "wf_db d" "fetch cm_id (cm_id c') (commands d) = Some c0"
    "cm_gateway_id c' = cm_gateway_id c0" "cm_gateway_id c0 = g"
  shows "touches_only g d d'"
proof -
  have u: "unique_key cm_id (commands d)" using assms(2) by (simp add: wf_db_def keys_ok_def)
  have c0: "c0 \<in> set (commands d)" "cm_id c0 = cm_id c'" using fetch_SomeD [OF assms(3)] by simp_all
  have "filter (\<lambda>r. cm_gateway_id r \<noteq> g) (modify cm_id (cm_id c') (\<lambda>_. c') (commands d)) =
    filter (\<lambda>r. cm_gateway_id r \<noteq> g) (commands d)"
  proof (rule filter_modify_key)
    fix r assume r: "r \<in> set (commands d)" "cm_id r = cm_id c'"
    have "r = c0" by (rule unique_key_eq [OF u r(1) c0(1)]) (simp add: r(2) c0(2))
    then show "\<not> cm_gateway_id r \<noteq> g \<and> \<not> cm_gateway_id c' \<noteq> g" using assms(4,5) by simp
  qed
  then show ?thesis using assms(1) by (auto simp: save_command_def touches_only_def)
qed

lemma insert_telemetry_touches:
  "insert_telemetry r d = Inr d' \<Longrightarrow> touches_only (te_gateway_id r) d d'"
  by (auto simp: insert_telemetry_def touches_only_def)

lemma upsert_latest_touches:
  assumes "upsert_latest n d = Inr d'"
  shows "touches_only (tl_gateway_id n) d d'"
proof -
  have "filter (\<lambda>r. tl_gateway_id r \<noteq> tl_gateway_id n)
      (modify latest_key (latest_key n) (overwrite_latest n) (telemetry_latest d)) =
    filter (\<lambda>r. tl_gateway_id r \<noteq> tl_gateway_id n) (telemetry_latest d)"
    by (rule filter_modify_key) (auto simp: latest_key_def overwrite_latest_def)
  then show ?thesis using assms by (auto simp: upsert_latest_def touches_only_def)
qed

text \<open>The telemetry statements leave the gateway and command tables alone.\<close>

lemma store_value_Inr:
  assumes "store_value gw ts ch v d = Inr d'"
  obtains (skipped) "d' = d"
    | (stored) k x un q d1 val where "k \<noteq> []" "jget v ''measurement_key'' (JStr []) = Inr (JStr k)"
        "insert_telemetry (telemetry_row_of gw ch k ts x un q v) d = Inr d1"
        "upsert_latest (latest_row_of gw ch k ts x un q) d1 = Inr d'"
        "jget v ''value'' JNull = Inr val" "float_or_none val = Inr x"
proof -
  obtain key val unit quality where j: "jget v ''measurement_key'' (JStr []) = Inr key"
    "jget v ''value'' JNull = Inr val" "jget v ''unit'' JNull = Inr unit" "jget v ''quality'' (JStr ''good'') = Inr quality"
    using assms by (auto simp: store_value_def split: sum.splits)
  show ?thesis
  proof (cases "truthy key")
    case False
    with assms j show ?thesis by (intro skipped) (simp add: store_value_def)
  next
    case True
    with assms j obtain k x un q d1 where b: "bind_text None key = Inr (Some k)"
      "insert_telemetry (telemetry_row_of gw ch k ts x un q v) d = Inr d1"
      "upsert_latest (latest_row_of gw ch k ts x un q) d1 = Inr d'" "float_or_none val = Inr x"
      by (auto simp: store_value_def split: sum.splits option.splits)
    have "key = JStr k" using b(1) by (auto simp: bind_text_def split: json.splits if_splits)
    with True j(1,2) b show ?thesis by (intro stored) auto
  qed
qed

lemma store_value_effect:
  assumes "store_value gw ts ch v d = Inr d'"
  shows "touches_only (gw_id gw) d d' \<and> gateways d' = gateways d \<and> commands d' = commands d \<and> (wf_db d \<longrightarrow> wf_db d')"
  using assms
proof (cases rule: store_value_Inr)
  case (stored k x un q d1)
  from insert_telemetry_touches [OF stored(3)] upsert_latest_touches [OF stored(4)]
  have "touches_only (gw_id gw) d d'"
    by (auto simp: telemetry_row_of_def latest_row_of_def intro: touches_trans)
  moreover have "gateways d' = gateways d \<and> commands d' = commands d"
    using stored(3,4) by (auto simp: insert_telemetry_def upsert_latest_def)
  ultimately show ?thesis using stored(3,4) insert_telemetry_wf upsert_latest_wf by blast
qed simp

lemma telemetry_value_Inr:
  assumes "telemetry_value clk gw ts v d c = (Inr d', c')"
  obtains (skipped) "d' = d" | (stored) ch where "store_value gw ts ch v d = Inr d'"
  using assms by (auto simp: telemetry_value_def split: sum.splits json.splits if_splits prod.splits option.splits)

lemma telemetry_values_effect:
  "telemetry_values clk gw ts vs d c = (Inr d', c') \<Longrightarrow>
   touches_only (gw_id gw) d d' \<and> gateways d' = gateways d \<and> commands d' = commands d \<and> (wf_db d \<longrightarrow> wf_db d')"
proof (induction vs arbitrary: d c)
  case (Cons v vs)
  then obtain d1 c1 where v: "telemetry_value clk gw ts v d c = (Inr d1, c1)"
    and vs: "telemetry_values clk gw ts vs d1 c1 = (Inr d', c')"
    by (auto split: sum.splits prod.splits)
  from v have "touches_only (gw_id gw) d d1 \<and> gateways d1 = gateways d \<and> commands d1 = commands d \<and> (wf_db d \<longrightarrow> wf_db d1)"
  proof (cases rule: telemetry_value_Inr)
    case (stored ch)
    then show ?thesis by (rule store_value_effect)
  qed simp
  with Cons.IH [OF vs] show ?case using touches_trans by auto
qed auto

lemma telemetry_handle_Inr:
  assumes "telemetry_handle clk now g body d c = (Inr d', c')"
  obtains (ignored) "d' = d"
    | (stored) vs ts gw xs d1 where "parse_iso8601 now (case jfield body ''timestamp'' of None \<Rightarrow> JNull | Some v \<Rightarrow> v) = Inr ts"
        "fetch gw_id g (gateways d) = Some gw" "jfield body ''values'' = Some vs" "py_iter vs = Inr xs"
        "telemetry_values clk gw ts xs d c = (Inr d1, c')" "save_gateway (seen_online ts gw) d1 = Inr d'"
proof -
  obtain kvs where b: "body = JObj kvs"
    using assms by (cases body) (auto simp: telemetry_handle_def)
  show ?thesis
  proof (cases "d' = d")
    case False
    with assms b show ?thesis
      by (auto simp: telemetry_handle_def py_or_def Let_def intro: stored
          split: sum.splits option.splits if_splits prod.splits)
  qed (rule ignored)
qed


text \<open>What one message does to the rows of its gateway.\<close>

lemma seen_online_simps [simp]:
  "gw_id (seen_online ts gw) = gw_id gw" "gw_serial_number (seen_online ts gw) = gw_serial_number gw"
  "gw_last_seen_at (seen_online ts gw) = Some ts" "gw_status (seen_online ts gw) = ''online''"
  by (simp_all add: seen_online_def)

lemma save_gateway_effect:
  assumes "save_gateway g' d = Inr d'" "wf_db d" "fetch gw_id g (gateways d) = Some g0"
    "gw_id g' = gw_id g0" "gw_serial_number g' = gw_serial_number g0"
  shows "wf_db d' \<and> touches_only g d d'"
proof -
  have g: "gw_id g0 = g" using assms(3) by (rule fetch_Some_key)
  have f: "fetch gw_id (gw_id g') (gateways d) = Some g0" using assms(3,4) g by simp
  show ?thesis
    using save_gateway_wf [OF assms(1,2) f assms(5)] save_gateway_touches [OF assms(1,2) f assms(5)] assms(4) g
    by simp
qed

lemma telemetry_effect:
  assumes "telemetry_handle clk now g body d c = (Inr d', c')" "wf_db d"
  shows "wf_db d' \<and> touches_only g d d'"
  using assms(1)
proof (cases rule: telemetry_handle_Inr)
  case (stored vs ts gw xs d1)
  have g: "gw_id gw = g" using stored(2) by (rule fetch_Some_key)
  from telemetry_values_effect [OF stored(5)] assms(2) g
  have t: "touches_only g d d1" "gateways d1 = gateways d" "wf_db d1" by auto
  have "fetch gw_id g (gateways d1) = Some gw" using stored(2) t(2) by simp
  from save_gateway_effect [OF stored(6) t(3) this] touches_trans [OF t(1)] show ?thesis by simp
qed (use assms(2) in simp)

lemma heartbeat_effect:
  assumes "heartbeat_handle now g body d = Inr d'" "wf_db d"
  shows "wf_db d' \<and> touches_only g d d'"
proof (cases "fetch gw_id g (gateways d)")
  case (Some gw)
  with assms(1) obtain gw' where s: "save_gateway gw' d = Inr d'" "gw_id gw' = gw_id gw"
    "gw_serial_number gw' = gw_serial_number gw"
    by (auto simp: heartbeat_handle_def split: sum.splits)
  show ?thesis by (rule save_gateway_effect [OF s(1) assms(2) Some s(2,3)])
qed (use assms in \<open>simp add: heartbeat_handle_def\<close>)

lemma state_effect:
  assumes "state_handle now g body d = Inr d'" "wf_db d"
  shows "wf_db d' \<and> touches_only g d d'"
proof (cases "fetch gw_id g (gateways d)")
  case (Some gw)
  with assms(1) obtain gw' where s: "save_gateway gw' d = Inr d'" "gw_id gw' = gw_id gw"
    "gw_serial_number gw' = gw_serial_number gw"
    by (auto simp: state_handle_def split: sum.splits)
  show ?thesis by (rule save_gateway_effect [OF s(1) assms(2) Some s(2,3)])
qed (use assms in \<open>simp add: state_handle_def\<close>)

lemma get_command_row_Some:
  assumes "get_command_row v d = Inr (Some cmd)"
  obtains s where "fetch cm_id s (commands d) = Some cmd" "pk_ident v = Inr (JStr s)"
  using assms by (auto simp: get_command_row_def split: sum.splits json.splits if_splits)

lemma command_response_Inr:
  assumes "command_response_handle now g body d = Inr d'"
  obtains (ignored) "d' = d"
    | (stored) v cmd s ts where "jget body ''command_id'' JNull = Inr v" "get_command_row v d = Inr (Some cmd)"
        "cm_gateway_id cmd = g" "save_command (answered body s ts cmd) d = Inr d'"
        "jget body ''status'' (JStr ''executed'') = Inr (JStr s)"
proof (cases "d' = d")
  case False
  with assms show ?thesis
    by (auto simp: command_response_handle_def bind_text_def intro: stored split: sum.splits option.splits json.splits if_splits)
qed (rule ignored)

lemma command_response_effect:
  assumes "command_response_handle now g body d = Inr d'" "wf_db d"
  shows "wf_db d' \<and> touches_only g d d'"
  using assms(1)
proof (cases rule: command_response_Inr)
  case (stored v cmd s ts)
  obtain k where k: "fetch cm_id k (commands d) = Some cmd" using stored(2) by (rule get_command_row_Some)
  then have "cm_id cmd = k" by (rule fetch_Some_key)
  then have f: "fetch cm_id (cm_id (answered body s ts cmd)) (commands d) = Some cmd"
    using k by (simp add: answered_def)
  from save_command_wf [OF stored(4) assms(2) f] save_command_touches [OF stored(4) assms(2) f]
  show ?thesis using stored(3) by (simp add: answered_def)
qed (use assms(2) in simp)

section \<open>The contract of a handler\<close>

text \<open>
  A handler run in a session of its own: an exception rolls the session back. Whatever a
  conforming handler does, the database stays well formed and other gateways' rows stay.
\<close>

locale message_handler =
  fixes handle :: "instant \<Rightarrow> uuid \<Rightarrow> json \<Rightarrow> db \<Rightarrow> worker_cache \<Rightarrow> (exn + db) \<times> worker_cache"
  assumes effect: "handle now g body d c = (Inr d', c') \<Longrightarrow> wf_db d \<Longrightarrow> wf_db d' \<and> touches_only g d d'"
begin

definition committed :: "instant \<Rightarrow> uuid \<Rightarrow> json \<Rightarrow> db \<Rightarrow> worker_cache \<Rightarrow> db" where
  "committed now g body d c = (case fst (handle now g body d c) of Inl _ \<Rightarrow> d | Inr d' \<Rightarrow> d')"

lemma committed_wf: "wf_db d \<Longrightarrow> wf_db (committed now g body d c)"
  using effect [of now g body d c] by (cases "handle now g body d c") (auto simp: committed_def split: sum.splits)

lemma committed_isolated: "wf_db d \<Longrightarrow> touches_only g d (committed now g body d c)"
  using effect [of now g body d c] by (cases "handle now g body d c") (auto simp: committed_def split: sum.splits)

lemma other_gateway_unchanged:
  assumes "wf_db d" "h \<noteq> g"
  shows "fetch gw_id h (gateways (committed now g body d c)) = fetch gw_id h (gateways d)"
proof -
  have f: "fetch gw_id h rows = fetch gw_id h (filter (\<lambda>r. gw_id r \<noteq> g) rows)" for rows
    using assms(2) by (induction rows) auto
  from committed_isolated [OF assms(1)] show ?thesis
    by (simp add: f [of "gateways (committed now g body d c)"] f [of "gateways d"] touches_only_def)
qed

end

interpretation telemetry: message_handler "telemetry_handle clk" for clk
  by unfold_locales (rule telemetry_effect)

interpretation heartbeat: message_handler "\<lambda>now g body d c. (heartbeat_handle now g body d, c)"
  by unfold_locales (auto dest: heartbeat_effect)

interpretation state: message_handler "\<lambda>now g body d c. (state_handle now g body d, c)"
  by unfold_locales (auto dest: state_effect)

interpretation response: message_handler "\<lambda>now g body d c. (command_response_handle now g body d, c)"
  by unfold_locales (auto dest: command_response_effect)

end
