(* ===== verification/Schemas.thy ===== *)
theory Schemas
  imports Store
begin

text \<open>
  The request and response DTOs of \<open>server/app/schemas.py\<close>. A DTO is a record, an Out class
  that inherits from an In class extends its record, a \<open>Literal\<close> is a datatype with its string.
  \<open>*_valid\<close> is what pydantic checks beyond the field types: \<open>dict[str, Any]\<close> is a \<open>json\<close> here and
  must be an object. \<open>*_out\<close> builds the response from a row (\<open>from_attributes\<close>) and fails, as a
  response validation error (\<open>ValueError\<close>), where the row's string is no value of the \<open>Literal\<close> or no
  slug, or where its JSON is not an object.
\<close>

section \<open>JSON fields\<close>

fun is_obj :: "json \<Rightarrow> bool" where
  "is_obj (JObj _) = True"
| "is_obj _ = False"

definition obj_or_none :: "json option \<Rightarrow> bool" where
  "obj_or_none x = (case x of None \<Rightarrow> True | Some v \<Rightarrow> is_obj v)"

text \<open>What \<open>json.dumps(..., allow_nan=False)\<close> of the response accepts.\<close>

fun finite_float :: "pyfloat \<Rightarrow> bool" where
  "finite_float (Fin _ _ _) = True"
| "finite_float _ = False"

fun json_finite :: "json \<Rightarrow> bool" where
  "json_finite (JFloat f) = finite_float f"
| "json_finite (JArr xs) = list_all json_finite xs"
| "json_finite (JObj kvs) = list_all (\<lambda>kv. json_finite (snd kv)) kvs"
| "json_finite _ = True"

lemma jsonb_ok_finite: "jsonb_ok j \<Longrightarrow> json_finite j"
proof (induction j rule: jsonb_ok.induct)
  case (5 kvs)
  then show ?case by (fastforce simp: list_all_iff)
qed (auto simp: list_all_iff)

section \<open>Slugs and literals\<close>

definition slug_str :: "string \<Rightarrow> bool" where
  "slug_str s = (1 \<le> length s \<and> length s \<le> 64 \<and> slug_pattern s)"

datatype company_type = Management | Customer

fun company_type_str :: "company_type \<Rightarrow> string" where
  "company_type_str Management = ''management''"
| "company_type_str Customer = ''customer''"

datatype actuator_type = Relay | Valve | Pump | Ssr

fun actuator_type_str :: "actuator_type \<Rightarrow> string" where
  "actuator_type_str Relay = ''relay''"
| "actuator_type_str Valve = ''valve''"
| "actuator_type_str Pump = ''pump''"
| "actuator_type_str Ssr = ''ssr''"

datatype action = ON | OFF

fun action_str :: "action \<Rightarrow> string" where
  "action_str ON = ''ON''"
| "action_str OFF = ''OFF''"

text \<open>Reading a \<open>Literal\<close>: the member with that string.\<close>

definition of_literal :: "('a \<Rightarrow> string) \<Rightarrow> 'a list \<Rightarrow> string \<Rightarrow> exn + 'a" where
  "of_literal f members s = (case find (\<lambda>x. f x = s) members of None \<Rightarrow> Inl ValueError | Some x \<Rightarrow> Inr x)"

section \<open>Companies and sites\<close>

record company_in =
  cin_name :: string
  cin_company_type :: company_type
  cin_status :: string

record company_out = company_in +
  cout_id :: uuid
  cout_created_at :: instant

definition to_company_out :: "company \<Rightarrow> exn + company_out" where
  "to_company_out c =
     (case of_literal company_type_str [Management, Customer] (co_type c) of
        Inl e \<Rightarrow> Inl e
      | Inr t \<Rightarrow> Inr \<lparr>cin_name = co_name c, cin_company_type = t, cin_status = co_status c,
                    cout_id = co_id c, cout_created_at = co_created_at c\<rparr>)"

record site_in =
  sin_company_id :: uuid
  sin_name :: string
  sin_address :: "string option"
  sin_latitude :: "pyfloat option"
  sin_longitude :: "pyfloat option"

record site_out = site_in +
  sout_id :: uuid
  sout_created_at :: instant

definition to_site_out :: "site \<Rightarrow> site_out" where
  "to_site_out s = \<lparr>sin_company_id = st_company_id s, sin_name = st_name s, sin_address = st_address s,
     sin_latitude = st_latitude s, sin_longitude = st_longitude s, sout_id = st_id s,
     sout_created_at = st_created_at s\<rparr>"

section \<open>Gateways\<close>

record gateway_in =
  gin_serial_number :: string
  gin_name :: string
  gin_company_id :: uuid
  gin_site_id :: "uuid option"
  gin_gateway_profile_id :: "uuid option"

definition gateway_in_valid :: "gateway_in \<Rightarrow> bool" where
  "gateway_in_valid b = slug_str (gin_serial_number b)"

text \<open>A patch field is \<open>None\<close> when the body leaves it out and \<open>Some None\<close> when it is null.\<close>

record gateway_patch =
  pat_name :: "string option option"
  pat_site_id :: "uuid option option"
  pat_gateway_profile_id :: "uuid option option"
  pat_status :: "string option option"
  pat_firmware_version :: "string option option"
  pat_app_version :: "string option option"

record gateway_out =
  gout_id :: uuid
  gout_serial_number :: string
  gout_name :: string
  gout_company_id :: uuid
  gout_site_id :: "uuid option"
  gout_gateway_profile_id :: "uuid option"
  gout_status :: string
  gout_firmware_version :: "string option"
  gout_app_version :: "string option"
  gout_config_version :: int
  gout_last_seen_at :: "instant option"
  gout_registered_at :: instant

definition to_gateway_out :: "gateway \<Rightarrow> gateway_out" where
  "to_gateway_out g = \<lparr>gout_id = gw_id g, gout_serial_number = gw_serial_number g, gout_name = gw_name g,
     gout_company_id = gw_company_id g, gout_site_id = gw_site_id g,
     gout_gateway_profile_id = gw_gateway_profile_id g, gout_status = gw_status g,
     gout_firmware_version = gw_firmware_version g, gout_app_version = gw_app_version g,
     gout_config_version = gw_config_version g, gout_last_seen_at = gw_last_seen_at g,
     gout_registered_at = gw_registered_at g\<rparr>"

section \<open>Sensor profiles and channels\<close>

record sensor_profile_in =
  pin_name :: string
  pin_vendor :: "string option"
  pin_model :: "string option"
  pin_protocol :: string
  pin_description :: "string option"
  pin_profile_schema :: json
  pin_enabled :: bool

record sensor_profile_out = sensor_profile_in +
  pout_id :: uuid
  pout_created_at :: instant

definition sensor_profile_in_valid :: "sensor_profile_in \<Rightarrow> bool" where
  "sensor_profile_in_valid b = is_obj (pin_profile_schema b)"

definition to_sensor_profile_out :: "sensor_profile \<Rightarrow> exn + sensor_profile_out" where
  "to_sensor_profile_out p =
     (if is_obj (sp_profile_schema p)
      then Inr \<lparr>pin_name = sp_name p, pin_vendor = sp_vendor p, pin_model = sp_model p,
        pin_protocol = sp_protocol p, pin_description = sp_description p,
        pin_profile_schema = sp_profile_schema p, pin_enabled = sp_enabled p, pout_id = sp_id p,
        pout_created_at = sp_created_at p\<rparr>
      else Inl ValueError)"

record sensor_channel_in =
  scin_slug :: string
  scin_sensor_profile_id :: uuid
  scin_display_name :: string
  scin_interface_name :: string
  scin_protocol :: string
  scin_address :: "string option"
  scin_slave_id :: "int option"
  scin_polling_interval_sec :: int
  scin_enabled :: bool
  scin_config :: "json option"

record sensor_channel_out = sensor_channel_in +
  scout_id :: uuid
  scout_gateway_id :: uuid
  scout_created_at :: instant

definition sensor_channel_in_valid :: "sensor_channel_in \<Rightarrow> bool" where
  "sensor_channel_in_valid b = (slug_str (scin_slug b) \<and> obj_or_none (scin_config b))"

definition to_sensor_channel_out :: "sensor_channel \<Rightarrow> exn + sensor_channel_out" where
  "to_sensor_channel_out c =
     (if slug_str (sc_slug c) \<and> obj_or_none (sc_config c)
      then Inr \<lparr>scin_slug = sc_slug c, scin_sensor_profile_id = sc_sensor_profile_id c,
        scin_display_name = sc_display_name c, scin_interface_name = sc_interface_name c,
        scin_protocol = sc_protocol c, scin_address = sc_address c, scin_slave_id = sc_slave_id c,
        scin_polling_interval_sec = sc_polling_interval_sec c, scin_enabled = sc_enabled c,
        scin_config = sc_config c, scout_id = sc_id c, scout_gateway_id = sc_gateway_id c,
        scout_created_at = sc_created_at c\<rparr>
      else Inl ValueError)"

section \<open>Actuator channels\<close>

record actuator_channel_in =
  acin_slug :: string
  acin_display_name :: string
  acin_actuator_type :: actuator_type
  acin_hardware_channel :: string
  acin_default_state :: string
  acin_enabled :: bool
  acin_safety_config :: "json option"

record actuator_channel_out = actuator_channel_in +
  acout_id :: uuid
  acout_gateway_id :: uuid
  acout_current_state :: "string option"
  acout_created_at :: instant

definition actuator_channel_in_valid :: "actuator_channel_in \<Rightarrow> bool" where
  "actuator_channel_in_valid b = (slug_str (acin_slug b) \<and> obj_or_none (acin_safety_config b))"

definition to_actuator_channel_out :: "actuator_channel \<Rightarrow> exn + actuator_channel_out" where
  "to_actuator_channel_out c =
     (if \<not> slug_str (ac_slug c) \<or> \<not> obj_or_none (ac_safety_config c) then Inl ValueError
      else case of_literal actuator_type_str [Relay, Valve, Pump, Ssr] (ac_actuator_type c) of
        Inl e \<Rightarrow> Inl e
      | Inr t \<Rightarrow> Inr \<lparr>acin_slug = ac_slug c, acin_display_name = ac_display_name c,
          acin_actuator_type = t, acin_hardware_channel = ac_hardware_channel c,
          acin_default_state = ac_default_state c, acin_enabled = ac_enabled c,
          acin_safety_config = ac_safety_config c, acout_id = ac_id c,
          acout_gateway_id = ac_gateway_id c, acout_current_state = ac_current_state c,
          acout_created_at = ac_created_at c\<rparr>)"

section \<open>Commands and telemetry\<close>

record command_in =
  cmin_actuator_channel_id :: uuid
  cmin_action :: action
  cmin_expires_in_sec :: int
  cmin_timeout_ms :: int
  cmin_require_ack :: bool
  cmin_reason :: "string option"

record command_out =
  cmout_id :: string
  cmout_gateway_id :: uuid
  cmout_actuator_channel_id :: "uuid option"
  cmout_action :: string
  cmout_issued_at :: instant
  cmout_expires_at :: instant
  cmout_status :: string
  cmout_response :: "json option"
  cmout_completed_at :: "instant option"

definition to_command_out :: "command \<Rightarrow> exn + command_out" where
  "to_command_out c =
     (if obj_or_none (cm_response c)
      then Inr \<lparr>cmout_id = cm_id c, cmout_gateway_id = cm_gateway_id c,
        cmout_actuator_channel_id = cm_actuator_channel_id c, cmout_action = cm_action c,
        cmout_issued_at = cm_issued_at c, cmout_expires_at = cm_expires_at c, cmout_status = cm_status c,
        cmout_response = cm_response c, cmout_completed_at = cm_completed_at c\<rparr>
      else Inl ValueError)"

record telemetry_latest_out =
  tlout_gateway_id :: uuid
  tlout_sensor_channel_id :: uuid
  tlout_measurement_key :: string
  tlout_ts :: instant
  tlout_value_double :: "pyfloat option"
  tlout_value_text :: "string option"
  tlout_value_bool :: "bool option"
  tlout_unit :: "string option"
  tlout_quality :: "string option"

definition to_telemetry_latest_out :: "latest_row \<Rightarrow> telemetry_latest_out" where
  "to_telemetry_latest_out r = \<lparr>tlout_gateway_id = tl_gateway_id r,
     tlout_sensor_channel_id = tl_sensor_channel_id r, tlout_measurement_key = tl_measurement_key r,
     tlout_ts = tl_ts r, tlout_value_double = tl_value_double r, tlout_value_text = tl_value_text r,
     tlout_value_bool = tl_value_bool r, tlout_unit = tl_unit r, tlout_quality = tl_quality r\<rparr>"

record telemetry_view =
  tv_ts :: instant
  tv_measurement_key :: string
  tv_value_double :: "pyfloat option"
  tv_unit :: "string option"
  tv_quality :: "string option"

section \<open>Lemmas\<close>

text \<open>The pydantic slug and the database's CHECK and VARCHAR(64) accept the same strings.\<close>

lemma slug_str_serial_check: "slug_str s = serial_check s"
  by (cases s) (auto simp: slug_str_def serial_check_def slug_pattern_def)

lemma slug_text_ok: "slug_str s \<Longrightarrow> text_ok s"
proof -
  have "\<not> slug_char CHR 0x00" by code_simp
  then show "slug_str s \<Longrightarrow> text_ok s"
    by (auto simp: slug_str_def slug_pattern_def text_ok_def list_all_iff)
qed

lemma slug_varchar: "slug_str s \<Longrightarrow> varchar_ok 64 s"
  using slug_text_ok [of s] by (simp add: varchar_ok_def slug_str_def)

lemma of_literal_company [simp]:
  "of_literal company_type_str [Management, Customer] (company_type_str t) = Inr t"
  by (cases t) (simp_all add: of_literal_def)

lemma of_literal_actuator [simp]:
  "of_literal actuator_type_str [Relay, Valve, Pump, Ssr] (actuator_type_str t) = Inr t"
  by (cases t) (simp_all add: of_literal_def)

end
