(* ===== verification/Gateways.thy ===== *)
theory Gateways
  imports Schemas Auth
begin

text \<open>
  \<open>server/app/routers/gateways.py\<close>: the permission check every other router calls, and the
  endpoints of \<open>/gateways\<close>. An endpoint takes the authenticated user and the database and gives
  its result or exception with the database it leaves: \<open>in_session\<close> is the request's session,
  whose uncommitted work is rolled back by an exception. Fresh UUIDs and the clock are
  arguments. \<open>guarded\<close> is the contract of an endpoint that starts with a permission check.
\<close>

definition in_session :: "exn + 'a \<times> db \<Rightarrow> db \<Rightarrow> (exn + 'a) \<times> db" where
  "in_session r d = (case r of Inl e \<Rightarrow> (Inl e, d) | Inr (a, d') \<Rightarrow> (Inr a, d'))"

lemma in_session_simps [simp]:
  "in_session (Inl e) d = (Inl e, d)"
  "in_session (Inr (a, d')) d = (Inr a, d')"
  by (simp_all add: in_session_def)

definition HTTP_404 :: exn where "HTTP_404 = HTTPException 404"
definition HTTP_503 :: exn where "HTTP_503 = HTTPException 503"

section \<open>Permission check\<close>

definition grants :: "user \<Rightarrow> uuid \<Rightarrow> string \<Rightarrow> permission \<Rightarrow> bool" where
  "grants u g required p =
     (pm_user_id p = us_id u \<and> pm_gateway_id p = g \<and>
      (pm_permission p = required \<or> pm_permission p = ''admin''))"

definition check_perm :: "user \<Rightarrow> uuid \<Rightarrow> string \<Rightarrow> db \<Rightarrow> exn + gateway" where
  "check_perm u g required d =
     (case fetch gw_id g (gateways d) of
        None \<Rightarrow> Inl HTTP_404
      | Some gw \<Rightarrow>
          (case scalar_one_or_none (filter (grants u g required) (permissions d)) of
             Inl e \<Rightarrow> Inl e
           | Inr None \<Rightarrow> Inl HTTP_403
           | Inr (Some _) \<Rightarrow> Inr gw))"

text \<open>The abstract specification: which permissions a user holds on a gateway.\<close>

definition holds :: "user \<Rightarrow> uuid \<Rightarrow> string \<Rightarrow> db \<Rightarrow> bool" where
  "holds u g p d = list_ex (\<lambda>r. pm_user_id r = us_id u \<and> pm_gateway_id r = g \<and> pm_permission r = p) (permissions d)"

lemma holds_iff: "holds u g p d \<longleftrightarrow> (us_id u, g, p) \<in> perm_key ` set (permissions d)"
  by (auto simp: holds_def list_ex_iff perm_key_def image_iff) metis

lemma filter_grants_length:
  assumes "unique_key perm_key (permissions d)"
  shows "length (filter (grants u g required) (permissions d)) =
    (if required = ''admin'' then (if holds u g ''admin'' d then 1 else 0)
     else (if holds u g required d then 1 else 0) + (if holds u g ''admin'' d then 1 else 0))"
proof -
  have one: "length (filter (\<lambda>r. perm_key r = (us_id u, g, p)) (permissions d)) = (if holds u g p d then 1 else 0)" for p
    using unique_key_filter_one [OF assms, of "(us_id u, g, p)"]
    by (auto simp: holds_iff fetch_None_iff split: option.splits dest: fetch_SomeD)
  have sum: "length (filter (\<lambda>r. A r \<or> B r) xs) = length (filter A xs) + length (filter B xs)"
    if "\<And>r. \<not> (A r \<and> B r)" for A B and xs :: "permission list"
    using that by (induction xs) auto
  have "grants u g required = (\<lambda>r. perm_key r = (us_id u, g, required) \<or> perm_key r = (us_id u, g, ''admin''))"
    by (auto simp: grants_def perm_key_def fun_eq_iff)
  then show ?thesis
    using sum [of "\<lambda>r. perm_key r = (us_id u, g, required)" "\<lambda>r. perm_key r = (us_id u, g, ''admin'')" "permissions d"]
      one [of required] one [of "''admin''"]
    by (cases "required = ''admin''") simp_all
qed

lemma scalar_length:
  "scalar_one_or_none xs = Inr None \<longleftrightarrow> length xs = 0"
  "(\<exists>x. scalar_one_or_none xs = Inr (Some x)) \<longleftrightarrow> length xs = 1"
  "scalar_one_or_none xs = Inl e \<longleftrightarrow> e = MultipleResultsFound \<and> 1 < length xs"
  by (auto simp: scalar_one_or_none_def length_Suc_conv split: list.splits)

text \<open>Every outcome of the check, in terms of what the user holds.\<close>

lemma check_perm_cases:
  assumes "unique_key perm_key (permissions d)"
  shows "check_perm u g required d =
    (case fetch gw_id g (gateways d) of
       None \<Rightarrow> Inl HTTP_404
     | Some gw \<Rightarrow>
         if \<not> holds u g required d \<and> \<not> holds u g ''admin'' d then Inl HTTP_403
         else if required \<noteq> ''admin'' \<and> holds u g required d \<and> holds u g ''admin'' d
           then Inl MultipleResultsFound
         else Inr gw)"
proof (cases "fetch gw_id g (gateways d)")
  case (Some gw)
  let ?f = "filter (grants u g required) (permissions d)"
  note len = filter_grants_length [OF assms, of u g required]
  consider "length ?f = 0" | "length ?f = 1" | "1 < length ?f" by linarith
  then show ?thesis
  proof cases
    case 1
    from 1 [unfolded len] have "\<not> holds u g required d \<and> \<not> holds u g ''admin'' d" by (simp split: if_splits)
    moreover from 1 have "scalar_one_or_none ?f = Inr None" by (simp only: scalar_length)
    ultimately show ?thesis using Some by (simp add: check_perm_def)
  next
    case 2
    from 2 [unfolded len] have "(holds u g required d \<or> holds u g ''admin'' d) \<and>
      (required = ''admin'' \<or> \<not> holds u g required d \<or> \<not> holds u g ''admin'' d)"
      by (simp split: if_splits)
    moreover from 2 have "\<exists>x. scalar_one_or_none ?f = Inr (Some x)" by (simp only: scalar_length(2))
    ultimately show ?thesis using Some by (auto simp: check_perm_def)
  next
    case 3
    from 3 [unfolded len] have "required \<noteq> ''admin'' \<and> holds u g required d \<and> holds u g ''admin'' d"
      by (simp split: if_splits)
    moreover from 3 have "scalar_one_or_none ?f = Inl MultipleResultsFound" by (simp only: scalar_length)
    ultimately show ?thesis using Some by (simp add: check_perm_def)
  qed
qed (simp add: check_perm_def)

lemma check_perm_gateway: "check_perm u g required d = Inr gw \<Longrightarrow> fetch gw_id g (gateways d) = Some gw"
  by (auto simp: check_perm_def split: option.splits sum.splits)

section \<open>Endpoints\<close>

definition new_gateway :: "uuid \<Rightarrow> instant \<Rightarrow> gateway_in \<Rightarrow> gateway" where
  "new_gateway i now b =
     \<lparr>gw_id = i, gw_serial_number = gin_serial_number b, gw_name = gin_name b,
      gw_company_id = gin_company_id b, gw_site_id = gin_site_id b,
      gw_gateway_profile_id = gin_gateway_profile_id b, gw_status = ''offline'',
      gw_firmware_version = None, gw_app_version = None, gw_config_version = 0,
      gw_last_seen_at = None, gw_registered_at = now\<rparr>"

definition register_gateway ::
  "uuid \<Rightarrow> uuid \<Rightarrow> instant \<Rightarrow> gateway_in \<Rightarrow> user \<Rightarrow> db \<Rightarrow> (exn + gateway) \<times> db" where
  "register_gateway i pi now b u d =
     in_session
       (if \<not> gateway_in_valid b then Inl (HTTPException 422)
        else (let gw = new_gateway i now b;
                  perm = \<lparr>pm_id = pi, pm_user_id = us_id u, pm_gateway_id = i,
                          pm_permission = ''admin'', pm_created_at = now\<rparr>
          in case insert_gateway gw d of
               Inl e \<Rightarrow> Inl e
             | Inr d1 \<Rightarrow>
                 (case insert_permission perm d1 of Inl e \<Rightarrow> Inl e | Inr d2 \<Rightarrow> Inr (gw, d2)))) d"

text \<open>The join with the permissions, \<open>DISTINCT\<close>, newest registration first.\<close>

definition list_gateways :: "user \<Rightarrow> db \<Rightarrow> gateway list" where
  "list_gateways u d =
     sort_key (\<lambda>g. - gw_registered_at g)
       (remdups [g. g \<leftarrow> gateways d, p \<leftarrow> permissions d,
                    pm_gateway_id p = gw_id g \<and> pm_user_id p = us_id u])"

definition get_gateway :: "uuid \<Rightarrow> user \<Rightarrow> db \<Rightarrow> (exn + gateway) \<times> db" where
  "get_gateway g u d = (check_perm u g ''view'' d, d)"

text \<open>
  \<open>setattr\<close> for every field the body sets. A null name or status is refused by the column's NOT
  NULL when the change is flushed.
\<close>

definition set_field :: "'a option \<Rightarrow> 'a \<Rightarrow> 'a" where
  "set_field p old = (case p of None \<Rightarrow> old | Some v \<Rightarrow> v)"

definition set_required :: "'a option option \<Rightarrow> 'a \<Rightarrow> exn + 'a" where
  "set_required p old = (case p of None \<Rightarrow> Inr old | Some None \<Rightarrow> Inl IntegrityError | Some (Some v) \<Rightarrow> Inr v)"

definition apply_patch :: "gateway_patch \<Rightarrow> gateway \<Rightarrow> exn + gateway" where
  "apply_patch p g =
     (case (set_required (pat_name p) (gw_name g), set_required (pat_status p) (gw_status g)) of
        (Inr name, Inr status) \<Rightarrow>
          Inr (g\<lparr>gw_name := name, gw_site_id := set_field (pat_site_id p) (gw_site_id g),
                 gw_gateway_profile_id := set_field (pat_gateway_profile_id p) (gw_gateway_profile_id g),
                 gw_status := status,
                 gw_firmware_version := set_field (pat_firmware_version p) (gw_firmware_version g),
                 gw_app_version := set_field (pat_app_version p) (gw_app_version g)\<rparr>)
      | _ \<Rightarrow> Inl IntegrityError)"

definition update_gateway :: "uuid \<Rightarrow> gateway_patch \<Rightarrow> user \<Rightarrow> db \<Rightarrow> (exn + gateway) \<times> db" where
  "update_gateway g p u d =
     in_session
       (case check_perm u g ''configure'' d of
          Inl e \<Rightarrow> Inl e
        | Inr gw \<Rightarrow>
            (case apply_patch p gw of
               Inl e \<Rightarrow> Inl e
             | Inr gw' \<Rightarrow> (case save_gateway gw' d of Inl e \<Rightarrow> Inl e | Inr d' \<Rightarrow> Inr (gw', d')))) d"

definition delete_gateway :: "uuid \<Rightarrow> user \<Rightarrow> db \<Rightarrow> (exn + unit) \<times> db" where
  "delete_gateway g u d =
     in_session
       (case check_perm u g ''admin'' d of
          Inl e \<Rightarrow> Inl e
        | Inr gw \<Rightarrow> (case delete_gateway_row (gw_id gw) d of Inl e \<Rightarrow> Inl e | Inr d' \<Rightarrow> Inr ((), d'))) d"

record gateway_state =
  gs_gateway_id :: string
  gs_status :: string
  gs_last_seen_at :: "string option"
  gs_firmware_version :: "string option"
  gs_app_version :: "string option"
  gs_config_version :: int
  gs_now :: string

definition get_gateway_state :: "instant \<Rightarrow> uuid \<Rightarrow> user \<Rightarrow> db \<Rightarrow> (exn + gateway_state) \<times> db" where
  "get_gateway_state now g u d =
     (case check_perm u g ''view'' d of
        Inl e \<Rightarrow> Inl e
      | Inr gw \<Rightarrow> Inr \<lparr>gs_gateway_id = uuid_str (gw_id gw), gs_status = gw_status gw,
          gs_last_seen_at = map_option isoformat (gw_last_seen_at gw),
          gs_firmware_version = gw_firmware_version gw, gs_app_version = gw_app_version gw,
          gs_config_version = gw_config_version gw, gs_now = isoformat (utcnow now)\<rparr>, d)"

section \<open>The contract of a guarded endpoint\<close>

text \<open>
  An endpoint on one gateway that first calls \<open>check_perm\<close> with a fixed permission: whoever is
  refused there gets that exception and leaves no trace, and a success means the user holds the
  permission or \<open>admin\<close> on an existing gateway.
\<close>

locale guarded =
  fixes required :: string
    and endpoint :: "uuid \<Rightarrow> user \<Rightarrow> db \<Rightarrow> (exn + 'a) \<times> db"
  assumes refused: "check_perm u g required d = Inl e \<Longrightarrow> endpoint g u d = (Inl e, d)"
begin

lemma success_authorized:
  assumes "endpoint g u d = (Inr a, d')"
  shows "\<exists>gw. fetch gw_id g (gateways d) = Some gw \<and> (holds u g required d \<or> holds u g ''admin'' d)"
proof (cases "check_perm u g required d")
  case (Inl e)
  with refused [OF Inl] assms show ?thesis by simp
next
  case (Inr gw)
  then obtain p where f: "fetch gw_id g (gateways d) = Some gw"
    and p: "filter (grants u g required) (permissions d) = [p]"
    by (auto simp: check_perm_def scalar_one_or_none_Some split: option.splits sum.splits)
  from arg_cong [OF p, of set] have "p \<in> set (permissions d)" "grants u g required p" by auto
  then have "holds u g required d \<or> holds u g ''admin'' d"
    by (auto simp: holds_def grants_def list_ex_iff)
  with f show ?thesis by blast
qed

lemma unauthorized_no_effect:
  assumes "\<not> holds u g required d" "\<not> holds u g ''admin'' d"
  shows "\<exists>e. endpoint g u d = (Inl e, d) \<and> http_status e \<in> {403, 404}"
proof -
  have "filter (grants u g required) (permissions d) = []"
    using assms by (auto simp: holds_def list_ex_iff grants_def filter_empty_conv)
  then have "check_perm u g required d = Inl HTTP_404 \<or> check_perm u g required d = Inl HTTP_403"
    by (auto simp: check_perm_def scalar_one_or_none_def split: option.splits)
  then show ?thesis using refused by (auto simp: HTTP_404_def HTTP_403_def)
qed

end

interpretation get_gw: guarded "''view''" get_gateway
  by unfold_locales (simp add: get_gateway_def)

interpretation update_gw: guarded "''configure''" "\<lambda>g. update_gateway g p" for p
  by unfold_locales (simp add: update_gateway_def)

interpretation delete_gw: guarded "''admin''" delete_gateway
  by unfold_locales (simp add: delete_gateway_def)

interpretation state_gw: guarded "''view''" "get_gateway_state now" for now
  by unfold_locales (simp add: get_gateway_state_def)

section \<open>Invariant and effects\<close>

lemma in_session_wf:
  assumes "in_session r d = (x, d')" "wf_db d" "\<And>a d1. r = Inr (a, d1) \<Longrightarrow> wf_db d1"
  shows "wf_db d'"
  using assms by (cases r) auto

lemma register_gateway_wf:
  assumes "wf_db d" "register_gateway i pi now b u d = (r, d')"
  shows "wf_db d'"
  using assms(2) unfolding register_gateway_def
  by (rule in_session_wf [OF _ assms(1)])
    (auto simp: Let_def split: if_splits sum.splits dest: insert_gateway_wf [OF _ assms(1)] insert_permission_wf)

lemma apply_patch_frame:
  assumes "apply_patch p g = Inr g'"
  shows "gw_id g' = gw_id g" "gw_serial_number g' = gw_serial_number g" "gw_company_id g' = gw_company_id g"
    "gw_config_version g' = gw_config_version g" "gw_last_seen_at g' = gw_last_seen_at g"
  using assms by (auto simp: apply_patch_def split: sum.splits)

lemma apply_patch_exact:
  assumes "apply_patch p g = Inr g'"
  shows "pat_name p \<noteq> Some None" "pat_status p \<noteq> Some None"
    "g' = g\<lparr>gw_name := (case pat_name p of Some (Some x) \<Rightarrow> x | _ \<Rightarrow> gw_name g),
       gw_site_id := (case pat_site_id p of None \<Rightarrow> gw_site_id g | Some x \<Rightarrow> x),
       gw_gateway_profile_id := (case pat_gateway_profile_id p of None \<Rightarrow> gw_gateway_profile_id g | Some x \<Rightarrow> x),
       gw_status := (case pat_status p of Some (Some x) \<Rightarrow> x | _ \<Rightarrow> gw_status g),
       gw_firmware_version := (case pat_firmware_version p of None \<Rightarrow> gw_firmware_version g | Some x \<Rightarrow> x),
       gw_app_version := (case pat_app_version p of None \<Rightarrow> gw_app_version g | Some x \<Rightarrow> x)\<rparr>"
  using assms by (auto simp: apply_patch_def set_required_def set_field_def split: sum.splits option.splits)

lemma update_gateway_wf:
  assumes w: "wf_db d" and u: "update_gateway g p u d = (r, d')"
  shows "wf_db d'"
  using u unfolding update_gateway_def
proof (rule in_session_wf [OF _ w])
  fix a d1
  assume "(case check_perm u g ''configure'' d of Inl e \<Rightarrow> Inl e
    | Inr gw \<Rightarrow> (case apply_patch p gw of Inl e \<Rightarrow> Inl e
      | Inr gw' \<Rightarrow> (case save_gateway gw' d of Inl e \<Rightarrow> Inl e | Inr d' \<Rightarrow> Inr (gw', d')))) = Inr (a, d1)"
  then obtain gw where c: "check_perm u g ''configure'' d = Inr gw" "apply_patch p gw = Inr a"
    "save_gateway a d = Inr d1"
    by (auto split: sum.splits)
  have f: "fetch gw_id g (gateways d) = Some gw" using c(1) by (rule check_perm_gateway)
  then have "gw_id a = g" using apply_patch_frame(1) [OF c(2)] fetch_Some_key by metis
  then show "wf_db d1"
    using save_gateway_wf [OF c(3) w] f apply_patch_frame(2) [OF c(2)] by simp
qed

lemma delete_gateway_wf:
  assumes "wf_db d" "delete_gateway g u d = (r, d')"
  shows "wf_db d'"
  using assms(2) unfolding delete_gateway_def
  by (rule in_session_wf [OF _ assms(1)]) (auto simp: assms(1) intro: table_intros split: sum.splits)

lemma set_list_gateways:
  "set (list_gateways u d) = {g \<in> set (gateways d). \<exists>p \<in> set (permissions d). pm_gateway_id p = gw_id g \<and> pm_user_id p = us_id u}"
  by (auto simp: list_gateways_def)

end
