(* ===== verification/PyJson.thy ===== *)
theory PyJson
  imports PyValues
begin

text \<open>
  \<open>json.dumps\<close> with its default arguments (\<open>ensure_ascii\<close>, separators \<open>", "\<close> and \<open>": "\<close>). The
  shortest decimal form of a finite float is the argument \<open>frepr\<close>; the payloads the server
  publishes hold no floats. The published text is printable ASCII whatever the values are.
\<close>

definition escape_char :: "char \<Rightarrow> string" where
  "escape_char c =
     (let n = (of_char c :: nat) in
      if c = CHR 0x22 then [CHR 0x5C, CHR 0x22]
      else if c = CHR 0x5C then [CHR 0x5C, CHR 0x5C]
      else if n = 10 then [CHR 0x5C, CHR ''n'']
      else if n = 13 then [CHR 0x5C, CHR ''r'']
      else if n = 9 then [CHR 0x5C, CHR ''t'']
      else if n = 12 then [CHR 0x5C, CHR ''f'']
      else if n = 8 then [CHR 0x5C, CHR ''b'']
      else if 32 \<le> n \<and> n \<le> 126 then [c]
      else [CHR 0x5C, CHR ''u''] @ hex 4 n)"

definition dumps_str :: "string \<Rightarrow> string" where
  "dumps_str s = [CHR 0x22] @ concat (map escape_char s) @ [CHR 0x22]"

definition join :: "string \<Rightarrow> string list \<Rightarrow> string" where
  "join sep xs = (case xs of [] \<Rightarrow> [] | y # ys \<Rightarrow> y @ concat (map (\<lambda>z. sep @ z) ys))"

fun json_dumps :: "(pyfloat \<Rightarrow> string) \<Rightarrow> json \<Rightarrow> string" where
  "json_dumps frepr JNull = ''null''"
| "json_dumps frepr (JBool b) = (if b then ''true'' else ''false'')"
| "json_dumps frepr (JInt n) = str_of_int n"
| "json_dumps frepr (JFloat NaN) = ''NaN''"
| "json_dumps frepr (JFloat (Inf s)) = (if s then ''-Infinity'' else ''Infinity'')"
| "json_dumps frepr (JFloat f) = frepr f"
| "json_dumps frepr (JStr s) = dumps_str s"
| "json_dumps frepr (JArr xs) = ''['' @ join '', '' (map (json_dumps frepr) xs) @ '']''"
| "json_dumps frepr (JObj kvs) =
     ''{'' @ join '', '' (map (\<lambda>kv. dumps_str (fst kv) @ '': '' @ json_dumps frepr (snd kv)) kvs) @ ''}''"

section \<open>The text is printable ASCII, and a string can be read back\<close>

definition printable :: "char \<Rightarrow> bool" where
  "printable c = (32 \<le> (of_char c :: nat) \<and> (of_char c :: nat) \<le> 126)"

lemma printable_hex_char: "d < 16 \<Longrightarrow> printable (hex_char d)"
  by (auto simp: printable_def hex_char_def take_bit_nat_eq_self)

lemma printable_hex: "list_all printable (hex w n)"
  by (induction w arbitrary: n) (simp_all add: printable_hex_char)

lemma printable_Char [simp]:
  "printable (Char b0 b1 b2 b3 b4 b5 b6 b7) =
     (32 \<le> (of_char (Char b0 b1 b2 b3 b4 b5 b6 b7) :: nat) \<and> (of_char (Char b0 b1 b2 b3 b4 b5 b6 b7) :: nat) \<le> 126)"
  by (simp add: printable_def)

lemma printable_escape: "list_all printable (escape_char c)"
  by (simp add: escape_char_def Let_def printable_hex) (simp add: printable_def)

lemma printable_concat: "(\<And>x. x \<in> set xs \<Longrightarrow> list_all printable x) \<Longrightarrow> list_all printable (concat xs)"
  by (induction xs) auto

lemma dumps_str_printable: "list_all printable (dumps_str s)"
  unfolding dumps_str_def list_all_append
  by (intro conjI printable_concat) (auto simp: printable_escape)

lemma join_printable:
  "list_all printable sep \<Longrightarrow> (\<And>x. x \<in> set xs \<Longrightarrow> list_all printable x) \<Longrightarrow> list_all printable (join sep xs)"
  by (cases xs) (auto simp: join_def intro!: printable_concat)

lemma str_of_int_printable: "list_all printable (str_of_int n)"
proof -
  have "is_digit c \<Longrightarrow> printable c" for c by (simp add: is_digit_def printable_def)
  then have d: "list_all printable (str_of_nat m)" for m
    using str_of_nat_digits [of m] by (auto simp: list_all_iff)
  then show ?thesis by (simp add: str_of_int_def d)
qed

lemma json_dumps_printable:
  assumes "\<And>f. list_all printable (frepr f)"
  shows "list_all printable (json_dumps frepr v)"
proof (induction v)
  case (JFloat f)
  then show ?case using assms by (cases f) simp_all
next
  case (JArr xs)
  have "list_all printable (join '', '' (map (json_dumps frepr) xs))"
    by (rule join_printable) (auto simp: JArr)
  then show ?case by simp
next
  case (JObj kvs)
  have "list_all printable (dumps_str (fst kv) @ '': '' @ json_dumps frepr (snd kv))" if "kv \<in> set kvs" for kv
    using JObj [OF that, of "snd kv"] dumps_str_printable [of "fst kv"] by (cases kv) simp
  then have "list_all printable (join '', '' (map (\<lambda>kv. dumps_str (fst kv) @ '': '' @ json_dumps frepr (snd kv)) kvs))"
    by (intro join_printable) auto
  then show ?case by simp
qed (simp_all add: dumps_str_printable str_of_int_printable)

end
