(* ===== verification/Commands.thy ===== *)
theory Commands
  imports Gateways PyJson
begin

text \<open>
  \<open>server/app/routers/commands.py\<close> and \<open>publish\<close> of \<open>server/app/mqtt_publisher.py\<close>. Issuing a
  command commits twice: the row is stored as \<open>pending\<close>, the request is published, and the row's
  status is set to \<open>published\<close> in a second transaction. The three phases are definitions of their
  own, since the worker and the scheduler run between them; \<open>issue_command\<close> composes them. The
  broker (what \<open>aiomqtt\<close> raises, if anything) and the database's answer to the second commit are
  arguments. A message is its topic, its payload and its QoS.
\<close>

record message =
  msg_topic :: string
  msg_payload :: string
  msg_qos :: nat
  msg_retain :: bool

section \<open>Publishing\<close>

text \<open>
  \<open>_client\<close> is None outside the application's lifespan; \<open>broker\<close> is the exception the client's
  publish raises. A refused message is not sent.
\<close>

definition publish ::
  "(pyfloat \<Rightarrow> string) \<Rightarrow> bool \<Rightarrow> exn option \<Rightarrow> string \<Rightarrow> json \<Rightarrow> nat \<Rightarrow> bool \<Rightarrow> exn + message" where
  "publish frepr client broker topic payload qos retain =
     (if \<not> client then Inl RuntimeError
      else case broker of
        Some e \<Rightarrow> Inl e
      | None \<Rightarrow> Inr \<lparr>msg_topic = topic, msg_payload = json_dumps frepr payload, msg_qos = qos, msg_retain = retain\<rparr>)"

section \<open>Issuing a command\<close>

definition expiry :: "settings \<Rightarrow> instant \<Rightarrow> int \<Rightarrow> exn + instant" where
  "expiry s now sec =
     (let i = now + (if sec = 0 then command_default_expires_sec s else sec) * 1000000
      in if representable i then Inr i else Inl OverflowError)"

definition command_id :: "instant \<Rightarrow> uuid \<Rightarrow> string" where
  "command_id now r = ''cmd-'' @ strftime_cmd now @ ''-'' @ take 8 (uuid_hex r)"

definition new_command :: "settings \<Rightarrow> instant \<Rightarrow> uuid \<Rightarrow> command_in \<Rightarrow> uuid \<Rightarrow> user \<Rightarrow> exn + command" where
  "new_command s now r b g u =
     (case expiry s now (cmin_expires_in_sec b) of
        Inl e \<Rightarrow> Inl e
      | Inr expires \<Rightarrow> Inr \<lparr>cm_id = command_id now r, cm_gateway_id = g,
          cm_actuator_channel_id = Some (cmin_actuator_channel_id b), cm_action = action_str (cmin_action b),
          cm_issued_by = Some (us_id u), cm_issued_at = now, cm_expires_at = expires,
          cm_timeout_ms = cmin_timeout_ms b, cm_require_ack = cmin_require_ack b,
          cm_reason = cmin_reason b, cm_status = ''pending'', cm_response = None, cm_completed_at = None\<rparr>)"

text \<open>Up to the first commit: the gateway, the actuator and the stored command.\<close>

definition issue_begin ::
  "settings \<Rightarrow> instant \<Rightarrow> uuid \<Rightarrow> command_in \<Rightarrow> uuid \<Rightarrow> user \<Rightarrow> db \<Rightarrow> (exn + gateway \<times> actuator_channel \<times> command) \<times> db" where
  "issue_begin s now r b g u d =
     in_session
       (case check_perm u g ''control'' d of
          Inl e \<Rightarrow> Inl e
        | Inr _ \<Rightarrow>
            (case fetch gw_id g (gateways d) of
               None \<Rightarrow> Inl HTTP_404
             | Some gw \<Rightarrow>
                 (case fetch ac_id (cmin_actuator_channel_id b) (actuator_channels d) of
                    None \<Rightarrow> Inl HTTP_404
                  | Some a \<Rightarrow>
                      if ac_gateway_id a \<noteq> g then Inl HTTP_404
                      else (case new_command s now r b g u of
                              Inl e \<Rightarrow> Inl e
                            | Inr c \<Rightarrow>
                                (case insert_command c d of
                                   Inl e \<Rightarrow> Inl e
                                 | Inr d' \<Rightarrow> Inr ((gw, a, c), d')))))) d"

definition command_payload :: "command_in \<Rightarrow> user \<Rightarrow> gateway \<Rightarrow> actuator_channel \<Rightarrow> command \<Rightarrow> json" where
  "command_payload b u gw a c = JObj
     [(''command_id'', JStr (cm_id c)),
      (''gateway_id'', JStr (gw_serial_number gw)),
      (''target_type'', JStr ''actuator''),
      (''actuator_channel_id'', JStr (ac_slug a)),
      (''action'', JStr (action_str (cmin_action b))),
      (''issued_by'', JStr (uuid_str (us_id u))),
      (''issued_at'', JStr (isoformat (cm_issued_at c))),
      (''expires_at'', JStr (isoformat (cm_expires_at c))),
      (''timeout_ms'', JInt (cmin_timeout_ms b)),
      (''require_ack'', JBool (cmin_require_ack b)),
      (''reason'', JStr (case cmin_reason b of None \<Rightarrow> [] | Some t \<Rightarrow> t))]"

definition command_topic :: "string \<Rightarrow> string" where
  "command_topic serial = ''gw/'' @ serial @ ''/command/request''"

text \<open>The second transaction: the ORM writes the one changed column of the row.\<close>

definition mark_published :: "string \<Rightarrow> db \<Rightarrow> db" where
  "mark_published cid d =
     d\<lparr>commands := modify cm_id cid (\<lambda>c. c\<lparr>cm_status := ''published''\<rparr>) (commands d)\<rparr>"

record world =
  w_settings :: settings
  w_frepr :: "pyfloat \<Rightarrow> string"
  w_client :: bool
  w_broker :: "exn option"
  w_commit :: "exn option"

text \<open>From publishing to the answer, on the database as it then is.\<close>

definition issue_finish ::
  "world \<Rightarrow> command_in \<Rightarrow> user \<Rightarrow> gateway \<times> actuator_channel \<times> command \<Rightarrow> db \<Rightarrow> (exn + command) \<times> db \<times> message list" where
  "issue_finish w b u stored d =
     (case stored of (gw, a, c) \<Rightarrow>
        (case publish (w_frepr w) (w_client w) (w_broker w) (command_topic (gw_serial_number gw))
                (command_payload b u gw a c) 1 False of
           Inl _ \<Rightarrow> (Inl HTTP_503, d, [])
         | Inr m \<Rightarrow>
             (case w_commit w of
                Some _ \<Rightarrow> (Inl HTTP_503, d, [m])
              | None \<Rightarrow> (Inr (c\<lparr>cm_status := ''published''\<rparr>), mark_published (cm_id c) d, [m]))))"

definition issue_command ::
  "world \<Rightarrow> instant \<Rightarrow> uuid \<Rightarrow> command_in \<Rightarrow> uuid \<Rightarrow> user \<Rightarrow> db \<Rightarrow> (exn + command) \<times> db \<times> message list" where
  "issue_command w now r b g u d =
     (case issue_begin (w_settings w) now r b g u d of
        (Inl e, d') \<Rightarrow> (Inl e, d', [])
      | (Inr stored, d') \<Rightarrow> issue_finish w b u stored d')"

text \<open>The driver refuses an id with a NUL, which no stored row has.\<close>

definition get_command :: "string \<Rightarrow> user \<Rightarrow> db \<Rightarrow> (exn + command) \<times> db" where
  "get_command cid u d =
     (case fetch cm_id cid (commands d) of
        None \<Rightarrow> Inl (if text_ok cid then HTTP_404 else DBAPIError)
      | Some c \<Rightarrow> (case check_perm u (cm_gateway_id c) ''view'' d of Inl e \<Rightarrow> Inl e | Inr _ \<Rightarrow> Inr c), d)"

interpretation issue: guarded "''control''" "issue_begin s now r b" for s now r b
  by unfold_locales (simp add: issue_begin_def)

section \<open>What each phase guarantees\<close>

lemma issue_begin_Inr:
  assumes "issue_begin s now r b g u d = (Inr (gw, a, c), d')"
  shows "fetch gw_id g (gateways d) = Some gw" "fetch ac_id (cmin_actuator_channel_id b) (actuator_channels d) = Some a"
    "ac_gateway_id a = g" "new_command s now r b g u = Inr c" "insert_command c d = Inr d'"
  using assms by (auto simp: issue_begin_def in_session_def split: sum.splits option.splits if_splits)

lemma issue_begin_Inl: "issue_begin s now r b g u d = (Inl e, d') \<Longrightarrow> d' = d"
  by (auto simp: issue_begin_def in_session_def split: sum.splits)

lemma new_command_Inr:
  assumes "new_command s now r b g u = Inr c"
  shows "cm_id c = command_id now r" "cm_gateway_id c = g" "cm_status c = ''pending''" "cm_issued_at c = now"
    "cm_actuator_channel_id c = Some (cmin_actuator_channel_id b)" "cm_action c = action_str (cmin_action b)"
    "cm_issued_by c = Some (us_id u)" "cm_completed_at c = None" "expiry s now (cmin_expires_in_sec b) = Inr (cm_expires_at c)"
  using assms by (auto simp: new_command_def split: sum.splits)

lemma insert_command_Inr:
  assumes "insert_command c d = Inr d'"
  shows "d' = d\<lparr>commands := commands d @ [c]\<rparr>" "cm_id c \<notin> cm_id ` set (commands d)"
  using assms by (auto simp: insert_command_def)

lemma mark_published_wf: "wf_db d \<Longrightarrow> wf_db (mark_published cid d)"
  using commands_update_where_wf [of d "\<lambda>c. c\<lparr>cm_status := ''published''\<rparr>" "\<lambda>c. cm_id c = cid"]
  by (simp add: mark_published_def update_where_def modify_def)

lemma issue_begin_wf: "wf_db d \<Longrightarrow> issue_begin s now r b g u d = (x, d') \<Longrightarrow> wf_db d'"
  unfolding issue_begin_def
  by (erule in_session_wf) (auto intro: insert_command_wf split: sum.splits option.splits if_splits)

lemma issue_finish_wf: "wf_db d \<Longrightarrow> issue_finish w b u st d = (x, d', ms) \<Longrightarrow> wf_db d'"
  by (auto simp: issue_finish_def intro: mark_published_wf split: sum.splits option.splits prod.splits)

lemma issue_command_wf: "wf_db d \<Longrightarrow> issue_command w now r b g u d = (x, d', ms) \<Longrightarrow> wf_db d'"
  by (auto simp: issue_command_def intro: issue_begin_wf issue_finish_wf split: sum.splits prod.splits)

lemma publish_Inr:
  "publish f cl br t p q rt = Inr m \<longleftrightarrow>
     cl \<and> br = None \<and> m = \<lparr>msg_topic = t, msg_payload = json_dumps f p, msg_qos = q, msg_retain = rt\<rparr>"
  by (auto simp: publish_def split: option.splits)

lemma modify_appended:
  "key r \<notin> key ` set rows \<Longrightarrow> modify key (key r) f (rows @ [r]) = rows @ [f r]"
  by (induction rows) auto

text \<open>Every outcome of a command request once it got past its checks.\<close>

lemma issue_command_stored:
  assumes b: "issue_begin (w_settings w) now r b g u d = (Inr (gw, a, c), d1)"
  defines "m \<equiv> \<lparr>msg_topic = command_topic (gw_serial_number gw),
    msg_payload = json_dumps (w_frepr w) (command_payload b u gw a c), msg_qos = 1, msg_retain = False\<rparr>"
  shows "issue_command w now r b g u d =
    (if \<not> w_client w \<or> w_broker w \<noteq> None then (Inl HTTP_503, d\<lparr>commands := commands d @ [c]\<rparr>, [])
     else if w_commit w \<noteq> None then (Inl HTTP_503, d\<lparr>commands := commands d @ [c]\<rparr>, [m])
     else (Inr (c\<lparr>cm_status := ''published''\<rparr>),
           d\<lparr>commands := commands d @ [c\<lparr>cm_status := ''published''\<rparr>]\<rparr>, [m]))"
proof -
  note i = insert_command_Inr [OF issue_begin_Inr(5) [OF b]]
  show ?thesis
    using i modify_appended [OF i(2), of "\<lambda>c. c\<lparr>cm_status := ''published''\<rparr>"]
    by (auto simp: issue_command_def b issue_finish_def publish_def m_def mark_published_def split: option.splits)
qed

lemma issue_command_refused:
  assumes "issue_begin (w_settings w) now r b g u d = (Inl e, d1)"
  shows "issue_command w now r b g u d = (Inl e, d, [])"
  using assms issue_begin_Inl [OF assms] by (simp add: issue_command_def)

lemma pad_text_ok: "text_ok (pad w n)"
proof -
  have "\<not> is_digit CHR 0x00" by (simp add: is_digit_def)
  then show ?thesis using pad_digits [of w n] by (auto simp: text_ok_def list_all_iff)
qed

lemma hex_text_ok: "text_ok (hex w n)"
proof -
  have "hex_char d \<noteq> CHR 0x00" if "d < 16" for d
    using that by (auto simp: hex_char_def take_bit_nat_eq_self dest!: arg_cong [of _ _ "of_char :: char \<Rightarrow> nat"])
  then show ?thesis by (induction w arbitrary: n) (simp_all add: text_ok_def not_sym)
qed

text \<open>A generated id fits its column and has a fixed length.\<close>

lemma command_id_text: "text_ok (command_id now r)" "length (command_id now r) = 35"
proof -
  have t: "text_ok (take 8 (uuid_hex r))"
    using hex_text_ok [of 32 "unat r"] by (auto simp: uuid_hex_def text_ok_def dest: in_set_takeD)
  have p: "CHR 0x00 \<notin> set (pad w n)" for w n using pad_text_ok [of w n] by (simp add: text_ok_def)
  show "text_ok (command_id now r)"
    using t by (simp add: command_id_def strftime_cmd_def Let_def text_ok_def p del: pad_numeral)
  show "length (command_id now r) = 35"
    by (simp add: command_id_def strftime_cmd_def Let_def)
qed
end
