(* ===== verification/Dispatch.thy ===== *)
theory Dispatch
  imports Handlers Commands
begin

text \<open>
  \<open>server/worker/handlers/__init__.py\<close> and the consumer loop of \<open>server/worker/main.py\<close>. A message
  is its topic and payload with the clock's reading when it is handled. \<open>json.loads\<close> of the
  payload's bytes is the argument \<open>loads\<close>: it returns a value, or raises \<open>JSONDecodeError\<close>, which
  \<open>dispatch\<close> catches, or another exception (bytes that are no text), which it does not. What is
  shown here holds for every such function; \<open>JsonLoads\<close> writes the real one out.
\<close>

section \<open>Topics\<close>

text \<open>\<open>^gw/(?P<serial>[A-Za-z0-9_-]+)/(?P<kind>[a-z_/]+)$\<close>; \<open>$\<close> also matches before a final newline.\<close>

definition kind_char :: "char \<Rightarrow> bool" where
  "kind_char c = (let n = (of_char c :: nat) in (97 \<le> n \<and> n \<le> 122) \<or> n = 95 \<or> n = 47)"

definition newline :: char where "newline = CHR 0x0A"

definition match_kind :: "string \<Rightarrow> string option" where
  "match_kind s =
     (let k = takeWhile kind_char s; rest = drop (length k) s
      in if k \<noteq> [] \<and> (rest = [] \<or> rest = [newline]) then Some k else None)"

definition match_topic :: "string \<Rightarrow> (string \<times> string) option" where
  "match_topic t =
     (if \<not> startswith t ''gw/'' then None
      else (let r = drop 3 t; serial = takeWhile slug_char r; q = drop (length serial) r
        in if serial = [] then None
           else (case q of
                   [] \<Rightarrow> None
                 | x # k \<Rightarrow> if x = CHR ''/'' then map_option (\<lambda>kind. (serial, kind)) (match_kind k) else None)))"

section \<open>Dispatch\<close>

datatype kind = Telemetry | State | Heartbeat | CommandResponse | Unimplemented | Unknown

definition kind_of :: "string \<Rightarrow> kind" where
  "kind_of k =
     (if k = ''telemetry'' then Telemetry
      else if k = ''state'' then State
      else if k = ''heartbeat'' then Heartbeat
      else if k = ''command/response'' then CommandResponse
      else if k \<in> {''event'', ''ota/status'', ''config/reported''} then Unimplemented
      else Unknown)"

definition handle ::
  "(nat \<Rightarrow> int) \<Rightarrow> kind \<Rightarrow> instant \<Rightarrow> uuid \<Rightarrow> json \<Rightarrow> db \<Rightarrow> worker_cache \<Rightarrow> (exn + db) \<times> worker_cache" where
  "handle clk k now g body d c =
     (case k of
        Telemetry \<Rightarrow> telemetry_handle clk now g body d c
      | State \<Rightarrow> (state_handle now g body d, c)
      | Heartbeat \<Rightarrow> (heartbeat_handle now g body d, c)
      | CommandResponse \<Rightarrow> (command_response_handle now g body d, c)
      | Unimplemented \<Rightarrow> (Inr d, c)
      | Unknown \<Rightarrow> (Inr d, c))"

definition dispatch ::
  "(string \<Rightarrow> exn + json) \<Rightarrow> (nat \<Rightarrow> int) \<Rightarrow> instant \<Rightarrow> string \<Rightarrow> string \<Rightarrow> db \<Rightarrow> worker_cache
     \<Rightarrow> (exn + db) \<times> worker_cache" where
  "dispatch loads clk now topic payload d c =
     (case match_topic topic of
        None \<Rightarrow> (Inr d, c)
      | Some (serial, kind) \<Rightarrow>
          (case gateway_uuid_by_serial clk d serial c of
             (Inl e, c') \<Rightarrow> (Inl e, c')
           | (Inr None, c') \<Rightarrow> (Inr d, c')
           | (Inr (Some g), c') \<Rightarrow>
               (case loads payload of
                  Inl e \<Rightarrow> if e = JSONDecodeError then (Inr d, c') else (Inl e, c')
                | Inr body \<Rightarrow> handle clk (kind_of kind) now g body d c')))"

interpretation any: message_handler "handle clk k" for clk k
  by unfold_locales
    (auto simp: handle_def dest: telemetry_effect state_effect heartbeat_effect command_response_effect
      split: kind.splits)

section \<open>What a message does to the cache\<close>

lemma telemetry_value_cache:
  "telemetry_value clk gw ts v d c = (r, c') \<Longrightarrow> wc_gateways c' = wc_gateways c \<and> wc_reads c \<le> wc_reads c'"
  by (auto simp: telemetry_value_def split: sum.splits json.splits if_splits prod.splits option.splits
      dest: sensor_lookup_gateways sensor_lookup.lookup_reads)

lemma telemetry_values_cache:
  "telemetry_values clk gw ts vs d c = (r, c') \<Longrightarrow> wc_gateways c' = wc_gateways c \<and> wc_reads c \<le> wc_reads c'"
proof (induction vs arbitrary: d c)
  case (Cons v vs)
  then show ?case
    by (auto split: prod.splits sum.splits dest!: telemetry_value_cache) (use Cons.IH in fastforce)+
qed simp

lemma handle_cache:
  assumes "handle clk k now g body d c = (r, c')"
  shows "wc_gateways c' = wc_gateways c \<and> wc_reads c \<le> wc_reads c'"
  using assms
  by (auto simp: handle_def telemetry_handle_def Let_def dest: telemetry_values_cache
      split: kind.splits sum.splits prod.splits option.splits if_splits)

text \<open>An unexpired entry for a serial outlives every message, whatever it is about.\<close>

lemma dispatch_keeps_entry:
  assumes e: "wc_gateways c serial = Some (v, e)" and mono: "mono clk"
    and x: "dispatch loads clk now topic payload d c = (r, c')" and t: "clk (wc_reads c') \<le> e"
  shows "wc_gateways c' serial = Some (v, e)"
proof (cases "match_topic topic")
  case (Some sk)
  obtain s k where sk: "sk = (s, k)" by (cases sk)
  obtain r1 c1 where l: "gateway_uuid_by_serial clk d s c = (r1, c1)" by (cases "gateway_uuid_by_serial clk d s c")
  have c: "wc_gateways c' = wc_gateways c1 \<and> wc_reads c1 \<le> wc_reads c'"
    using x Some l sk by (auto simp: dispatch_def dest: handle_cache split: sum.splits option.splits if_splits)
  then have "clk (wc_reads c1) \<le> e" using monoD [OF mono] t by (metis order_trans)
  from gateway_lookup.lookup_keeps [OF e mono l this] c show ?thesis by simp
qed (use e x in \<open>simp add: dispatch_def\<close>)

lemma dispatch_reads:
  assumes "dispatch loads clk now topic payload d c = (r, c')"
  shows "wc_reads c \<le> wc_reads c'"
  using assms by (auto simp: dispatch_def dest!: handle_cache gateway_lookup.lookup_reads
      split: option.splits prod.splits sum.splits if_splits)

text \<open>
  The cache after messages that each find the database they are given: whatever the API or the
  scheduler did in between.
\<close>

record incoming =
  in_now :: instant
  in_topic :: string
  in_payload :: string

fun cache_after ::
  "(string \<Rightarrow> exn + json) \<Rightarrow> (nat \<Rightarrow> int) \<Rightarrow> (db \<times> incoming) list \<Rightarrow> worker_cache \<Rightarrow> worker_cache" where
  "cache_after loads clk [] c = c"
| "cache_after loads clk ((d, m) # ms) c =
     cache_after loads clk ms (snd (dispatch loads clk (in_now m) (in_topic m) (in_payload m) d c))"

lemma cache_after_reads: "wc_reads c \<le> wc_reads (cache_after loads clk ms c)"
proof (induction ms arbitrary: c)
  case (Cons x ms)
  obtain d m where x: "x = (d, m)" by (cases x)
  show ?case
    using Cons [of "snd (dispatch loads clk (in_now m) (in_topic m) (in_payload m) d c)"]
      dispatch_reads [of loads clk "in_now m" "in_topic m" "in_payload m" d c] x
    by (metis cache_after.simps(2) order_trans prod.collapse)
qed simp

lemma cache_after_keeps_entry:
  assumes "wc_gateways c serial = Some (v, e)" "mono clk" "clk (wc_reads (cache_after loads clk ms c)) \<le> e"
  shows "wc_gateways (cache_after loads clk ms c) serial = Some (v, e)"
  using assms(1,3)
proof (induction ms arbitrary: c)
  case (Cons x ms)
  obtain d m where x: "x = (d, m)" by (cases x)
  obtain r c1 where c1: "dispatch loads clk (in_now m) (in_topic m) (in_payload m) d c = (r, c1)"
    by (cases "dispatch loads clk (in_now m) (in_topic m) (in_payload m) d c")
  have t: "clk (wc_reads (cache_after loads clk ms c1)) \<le> e" using Cons.prems(2) by (simp add: x c1)
  then have "clk (wc_reads c1) \<le> e" using monoD [OF assms(2) cache_after_reads [of c1 loads clk ms]] by simp
  from Cons.IH [OF dispatch_keeps_entry [OF Cons.prems(1) assms(2) c1 this] t] show ?case by (simp add: x c1)
qed simp

section \<open>The consumer\<close>

text \<open>One message in a session of its own; an exception is logged and its work rolled back.\<close>

definition consume_one ::
  "(string \<Rightarrow> exn + json) \<Rightarrow> (nat \<Rightarrow> int) \<Rightarrow> incoming \<Rightarrow> db \<times> worker_cache \<Rightarrow> db \<times> worker_cache" where
  "consume_one loads clk m s =
     (case dispatch loads clk (in_now m) (in_topic m) (in_payload m) (fst s) (snd s) of
        (Inl _, c') \<Rightarrow> (fst s, c')
      | (Inr d', c') \<Rightarrow> (d', c'))"

fun consume ::
  "(string \<Rightarrow> exn + json) \<Rightarrow> (nat \<Rightarrow> int) \<Rightarrow> incoming list \<Rightarrow> db \<times> worker_cache \<Rightarrow> db \<times> worker_cache" where
  "consume loads clk [] s = s"
| "consume loads clk (m # ms) s = consume loads clk ms (consume_one loads clk m s)"

section \<open>Topics and slugs\<close>

lemma slug_not_slash: "slug_char c \<Longrightarrow> c \<noteq> CHR ''/''"
  by (auto simp: slug_char_def)

lemma takeWhile_slug:
  "list_all slug_char s \<Longrightarrow> takeWhile slug_char (s @ CHR ''/'' # r) = s"
  by (simp add: takeWhile_all) (simp add: slug_char_def)

text \<open>The topics the gateways use parse back into the serial and the kind they were built from.\<close>

lemma match_topic_round_trip:
  assumes "slug_pattern serial" "kind \<noteq> []" "list_all kind_char kind"
  shows "match_topic (''gw/'' @ serial @ ''/'' @ kind) = Some (serial, kind)"
proof -
  from assms(1) have s: "serial \<noteq> []" "list_all slug_char serial" by (auto simp: slug_pattern_def)
  have k: "takeWhile kind_char kind = kind"
    using assms(3) takeWhile_all [of kind_char kind "[]"] by simp
  have "match_kind kind = Some kind"
    unfolding match_kind_def k Let_def using assms(2) by simp
  then show ?thesis
    using s takeWhile_slug [OF s(2), of kind] by (simp add: match_topic_def startswith_def Let_def)
qed

lemma match_topic_Some:
  assumes "match_topic t = Some (serial, kind)"
  shows "slug_pattern serial" "kind \<noteq> []" "list_all kind_char kind"
    "t = ''gw/'' @ serial @ ''/'' @ kind \<or> t = ''gw/'' @ serial @ ''/'' @ kind @ [newline]"
proof -
  define r where "r = drop 3 t"
  have t: "t = ''gw/'' @ r" using assms
    by (auto simp: match_topic_def startswith_def prefix_def r_def split: if_splits)
  from assms obtain k where s: "serial = takeWhile slug_char r" "serial \<noteq> []"
    and q: "drop (length serial) r = CHR ''/'' # k" and m: "match_kind k = Some kind"
    by (auto simp: match_topic_def Let_def r_def [symmetric] split: if_splits list.splits)
  have r: "r = serial @ CHR ''/'' # k" using s(1) q by (metis takeWhile_dropWhile_id takeWhile_eq_take append_take_drop_id)
  from m have kk: "kind = takeWhile kind_char k" "kind \<noteq> []"
    "drop (length kind) k = [] \<or> drop (length kind) k = [newline]"
    by (auto simp: match_kind_def Let_def split: if_splits)
  have k: "k = kind @ drop (length kind) k"
    using kk(1) by (metis takeWhile_eq_take append_take_drop_id)
  show "slug_pattern serial" using s by (simp add: slug_pattern_def list_all_takeWhile)
  show "kind \<noteq> []" "list_all kind_char kind" using kk by (simp_all add: list_all_takeWhile)
  show "t = ''gw/'' @ serial @ ''/'' @ kind \<or> t = ''gw/'' @ serial @ ''/'' @ kind @ [newline]"
    using kk(3) k t r by auto
qed

text \<open>A serial that fits the schema never carries an MQTT wildcard or separator into a topic.\<close>

lemma command_topic_safe:
  assumes "serial_check s"
  shows "CHR ''+'' \<notin> set (command_topic s)" "CHR ''#'' \<notin> set (command_topic s)"
    "match_topic (command_topic s) = Some (s, ''command/request'')"
proof -
  have n: "\<not> slug_char CHR ''+''" "\<not> slug_char CHR ''#''" by code_simp+
  have s: "slug_pattern s" using assms by (simp add: serial_check_def)
  then have "list_all slug_char s" by (simp add: slug_pattern_def)
  then have "CHR ''+'' \<notin> set s" "CHR ''#'' \<notin> set s" using n by (auto simp: list_all_iff)
  then show "CHR ''+'' \<notin> set (command_topic s)" "CHR ''#'' \<notin> set (command_topic s)"
    by (simp_all add: command_topic_def)
  have "list_all kind_char ''command/request''" by code_simp
  from match_topic_round_trip [OF s _ this]
  show "match_topic (command_topic s) = Some (s, ''command/request'')"
    by (simp add: command_topic_def)
qed

section \<open>Effects of a message\<close>

lemma dispatch_Inr:
  assumes "dispatch loads clk now topic payload d c = (Inr d', c')"
  obtains (ignored) "d' = d"
    | (handled) serial kind g c1 body where "match_topic topic = Some (serial, kind)"
        "gateway_uuid_by_serial clk d serial c = (Inr (Some g), c1)" "loads payload = Inr body"
        "handle clk (kind_of kind) now g body d c1 = (Inr d', c')"
  using assms
  by (auto simp: dispatch_def split: option.splits prod.splits sum.splits if_splits)

lemma dispatch_wf:
  assumes "dispatch loads clk now topic payload d c = (Inr d', c')" "wf_db d"
  shows "wf_db d'"
  using assms(1)
proof (cases rule: dispatch_Inr)
  case (handled serial kind g c1 body)
  from any.effect [OF handled(4) assms(2)] show ?thesis by simp
qed (use assms(2) in simp)

lemma consume_one_wf: "wf_db (fst s) \<Longrightarrow> wf_db (fst (consume_one loads clk m s))"
  by (auto simp: consume_one_def intro: dispatch_wf split: prod.splits sum.splits)

lemma consume_append: "consume loads clk (ms @ ms') s = consume loads clk ms' (consume loads clk ms s)"
  by (induction ms arbitrary: s) auto

lemma consume_inv:
  assumes "\<And>m s. P (fst s) \<Longrightarrow> P (fst (consume_one loads clk m s))" "P (fst s)"
  shows "P (fst (consume loads clk ms s))"
  using assms by (induction ms arbitrary: s) auto

lemma ignored_payload:
  assumes "loads p = Inl e"
  shows "fst (consume_one loads clk \<lparr>in_now = now, in_topic = topic, in_payload = p\<rparr> (d, c)) = d"
  using assms by (auto simp: consume_one_def dispatch_def split: option.splits sum.splits prod.splits if_splits)

end
