(* ===== verification/LatestView.thy ===== *)
theory LatestView
  imports Dispatch
begin

text \<open>
  The abstract specification of \<open>telemetry_latest\<close>: a view of the telemetry log. For each gateway,
  channel and measurement the table holds the newest of the logged values, and a row exists only
  for what was logged. The worker's statements maintain the view, so \<open>/telemetry/latest\<close> answers
  from the table what a scan of the log would.
\<close>

definition te_key :: "telemetry_row \<Rightarrow> uuid \<times> uuid \<times> string" where
  "te_key r = (te_gateway_id r, te_sensor_channel_id r, te_measurement_key r)"

definition same_value :: "telemetry_row \<Rightarrow> latest_row \<Rightarrow> bool" where
  "same_value t r =
     (te_ts t = tl_ts r \<and> te_value_double t = tl_value_double r \<and> te_unit t = tl_unit r \<and> te_quality t = tl_quality r)"

definition newest :: "telemetry_row list \<Rightarrow> latest_row \<Rightarrow> bool" where
  "newest log r =
     ((\<exists>t \<in> set log. te_key t = latest_key r \<and> same_value t r) \<and>
      (\<forall>t \<in> set log. te_key t = latest_key r \<longrightarrow> te_ts t \<le> tl_ts r))"

definition latest_view :: "db \<Rightarrow> bool" where
  "latest_view d =
     ((\<forall>r \<in> set (telemetry_latest d). newest (telemetry d) r) \<and>
      te_key ` set (telemetry d) \<subseteq> latest_key ` set (telemetry_latest d))"

lemma latest_view_cong:
  "telemetry d' = telemetry d \<Longrightarrow> telemetry_latest d' = telemetry_latest d \<Longrightarrow> latest_view d' = latest_view d"
  by (simp add: latest_view_def)

lemma newest_other: "te_key t \<noteq> latest_key r \<Longrightarrow> newest (log @ [t]) r = newest log r"
  by (auto simp: newest_def)

lemma newest_same:
  assumes "te_key t = latest_key n" "same_value t n" "latest_key r = latest_key n" "newest log r"
  shows "newest (log @ [t]) (overwrite_latest n r)"
  using assms by (auto simp: newest_def overwrite_latest_def same_value_def latest_key_def)

lemma newest_first:
  assumes "te_key t = latest_key n" "same_value t n" "latest_key n \<notin> te_key ` set log"
  shows "newest (log @ [t]) n"
  using assms by (auto simp: newest_def same_value_def image_iff)

text \<open>Logging a value and upserting it keeps the view.\<close>

lemma log_and_upsert_view:
  assumes v: "latest_view d" and i: "insert_telemetry t d = Inr d1" and u: "upsert_latest n d1 = Inr d2"
    and n: "te_key t = latest_key n" "same_value t n"
  shows "latest_view d2"
proof -
  let ?old = "telemetry_latest d"
  have d1: "telemetry d1 = telemetry d @ [t]" "telemetry_latest d1 = ?old"
    using i by (auto simp: insert_telemetry_def)
  have d2: "telemetry d2 = telemetry d @ [t]" "telemetry_latest d2 =
      (if exists_key latest_key (latest_key n) ?old then modify latest_key (latest_key n) (overwrite_latest n) ?old
       else ?old @ [n])"
    using u d1 by (auto simp: upsert_latest_def)
  have old: "newest (telemetry d) r" if "r \<in> set ?old" for r
    using v that by (simp add: latest_view_def)
  have sub: "te_key ` set (telemetry d) \<subseteq> latest_key ` set ?old"
    using v by (simp add: latest_view_def)
  show ?thesis
  proof (cases "exists_key latest_key (latest_key n) ?old")
    case True
    have "latest_key ` set (telemetry_latest d2) = latest_key ` set ?old"
      using True by (simp add: d2 image_key_modify)
    moreover have "newest (telemetry d @ [t]) r" if "r \<in> set (telemetry_latest d2)" for r
    proof -
      from that have "r \<in> set (modify latest_key (latest_key n) (overwrite_latest n) ?old)" using True by (simp add: d2)
      then show ?thesis
      proof (cases rule: modify_mem_cases)
        case old: old
        then show ?thesis using \<open>\<And>r. r \<in> set ?old \<Longrightarrow> newest (telemetry d) r\<close> n(1) by (simp add: newest_other)
      next
        case (new r0)
        then show ?thesis using newest_same [OF n new(2)] \<open>\<And>r. r \<in> set ?old \<Longrightarrow> newest (telemetry d) r\<close> by simp
      qed
    qed
    moreover have "te_key t \<in> latest_key ` set ?old" using True n(1) by simp
    ultimately show ?thesis using sub by (auto simp: latest_view_def d2(1))
  next
    case False
    then have f: "latest_key n \<notin> latest_key ` set ?old" by simp
    then have "latest_key n \<notin> te_key ` set (telemetry d)" using sub by blast
    from newest_first [OF n this] have "newest (telemetry d @ [t]) n" .
    moreover have "newest (telemetry d @ [t]) r" if "r \<in> set ?old" for r
    proof -
      have "te_key t \<noteq> latest_key r" using f that n(1) by (metis imageI)
      then show ?thesis using old [OF that] by (simp add: newest_other)
    qed
    ultimately show ?thesis using sub False n(1) by (auto simp: latest_view_def d2)
  qed
qed

lemma store_value_view:
  assumes "store_value gw ts ch v d = Inr d'" "latest_view d"
  shows "latest_view d'"
  using assms(1)
proof (cases rule: store_value_Inr)
  case (stored k x un q d1)
  show ?thesis
    by (rule log_and_upsert_view [OF assms(2) stored(3,4)])
      (simp_all add: te_key_def latest_key_def same_value_def telemetry_row_of_def latest_row_of_def)
qed (use assms(2) in simp)

lemma telemetry_values_view:
  "telemetry_values clk gw ts vs d c = (Inr d', c') \<Longrightarrow> latest_view d \<Longrightarrow> latest_view d'"
proof (induction vs arbitrary: d c)
  case (Cons v vs)
  then obtain d1 c1 where v: "telemetry_value clk gw ts v d c = (Inr d1, c1)"
    and vs: "telemetry_values clk gw ts vs d1 c1 = (Inr d', c')"
    by (auto split: sum.splits prod.splits)
  from v have "latest_view d1"
  proof (cases rule: telemetry_value_Inr)
    case (stored ch)
    then show ?thesis using Cons.prems(2) by (rule store_value_view)
  qed (use Cons.prems(2) in simp)
  then show ?case by (rule Cons.IH [OF vs])
qed auto

lemma save_gateway_view: "save_gateway g d = Inr d' \<Longrightarrow> latest_view d' = latest_view d"
  by (auto simp: save_gateway_def latest_view_def)

lemma save_command_view: "save_command c d = Inr d' \<Longrightarrow> latest_view d' = latest_view d"
  by (auto simp: save_command_def latest_view_def)

lemma handle_view:
  assumes "handle clk k now g body d c = (Inr d', c')" "latest_view d"
  shows "latest_view d'"
proof (cases k)
  case Telemetry
  with assms(1) have "telemetry_handle clk now g body d c = (Inr d', c')" by (simp add: handle_def)
  then show ?thesis
  proof (cases rule: telemetry_handle_Inr)
    case (stored vs ts gw xs d1)
    then show ?thesis using telemetry_values_view assms(2) save_gateway_view by blast
  qed (use assms(2) in simp)
next
  case CommandResponse
  with assms(1) have "command_response_handle now g body d = Inr d'" by (simp add: handle_def)
  then show ?thesis
  proof (cases rule: command_response_Inr)
    case (stored v cmd s ts)
    then show ?thesis using save_command_view assms(2) by blast
  qed (use assms(2) in simp)
qed (use assms save_gateway_view in
    \<open>auto simp: handle_def state_handle_def heartbeat_handle_def split: option.splits sum.splits\<close>)

lemma dispatch_view:
  assumes "dispatch loads clk now topic payload d c = (Inr d', c')" "latest_view d"
  shows "latest_view d'"
  using assms(1)
proof (cases rule: dispatch_Inr)
  case (handled serial kind g c1 body)
  then show ?thesis using handle_view assms(2) by blast
qed (use assms(2) in simp)

lemma consume_one_view: "latest_view (fst s) \<Longrightarrow> latest_view (fst (consume_one loads clk m s))"
  by (auto simp: consume_one_def intro: dispatch_view split: prod.splits sum.splits)

text \<open>One valid reading: its row is appended and its key's latest value is at least as new.\<close>

lemma store_reading:
  assumes key: "key \<noteq> []" "varchar_ok 64 key" and x: "x = Fin s m e" and t: "representable t" and slug: "text_ok slug"
  obtains latest r where "store_value gw t ch (JObj [(''sensor_channel_id'', JStr slug), (''measurement_key'', JStr key), (''value'', JFloat x)]) d =
      Inr (d\<lparr>telemetry := telemetry d @ [telemetry_row_of gw ch key t (Some x) None (Some ''good'')
        (JObj [(''sensor_channel_id'', JStr slug), (''measurement_key'', JStr key), (''value'', JFloat x)])], telemetry_latest := latest\<rparr>)"
    "fetch latest_key (gw_id gw, ch, key) latest = Some r" "t \<le> tl_ts r"
    "(\<forall>q \<in> set (telemetry_latest d). latest_key q = (gw_id gw, ch, key) \<longrightarrow> tl_ts q < t) \<longrightarrow> tl_ts r = t \<and> tl_value_double r = Some x"
proof -
  let ?raw = "JObj [(''sensor_channel_id'', JStr slug), (''measurement_key'', JStr key), (''value'', JFloat x)]"
  let ?k = "(gw_id gw, ch, key)"
  let ?row = "telemetry_row_of gw ch key t (Some x) None (Some ''good'') ?raw"
  let ?new = "latest_row_of gw ch key t (Some x) None (Some ''good'')"
  define d1 where "d1 = d\<lparr>telemetry := telemetry d @ [?row]\<rparr>"
  have ins: "insert_telemetry ?row d = Inr d1"
    using key(2) t slug by (simp add: insert_telemetry_def telemetry_row_of_def d1_def varchar_ok_def opt_ok_def text_ok_def x)
  obtain d2 where up: "upsert_latest ?new d1 = Inr d2"
    using key(2) t by (simp add: upsert_latest_def latest_row_of_def latest_types_def varchar_ok_def opt_ok_def text_ok_def)
  have "d2 = d1\<lparr>telemetry_latest := telemetry_latest d2\<rparr>" using up by (auto simp: upsert_latest_def)
  moreover have "store_value gw t ch ?raw d = Inr d2"
    using key ins up by (simp add: store_value_def bind_text_def varchar_ok_def text_ok_def)
  ultimately have st: "store_value gw t ch ?raw d = Inr (d\<lparr>telemetry := telemetry d @ [?row], telemetry_latest := telemetry_latest d2\<rparr>)"
    by (simp add: d1_def)
  have new: "latest_key ?new = ?k" "tl_ts ?new = t" "tl_value_double ?new = Some x"
    by (simp_all add: latest_row_of_def latest_key_def)
  have la: "fetch latest_key ?k (telemetry_latest d2) =
      (case fetch latest_key ?k (telemetry_latest d) of None \<Rightarrow> Some ?new | Some q \<Rightarrow> Some (overwrite_latest ?new q))"
    using fetch_upsert_latest [OF up] new by (simp add: d1_def)
  then obtain r where r: "fetch latest_key ?k (telemetry_latest d2) = Some r" by (cases "fetch latest_key ?k (telemetry_latest d)") auto
  have "t \<le> tl_ts r" "(\<forall>q \<in> set (telemetry_latest d). latest_key q = ?k \<longrightarrow> tl_ts q < t) \<longrightarrow> tl_ts r = t \<and> tl_value_double r = Some x"
    using la r new fetch_Some_mem [of latest_key ?k "telemetry_latest d"] fetch_Some_key [of latest_key ?k "telemetry_latest d"]
    by (auto simp: overwrite_latest_def split: option.splits if_splits)
  with st r show thesis by (rule that)
qed

end
