(* ===== verification/Catalog.thy ===== *)
theory Catalog
  imports Gateways "HOL-Library.Multiset"
begin

text \<open>
  The routers that need an authenticated user and no gateway permission: companies, sites and
  sensor profiles (\<open>server/app/routers/companies.py\<close>, \<open>sites.py\<close>, \<open>sensor_profiles.py\<close>) and the
  health checks (\<open>health.py\<close>). \<open>jsonschema.validate\<close> is the argument \<open>validator\<close> (schema, then
  instance); the shared schema file is an argument too, \<open>None\<close> when it does not exist.
\<close>

section \<open>Companies\<close>

definition create_company :: "uuid \<Rightarrow> instant \<Rightarrow> company_in \<Rightarrow> user \<Rightarrow> db \<Rightarrow> (exn + company) \<times> db" where
  "create_company i now b u d =
     in_session
       (let c = \<lparr>co_id = i, co_name = cin_name b, co_type = company_type_str (cin_company_type b),
                 co_status = cin_status b, co_created_at = now, co_updated_at = now\<rparr>
        in case insert_company c d of Inl e \<Rightarrow> Inl e | Inr d' \<Rightarrow> Inr (c, d')) d"

definition list_companies :: "db \<Rightarrow> company list" where
  "list_companies d = sort_key co_created_at (companies d)"

definition get_company :: "uuid \<Rightarrow> db \<Rightarrow> exn + company" where
  "get_company i d = (case fetch co_id i (companies d) of None \<Rightarrow> Inl HTTP_404 | Some c \<Rightarrow> Inr c)"

section \<open>Sites\<close>

definition create_site :: "uuid \<Rightarrow> instant \<Rightarrow> site_in \<Rightarrow> user \<Rightarrow> db \<Rightarrow> (exn + site) \<times> db" where
  "create_site i now b u d =
     in_session
       (let s = \<lparr>st_id = i, st_company_id = sin_company_id b, st_name = sin_name b,
                 st_address = sin_address b, st_latitude = sin_latitude b,
                 st_longitude = sin_longitude b, st_created_at = now\<rparr>
        in case insert_site s d of Inl e \<Rightarrow> Inl e | Inr d' \<Rightarrow> Inr (s, d')) d"

definition list_sites :: "uuid option \<Rightarrow> db \<Rightarrow> site list" where
  "list_sites company d =
     sort_key st_created_at
       (case company of None \<Rightarrow> sites d | Some c \<Rightarrow> filter (\<lambda>s. st_company_id s = c) (sites d))"

section \<open>Sensor profiles\<close>

text \<open>\<open>_schema()\<close>: the parsed schema, read from the file once.\<close>

definition schema :: "json option \<Rightarrow> json option \<Rightarrow> exn + json" where
  "schema loaded file =
     (case loaded of
        Some j \<Rightarrow> Inr j
      | None \<Rightarrow> (case file of None \<Rightarrow> Inl RuntimeError | Some j \<Rightarrow> Inr j))"

definition create_sensor_profile ::
  "(json \<Rightarrow> json \<Rightarrow> bool) \<Rightarrow> json option \<Rightarrow> json option \<Rightarrow> uuid \<Rightarrow> instant \<Rightarrow> sensor_profile_in \<Rightarrow> user \<Rightarrow> db
     \<Rightarrow> (exn + sensor_profile) \<times> db" where
  "create_sensor_profile validator loaded file i now b u d =
     in_session
       (case schema loaded file of
          Inl e \<Rightarrow> Inl e
        | Inr sch \<Rightarrow>
            if \<not> validator sch (pin_profile_schema b) then Inl (HTTPException 422)
            else (let p = \<lparr>sp_id = i, sp_name = pin_name b, sp_vendor = pin_vendor b, sp_model = pin_model b,
                         sp_protocol = pin_protocol b, sp_description = pin_description b,
                         sp_profile_schema = pin_profile_schema b, sp_enabled = pin_enabled b,
                         sp_created_at = now\<rparr>
              in case insert_sensor_profile p d of Inl e \<Rightarrow> Inl e | Inr d' \<Rightarrow> Inr (p, d'))) d"

text \<open>The database's collation orders the names; \<open>rank\<close> stands for it.\<close>

definition list_sensor_profiles :: "(string \<Rightarrow> nat) \<Rightarrow> db \<Rightarrow> sensor_profile list" where
  "list_sensor_profiles rank d = sort_key (\<lambda>p. rank (sp_name p)) (filter sp_enabled (sensor_profiles d))"

definition get_sensor_profile :: "uuid \<Rightarrow> db \<Rightarrow> exn + sensor_profile" where
  "get_sensor_profile i d =
     (case fetch sp_id i (sensor_profiles d) of None \<Rightarrow> Inl HTTP_404 | Some p \<Rightarrow> Inr p)"

section \<open>Health\<close>

definition health :: "string \<Rightarrow> (string \<times> string) list" where
  "health version = [(''status'', ''ok''), (''version'', version)]"

text \<open>\<open>SELECT 1\<close> gives its value or the driver raises.\<close>

definition health_db :: "exn + int \<Rightarrow> exn + (string \<times> string) list" where
  "health_db reply =
     (case reply of
        Inl e \<Rightarrow> Inl e
      | Inr v \<Rightarrow> Inr [(''status'', ''ok''), (''db'', if v = 1 then ''ok'' else ''error'')])"

section \<open>Lemmas\<close>

lemma create_company_wf: "wf_db d \<Longrightarrow> create_company i now b u d = (r, d') \<Longrightarrow> wf_db d'"
  unfolding create_company_def
  by (erule in_session_wf) (auto simp: Let_def intro: insert_company_wf split: sum.splits)

lemma create_site_wf: "wf_db d \<Longrightarrow> create_site i now b u d = (r, d') \<Longrightarrow> wf_db d'"
  unfolding create_site_def
  by (erule in_session_wf) (auto simp: Let_def intro: insert_site_wf split: sum.splits)

lemma create_sensor_profile_wf:
  "wf_db d \<Longrightarrow> create_sensor_profile v l f i now b u d = (r, d') \<Longrightarrow> wf_db d'"
  unfolding create_sensor_profile_def
  by (erule in_session_wf) (auto simp: Let_def intro: insert_sensor_profile_wf split: sum.splits if_splits)

lemma create_company_then_get:
  assumes "create_company i now b u d = (Inr c, d')"
  shows "get_company i d' = Inr c \<and> to_company_out c = Inr \<lparr>cin_name = cin_name b,
    cin_company_type = cin_company_type b, cin_status = cin_status b, cout_id = i, cout_created_at = now\<rparr>"
proof -
  from assms have c: "insert_company c d = Inr d'" "co_id c = i"
    "to_company_out c = Inr \<lparr>cin_name = cin_name b,
    cin_company_type = cin_company_type b, cin_status = cin_status b, cout_id = i, cout_created_at = now\<rparr>"
    by (auto simp: create_company_def Let_def to_company_out_def split: sum.splits)
  from c(1) have "d' = companies_update (\<lambda>cs. cs @ [c]) d" "co_id c \<notin> co_id ` set (companies d)"
    by (auto simp: insert_company_def)
  then have "fetch co_id (co_id c) (companies d') = Some c"
    using company_table.get_inserted [of c d] by simp
  with c show ?thesis by (simp add: get_company_def)
qed

lemma list_companies_perm: "mset (list_companies d) = mset (companies d) \<and> sorted (map co_created_at (list_companies d))"
  by (simp add: list_companies_def)

lemma set_list_sites: "set (list_sites c d) = {s \<in> set (sites d). \<forall>k. c = Some k \<longrightarrow> st_company_id s = k}"
  by (auto simp: list_sites_def split: option.splits)

end
