(* ===== verification/Channels.thy ===== *)
theory Channels
  imports Gateways
begin

text \<open>
  \<open>server/app/routers/sensor_channels.py\<close> and \<open>actuator_channels.py\<close>: attaching channels to a
  gateway, listing and detaching them. Deleting is addressed by the channel, so its permission
  check is on the channel's gateway.
\<close>

section \<open>Sensor channels\<close>

definition add_sensor_channel ::
  "uuid \<Rightarrow> instant \<Rightarrow> sensor_channel_in \<Rightarrow> uuid \<Rightarrow> user \<Rightarrow> db \<Rightarrow> (exn + sensor_channel) \<times> db" where
  "add_sensor_channel i now b g u d =
     in_session
       (case check_perm u g ''configure'' d of
          Inl e \<Rightarrow> Inl e
        | Inr _ \<Rightarrow>
            (let c = \<lparr>sc_id = i, sc_gateway_id = g, sc_slug = scin_slug b,
                      sc_sensor_profile_id = scin_sensor_profile_id b,
                      sc_display_name = scin_display_name b, sc_interface_name = scin_interface_name b,
                      sc_protocol = scin_protocol b, sc_address = scin_address b,
                      sc_slave_id = scin_slave_id b, sc_polling_interval_sec = scin_polling_interval_sec b,
                      sc_enabled = scin_enabled b, sc_config = scin_config b, sc_created_at = now\<rparr>
             in case insert_sensor_channel c d of Inl e \<Rightarrow> Inl e | Inr d' \<Rightarrow> Inr (c, d'))) d"

definition list_sensor_channels :: "uuid \<Rightarrow> user \<Rightarrow> db \<Rightarrow> (exn + sensor_channel list) \<times> db" where
  "list_sensor_channels g u d =
     (case check_perm u g ''view'' d of
        Inl e \<Rightarrow> Inl e
      | Inr _ \<Rightarrow> Inr (sort_key sc_created_at (filter (\<lambda>c. sc_gateway_id c = g) (sensor_channels d))), d)"

definition delete_sensor_channel :: "uuid \<Rightarrow> user \<Rightarrow> db \<Rightarrow> (exn + unit) \<times> db" where
  "delete_sensor_channel k u d =
     in_session
       (case fetch sc_id k (sensor_channels d) of
          None \<Rightarrow> Inl HTTP_404
        | Some c \<Rightarrow>
            (case check_perm u (sc_gateway_id c) ''configure'' d of
               Inl e \<Rightarrow> Inl e
             | Inr _ \<Rightarrow> (case delete_sensor_channel_row k d of Inl e \<Rightarrow> Inl e | Inr d' \<Rightarrow> Inr ((), d')))) d"

section \<open>Actuator channels\<close>

definition add_actuator_channel ::
  "uuid \<Rightarrow> instant \<Rightarrow> actuator_channel_in \<Rightarrow> uuid \<Rightarrow> user \<Rightarrow> db \<Rightarrow> (exn + actuator_channel) \<times> db" where
  "add_actuator_channel i now b g u d =
     in_session
       (case check_perm u g ''configure'' d of
          Inl e \<Rightarrow> Inl e
        | Inr _ \<Rightarrow>
            (let c = \<lparr>ac_id = i, ac_gateway_id = g, ac_slug = acin_slug b, ac_display_name = acin_display_name b,
                      ac_actuator_type = actuator_type_str (acin_actuator_type b),
                      ac_hardware_channel = acin_hardware_channel b, ac_default_state = acin_default_state b,
                      ac_current_state = None, ac_enabled = acin_enabled b,
                      ac_safety_config = acin_safety_config b, ac_created_at = now\<rparr>
             in case insert_actuator_channel c d of Inl e \<Rightarrow> Inl e | Inr d' \<Rightarrow> Inr (c, d'))) d"

definition list_actuator_channels :: "uuid \<Rightarrow> user \<Rightarrow> db \<Rightarrow> (exn + actuator_channel list) \<times> db" where
  "list_actuator_channels g u d =
     (case check_perm u g ''view'' d of
        Inl e \<Rightarrow> Inl e
      | Inr _ \<Rightarrow> Inr (sort_key ac_created_at (filter (\<lambda>c. ac_gateway_id c = g) (actuator_channels d))), d)"

definition delete_actuator_channel :: "uuid \<Rightarrow> user \<Rightarrow> db \<Rightarrow> (exn + unit) \<times> db" where
  "delete_actuator_channel k u d =
     in_session
       (case fetch ac_id k (actuator_channels d) of
          None \<Rightarrow> Inl HTTP_404
        | Some c \<Rightarrow>
            (case check_perm u (ac_gateway_id c) ''configure'' d of
               Inl e \<Rightarrow> Inl e
             | Inr _ \<Rightarrow> (case delete_actuator_channel_row k d of Inl e \<Rightarrow> Inl e | Inr d' \<Rightarrow> Inr ((), d')))) d"

interpretation add_sensor: guarded "''configure''" "add_sensor_channel i now b" for i now b
  by unfold_locales (simp add: add_sensor_channel_def)

interpretation list_sensors: guarded "''view''" list_sensor_channels
  by unfold_locales (simp add: list_sensor_channels_def)

interpretation add_actuator: guarded "''configure''" "add_actuator_channel i now b" for i now b
  by unfold_locales (simp add: add_actuator_channel_def)

interpretation list_actuators: guarded "''view''" list_actuator_channels
  by unfold_locales (simp add: list_actuator_channels_def)

section \<open>Lemmas\<close>

lemma add_sensor_channel_wf: "wf_db d \<Longrightarrow> add_sensor_channel i now b g u d = (r, d') \<Longrightarrow> wf_db d'"
  unfolding add_sensor_channel_def
  by (erule in_session_wf) (auto simp: Let_def intro: insert_sensor_channel_wf split: sum.splits)

lemma add_actuator_channel_wf: "wf_db d \<Longrightarrow> add_actuator_channel i now b g u d = (r, d') \<Longrightarrow> wf_db d'"
  unfolding add_actuator_channel_def
  by (erule in_session_wf) (auto simp: Let_def intro: insert_actuator_channel_wf split: sum.splits)

lemma delete_sensor_channel_wf: "wf_db d \<Longrightarrow> delete_sensor_channel k u d = (r, d') \<Longrightarrow> wf_db d'"
  unfolding delete_sensor_channel_def
  by (erule in_session_wf) (auto intro: delete_sensor_channel_row_wf split: option.splits sum.splits)

lemma delete_actuator_channel_wf: "wf_db d \<Longrightarrow> delete_actuator_channel k u d = (r, d') \<Longrightarrow> wf_db d'"
  unfolding delete_actuator_channel_def
  by (erule in_session_wf) (auto intro: delete_actuator_channel_row_wf split: option.splits sum.splits)

end
