(* ===== verification/TelemetryApi.thy ===== *)
theory TelemetryApi
  imports Gateways
begin

text \<open>
  \<open>server/app/routers/telemetry.py\<close>: the latest values of a gateway and its time series. The
  query parameters' bounds are checked by the framework before the handler runs.
\<close>

definition get_latest :: "(string \<Rightarrow> nat) \<Rightarrow> uuid \<Rightarrow> user \<Rightarrow> db \<Rightarrow> (exn + latest_row list) \<times> db" where
  "get_latest rank g u d =
     (case check_perm u g ''view'' d of
        Inl e \<Rightarrow> Inl e
      | Inr _ \<Rightarrow> Inr (sort_key (\<lambda>r. rank (tl_measurement_key r))
                   (filter (\<lambda>r. tl_gateway_id r = g) (telemetry_latest d))), d)"

definition to_view :: "telemetry_row \<Rightarrow> telemetry_view" where
  "to_view r = \<lparr>tv_ts = te_ts r, tv_measurement_key = te_measurement_key r,
     tv_value_double = te_value_double r, tv_unit = te_unit r, tv_quality = te_quality r\<rparr>"

text \<open>The rows the WHERE clause selects; the later \<open>stmt.where\<close> adds to it, before the LIMIT.\<close>

definition range_rows :: "instant \<Rightarrow> string option \<Rightarrow> int \<Rightarrow> uuid \<Rightarrow> db \<Rightarrow> telemetry_row list" where
  "range_rows now key hours g d =
     filter (\<lambda>r. te_gateway_id r = g \<and> now - hours * 3600000000 \<le> te_ts r \<and>
       (case key of None \<Rightarrow> True | Some k \<Rightarrow> te_measurement_key r = k)) (telemetry d)"

definition get_telemetry_range ::
  "instant \<Rightarrow> string option \<Rightarrow> int \<Rightarrow> int \<Rightarrow> uuid \<Rightarrow> user \<Rightarrow> db \<Rightarrow> (exn + telemetry_view list) \<times> db" where
  "get_telemetry_range now key hours limit g u d =
     (if \<not> (1 \<le> hours \<and> hours \<le> 720 \<and> 1 \<le> limit \<and> limit \<le> 10000) then Inl (HTTPException 422)
      else case check_perm u g ''view'' d of
        Inl e \<Rightarrow> Inl e
      | Inr _ \<Rightarrow> Inr (map to_view (take (nat limit)
                   (sort_key (\<lambda>r. - te_ts r) (range_rows now key hours g d)))), d)"

interpretation latest_of: guarded "''view''" "get_latest rank" for rank
  by unfold_locales (simp add: get_latest_def)

section \<open>What the range query returns\<close>

lemma take_sorted_newest:
  fixes f :: "'a \<Rightarrow> int"
  assumes "x \<in> set (take n (sort_key f xs))" "y \<in> set (drop n (sort_key f xs))"
  shows "f x \<le> f y"
proof -
  have "sorted (map f (take n (sort_key f xs) @ drop n (sort_key f xs)))"
    by (simp only: append_take_drop_id sorted_sort_key)
  then show ?thesis using assms by (simp only: map_append sorted_append) (auto simp: set_map)
qed

lemma get_telemetry_range_Inr:
  assumes "get_telemetry_range now key hours limit g u d = (Inr vs, d')"
  shows "d' = d \<and> vs = map to_view (take (nat limit) (sort_key (\<lambda>r. - te_ts r) (range_rows now key hours g d)))
    \<and> 1 \<le> limit \<and> limit \<le> 10000 \<and> (holds u g ''view'' d \<or> holds u g ''admin'' d)"
proof -
  from assms have b: "d' = d" "vs = map to_view (take (nat limit) (sort_key (\<lambda>r. - te_ts r) (range_rows now key hours g d)))"
    "1 \<le> limit" "limit \<le> 10000" and c: "is_ok (check_perm u g ''view'' d)"
    by (auto simp: get_telemetry_range_def split: if_splits sum.splits)
  from c obtain gw where "get_gateway g u d = (Inr gw, d)"
    by (auto simp: get_gateway_def split: sum.splits)
  from get_gw.success_authorized [OF this] b show ?thesis by blast
qed

end
