(* ===== verification/Api.thy ===== *)
theory Api
  imports Catalog Channels TelemetryApi Commands
begin

text \<open>
  The HTTP surface as a whole: the routers mounted by \<open>server/app/main.py\<close>, the dependency chain
  every endpoint declares, and the endpoint itself. An \<open>api_call\<close> is a request whose parameters and
  body the framework has parsed; \<open>serve\<close> runs it from the Authorization header to the response
  model on the state of the server process. \<open>demands\<close> is the access policy, stated apart from the
  code; the lemmas show that \<open>serve\<close> enforces it and what a request can change.
\<close>

section \<open>Routes\<close>

datatype http_method = GET | POST | PATCH | DELETE

datatype segment = Lit string | Param string

record route =
  rt_method :: http_method
  rt_path :: "segment list"
  rt_status :: nat
  rt_endpoint :: string

abbreviation route_to :: "http_method \<Rightarrow> segment list \<Rightarrow> nat \<Rightarrow> string \<Rightarrow> route" where
  "route_to m p s f \<equiv> \<lparr>rt_method = m, rt_path = p, rt_status = s, rt_endpoint = f\<rparr>"

definition prefixed :: "string \<Rightarrow> route list \<Rightarrow> route list" where
  "prefixed p = map (\<lambda>r. r\<lparr>rt_path := Lit p # rt_path r\<rparr>)"

definition health_routes :: "route list" where
  "health_routes =
     [route_to GET [Lit ''health''] 200 ''health'',
      route_to GET [Lit ''health'', Lit ''db''] 200 ''health_db'']"

definition companies_routes :: "route list" where
  "companies_routes = prefixed ''companies''
     [route_to POST [] 201 ''create_company'',
      route_to GET [] 200 ''list_companies'',
      route_to GET [Param ''company_id''] 200 ''get_company'']"

definition sites_routes :: "route list" where
  "sites_routes = prefixed ''sites''
     [route_to POST [] 201 ''create_site'',
      route_to GET [] 200 ''list_sites'']"

definition gateways_routes :: "route list" where
  "gateways_routes = prefixed ''gateways''
     [route_to POST [] 201 ''register_gateway'',
      route_to GET [] 200 ''list_gateways'',
      route_to GET [Param ''gateway_id''] 200 ''get_gateway'',
      route_to PATCH [Param ''gateway_id''] 200 ''update_gateway'',
      route_to DELETE [Param ''gateway_id''] 204 ''delete_gateway'',
      route_to GET [Param ''gateway_id'', Lit ''state''] 200 ''get_gateway_state'']"

definition sensor_profiles_routes :: "route list" where
  "sensor_profiles_routes = prefixed ''sensor-profiles''
     [route_to POST [] 201 ''create_sensor_profile'',
      route_to GET [] 200 ''list_sensor_profiles'',
      route_to GET [Param ''profile_id''] 200 ''get_sensor_profile'']"

definition sensor_channels_routes :: "route list" where
  "sensor_channels_routes =
     [route_to POST [Lit ''gateways'', Param ''gateway_id'', Lit ''sensor-channels''] 201 ''add_sensor_channel'',
      route_to GET [Lit ''gateways'', Param ''gateway_id'', Lit ''sensor-channels''] 200 ''list_sensor_channels'',
      route_to DELETE [Lit ''sensor-channels'', Param ''channel_id''] 204 ''delete_sensor_channel'']"

definition actuator_channels_routes :: "route list" where
  "actuator_channels_routes =
     [route_to POST [Lit ''gateways'', Param ''gateway_id'', Lit ''actuator-channels''] 201 ''add_actuator_channel'',
      route_to GET [Lit ''gateways'', Param ''gateway_id'', Lit ''actuator-channels''] 200 ''list_actuator_channels'',
      route_to DELETE [Lit ''actuator-channels'', Param ''channel_id''] 204 ''delete_actuator_channel'']"

definition commands_routes :: "route list" where
  "commands_routes =
     [route_to POST [Lit ''gateways'', Param ''gateway_id'', Lit ''commands''] 202 ''issue_command'',
      route_to GET [Lit ''commands'', Param ''command_id''] 200 ''get_command'']"

definition telemetry_routes :: "route list" where
  "telemetry_routes =
     [route_to GET [Lit ''gateways'', Param ''gateway_id'', Lit ''latest''] 200 ''get_latest'',
      route_to GET [Lit ''gateways'', Param ''gateway_id'', Lit ''telemetry''] 200 ''get_telemetry_range'']"

text \<open>The table \<open>app.include_router\<close> builds, in order.\<close>

definition app_routes :: "route list" where
  "app_routes = health_routes @
     prefixed ''api'' (companies_routes @ sites_routes @ gateways_routes @ sensor_profiles_routes @
       sensor_channels_routes @ actuator_channels_routes @ commands_routes @ telemetry_routes)"

text \<open>A path parameter takes one segment, which is not empty and holds no slash.\<close>

fun takes :: "segment list \<Rightarrow> string list \<Rightarrow> bool" where
  "takes [] [] = True"
| "takes (Lit l # ps) (s # ss) = (s = l \<and> takes ps ss)"
| "takes (Param _ # ps) (s # ss) = (s \<noteq> [] \<and> CHR ''/'' \<notin> set s \<and> takes ps ss)"
| "takes _ _ = False"

definition routes_for :: "http_method \<Rightarrow> string list \<Rightarrow> route list" where
  "routes_for m path = filter (\<lambda>r. rt_method r = m \<and> takes (rt_path r) path) app_routes"

section \<open>Calls\<close>

text \<open>\<open>probe\<close>: the two health checks, which take no user; \<open>api_call\<close>: every other endpoint.\<close>

datatype probe = Health | HealthDb

datatype api_call =
    CreateCompany company_in
  | ListCompanies
  | GetCompany uuid
  | CreateSite site_in
  | ListSites "uuid option"
  | RegisterGateway gateway_in
  | ListGateways
  | GetGateway uuid
  | UpdateGateway uuid gateway_patch
  | DeleteGateway uuid
  | GatewayState uuid
  | CreateSensorProfile sensor_profile_in
  | ListSensorProfiles
  | GetSensorProfile uuid
  | AddSensorChannel uuid sensor_channel_in
  | ListSensorChannels uuid
  | DeleteSensorChannel uuid
  | AddActuatorChannel uuid actuator_channel_in
  | ListActuatorChannels uuid
  | DeleteActuatorChannel uuid
  | IssueCommand uuid command_in
  | GetCommand string
  | GetLatest uuid
  | GetTelemetryRange uuid "string option" int int

datatype target = Probe probe | Call api_call

text \<open>The function the decorator of a target's route stands above.\<close>

fun endpoint_name :: "target \<Rightarrow> string" where
  "endpoint_name (Probe Health) = ''health''"
| "endpoint_name (Probe HealthDb) = ''health_db''"
| "endpoint_name (Call (CreateCompany _)) = ''create_company''"
| "endpoint_name (Call ListCompanies) = ''list_companies''"
| "endpoint_name (Call (GetCompany _)) = ''get_company''"
| "endpoint_name (Call (CreateSite _)) = ''create_site''"
| "endpoint_name (Call (ListSites _)) = ''list_sites''"
| "endpoint_name (Call (RegisterGateway _)) = ''register_gateway''"
| "endpoint_name (Call ListGateways) = ''list_gateways''"
| "endpoint_name (Call (GetGateway _)) = ''get_gateway''"
| "endpoint_name (Call (UpdateGateway _ _)) = ''update_gateway''"
| "endpoint_name (Call (DeleteGateway _)) = ''delete_gateway''"
| "endpoint_name (Call (GatewayState _)) = ''get_gateway_state''"
| "endpoint_name (Call (CreateSensorProfile _)) = ''create_sensor_profile''"
| "endpoint_name (Call ListSensorProfiles) = ''list_sensor_profiles''"
| "endpoint_name (Call (GetSensorProfile _)) = ''get_sensor_profile''"
| "endpoint_name (Call (AddSensorChannel _ _)) = ''add_sensor_channel''"
| "endpoint_name (Call (ListSensorChannels _)) = ''list_sensor_channels''"
| "endpoint_name (Call (DeleteSensorChannel _)) = ''delete_sensor_channel''"
| "endpoint_name (Call (AddActuatorChannel _ _)) = ''add_actuator_channel''"
| "endpoint_name (Call (ListActuatorChannels _)) = ''list_actuator_channels''"
| "endpoint_name (Call (DeleteActuatorChannel _)) = ''delete_actuator_channel''"
| "endpoint_name (Call (IssueCommand _ _)) = ''issue_command''"
| "endpoint_name (Call (GetCommand _)) = ''get_command''"
| "endpoint_name (Call (GetLatest _)) = ''get_latest''"
| "endpoint_name (Call (GetTelemetryRange _ _ _ _)) = ''get_telemetry_range''"

text \<open>The method and the path segments a client sends for a call.\<close>

fun probe_line :: "probe \<Rightarrow> http_method \<times> string list" where
  "probe_line Health = (GET, [''health''])"
| "probe_line HealthDb = (GET, [''health'', ''db''])"

fun request_line :: "api_call \<Rightarrow> http_method \<times> string list" where
  "request_line (CreateCompany _) = (POST, [''api'', ''companies''])"
| "request_line ListCompanies = (GET, [''api'', ''companies''])"
| "request_line (GetCompany i) = (GET, [''api'', ''companies'', uuid_str i])"
| "request_line (CreateSite _) = (POST, [''api'', ''sites''])"
| "request_line (ListSites _) = (GET, [''api'', ''sites''])"
| "request_line (RegisterGateway _) = (POST, [''api'', ''gateways''])"
| "request_line ListGateways = (GET, [''api'', ''gateways''])"
| "request_line (GetGateway g) = (GET, [''api'', ''gateways'', uuid_str g])"
| "request_line (UpdateGateway g _) = (PATCH, [''api'', ''gateways'', uuid_str g])"
| "request_line (DeleteGateway g) = (DELETE, [''api'', ''gateways'', uuid_str g])"
| "request_line (GatewayState g) = (GET, [''api'', ''gateways'', uuid_str g, ''state''])"
| "request_line (CreateSensorProfile _) = (POST, [''api'', ''sensor-profiles''])"
| "request_line ListSensorProfiles = (GET, [''api'', ''sensor-profiles''])"
| "request_line (GetSensorProfile i) = (GET, [''api'', ''sensor-profiles'', uuid_str i])"
| "request_line (AddSensorChannel g _) = (POST, [''api'', ''gateways'', uuid_str g, ''sensor-channels''])"
| "request_line (ListSensorChannels g) = (GET, [''api'', ''gateways'', uuid_str g, ''sensor-channels''])"
| "request_line (DeleteSensorChannel k) = (DELETE, [''api'', ''sensor-channels'', uuid_str k])"
| "request_line (AddActuatorChannel g _) = (POST, [''api'', ''gateways'', uuid_str g, ''actuator-channels''])"
| "request_line (ListActuatorChannels g) = (GET, [''api'', ''gateways'', uuid_str g, ''actuator-channels''])"
| "request_line (DeleteActuatorChannel k) = (DELETE, [''api'', ''actuator-channels'', uuid_str k])"
| "request_line (IssueCommand g _) = (POST, [''api'', ''gateways'', uuid_str g, ''commands''])"
| "request_line (GetCommand c) = (GET, [''api'', ''commands'', c])"
| "request_line (GetLatest g) = (GET, [''api'', ''gateways'', uuid_str g, ''latest''])"
| "request_line (GetTelemetryRange g _ _ _) = (GET, [''api'', ''gateways'', uuid_str g, ''telemetry''])"

fun target_line :: "target \<Rightarrow> http_method \<times> string list" where
  "target_line (Probe p) = probe_line p"
| "target_line (Call c) = request_line c"

section \<open>Serving a call\<close>

text \<open>
  \<open>deployment\<close>: the settings and the third-party functions. \<open>request\<close>: the client's header and
  target, with what the world supplies while it is served: the key server, the clock, fresh UUIDs,
  the broker, the second commit, the schema file and the reply to \<open>SELECT 1\<close>. \<open>server\<close>: the
  database and the two caches of the process.
\<close>

record deployment =
  dp_settings :: settings
  dp_jose :: jose
  dp_validator :: "json \<Rightarrow> json \<Rightarrow> bool"
  dp_rank :: "string \<Rightarrow> nat"
  dp_frepr :: "pyfloat \<Rightarrow> string"
  dp_version :: string

record request =
  rq_authorization :: "string option"
  rq_target :: target
  rq_web :: web
  rq_now :: instant
  rq_id :: uuid
  rq_id' :: uuid
  rq_client :: bool
  rq_broker :: "exn option"
  rq_commit :: "exn option"
  rq_schema_file :: "json option"
  rq_select_1 :: "exn + int"

record server =
  sv_db :: db
  sv_jwks :: "jwks_cache option"
  sv_schema :: "json option"

datatype reply =
    Info "(string \<times> string) list"
  | CompanyReply company_out
  | CompaniesReply "company_out list"
  | SiteReply site_out
  | SitesReply "site_out list"
  | GatewayReply gateway_out
  | GatewaysReply "gateway_out list"
  | StateReply gateway_state
  | ProfileReply sensor_profile_out
  | ProfilesReply "sensor_profile_out list"
  | SensorReply sensor_channel_out
  | SensorsReply "sensor_channel_out list"
  | ActuatorReply actuator_channel_out
  | ActuatorsReply "actuator_channel_out list"
  | CommandReply command_out
  | LatestReply "telemetry_latest_out list"
  | RangeReply "telemetry_view list"
  | NoContent

text \<open>
  The response model is built from what the endpoint returned, after its commit. A value the model
  refuses is a server error.
\<close>

definition respond :: "('a \<Rightarrow> exn + reply) \<Rightarrow> (exn + 'a) \<times> db \<Rightarrow> (exn + reply) \<times> db \<times> message list" where
  "respond f r = (case r of (Inl e, d) \<Rightarrow> (Inl e, d, []) | (Inr a, d) \<Rightarrow> (f a, d, []))"

fun all_of :: "('a \<Rightarrow> exn + 'b) \<Rightarrow> 'a list \<Rightarrow> exn + 'b list" where
  "all_of f [] = Inr []"
| "all_of f (x # xs) =
     (case f x of Inl e \<Rightarrow> Inl e | Inr y \<Rightarrow> (case all_of f xs of Inl e \<Rightarrow> Inl e | Inr ys \<Rightarrow> Inr (y # ys)))"

definition as_reply :: "('b \<Rightarrow> reply) \<Rightarrow> exn + 'b \<Rightarrow> exn + reply" where
  "as_reply c r = (case r of Inl e \<Rightarrow> Inl e | Inr b \<Rightarrow> Inr (c b))"

definition world_of :: "deployment \<Rightarrow> request \<Rightarrow> world" where
  "world_of dp rq = \<lparr>w_settings = dp_settings dp, w_frepr = dp_frepr dp, w_client = rq_client rq,
     w_broker = rq_broker rq, w_commit = rq_commit rq\<rparr>"

text \<open>A body the model refuses never reaches the endpoint.\<close>

definition body_valid :: "api_call \<Rightarrow> bool" where
  "body_valid c =
     (case c of
        CreateSensorProfile b \<Rightarrow> sensor_profile_in_valid b
      | AddSensorChannel _ b \<Rightarrow> sensor_channel_in_valid b
      | AddActuatorChannel _ b \<Rightarrow> actuator_channel_in_valid b
      | _ \<Rightarrow> True)"

fun probe_reply :: "deployment \<Rightarrow> request \<Rightarrow> probe \<Rightarrow> exn + reply" where
  "probe_reply dp rq Health = Inr (Info (health (dp_version dp)))"
| "probe_reply dp rq HealthDb = as_reply Info (health_db (rq_select_1 rq))"

fun endpoint :: "deployment \<Rightarrow> request \<Rightarrow> json option \<Rightarrow> user \<Rightarrow> api_call \<Rightarrow> db \<Rightarrow> (exn + reply) \<times> db \<times> message list" where
  "endpoint dp rq loaded u (CreateCompany b) d =
     respond (as_reply CompanyReply \<circ> to_company_out) (create_company (rq_id rq) (rq_now rq) b u d)"
| "endpoint dp rq loaded u ListCompanies d = (as_reply CompaniesReply (all_of to_company_out (list_companies d)), d, [])"
| "endpoint dp rq loaded u (GetCompany i) d = respond (as_reply CompanyReply \<circ> to_company_out) (get_company i d, d)"
| "endpoint dp rq loaded u (CreateSite b) d =
     respond (Inr \<circ> SiteReply \<circ> to_site_out) (create_site (rq_id rq) (rq_now rq) b u d)"
| "endpoint dp rq loaded u (ListSites c) d = (Inr (SitesReply (map to_site_out (list_sites c d))), d, [])"
| "endpoint dp rq loaded u (RegisterGateway b) d =
     respond (Inr \<circ> GatewayReply \<circ> to_gateway_out) (register_gateway (rq_id rq) (rq_id' rq) (rq_now rq) b u d)"
| "endpoint dp rq loaded u ListGateways d = (Inr (GatewaysReply (map to_gateway_out (list_gateways u d))), d, [])"
| "endpoint dp rq loaded u (GetGateway g) d = respond (Inr \<circ> GatewayReply \<circ> to_gateway_out) (get_gateway g u d)"
| "endpoint dp rq loaded u (UpdateGateway g p) d = respond (Inr \<circ> GatewayReply \<circ> to_gateway_out) (update_gateway g p u d)"
| "endpoint dp rq loaded u (DeleteGateway g) d = respond (\<lambda>_. Inr NoContent) (delete_gateway g u d)"
| "endpoint dp rq loaded u (GatewayState g) d = respond (Inr \<circ> StateReply) (get_gateway_state (rq_now rq) g u d)"
| "endpoint dp rq loaded u (CreateSensorProfile b) d =
     respond (as_reply ProfileReply \<circ> to_sensor_profile_out)
       (create_sensor_profile (dp_validator dp) loaded (rq_schema_file rq) (rq_id rq) (rq_now rq) b u d)"
| "endpoint dp rq loaded u ListSensorProfiles d =
     (as_reply ProfilesReply (all_of to_sensor_profile_out (list_sensor_profiles (dp_rank dp) d)), d, [])"
| "endpoint dp rq loaded u (GetSensorProfile i) d =
     respond (as_reply ProfileReply \<circ> to_sensor_profile_out) (get_sensor_profile i d, d)"
| "endpoint dp rq loaded u (AddSensorChannel g b) d =
     respond (as_reply SensorReply \<circ> to_sensor_channel_out) (add_sensor_channel (rq_id rq) (rq_now rq) b g u d)"
| "endpoint dp rq loaded u (ListSensorChannels g) d =
     respond (as_reply SensorsReply \<circ> all_of to_sensor_channel_out) (list_sensor_channels g u d)"
| "endpoint dp rq loaded u (DeleteSensorChannel k) d = respond (\<lambda>_. Inr NoContent) (delete_sensor_channel k u d)"
| "endpoint dp rq loaded u (AddActuatorChannel g b) d =
     respond (as_reply ActuatorReply \<circ> to_actuator_channel_out) (add_actuator_channel (rq_id rq) (rq_now rq) b g u d)"
| "endpoint dp rq loaded u (ListActuatorChannels g) d =
     respond (as_reply ActuatorsReply \<circ> all_of to_actuator_channel_out) (list_actuator_channels g u d)"
| "endpoint dp rq loaded u (DeleteActuatorChannel k) d = respond (\<lambda>_. Inr NoContent) (delete_actuator_channel k u d)"
| "endpoint dp rq loaded u (IssueCommand g b) d =
     (case issue_command (world_of dp rq) (rq_now rq) (rq_id rq) b g u d of
        (Inl e, d', ms) \<Rightarrow> (Inl e, d', ms)
      | (Inr cmd, d', ms) \<Rightarrow> (as_reply CommandReply (to_command_out cmd), d', ms))"
| "endpoint dp rq loaded u (GetCommand c) d = respond (as_reply CommandReply \<circ> to_command_out) (get_command c u d)"
| "endpoint dp rq loaded u (GetLatest g) d =
     respond (Inr \<circ> LatestReply \<circ> map to_telemetry_latest_out) (get_latest (dp_rank dp) g u d)"
| "endpoint dp rq loaded u (GetTelemetryRange g k h l) d =
     respond (Inr \<circ> RangeReply) (get_telemetry_range (rq_now rq) k h l g u d)"

text \<open>
  The reply is rendered after the transaction: JSON has no NaN or Infinity, and a reply with one, at
  any depth, is a \<open>ValueError\<close>.
\<close>

definition site_finite :: "'a site_in_scheme \<Rightarrow> bool" where
  "site_finite s = (opt_ok finite_float (sin_latitude s) \<and> opt_ok finite_float (sin_longitude s))"

fun renderable :: "reply \<Rightarrow> bool" where
  "renderable (SiteReply s) = site_finite s"
| "renderable (SitesReply ss) = list_all site_finite ss"
| "renderable (ProfileReply p) = json_finite (pin_profile_schema p)"
| "renderable (ProfilesReply ps) = list_all (\<lambda>p. json_finite (pin_profile_schema p)) ps"
| "renderable (SensorReply c) = opt_ok json_finite (scin_config c)"
| "renderable (SensorsReply cs) = list_all (\<lambda>c. opt_ok json_finite (scin_config c)) cs"
| "renderable (ActuatorReply c) = opt_ok json_finite (acin_safety_config c)"
| "renderable (ActuatorsReply cs) = list_all (\<lambda>c. opt_ok json_finite (acin_safety_config c)) cs"
| "renderable (CommandReply c) = opt_ok json_finite (cmout_response c)"
| "renderable (LatestReply rs) = list_all (\<lambda>r. opt_ok finite_float (tlout_value_double r)) rs"
| "renderable (RangeReply rs) = list_all (\<lambda>r. opt_ok finite_float (tv_value_double r)) rs"
| "renderable _ = True"

definition render_reply :: "exn + reply \<Rightarrow> exn + reply" where
  "render_reply r = (case r of Inl e \<Rightarrow> Inl e | Inr a \<Rightarrow> if renderable a then Inr a else Inl ValueError)"

lemma render_Inr: "render_reply r = Inr a \<longleftrightarrow> r = Inr a \<and> renderable a"
  by (auto simp: render_reply_def split: sum.splits)

lemma render_Inl: "render_reply r = Inl e \<longleftrightarrow> r = Inl e \<or> (\<exists>a. r = Inr a \<and> \<not> renderable a \<and> e = ValueError)"
  by (auto simp: render_reply_def split: sum.splits)

lemma render_simps [simp]:
  "render_reply (Inl e) = Inl e"
  "renderable a \<Longrightarrow> render_reply (Inr a) = Inr a"
  by (simp_all add: render_reply_def)

text \<open>The schema file is read by the first profile that is created, and kept.\<close>

definition schema_after :: "request \<Rightarrow> api_call \<Rightarrow> json option \<Rightarrow> json option" where
  "schema_after rq c loaded =
     (case c of
        CreateSensorProfile _ \<Rightarrow> (case schema loaded (rq_schema_file rq) of Inl _ \<Rightarrow> loaded | Inr j \<Rightarrow> Some j)
      | _ \<Rightarrow> loaded)"

definition serve :: "deployment \<Rightarrow> request \<Rightarrow> server \<Rightarrow> (exn + reply) \<times> server \<times> message list" where
  "serve dp rq sv =
     (case rq_target rq of
        Probe p \<Rightarrow> (probe_reply dp rq p, sv, [])
      | Call c \<Rightarrow>
          (case authenticate (dp_settings dp) (dp_jose dp) (rq_web rq) (rq_authorization rq) (sv_db sv) (sv_jwks sv) of
             (Inl e, cache) \<Rightarrow> (Inl e, sv\<lparr>sv_jwks := cache\<rparr>, [])
           | (Inr u, cache) \<Rightarrow>
               if \<not> body_valid c then (Inl (HTTPException 422), sv\<lparr>sv_jwks := cache\<rparr>, [])
               else (case endpoint dp rq (sv_schema sv) u c (sv_db sv) of
                       (r, d', ms) \<Rightarrow>
                         (render_reply r, \<lparr>sv_db = d', sv_jwks = cache, sv_schema = schema_after rq c (sv_schema sv)\<rparr>, ms))))"

text \<open>A sequence of requests: the replies, the state it leaves and every message sent.\<close>

fun serve_all :: "deployment \<Rightarrow> request list \<Rightarrow> server \<Rightarrow> (exn + reply) list \<times> server \<times> message list" where
  "serve_all dp [] sv = ([], sv, [])"
| "serve_all dp (rq # rqs) sv =
     (case serve dp rq sv of
        (r, sv1, ms) \<Rightarrow> (case serve_all dp rqs sv1 of (rs, sv2, ms') \<Rightarrow> (r # rs, sv2, ms @ ms')))"


lemma listing_served:
  assumes "authenticate (dp_settings dp) (dp_jose dp) (rq_web rq) (rq_authorization rq) (sv_db sv) (sv_jwks sv) = (Inr u, sv_jwks sv)"
    and "rq_target rq = Call ListGateways"
  shows "serve dp rq sv = (Inr (GatewaysReply (map to_gateway_out (list_gateways u (sv_db sv)))), sv, [])"
  using assms by (simp add: serve_def body_valid_def schema_after_def)

lemma respond_Pair: "respond f p = (r, d', ms) \<Longrightarrow> snd p = d' \<and> ms = []"
  by (auto simp: respond_def split: prod.splits sum.splits)

lemma reads:
  "snd (get_gateway g u d) = d" "snd (get_gateway_state now g u d) = d" "snd (list_sensor_channels g u d) = d"
  "snd (list_actuator_channels g u d) = d" "snd (get_command cid u d) = d" "snd (get_latest rank g u d) = d"
  "snd (get_telemetry_range now key h l g u d) = d"
  by (simp_all add: get_gateway_def get_gateway_state_def list_sensor_channels_def list_actuator_channels_def
      get_command_def get_latest_def get_telemetry_range_def)

lemmas call_wf = create_company_wf create_site_wf register_gateway_wf update_gateway_wf delete_gateway_wf
  create_sensor_profile_wf add_sensor_channel_wf delete_sensor_channel_wf add_actuator_channel_wf
  delete_actuator_channel_wf

lemma endpoint_wf:
  assumes "wf_db d" "endpoint dp rq l u c d = (r, d', ms)"
  shows "wf_db d'"
  using assms
  by (cases c) (auto simp: reads dest!: respond_Pair split: prod.splits sum.splits
      intro: call_wf [OF _ surjective_pairing] issue_command_wf)

section \<open>The access policy\<close>

fun demands :: "api_call \<Rightarrow> db \<Rightarrow> (uuid \<times> string) option" where
  "demands (GetGateway g) d = Some (g, ''view'')"
| "demands (GatewayState g) d = Some (g, ''view'')"
| "demands (UpdateGateway g _) d = Some (g, ''configure'')"
| "demands (DeleteGateway g) d = Some (g, ''admin'')"
| "demands (AddSensorChannel g _) d = Some (g, ''configure'')"
| "demands (ListSensorChannels g) d = Some (g, ''view'')"
| "demands (DeleteSensorChannel k) d =
     map_option (\<lambda>c. (sc_gateway_id c, ''configure'')) (fetch sc_id k (sensor_channels d))"
| "demands (AddActuatorChannel g _) d = Some (g, ''configure'')"
| "demands (ListActuatorChannels g) d = Some (g, ''view'')"
| "demands (DeleteActuatorChannel k) d =
     map_option (\<lambda>c. (ac_gateway_id c, ''configure'')) (fetch ac_id k (actuator_channels d))"
| "demands (IssueCommand g _) d = Some (g, ''control'')"
| "demands (GetCommand c) d = map_option (\<lambda>c. (cm_gateway_id c, ''view'')) (fetch cm_id c (commands d))"
| "demands (GetLatest g) d = Some (g, ''view'')"
| "demands (GetTelemetryRange g _ _ _) d = Some (g, ''view'')"
| "demands _ d = None"

definition may :: "user \<Rightarrow> uuid \<Rightarrow> string \<Rightarrow> db \<Rightarrow> bool" where
  "may u g p d = (holds u g p d \<or> holds u g ''admin'' d)"

lemma check_perm_may:
  assumes "\<not> may u g p d"
  shows "check_perm u g p d = Inl HTTP_404 \<or> check_perm u g p d = Inl HTTP_403"
proof -
  have "filter (grants u g p) (permissions d) = []"
    using assms by (auto simp: may_def holds_def list_ex_iff grants_def filter_empty_conv)
  then show ?thesis by (auto simp: check_perm_def scalar_one_or_none_def split: option.splits)
qed

text \<open>Whoever lacks the permission is answered with an error and leaves no trace.\<close>

lemma endpoint_refuses:
  assumes "demands c d = Some (g, p)" "\<not> may u g p d"
  shows "\<exists>e. endpoint dp rq l u c d = (Inl e, d, []) \<and> http_status e \<in> {403, 404, 422}"
  using assms(1) check_perm_may [OF assms(2)]
  by (cases c) (auto simp: respond_def get_gateway_def get_gateway_state_def update_gateway_def delete_gateway_def
      add_sensor_channel_def list_sensor_channels_def delete_sensor_channel_def add_actuator_channel_def
      list_actuator_channels_def delete_actuator_channel_def issue_command_def issue_begin_def get_command_def
      get_latest_def get_telemetry_range_def as_reply_def HTTP_404_def HTTP_403_def)

section \<open>What a request can change of a gateway\<close>

text \<open>Everything of the database that belongs to one gateway, and the users.\<close>

definition gateway_part :: "uuid \<Rightarrow> db \<Rightarrow> gateway list \<times> permission list \<times> sensor_channel list \<times> actuator_channel list \<times>
    command list \<times> telemetry_row list \<times> latest_row list" where
  "gateway_part g d =
     (filter (\<lambda>r. gw_id r = g) (gateways d), filter (\<lambda>r. pm_gateway_id r = g) (permissions d),
      filter (\<lambda>r. sc_gateway_id r = g) (sensor_channels d), filter (\<lambda>r. ac_gateway_id r = g) (actuator_channels d),
      filter (\<lambda>r. cm_gateway_id r = g) (commands d), filter (\<lambda>r. te_gateway_id r = g) (telemetry d),
      filter (\<lambda>r. tl_gateway_id r = g) (telemetry_latest d))"

definition leaves :: "uuid \<Rightarrow> db \<Rightarrow> db \<Rightarrow> bool" where
  "leaves g d d' = (gateway_part g d' = gateway_part g d \<and> users d' = users d)"

definition permitted :: "user \<Rightarrow> uuid \<Rightarrow> db \<Rightarrow> bool" where
  "permitted u g d = list_ex (\<lambda>r. pm_user_id r = us_id u \<and> pm_gateway_id r = g) (permissions d)"

lemma leaves_refl [simp]: "leaves g d d"
  by (simp add: leaves_def)

lemma leaves_trans: "leaves g d d1 \<Longrightarrow> leaves g d1 d2 \<Longrightarrow> leaves g d d2"
  by (simp add: leaves_def)

lemma leaves_permitted:
  assumes "leaves g d d'"
  shows "permitted u g d' = permitted u g d"
proof -
  have "permitted u g x = list_ex (\<lambda>r. pm_user_id r = us_id u) (filter (\<lambda>r. pm_gateway_id r = g) (permissions x))" for x
    by (auto simp: permitted_def list_ex_iff)
  then show ?thesis using assms by (simp add: leaves_def gateway_part_def)
qed

lemma may_permitted: "may u g p d \<Longrightarrow> permitted u g d"
  by (auto simp: may_def holds_def permitted_def list_ex_iff)

lemma filter_modify_other:
  "\<not> p x \<Longrightarrow> (\<And>r. key r = k \<Longrightarrow> \<not> p r) \<Longrightarrow> filter p (modify key k (\<lambda>_. x) rows) = filter p rows"
  by (induction rows) auto

lemma filter_erase_other:
  assumes "\<And>r. r \<in> set rows \<Longrightarrow> key r = k \<Longrightarrow> \<not> p r"
  shows "filter p (erase key k rows) = filter p rows"
  using assms by (induction rows) (auto simp: erase_def)

lemma in_session_leaves:
  assumes "\<And>a d1. r = Inr (a, d1) \<Longrightarrow> leaves g d d1"
  shows "leaves g d (snd (in_session r d))"
  using assms by (cases r) auto

lemma check_perm_Inr_may: "check_perm u k p d = Inr gw \<Longrightarrow> may u k p d"
  using check_perm_may [of u k p d] by auto

lemma perm_other: "check_perm u k p d = Inr gw \<Longrightarrow> \<not> permitted u g d \<Longrightarrow> k \<noteq> g"
  using check_perm_Inr_may may_permitted by metis

lemmas part_defs = leaves_def gateway_part_def

lemma create_leaves:
  "leaves g d (snd (create_company i now b1 u d))"
  "leaves g d (snd (create_site i now b2 u d))"
  "leaves g d (snd (create_sensor_profile v l f i now b3 u d))"
  unfolding create_company_def create_site_def create_sensor_profile_def
  by (rule in_session_leaves; auto simp: Let_def insert_company_def insert_site_def insert_sensor_profile_def part_defs
      split: sum.splits if_splits)+

lemma register_leaves:
  assumes "g \<in> gw_id ` set (gateways d)"
  shows "leaves g d (snd (register_gateway i pi now b u d))"
  unfolding register_gateway_def using assms
  by (intro in_session_leaves) (auto simp: Let_def insert_gateway_def insert_permission_def new_gateway_def part_defs
      split: sum.splits if_splits)

lemma update_leaves:
  assumes stranger: "\<not> permitted u g d"
  shows "leaves g d (snd (update_gateway k p u d))"
  unfolding update_gateway_def
proof (rule in_session_leaves)
  fix a d1
  assume "(case check_perm u k ''configure'' d of Inl e \<Rightarrow> Inl e
    | Inr gw \<Rightarrow> (case apply_patch p gw of Inl e \<Rightarrow> Inl e
      | Inr gw' \<Rightarrow> (case save_gateway gw' d of Inl e \<Rightarrow> Inl e | Inr d' \<Rightarrow> Inr (gw', d')))) = Inr (a, d1)"
  then obtain gw where c: "check_perm u k ''configure'' d = Inr gw" "apply_patch p gw = Inr a" "save_gateway a d = Inr d1"
    by (auto split: sum.splits)
  have "gw_id a \<noteq> g"
    using perm_other [OF c(1) stranger] apply_patch_frame(1) [OF c(2)] fetch_Some_key [OF check_perm_gateway [OF c(1)]] by simp
  then show "leaves g d d1"
    using c(3) by (auto simp: save_gateway_def part_defs intro!: filter_modify_other)
qed

lemma delete_leaves:
  assumes stranger: "\<not> permitted u g d"
  shows "leaves g d (snd (delete_gateway k u d))"
  unfolding delete_gateway_def
proof (rule in_session_leaves)
  fix a d1
  assume "(case check_perm u k ''admin'' d of Inl e \<Rightarrow> Inl e
    | Inr gw \<Rightarrow> (case delete_gateway_row (gw_id gw) d of Inl e \<Rightarrow> Inl e | Inr d' \<Rightarrow> Inr ((), d'))) = Inr (a, d1)"
  then obtain gw where c: "check_perm u k ''admin'' d = Inr gw" "delete_gateway_row (gw_id gw) d = Inr d1"
    by (auto split: sum.splits)
  have "gw_id gw \<noteq> g"
    using perm_other [OF c(1) stranger] fetch_Some_key [OF check_perm_gateway [OF c(1)]] by simp
  then show "leaves g d d1"
    using c(2) by (auto simp: delete_gateway_row_def part_defs intro!: filter_erase_other filter_cong)
qed

lemma add_sensor_leaves:
  assumes "\<not> permitted u g d"
  shows "leaves g d (snd (add_sensor_channel i now b k u d))"
  unfolding add_sensor_channel_def
proof (rule in_session_leaves)
  fix a d1
  assume "(case check_perm u k ''configure'' d of Inl e \<Rightarrow> Inl e
    | Inr _ \<Rightarrow> (let c = \<lparr>sc_id = i, sc_gateway_id = k, sc_slug = scin_slug b,
        sc_sensor_profile_id = scin_sensor_profile_id b, sc_display_name = scin_display_name b,
        sc_interface_name = scin_interface_name b, sc_protocol = scin_protocol b, sc_address = scin_address b,
        sc_slave_id = scin_slave_id b, sc_polling_interval_sec = scin_polling_interval_sec b,
        sc_enabled = scin_enabled b, sc_config = scin_config b, sc_created_at = now\<rparr>
      in case insert_sensor_channel c d of Inl e \<Rightarrow> Inl e | Inr d' \<Rightarrow> Inr (c, d'))) = Inr (a, d1)"
  then obtain gw c where c: "check_perm u k ''configure'' d = Inr gw" "insert_sensor_channel c d = Inr d1" "sc_gateway_id c = k"
    by (auto simp: Let_def split: sum.splits)
  have "k \<noteq> g" using perm_other [OF c(1) assms] .
  with c(2,3) show "leaves g d d1" by (auto simp: insert_sensor_channel_def part_defs)
qed

lemma add_actuator_leaves:
  assumes "\<not> permitted u g d"
  shows "leaves g d (snd (add_actuator_channel i now b k u d))"
  unfolding add_actuator_channel_def
proof (rule in_session_leaves)
  fix a d1
  assume "(case check_perm u k ''configure'' d of Inl e \<Rightarrow> Inl e
    | Inr _ \<Rightarrow> (let c = \<lparr>ac_id = i, ac_gateway_id = k, ac_slug = acin_slug b, ac_display_name = acin_display_name b,
        ac_actuator_type = actuator_type_str (acin_actuator_type b), ac_hardware_channel = acin_hardware_channel b,
        ac_default_state = acin_default_state b, ac_current_state = None, ac_enabled = acin_enabled b,
        ac_safety_config = acin_safety_config b, ac_created_at = now\<rparr>
      in case insert_actuator_channel c d of Inl e \<Rightarrow> Inl e | Inr d' \<Rightarrow> Inr (c, d'))) = Inr (a, d1)"
  then obtain gw c where c: "check_perm u k ''configure'' d = Inr gw" "insert_actuator_channel c d = Inr d1" "ac_gateway_id c = k"
    by (auto simp: Let_def split: sum.splits)
  have "k \<noteq> g" using perm_other [OF c(1) assms] .
  with c(2,3) show "leaves g d d1" by (auto simp: insert_actuator_channel_def part_defs)
qed

lemma delete_sensor_leaves:
  assumes "\<not> permitted u g d" "wf_db d"
  shows "leaves g d (snd (delete_sensor_channel k u d))"
proof -
  have u: "unique_key sc_id (sensor_channels d)" using assms(2) by (simp add: wf_db_def keys_ok_def)
  show ?thesis
    unfolding delete_sensor_channel_def
  proof (rule in_session_leaves)
    fix a d1
    assume "(case fetch sc_id k (sensor_channels d) of None \<Rightarrow> Inl HTTP_404 | Some c \<Rightarrow>
      (case check_perm u (sc_gateway_id c) ''configure'' d of Inl e \<Rightarrow> Inl e
       | Inr _ \<Rightarrow> (case delete_sensor_channel_row k d of Inl e \<Rightarrow> Inl e | Inr d' \<Rightarrow> Inr ((), d')))) = Inr (a, d1)"
    then obtain c gw where c: "fetch sc_id k (sensor_channels d) = Some c" "check_perm u (sc_gateway_id c) ''configure'' d = Inr gw"
      "delete_sensor_channel_row k d = Inr d1"
      by (auto split: option.splits sum.splits)
    have "sc_gateway_id r \<noteq> g" if "r \<in> set (sensor_channels d)" "sc_id r = k" for r
      using perm_other [OF c(2) assms(1)] unique_key_eq [OF u that(1) fetch_Some_mem [OF c(1)]] fetch_Some_key [OF c(1)] that(2)
      by simp
    then show "leaves g d d1"
      using c(3) by (auto simp: delete_sensor_channel_row_def part_defs intro!: filter_erase_other)
  qed
qed

lemma delete_actuator_leaves:
  assumes "\<not> permitted u g d" "wf_db d"
  shows "leaves g d (snd (delete_actuator_channel k u d))"
proof -
  have u: "unique_key ac_id (actuator_channels d)" using assms(2) by (simp add: wf_db_def keys_ok_def)
  show ?thesis
    unfolding delete_actuator_channel_def
  proof (rule in_session_leaves)
    fix a d1
    assume "(case fetch ac_id k (actuator_channels d) of None \<Rightarrow> Inl HTTP_404 | Some c \<Rightarrow>
      (case check_perm u (ac_gateway_id c) ''configure'' d of Inl e \<Rightarrow> Inl e
       | Inr _ \<Rightarrow> (case delete_actuator_channel_row k d of Inl e \<Rightarrow> Inl e | Inr d' \<Rightarrow> Inr ((), d')))) = Inr (a, d1)"
    then obtain c gw where c: "fetch ac_id k (actuator_channels d) = Some c" "check_perm u (ac_gateway_id c) ''configure'' d = Inr gw"
      "delete_actuator_channel_row k d = Inr d1"
      by (auto split: option.splits sum.splits)
    have "ac_gateway_id r \<noteq> g" if "r \<in> set (actuator_channels d)" "ac_id r = k" for r
      using perm_other [OF c(2) assms(1)] unique_key_eq [OF u that(1) fetch_Some_mem [OF c(1)]] fetch_Some_key [OF c(1)] that(2)
      by simp
    then show "leaves g d d1"
      using c(3) by (auto simp: delete_actuator_channel_row_def part_defs intro!: filter_erase_other)
  qed
qed

text \<open>A command goes to the topic of its own gateway.\<close>

lemma command_leaves:
  assumes "\<not> permitted u g d" "wf_db d" "fetch gw_id g (gateways d) = Some gw"
    and "issue_command w now r b k u d = (x, d', ms)"
  shows "leaves g d d' \<and> (\<forall>m \<in> set ms. msg_topic m \<noteq> command_topic (gw_serial_number gw))"
proof (cases "issue_begin (w_settings w) now r b k u d")
  case (Pair y d1)
  show ?thesis
  proof (cases y)
    case (Inl e)
    from issue_command_refused [OF Pair [unfolded Inl]] assms(4) show ?thesis by simp
  next
    case (Inr st)
    obtain gw' a c where st: "st = (gw', a, c)" by (cases st)
    have i: "issue_begin (w_settings w) now r b k u d = (Inr (gw', a, c), d1)" using Pair Inr st by simp
    note k = issue_begin_Inr [OF i]
    have other: "k \<noteq> g" "cm_gateway_id c = k"
      using issue.success_authorized [OF i] may_permitted [of u k "''control''" d] assms(1) new_command_Inr(2) [OF k(4)]
      by (auto simp: may_def)
    have uniq: "unique_key gw_serial_number (gateways d)" using assms(2) by (simp add: wf_db_def keys_ok_def)
    have "gw_serial_number gw' \<noteq> gw_serial_number gw"
      using unique_key_eq [OF uniq fetch_Some_mem [OF k(1)] fetch_Some_mem [OF assms(3)]] other(1)
        fetch_Some_key [OF k(1)] fetch_Some_key [OF assms(3)] by auto
    then show ?thesis
      using assms(4) other unfolding issue_command_stored [OF i]
      by (auto simp: part_defs command_topic_def split: if_splits)
  qed
qed

lemma endpoint_leaves:
  assumes "\<not> permitted u g d" "wf_db d" "fetch gw_id g (gateways d) = Some gw"
    and "endpoint dp rq l u c d = (r, d', ms)"
  shows "leaves g d d' \<and> (\<forall>m \<in> set ms. msg_topic m \<noteq> command_topic (gw_serial_number gw))"
proof (cases "\<exists>k b. c = IssueCommand k b")
  case True
  then show ?thesis using assms command_leaves by (fastforce split: prod.splits sum.splits)
next
  case False
  have g: "g \<in> gw_id ` set (gateways d)" using fetch_SomeD [OF assms(3)] by auto
  from False assms(4) show ?thesis
    using create_leaves register_leaves [OF g] update_leaves [OF assms(1)] delete_leaves [OF assms(1)]
      add_sensor_leaves [OF assms(1)] add_actuator_leaves [OF assms(1)] delete_sensor_leaves [OF assms(1,2)] delete_actuator_leaves [OF assms(1,2)]
    by (cases c) (auto simp: reads dest!: respond_Pair)
qed

section \<open>Requests in sequence\<close>

lemma authenticate_users:
  assumes "users d' = users d"
  shows "authenticate s j w a d' cache = authenticate s j w a d cache"
proof -
  have "get_current_user t d' = get_current_user t d" for t unfolding get_current_user_def assms by (rule refl)
  then have "(\<lambda>t. get_current_user t d') = (\<lambda>t. get_current_user t d)" by (rule ext)
  then show ?thesis by (auto simp: authenticate_def fun_eq_iff split: prod.splits sum.splits)
qed

lemma serve_wf: "wf_db (sv_db sv) \<Longrightarrow> serve dp rq sv = (r, sv', ms) \<Longrightarrow> wf_db (sv_db sv')"
  by (auto simp: serve_def intro: endpoint_wf split: target.splits prod.splits sum.splits if_splits)

lemma serve_all_wf: "wf_db (sv_db sv) \<Longrightarrow> serve_all dp rqs sv = (rs, sv', ms) \<Longrightarrow> wf_db (sv_db sv')"
  by (induction rqs arbitrary: sv rs ms) (auto split: prod.splits dest: serve_wf)

text \<open>No reply of the key server makes the request's token one of a user with a permission.\<close>

definition outsider :: "deployment \<Rightarrow> uuid \<Rightarrow> db \<Rightarrow> request \<Rightarrow> bool" where
  "outsider dp g d rq =
     (\<forall>w cache u. fst (authenticate (dp_settings dp) (dp_jose dp) w (rq_authorization rq) d cache) = Inr u \<longrightarrow>
        \<not> permitted u g d)"

lemma serve_leaves:
  assumes "outsider dp g (sv_db sv) rq" "wf_db (sv_db sv)" "fetch gw_id g (gateways (sv_db sv)) = Some gw"
    and "serve dp rq sv = (r, sv', ms)"
  shows "leaves g (sv_db sv) (sv_db sv') \<and> (\<forall>m \<in> set ms. msg_topic m \<noteq> command_topic (gw_serial_number gw))"
proof (cases "rq_target rq")
  case (Call c)
  obtain x cache where a: "authenticate (dp_settings dp) (dp_jose dp) (rq_web rq) (rq_authorization rq) (sv_db sv) (sv_jwks sv) = (x, cache)"
    by fastforce
  show ?thesis
  proof (cases x)
    case (Inr u)
    then have s: "\<not> permitted u g (sv_db sv)" using assms(1) a unfolding outsider_def by (metis fst_conv)
    show ?thesis using assms(4) Call a Inr endpoint_leaves [OF s assms(2,3)]
      by (fastforce simp: serve_def split: prod.splits if_splits)
  qed (use assms(4) Call a in \<open>auto simp: serve_def\<close>)
qed (use assms(4) in \<open>auto simp: serve_def\<close>)

lemma leaves_fetch:
  assumes "leaves g d d'"
  shows "fetch gw_id g (gateways d') = fetch gw_id g (gateways d)"
proof -
  have f: "fetch gw_id g rows = find (\<lambda>_. True) (filter (\<lambda>r. gw_id r = g) rows)" for rows
    by (induction rows) auto
  show ?thesis using assms by (simp add: f part_defs)
qed

lemma leaves_outsider:
  assumes "leaves g d d'"
  shows "outsider dp g d' rq = outsider dp g d rq"
  using leaves_permitted [OF assms] authenticate_users [of d' d] assms by (simp add: outsider_def leaves_def)

lemma serve_all_leaves:
  assumes "list_all (outsider dp g (sv_db sv)) rqs" "wf_db (sv_db sv)" "fetch gw_id g (gateways (sv_db sv)) = Some gw"
    and "serve_all dp rqs sv = (rs, sv', ms)"
  shows "leaves g (sv_db sv) (sv_db sv') \<and> (\<forall>m \<in> set ms. msg_topic m \<noteq> command_topic (gw_serial_number gw))"
  using assms
proof (induction rqs arbitrary: sv rs ms)
  case (Cons rq rqs)
  obtain r sv1 ms1 rs2 ms2 where s: "serve dp rq sv = (r, sv1, ms1)" "serve_all dp rqs sv1 = (rs2, sv', ms2)" "ms = ms1 @ ms2"
    using Cons.prems(4) by (auto split: prod.splits)
  have one: "leaves g (sv_db sv) (sv_db sv1) \<and> (\<forall>m \<in> set ms1. msg_topic m \<noteq> command_topic (gw_serial_number gw))"
    using serve_leaves [OF _ Cons.prems(2,3) s(1)] Cons.prems(1) by simp
  then have "list_all (outsider dp g (sv_db sv1)) rqs" "fetch gw_id g (gateways (sv_db sv1)) = Some gw"
    using Cons.prems(1,3) leaves_outsider leaves_fetch by (auto simp: list_all_iff)
  from Cons.IH [OF this(1) serve_wf [OF Cons.prems(2) s(1)] this(2) s(2)] one s(3) show ?case
    using leaves_trans by auto
qed auto

section \<open>No route shadows another\<close>

text \<open>Two templates that some path fits both have equal lengths and agree wherever both are literal.\<close>

fun overlap :: "segment list \<Rightarrow> segment list \<Rightarrow> bool" where
  "overlap [] [] = True"
| "overlap (Lit a # ps) (Lit b # qs) = (a = b \<and> overlap ps qs)"
| "overlap (_ # ps) (_ # qs) = overlap ps qs"
| "overlap _ _ = False"

lemma takes_overlap: "takes p s \<Longrightarrow> takes q s \<Longrightarrow> overlap p q"
proof (induction p arbitrary: q s)
  case Nil
  then show ?case by (cases s; cases q rule: list.exhaust) (auto elim: takes.elims)
next
  case (Cons x p)
  then obtain t ss where s: "s = t # ss" by (cases s; cases x) auto
  with Cons.prems(2) obtain y q' where q: "q = y # q'" by (cases q) auto
  show ?case using Cons s q by (cases x; cases y) auto
qed

fun pairwise_apart :: "route list \<Rightarrow> bool" where
  "pairwise_apart [] = True"
| "pairwise_apart (r # rs) =
     (list_all (\<lambda>q. rt_method q \<noteq> rt_method r \<or> \<not> overlap (rt_path r) (rt_path q)) rs \<and> pairwise_apart rs)"

lemma app_routes_apart: "pairwise_apart app_routes"
  by code_simp

lemma apart_filter:
  "pairwise_apart rs \<Longrightarrow> length (filter (\<lambda>r. rt_method r = m \<and> takes (rt_path r) path) rs) \<le> 1"
proof (induction rs)
  case (Cons r rs)
  show ?case
  proof (cases "rt_method r = m \<and> takes (rt_path r) path")
    case True
    then have "filter (\<lambda>r. rt_method r = m \<and> takes (rt_path r) path) rs = []"
      using Cons.prems takes_overlap by (fastforce simp: filter_empty_conv list_all_iff)
    with True show ?thesis by simp
  next
    case False
    then show ?thesis using Cons.IH Cons.prems by auto
  qed
qed simp

text \<open>A UUID fits a path parameter.\<close>

lemma uuid_param: "uuid_str u \<noteq> []" "CHR ''/'' \<notin> set (uuid_str u)"
proof -
  have "hex_char d \<noteq> CHR ''/''" if "d < 16" for d
    using that by (auto simp: hex_char_def take_bit_nat_eq_self dest!: arg_cong [of _ _ "of_char :: char \<Rightarrow> nat"])
  then have "CHR ''/'' \<notin> set (hex w n)" for w n by (induction w arbitrary: n) (simp_all add: not_sym)
  then have h: "CHR ''/'' \<notin> set (uuid_hex u)" by (simp add: uuid_hex_def)
  then have "CHR ''/'' \<notin> set (filter (\<lambda>c. c \<noteq> CHR ''-'') (uuid_str u))" by (simp add: uuid_str_filter)
  then show "CHR ''/'' \<notin> set (uuid_str u)" by simp
  show "uuid_str u \<noteq> []" by (simp add: uuid_str_def Let_def)
qed

lemmas route_tables = app_routes_def health_routes_def companies_routes_def sites_routes_def gateways_routes_def
  sensor_profiles_routes_def sensor_channels_routes_def actuator_channels_routes_def commands_routes_def
  telemetry_routes_def prefixed_def

text \<open>A command id a client can put in a path.\<close>

fun sendable :: "target \<Rightarrow> bool" where
  "sendable (Call (GetCommand c)) = (c \<noteq> [] \<and> CHR ''/'' \<notin> set c)"
| "sendable _ = True"

section \<open>Commands are never rewritten by a request\<close>

lemma in_session_commands:
  assumes "\<And>a d1. r = Inr (a, d1) \<Longrightarrow> commands d1 = commands d"
  shows "commands (snd (in_session r d)) = commands d"
  using assms by (cases r) auto

lemma endpoint_commands:
  assumes "endpoint dp rq l u c d = (r, d', ms)" "\<nexists>g b. c = IssueCommand g b"
  shows "commands d' = commands d"
proof -
  have "commands (snd (create_company i now b1 u d)) = commands d" "commands (snd (create_site i now b2 u d)) = commands d"
    "commands (snd (create_sensor_profile v l f i now b3 u d)) = commands d" for i now b1 b2 v l f b3
    unfolding create_company_def create_site_def create_sensor_profile_def
    by (rule in_session_commands; auto simp: Let_def insert_company_def insert_site_def insert_sensor_profile_def
        split: sum.splits if_splits)+
  moreover have "commands (snd (register_gateway i pi now b u d)) = commands d" for i pi now b
    unfolding register_gateway_def
    by (rule in_session_commands) (auto simp: Let_def insert_gateway_def insert_permission_def split: sum.splits if_splits)
  moreover have "commands (snd (update_gateway k p u d)) = commands d" "commands (snd (delete_gateway k u d)) = commands d" for k p
    unfolding update_gateway_def delete_gateway_def
    by (rule in_session_commands; auto simp: save_gateway_def delete_gateway_row_def split: sum.splits)+
  moreover have "commands (snd (add_sensor_channel i now b1 k u d)) = commands d"
    "commands (snd (add_actuator_channel i now b2 k u d)) = commands d"
    "commands (snd (delete_sensor_channel k u d)) = commands d" "commands (snd (delete_actuator_channel k u d)) = commands d"
    for i now b1 b2 k
    unfolding add_sensor_channel_def add_actuator_channel_def delete_sensor_channel_def delete_actuator_channel_def
    by (rule in_session_commands; auto simp: Let_def insert_sensor_channel_def insert_actuator_channel_def
        delete_sensor_channel_row_def delete_actuator_channel_row_def split: sum.splits option.splits)+
  ultimately show ?thesis
    using assms by (cases c) (auto simp: reads dest!: respond_Pair)
qed

end
