(* ===== verification/Responses.thy ===== *)
theory Responses
  imports Api Dispatch
begin

text \<open>
  Why the response models of the API accept what the endpoints return: what the tables hold of
  \<open>Literal\<close> strings, JSON objects and floats, that every writer of the API and the worker keeps it so,
  and the errors that are left for an authenticated call. Only the coordinates of a site can be
  floats that JSON cannot express: no column keeps them out, while a telemetry value is also stored
  inside a JSONB column, which does.
\<close>

section \<open>What the rows hold\<close>

definition stored_object :: "json \<Rightarrow> bool" where
  "stored_object j = (is_obj j \<and> json_finite j)"

definition typed_rows :: "db \<Rightarrow> bool" where
  "typed_rows d =
     (list_all (\<lambda>c. co_type c \<in> {''management'', ''customer''}) (companies d) \<and>
      list_all (\<lambda>a. ac_actuator_type a \<in> {''relay'', ''valve'', ''pump'', ''ssr''} \<and>
        opt_ok stored_object (ac_safety_config a)) (actuator_channels d) \<and>
      list_all (\<lambda>c. opt_ok stored_object (sc_config c)) (sensor_channels d) \<and>
      list_all (\<lambda>p. stored_object (sp_profile_schema p)) (sensor_profiles d) \<and>
      list_all (\<lambda>c. opt_ok stored_object (cm_response c)) (commands d) \<and>
      list_all (\<lambda>r. opt_ok finite_float (te_value_double r)) (telemetry d) \<and>
      list_all (\<lambda>r. opt_ok finite_float (tl_value_double r)) (telemetry_latest d))"

lemma stored_object_opt: "obj_or_none x \<Longrightarrow> opt_ok jsonb_ok x \<Longrightarrow> opt_ok stored_object x"
  by (auto simp: obj_or_none_def opt_ok_def stored_object_def jsonb_ok_finite split: option.splits)

text \<open>A change that only takes rows away, or rewrites columns the models do not type, keeps them typed.\<close>

lemma typed_subset:
  assumes "typed_rows d" "set (companies d') \<subseteq> set (companies d)" "set (actuator_channels d') \<subseteq> set (actuator_channels d)"
    "set (sensor_channels d') \<subseteq> set (sensor_channels d)" "set (sensor_profiles d') \<subseteq> set (sensor_profiles d)"
    "cm_response ` set (commands d') \<subseteq> cm_response ` set (commands d)"
    "set (telemetry d') \<subseteq> set (telemetry d)" "set (telemetry_latest d') \<subseteq> set (telemetry_latest d)"
  shows "typed_rows d'"
proof -
  have "opt_ok stored_object (cm_response c)" if "c \<in> set (commands d')" for c
  proof -
    have "cm_response c \<in> cm_response ` set (commands d)" using assms(6) that by blast
    then show ?thesis using assms(1) by (auto simp: typed_rows_def list_all_iff)
  qed
  then show ?thesis using assms by (auto simp: typed_rows_def list_all_iff subset_iff)
qed

section \<open>The endpoints keep it\<close>

lemma literal_strings:
  "company_type_str t \<in> {''management'', ''customer''}" "actuator_type_str a \<in> {''relay'', ''valve'', ''pump'', ''ssr''}"
  by (cases t; simp) (cases a; simp)

lemma in_session_typed:
  assumes "typed_rows d" "\<And>a d1. r = Inr (a, d1) \<Longrightarrow> typed_rows d1"
  shows "typed_rows (snd (in_session r d))"
  using assms by (cases r) auto

lemma call_typed:
  assumes "typed_rows d"
  shows "typed_rows (snd (create_company i now b1 u d))" "typed_rows (snd (create_site i now b2 u d))"
    "sensor_profile_in_valid b3 \<Longrightarrow> typed_rows (snd (create_sensor_profile v l f i now b3 u d))"
    "typed_rows (snd (register_gateway i pi now b4 u d))"
    "typed_rows (snd (update_gateway k p u d))" "typed_rows (snd (delete_gateway k u d))"
    "sensor_channel_in_valid b5 \<Longrightarrow> typed_rows (snd (add_sensor_channel i now b5 k u d))"
    "typed_rows (snd (delete_sensor_channel k u d))"
    "actuator_channel_in_valid b6 \<Longrightarrow> typed_rows (snd (add_actuator_channel i now b6 k u d))"
    "typed_rows (snd (delete_actuator_channel k u d))"
proof -
  note t = in_session_typed [OF assms]
  show "typed_rows (snd (create_company i now b1 u d))"
    unfolding create_company_def using assms literal_strings(1) [of "cin_company_type b1"]
    by (intro t) (auto simp: Let_def insert_company_def typed_rows_def split: sum.splits)
  show "typed_rows (snd (create_sensor_profile v l f i now b3 u d))" if "sensor_profile_in_valid b3"
    unfolding create_sensor_profile_def using assms that
    by (intro t) (auto simp: Let_def insert_sensor_profile_def typed_rows_def sensor_profile_in_valid_def stored_object_def
        jsonb_ok_finite split: sum.splits if_splits)
  show "typed_rows (snd (add_sensor_channel i now b5 k u d))" if "sensor_channel_in_valid b5"
    unfolding add_sensor_channel_def using assms that
    by (intro t) (auto simp: Let_def insert_sensor_channel_def typed_rows_def sensor_channel_in_valid_def stored_object_opt
        split: sum.splits)
  show "typed_rows (snd (add_actuator_channel i now b6 k u d))" if "actuator_channel_in_valid b6"
    unfolding add_actuator_channel_def using assms that literal_strings(2) [of "acin_actuator_type b6"]
    by (intro t) (auto simp: Let_def insert_actuator_channel_def typed_rows_def actuator_channel_in_valid_def stored_object_opt
        split: sum.splits)
  show "typed_rows (snd (create_site i now b2 u d))"
    "typed_rows (snd (register_gateway i pi now b4 u d))" "typed_rows (snd (update_gateway k p u d))"
    "typed_rows (snd (delete_gateway k u d))" "typed_rows (snd (delete_sensor_channel k u d))"
    "typed_rows (snd (delete_actuator_channel k u d))"
    unfolding create_site_def register_gateway_def update_gateway_def delete_gateway_def
      delete_sensor_channel_def delete_actuator_channel_def
    by (rule t; auto simp: Let_def insert_site_def insert_gateway_def insert_permission_def
        save_gateway_def delete_gateway_row_def delete_sensor_channel_row_def
        delete_actuator_channel_row_def set_erase intro!: typed_subset [OF assms] split: sum.splits option.splits if_splits)+
qed

lemma begin_typed:
  assumes "typed_rows d" "issue_begin s now r b g u d = (Inr (gw, a, c), d')"
  shows "typed_rows d'"
proof -
  have "cm_response c = None" using issue_begin_Inr(4) [OF assms(2)] by (auto simp: new_command_def split: sum.splits)
  then show ?thesis
    using assms(1) insert_command_Inr(1) [OF issue_begin_Inr(5) [OF assms(2)]] by (simp add: typed_rows_def opt_ok_def)
qed

lemma published_typed: "typed_rows d \<Longrightarrow> typed_rows (mark_published cid d)"
  by (erule typed_subset) (auto simp: mark_published_def modify_def)

lemma command_typed:
  assumes "typed_rows d" "issue_command w now k b g u d = (x, d', ms)"
  shows "typed_rows d'"
proof -
  have "typed_rows d2" if "issue_finish w b u st d1 = (x, d2, ms)" "typed_rows d1" for d1 d2 st
    using that by (auto simp: issue_finish_def published_typed split: prod.splits sum.splits option.splits)
  moreover have "typed_rows d1" if "issue_begin (w_settings w) now k b g u d = (Inr st, d1)" for st d1
    using that begin_typed [OF assms(1)] by (cases st) auto
  ultimately show ?thesis
    using assms by (auto simp: issue_command_def dest: issue_begin_Inl split: prod.splits sum.splits)
qed

lemma endpoint_typed:
  assumes "typed_rows d" "body_valid c" "endpoint dp rq l u c d = (r, d', ms)"
  shows "typed_rows d'"
  using assms call_typed [OF assms(1)]
  by (cases c) (auto simp: reads body_valid_def dest!: respond_Pair split: prod.splits sum.splits intro: command_typed)

lemma serve_typed: "typed_rows (sv_db sv) \<Longrightarrow> serve dp rq sv = (r, sv', ms) \<Longrightarrow> typed_rows (sv_db sv')"
  by (auto simp: serve_def intro: endpoint_typed split: target.splits prod.splits sum.splits if_splits)

section \<open>The worker keeps it\<close>

lemma jsonb_member: "jsonb_ok (JObj kvs) \<Longrightarrow> map_of kvs k = Some v \<Longrightarrow> jsonb_ok v"
  using map_of_SomeD [of kvs k v] by (fastforce simp: list_all_iff)

lemma float_of_int_finite: "float_of_int n = Inr f \<Longrightarrow> finite_float f"
  by (auto simp: float_of_int_def Let_def split: if_splits prod.splits)

lemma float_or_none_finite:
  assumes "float_or_none val = Inr x" "jsonb_ok val"
  shows "opt_ok finite_float x"
proof (cases val)
  case (JFloat f)
  with assms show ?thesis by (cases f) (auto simp: opt_ok_def)
qed (use assms float_of_int_finite in \<open>auto simp: opt_ok_def split: sum.splits\<close>)

text \<open>The value's own object is stored beside it, and JSONB refuses the object of a NaN.\<close>

lemma store_value_typed:
  assumes "typed_rows d" "store_value gw ts ch v d = Inr d'"
  shows "typed_rows d'"
  using assms(2)
proof (cases rule: store_value_Inr)
  case (stored k x un q d1 val)
  have v: "jsonb_ok v" using stored(3) by (auto simp: insert_telemetry_def telemetry_row_of_def)
  obtain kvs where kvs: "v = JObj kvs" using stored(5) by (cases v) auto
  have "jsonb_ok val"
  proof (cases "map_of kvs ''value''")
    case (Some w)
    with jsonb_member [of kvs "''value''" w] stored(5) v kvs show ?thesis by simp
  qed (use stored(5) kvs in auto)
  then have x: "opt_ok finite_float x" by (rule float_or_none_finite [OF stored(6)])
  then have d1: "typed_rows d1"
    using assms(1) stored(3) by (auto simp: insert_telemetry_def typed_rows_def telemetry_row_of_def)
  then show ?thesis
    using x stored(4)
    by (auto simp: upsert_latest_def typed_rows_def latest_row_of_def overwrite_latest_def list_all_iff modify_def split: if_splits)
qed (use assms(1) in simp)

lemma telemetry_values_typed:
  "telemetry_values clk gw ts vs d c = (Inr d', c') \<Longrightarrow> typed_rows d \<Longrightarrow> typed_rows d'"
proof (induction vs arbitrary: d c)
  case (Cons v vs)
  then obtain d1 c1 where v: "telemetry_value clk gw ts v d c = (Inr d1, c1)"
    and vs: "telemetry_values clk gw ts vs d1 c1 = (Inr d', c')"
    by (auto split: sum.splits prod.splits)
  from v have "typed_rows d1"
    by (cases rule: telemetry_value_Inr) (use Cons.prems(2) store_value_typed in auto)
  with Cons.IH [OF vs] show ?case by simp
qed simp

lemma save_gateway_typed: "save_gateway g d = Inr d' \<Longrightarrow> typed_rows d' = typed_rows d"
  by (auto simp: save_gateway_def typed_rows_def)

lemma command_response_typed:
  assumes "command_response_handle now g body d = Inr d'" "typed_rows d"
  shows "typed_rows d'"
  using assms(1)
proof (cases rule: command_response_Inr)
  case (stored v cmd s ts)
  have "is_obj body" using stored(1) by (cases body) auto
  moreover have "jsonb_ok body"
    using stored(4) by (auto simp: save_command_def command_types_def answered_def opt_ok_def)
  ultimately have "stored_object body" by (simp add: stored_object_def jsonb_ok_finite)
  then show ?thesis
    using assms(2) stored(4)
    by (auto simp: save_command_def answered_def typed_rows_def list_all_iff modify_def opt_ok_def split: if_splits)
qed (use assms(2) in simp)

lemma handle_typed:
  assumes "handle clk k now g body d c = (Inr d', c')" "typed_rows d"
  shows "typed_rows d'"
proof (cases k)
  case Telemetry
  with assms(1) have "telemetry_handle clk now g body d c = (Inr d', c')" by (simp add: handle_def)
  then show ?thesis
  proof (cases rule: telemetry_handle_Inr)
    case (stored vs ts gw xs d1)
    with telemetry_values_typed [OF stored(5) assms(2)] save_gateway_typed [OF stored(6)] show ?thesis by simp
  qed (use assms(2) in simp)
next
  case CommandResponse
  with assms command_response_typed show ?thesis by (auto simp: handle_def)
qed (use assms save_gateway_typed in
    \<open>auto simp: handle_def state_handle_def heartbeat_handle_def split: option.splits sum.splits\<close>)

lemma dispatch_typed:
  assumes "dispatch loads clk now topic payload d c = (Inr d', c')" "typed_rows d"
  shows "typed_rows d'"
  using assms(1) by (cases rule: dispatch_Inr) (use assms(2) handle_typed in auto)

section \<open>Errors\<close>

text \<open>Every error an authenticated call can end with.\<close>

definition api_errors :: "exn set" where
  "api_errors = {HTTPException 403, HTTPException 404, HTTPException 422, HTTPException 503, DBAPIError,
     IntegrityError, MultipleResultsFound, OverflowError, RuntimeError}"

lemma flush_Inl: "flush t c d' = Inl e \<Longrightarrow> e \<in> {DBAPIError, IntegrityError}"
  by (auto simp: flush_def split: if_splits)

lemma check_perm_Inl: "check_perm u g p d = Inl e \<Longrightarrow> e \<in> {HTTPException 403, HTTPException 404, MultipleResultsFound}"
  by (auto simp: check_perm_def scalar_one_or_none_def HTTP_404_def HTTP_403_def split: option.splits sum.splits list.splits)

lemma fst_in_session: "fst (in_session r d) = Inl e \<longleftrightarrow> r = Inl e"
  by (cases r) auto

lemmas statement_defs = insert_company_def insert_site_def insert_sensor_profile_def insert_gateway_def
  insert_permission_def save_gateway_def delete_gateway_row_def insert_sensor_channel_def delete_sensor_channel_row_def
  insert_actuator_channel_def delete_actuator_channel_row_def insert_command_def

lemma call_errors:
  "fst (create_company i now b1 u d) = Inl e \<Longrightarrow> e \<in> api_errors"
  "fst (create_site i now b2 u d) = Inl e \<Longrightarrow> e \<in> api_errors"
  "fst (create_sensor_profile v l f i now b3 u d) = Inl e \<Longrightarrow> e \<in> api_errors"
  "fst (register_gateway i pi now b4 u d) = Inl e \<Longrightarrow> e \<in> api_errors"
  "fst (update_gateway k p u d) = Inl e \<Longrightarrow> e \<in> api_errors"
  "fst (delete_gateway k u d) = Inl e \<Longrightarrow> e \<in> api_errors"
  "fst (add_sensor_channel i now b5 k u d) = Inl e \<Longrightarrow> e \<in> api_errors"
  "fst (delete_sensor_channel k u d) = Inl e \<Longrightarrow> e \<in> api_errors"
  "fst (add_actuator_channel i now b6 k u d) = Inl e \<Longrightarrow> e \<in> api_errors"
  "fst (delete_actuator_channel k u d) = Inl e \<Longrightarrow> e \<in> api_errors"
  unfolding create_company_def create_site_def create_sensor_profile_def register_gateway_def update_gateway_def
    delete_gateway_def add_sensor_channel_def delete_sensor_channel_def add_actuator_channel_def
    delete_actuator_channel_def fst_in_session
  by (auto simp: api_errors_def schema_def apply_patch_def set_required_def Let_def statement_defs HTTP_404_def
      dest!: flush_Inl check_perm_Inl split: sum.splits option.splits if_splits)

lemma read_errors:
  "fst (get_gateway g u d) = Inl e \<Longrightarrow> e \<in> api_errors" "fst (get_gateway_state now g u d) = Inl e \<Longrightarrow> e \<in> api_errors"
  "fst (list_sensor_channels g u d) = Inl e \<Longrightarrow> e \<in> api_errors"
  "fst (list_actuator_channels g u d) = Inl e \<Longrightarrow> e \<in> api_errors" "fst (get_command cid u d) = Inl e \<Longrightarrow> e \<in> api_errors"
  "fst (get_latest rank g u d) = Inl e \<Longrightarrow> e \<in> api_errors"
  "fst (get_telemetry_range now key h l g u d) = Inl e \<Longrightarrow> e \<in> api_errors"
  "get_company i d = Inl e \<Longrightarrow> e \<in> api_errors" "get_sensor_profile i d = Inl e \<Longrightarrow> e \<in> api_errors"
  by (auto simp: get_gateway_def get_gateway_state_def list_sensor_channels_def list_actuator_channels_def
      get_command_def get_latest_def get_telemetry_range_def get_company_def get_sensor_profile_def api_errors_def
      HTTP_404_def dest!: check_perm_Inl split: sum.splits option.splits if_splits)

lemma issue_command_errors:
  assumes "issue_command w now r b g u d = (Inl e, d', ms)"
  shows "e \<in> api_errors"
proof (cases "issue_begin (w_settings w) now r b g u d")
  case (Pair y d1)
  show ?thesis
  proof (cases y)
    case (Inl e')
    from issue_command_refused [OF Pair [unfolded Inl]] assms have "e = e'" by simp
    with Pair Inl show ?thesis
      by (auto simp: issue_begin_def in_session_def new_command_def expiry_def Let_def api_errors_def HTTP_404_def
          insert_command_def dest!: check_perm_Inl flush_Inl split: sum.splits option.splits if_splits)
  next
    case (Inr st)
    obtain gw a c' where st: "st = (gw, a, c')" by (cases st)
    from assms show ?thesis
      unfolding issue_command_stored [OF Pair [unfolded Inr st]] by (auto simp: api_errors_def HTTP_503_def split: if_splits)
  qed
qed

section \<open>A row of the tables makes a model, and the model renders\<close>

definition good :: "exn + reply \<Rightarrow> bool" where
  "good r = (case r of Inl e \<Rightarrow> e \<in> api_errors | Inr a \<Rightarrow> renderable a)"

lemma good_simps [simp]: "good (Inl e) = (e \<in> api_errors)" "good (Inr a) = renderable a"
  by (simp_all add: good_def)

lemma as_reply_simps [simp]: "as_reply c (Inr b) = Inr (c b)" "as_reply c (Inl e) = Inl e"
  by (simp_all add: as_reply_def)

lemma company_model: "co_type c \<in> {''management'', ''customer''} \<Longrightarrow> \<exists>b. to_company_out c = Inr b"
  by (auto simp: to_company_out_def of_literal_def)

lemma stored_object_model:
  "opt_ok stored_object x \<Longrightarrow> obj_or_none x \<and> opt_ok json_finite x"
  "stored_object j \<Longrightarrow> is_obj j \<and> json_finite j"
  by (auto simp: opt_ok_def obj_or_none_def stored_object_def split: option.splits)

lemma sensor_model:
  "serial_check (sc_slug c) \<Longrightarrow> opt_ok stored_object (sc_config c) \<Longrightarrow>
   \<exists>b. to_sensor_channel_out c = Inr b \<and> opt_ok json_finite (scin_config b)"
  using stored_object_model(1) [of "sc_config c"] by (simp add: to_sensor_channel_out_def slug_str_serial_check)

lemma actuator_model:
  "serial_check (ac_slug a) \<Longrightarrow> ac_actuator_type a \<in> {''relay'', ''valve'', ''pump'', ''ssr''} \<Longrightarrow>
   opt_ok stored_object (ac_safety_config a) \<Longrightarrow>
   \<exists>b. to_actuator_channel_out a = Inr b \<and> opt_ok json_finite (acin_safety_config b)"
  using stored_object_model(1) [of "ac_safety_config a"]
  by (auto simp: to_actuator_channel_out_def slug_str_serial_check of_literal_def)

lemma profile_model:
  "stored_object (sp_profile_schema p) \<Longrightarrow> \<exists>b. to_sensor_profile_out p = Inr b \<and> json_finite (pin_profile_schema b)"
  using stored_object_model(2) [of "sp_profile_schema p"] by (simp add: to_sensor_profile_out_def)

lemma command_model:
  "opt_ok stored_object (cm_response c) \<Longrightarrow> \<exists>b. to_command_out c = Inr b \<and> opt_ok json_finite (cmout_response b)"
  using stored_object_model(1) [of "cm_response c"] by (simp add: to_command_out_def)

lemma all_of_total:
  "(\<And>x. x \<in> set xs \<Longrightarrow> \<exists>y. f x = Inr y \<and> P y) \<Longrightarrow> \<exists>ys. all_of f xs = Inr ys \<and> list_all P ys"
proof (induction xs)
  case (Cons x xs)
  have "\<exists>y. f x = Inr y \<and> P y" "\<exists>ys. all_of f xs = Inr ys \<and> list_all P ys" using Cons.prems [of x] Cons.IH Cons.prems by simp_all
  then show ?case by auto
qed simp

lemma respond_good:
  assumes "respond f p = (r, d', ms)" "\<And>e. fst p = Inl e \<Longrightarrow> e \<in> api_errors" "\<And>a. fst p = Inr a \<Longrightarrow> good (f a)"
  shows "good r"
  using assms by (cases p; cases "fst p") (auto simp: respond_def)

text \<open>What the tables hold, call by call.\<close>

lemma listed_good:
  assumes "wf_db d" "typed_rows d"
  shows "good (as_reply CompaniesReply (all_of to_company_out (list_companies d)))"
    "good (as_reply ProfilesReply (all_of to_sensor_profile_out (list_sensor_profiles rank d)))"
    "fst (list_sensor_channels g u d) = Inr cs \<Longrightarrow> good (as_reply SensorsReply (all_of to_sensor_channel_out cs))"
    "fst (list_actuator_channels g u d) = Inr as \<Longrightarrow> good (as_reply ActuatorsReply (all_of to_actuator_channel_out as))"
    "get_company i d = Inr c \<Longrightarrow> good (as_reply CompanyReply (to_company_out c))"
    "get_sensor_profile i d = Inr p \<Longrightarrow> good (as_reply ProfileReply (to_sensor_profile_out p))"
    "fst (get_command cid u d) = Inr cmd \<Longrightarrow> good (as_reply CommandReply (to_command_out cmd))"
    "fst (get_latest rank g u d) = Inr ls \<Longrightarrow> renderable (LatestReply (map to_telemetry_latest_out ls))"
    "fst (get_telemetry_range now key h l g u d) = Inr vs \<Longrightarrow> renderable (RangeReply vs)"
proof -
  have t: "\<forall>c \<in> set (companies d). co_type c \<in> {''management'', ''customer''}"
    "\<forall>a \<in> set (actuator_channels d). ac_actuator_type a \<in> {''relay'', ''valve'', ''pump'', ''ssr''} \<and> opt_ok stored_object (ac_safety_config a)"
    "\<forall>c \<in> set (sensor_channels d). opt_ok stored_object (sc_config c)"
    "\<forall>p \<in> set (sensor_profiles d). stored_object (sp_profile_schema p)"
    "\<forall>c \<in> set (commands d). opt_ok stored_object (cm_response c)"
    "\<forall>r \<in> set (telemetry d). opt_ok finite_float (te_value_double r)"
    "\<forall>r \<in> set (telemetry_latest d). opt_ok finite_float (tl_value_double r)"
    using assms(2) unfolding typed_rows_def list_all_iff by blast+
  have s: "\<forall>c \<in> set (sensor_channels d). serial_check (sc_slug c)" "\<forall>c \<in> set (actuator_channels d). serial_check (ac_slug c)"
    using assms(1) by (auto simp: wf_db_def formats_ok_def list_all_iff)
  have "\<exists>bs. all_of to_company_out (list_companies d) = Inr bs \<and> list_all (\<lambda>_. True) bs"
    using t(1) company_model by (intro all_of_total) (auto simp: list_companies_def)
  then show "good (as_reply CompaniesReply (all_of to_company_out (list_companies d)))" by auto
  have "\<exists>bs. all_of to_sensor_profile_out (list_sensor_profiles rank d) = Inr bs \<and> list_all (\<lambda>p. json_finite (pin_profile_schema p)) bs"
    using t(4) profile_model by (intro all_of_total) (auto simp: list_sensor_profiles_def)
  then show "good (as_reply ProfilesReply (all_of to_sensor_profile_out (list_sensor_profiles rank d)))" by auto
  show "good (as_reply SensorsReply (all_of to_sensor_channel_out cs))" if "fst (list_sensor_channels g u d) = Inr cs"
  proof -
    have "\<exists>bs. all_of to_sensor_channel_out cs = Inr bs \<and> list_all (\<lambda>c. opt_ok json_finite (scin_config c)) bs"
      using that s(1) t(3) by (intro all_of_total sensor_model) (auto simp: list_sensor_channels_def split: sum.splits)
    then show ?thesis by auto
  qed
  show "good (as_reply ActuatorsReply (all_of to_actuator_channel_out as))" if "fst (list_actuator_channels g u d) = Inr as"
  proof -
    have "\<exists>bs. all_of to_actuator_channel_out as = Inr bs \<and> list_all (\<lambda>c. opt_ok json_finite (acin_safety_config c)) bs"
      using that s(2) t(2) by (intro all_of_total actuator_model) (auto simp: list_actuator_channels_def split: sum.splits)
    then show ?thesis by auto
  qed
  show "good (as_reply CompanyReply (to_company_out c))" if "get_company i d = Inr c"
    using that t(1) company_model [of c] by (auto simp: get_company_def dest!: fetch_Some_mem split: option.splits)
  show "good (as_reply ProfileReply (to_sensor_profile_out p))" if "get_sensor_profile i d = Inr p"
    using that t(4) profile_model [of p] by (auto simp: get_sensor_profile_def dest!: fetch_Some_mem split: option.splits)
  show "good (as_reply CommandReply (to_command_out cmd))" if "fst (get_command cid u d) = Inr cmd"
    using that t(5) command_model [of cmd] by (auto simp: get_command_def dest!: fetch_Some_mem split: option.splits sum.splits if_splits)
  show "renderable (LatestReply (map to_telemetry_latest_out ls))" if "fst (get_latest rank g u d) = Inr ls"
    using that t(7) by (auto simp: get_latest_def list_all_iff to_telemetry_latest_out_def split: sum.splits)
  show "renderable (RangeReply vs)" if "fst (get_telemetry_range now key h l g u d) = Inr vs"
    using that t(6) by (auto simp: get_telemetry_range_def range_rows_def to_view_def list_all_iff dest!: in_set_takeD split: sum.splits if_splits)
qed

lemma created_good:
  "fst (create_company i now b1 u d) = Inr c \<Longrightarrow> good (as_reply CompanyReply (to_company_out c))"
  "sensor_profile_in_valid b2 \<Longrightarrow> fst (create_sensor_profile v l f i now b2 u d) = Inr p \<Longrightarrow>
    good (as_reply ProfileReply (to_sensor_profile_out p))"
  "sensor_channel_in_valid b3 \<Longrightarrow> fst (add_sensor_channel i now b3 k u d) = Inr s \<Longrightarrow>
    good (as_reply SensorReply (to_sensor_channel_out s))"
  "actuator_channel_in_valid b4 \<Longrightarrow> fst (add_actuator_channel i now b4 k u d) = Inr a \<Longrightarrow>
    good (as_reply ActuatorReply (to_actuator_channel_out a))"
proof -
  show "good (as_reply CompanyReply (to_company_out c))" if "fst (create_company i now b1 u d) = Inr c"
    using that create_company_then_get [of i now b1 u d c "snd (create_company i now b1 u d)"] by (metis as_reply_simps(1) good_simps(2) prod.collapse renderable.simps(13))
  show "good (as_reply ProfileReply (to_sensor_profile_out p))"
    if "sensor_profile_in_valid b2" "fst (create_sensor_profile v l f i now b2 u d) = Inr p"
  proof -
    have "stored_object (sp_profile_schema p)"
      using that by (auto simp: create_sensor_profile_def Let_def in_session_def insert_sensor_profile_def sensor_profile_in_valid_def
          stored_object_def jsonb_ok_finite split: sum.splits if_splits)
    from profile_model [OF this] show ?thesis by auto
  qed
  show "good (as_reply SensorReply (to_sensor_channel_out s))"
    if "sensor_channel_in_valid b3" "fst (add_sensor_channel i now b3 k u d) = Inr s"
  proof -
    have "serial_check (sc_slug s) \<and> opt_ok stored_object (sc_config s)"
      using that by (auto simp: add_sensor_channel_def Let_def in_session_def insert_sensor_channel_def sensor_channel_in_valid_def
          stored_object_opt split: sum.splits)
    with sensor_model [of s] show ?thesis by auto
  qed
  show "good (as_reply ActuatorReply (to_actuator_channel_out a))"
    if "actuator_channel_in_valid b4" "fst (add_actuator_channel i now b4 k u d) = Inr a"
  proof -
    have "serial_check (ac_slug a) \<and> opt_ok stored_object (ac_safety_config a) \<and> ac_actuator_type a = actuator_type_str (acin_actuator_type b4)"
      using that by (auto simp: add_actuator_channel_def Let_def in_session_def insert_actuator_channel_def actuator_channel_in_valid_def
          stored_object_opt split: sum.splits)
    with actuator_model [of a] literal_strings(2) [of "acin_actuator_type b4"] show ?thesis by auto
  qed
qed

lemma issued_good:
  assumes "issue_command w now r b g u d = (Inr cmd, d', ms)"
  shows "good (as_reply CommandReply (to_command_out cmd))"
proof -
  obtain gw a c d1 where i: "issue_begin (w_settings w) now r b g u d = (Inr (gw, a, c), d1)"
    using assms by (auto simp: issue_command_def split: prod.splits sum.splits)
  have "cm_response c = None" using issue_begin_Inr(4) [OF i] by (auto simp: new_command_def split: sum.splits)
  then have "opt_ok stored_object (cm_response cmd)"
    using assms unfolding issue_command_stored [OF i] by (auto simp: opt_ok_def split: if_splits)
  with command_model [of cmd] show ?thesis by auto
qed

text \<open>Only a site can fail to render.\<close>

lemma endpoint_good:
  assumes "wf_db d" "typed_rows d" "body_valid c" "endpoint dp rq l u c d = (r, d', ms)"
    and "\<nexists>b. c = CreateSite b" "\<nexists>k. c = ListSites k"
  shows "good r"
proof (cases "\<exists>g b. c = IssueCommand g b")
  case True
  then show ?thesis using assms(4) issued_good issue_command_errors by (auto split: prod.splits sum.splits)
next
  case False
  with assms(3-) show ?thesis
    using listed_good(1,2) [OF assms(1,2)]
    by (cases c) (auto simp: body_valid_def elim!: respond_good intro: call_errors read_errors
        listed_good(3-) [OF assms(1,2)] listed_good(8,9) [OF assms(1,2), simplified] created_good)
qed

lemma list_sites_rendered:
  "renderable (SitesReply (map to_site_out ss)) \<longleftrightarrow> (\<forall>s \<in> set ss. opt_ok finite_float (st_latitude s) \<and> opt_ok finite_float (st_longitude s))"
  by (auto simp: list_all_iff site_finite_def to_site_out_def)

lemma create_site_rendered:
  assumes "endpoint dp rq l u (CreateSite b) d = (r, d', ms)"
  shows "render_reply r = Inl e \<longleftrightarrow> fst (create_site (rq_id rq) (rq_now rq) b u d) = Inl e \<or>
    (e = ValueError \<and> is_ok (fst (create_site (rq_id rq) (rq_now rq) b u d)) \<and> \<not> site_finite b)"
proof (cases "create_site (rq_id rq) (rq_now rq) b u d")
  case (Pair x d1)
  show ?thesis
  proof (cases x)
    case (Inr s)
    then have "site_finite (to_site_out s) = site_finite b"
      using Pair by (auto simp: create_site_def Let_def in_session_def to_site_out_def site_finite_def split: sum.splits)
    then show ?thesis using assms Pair Inr by (auto simp: respond_def render_Inl)
  qed (use assms Pair in \<open>auto simp: respond_def render_Inl\<close>)
qed

text \<open>The row is stored before the answer is rendered.\<close>

lemma create_site_stored:
  assumes "endpoint dp rq l u (CreateSite b) d = (r, d', ms)"
  shows "is_ok (fst (create_site (rq_id rq) (rq_now rq) b u d)) \<longleftrightarrow> length (sites d') = Suc (length (sites d))"
proof (cases "create_site (rq_id rq) (rq_now rq) b u d")
  case (Pair x d1)
  then have "d' = d1" using assms by (auto dest: respond_Pair)
  then show ?thesis
    using Pair by (auto simp: create_site_def Let_def in_session_def insert_site_def split: sum.splits)
qed

end
