(* ===== verification/Scheduler.thy ===== *)
theory Scheduler
  imports Settings Store
begin

text \<open>
  \<open>server/scheduler\<close>: the three periodic jobs and the loop that runs them. A job gets the clock's
  reading and ends with the database it committed or its exception; the loop logs the exception
  and goes on. \<open>CREATE TABLE ... PARTITION OF\<close> is refused when the DEFAULT partition holds rows
  of the new range. The server's session time zone is UTC. \<open>periodic_job\<close> is the contract of a job.
\<close>

section \<open>Command timeout\<close>

definition overdue :: "instant \<Rightarrow> command \<Rightarrow> bool" where
  "overdue now c = (cm_status c \<in> {''pending'', ''published''} \<and> cm_expires_at c < now)"

definition timed_out :: "instant \<Rightarrow> command \<Rightarrow> command" where
  "timed_out now c = c\<lparr>cm_status := ''timeout'', cm_completed_at := Some now\<rparr>"

definition command_timeout_run :: "instant \<Rightarrow> db \<Rightarrow> exn + db" where
  "command_timeout_run now d = Inr (d\<lparr>commands := update_where (overdue now) (timed_out now) (commands d)\<rparr>)"

section \<open>Offline detector\<close>

definition silent :: "instant \<Rightarrow> gateway \<Rightarrow> bool" where
  "silent threshold g =
     (gw_status g = ''online'' \<and> (case gw_last_seen_at g of None \<Rightarrow> True | Some t \<Rightarrow> t < threshold))"

definition offline_detector_run :: "settings \<Rightarrow> instant \<Rightarrow> db \<Rightarrow> exn + db" where
  "offline_detector_run s now d =
     (let threshold = now - offline_threshold_sec s * 1000000
      in if \<not> representable threshold then Inl OverflowError
         else Inr (d\<lparr>gateways := update_where (silent threshold) (\<lambda>g. g\<lparr>gw_status := ''offline''\<rparr>) (gateways d)\<rparr>))"

section \<open>Partition manager\<close>

definition LOOKAHEAD_MONTHS :: nat where "LOOKAHEAD_MONTHS = 4"

definition next_month :: "nat \<times> nat \<Rightarrow> nat \<times> nat" where
  "next_month ym = (case ym of (y, m) \<Rightarrow> if m < 12 then (y, m + 1) else (y + 1, 1))"

definition month_partition_sql :: "nat \<Rightarrow> nat \<Rightarrow> string \<times> string" where
  "month_partition_sql year month =
     (let (ny, nm) = next_month (year, month);
          name = ''telemetry_'' @ str_of_nat year @ ''_'' @ pad 2 month
      in (name, ''CREATE TABLE IF NOT EXISTS '' @ name @ '' PARTITION OF telemetry '' @
            ''FOR VALUES FROM ('' @ [CHR 0x27] @ str_of_nat year @ ''-'' @ pad 2 month @ ''-01'' @ [CHR 0x27] @ '') '' @
            ''TO ('' @ [CHR 0x27] @ str_of_nat ny @ ''-'' @ pad 2 nm @ ''-01'' @ [CHR 0x27] @ '');''))"

text \<open>Midnight of the first of the month, and the range of a month's partition.\<close>

definition month_start :: "nat \<times> nat \<Rightarrow> instant" where
  "month_start ym = (int (ymd2ord (fst ym) (snd ym) 1) - 719163) * day_us"

definition in_partition :: "nat \<times> nat \<Rightarrow> instant \<Rightarrow> bool" where
  "in_partition ym t = (month_start ym \<le> t \<and> t < month_start (next_month ym))"

text \<open>What the statement does: nothing if the table exists, else attach the range unless DEFAULT has rows of it.\<close>

definition in_default :: "db \<Rightarrow> telemetry_row \<Rightarrow> bool" where
  "in_default d r = (\<not> list_ex (\<lambda>p. in_partition p (te_ts r)) (partitions d))"

definition create_partition :: "nat \<times> nat \<Rightarrow> db \<Rightarrow> exn + db" where
  "create_partition ym d =
     (if ym \<in> set (partitions d) then Inr d
      else if list_ex (\<lambda>r. in_default d r \<and> in_partition ym (te_ts r)) (telemetry d) then Inl IntegrityError
      else Inr (d\<lparr>partitions := partitions d @ [ym]\<rparr>))"

primrec ensure_partitions :: "nat \<Rightarrow> nat \<times> nat \<Rightarrow> db \<Rightarrow> exn + db" where
  "ensure_partitions 0 ym d = Inr d"
| "ensure_partitions (Suc n) ym d =
     (case create_partition ym d of
        Inl e \<Rightarrow> Inl e
      | Inr d' \<Rightarrow> ensure_partitions n (case ym of (y, m) \<Rightarrow> if m + 1 > 12 then (y + 1, 1) else (y, m + 1)) d')"

definition partition_manager_run :: "instant \<Rightarrow> db \<Rightarrow> exn + db" where
  "partition_manager_run now d =
     (let t = utc_datetime now in ensure_partitions LOOKAHEAD_MONTHS (dt_year t, dt_month t) d)"

section \<open>The loop\<close>

datatype job = OfflineDetector | CommandTimeout | PartitionManager

definition run_job :: "settings \<Rightarrow> job \<Rightarrow> instant \<Rightarrow> db \<Rightarrow> exn + db" where
  "run_job s j now d =
     (case j of
        OfflineDetector \<Rightarrow> offline_detector_run s now d
      | CommandTimeout \<Rightarrow> command_timeout_run now d
      | PartitionManager \<Rightarrow> partition_manager_run now d)"

definition interval_sec :: "job \<Rightarrow> int" where
  "interval_sec j = (case j of OfflineDetector \<Rightarrow> 30 | CommandTimeout \<Rightarrow> 10 | PartitionManager \<Rightarrow> 6 * 3600)"

text \<open>One round of \<open>_tick\<close>, and the rounds of one job at the given clock readings.\<close>

definition tick_once :: "(instant \<Rightarrow> db \<Rightarrow> exn + db) \<Rightarrow> instant \<Rightarrow> db \<Rightarrow> db" where
  "tick_once fn now d = (case fn now d of Inl _ \<Rightarrow> d | Inr d' \<Rightarrow> d')"

fun tick :: "(instant \<Rightarrow> db \<Rightarrow> exn + db) \<Rightarrow> instant list \<Rightarrow> db \<Rightarrow> db" where
  "tick fn [] d = d"
| "tick fn (now # nows) d = tick fn nows (tick_once fn now d)"

section \<open>The contract of a job\<close>

text \<open>
  A job keeps the schema's invariant and leaves alone what other parts own: telemetry, channels,
  the rows' keys.
\<close>

definition job_frame :: "db \<Rightarrow> db \<Rightarrow> bool" where
  "job_frame d d' =
     (companies d' = companies d \<and> sites d' = sites d \<and> users d' = users d \<and> permissions d' = permissions d \<and>
      sensor_channels d' = sensor_channels d \<and> actuator_channels d' = actuator_channels d \<and>
      telemetry d' = telemetry d \<and> telemetry_latest d' = telemetry_latest d \<and>
      map gw_id (gateways d') = map gw_id (gateways d) \<and> map cm_id (commands d') = map cm_id (commands d) \<and>
      map cm_response (commands d') = map cm_response (commands d))"

lemma job_frame_refl [simp]: "job_frame d d"
  by (simp add: job_frame_def)

lemma job_frame_trans: "job_frame d d' \<Longrightarrow> job_frame d' d'' \<Longrightarrow> job_frame d d''"
  by (simp add: job_frame_def)

locale periodic_job =
  fixes fn :: "instant \<Rightarrow> db \<Rightarrow> exn + db"
  assumes wf: "fn now d = Inr d' \<Longrightarrow> wf_db d \<Longrightarrow> wf_db d'"
    and frame: "fn now d = Inr d' \<Longrightarrow> job_frame d d'"
begin

lemma tick_once_ok: "(wf_db d \<longrightarrow> wf_db (tick_once fn now d)) \<and> job_frame d (tick_once fn now d)"
  using wf [of now d] frame [of now d] by (auto simp: tick_once_def split: sum.splits)

lemma tick_wf: "wf_db d \<Longrightarrow> wf_db (tick fn nows d)"
  using tick_once_ok by (induction nows arbitrary: d) auto

lemma tick_frame: "job_frame d (tick fn nows d)"
proof (induction nows arbitrary: d)
  case (Cons now nows)
  from tick_once_ok [of d now] Cons [of "tick_once fn now d"] show ?case
    by (auto intro: job_frame_trans)
qed simp

end

lemma timed_out_simps [simp]:
  "cm_id (timed_out now c) = cm_id c" "cm_gateway_id (timed_out now c) = cm_gateway_id c"
  "cm_actuator_channel_id (timed_out now c) = cm_actuator_channel_id c" "cm_issued_by (timed_out now c) = cm_issued_by c"
  "cm_status (timed_out now c) = ''timeout''" "cm_response (timed_out now c) = cm_response c"
  "cm_completed_at (timed_out now c) = Some now"
  by (simp_all add: timed_out_def)

interpretation timeout_job: periodic_job command_timeout_run
proof
  fix now d d'
  assume "command_timeout_run now d = Inr d'"
  then have d': "d' = d\<lparr>commands := update_where (overdue now) (timed_out now) (commands d)\<rparr>"
    by (simp add: command_timeout_run_def)
  show "wf_db d \<Longrightarrow> wf_db d'" unfolding d' by (erule commands_update_where_wf) simp_all
  show "job_frame d d'" unfolding d' job_frame_def by (simp add: update_where_def)
qed

interpretation offline_job: periodic_job "offline_detector_run s" for s
proof
  fix now d d'
  assume "offline_detector_run s now d = Inr d'"
  then obtain p where d': "d' = d\<lparr>gateways := update_where p (\<lambda>g. g\<lparr>gw_status := ''offline''\<rparr>) (gateways d)\<rparr>"
    by (auto simp: offline_detector_run_def Let_def split: if_splits)
  show "wf_db d \<Longrightarrow> wf_db d'" unfolding d' by (erule gateways_update_where_wf) simp_all
  show "job_frame d d'" unfolding d' job_frame_def by (simp add: update_where_def)
qed

lemma create_partition_Inr:
  assumes "create_partition ym d = Inr d'"
  shows "\<exists>ps. d' = d\<lparr>partitions := ps\<rparr> \<and> set ps = insert ym (set (partitions d))"
proof (cases "ym \<in> set (partitions d)")
  case True
  with assms have "d' = d\<lparr>partitions := partitions d\<rparr>" by (simp add: create_partition_def)
  with True show ?thesis by (metis insert_absorb)
next
  case False
  with assms have "d' = d\<lparr>partitions := partitions d @ [ym]\<rparr>"
    by (auto simp: create_partition_def split: if_splits)
  then show ?thesis by auto
qed

lemma ensure_partitions_Inr:
  "ensure_partitions n ym d = Inr d' \<Longrightarrow>
     \<exists>ps. d' = d\<lparr>partitions := ps\<rparr> \<and>
       set ps = set (partitions d) \<union> {(next_month ^^ k) ym |k. k < n}"
proof (induction n arbitrary: ym d)
  case (Suc n)
  have nx: "(case ym of (y, m) \<Rightarrow> if m + 1 > 12 then (y + 1, 1) else (y, m + 1)) = next_month ym"
    by (auto simp: next_month_def split: prod.splits)
  from Suc.prems obtain d1 where c: "create_partition ym d = Inr d1" and e: "ensure_partitions n (next_month ym) d1 = Inr d'"
    by (auto simp only: ensure_partitions.simps nx split: sum.splits)
  from create_partition_Inr [OF c] obtain p1 where p1: "d1 = d\<lparr>partitions := p1\<rparr>" "set p1 = insert ym (set (partitions d))"
    by blast
  from Suc.IH [OF e] obtain ps where ps: "d' = d1\<lparr>partitions := ps\<rparr>"
    "set ps = set (partitions d1) \<union> {(next_month ^^ k) (next_month ym) |k. k < n}" by blast
  have "{(next_month ^^ k) ym |k. k < Suc n} = insert ym {(next_month ^^ k) (next_month ym) |k. k < n}"
  proof (intro set_eqI iffI)
    fix x assume "x \<in> {(next_month ^^ k) ym |k. k < Suc n}"
    then obtain k where k: "x = (next_month ^^ k) ym" "k < Suc n" by blast
    then show "x \<in> insert ym {(next_month ^^ k) (next_month ym) |k. k < n}"
      by (cases k) (auto simp: funpow_swap1)
  next
    fix x assume "x \<in> insert ym {(next_month ^^ k) (next_month ym) |k. k < n}"
    then show "x \<in> {(next_month ^^ k) ym |k. k < Suc n}"
    proof
      assume "x = ym"
      then show ?thesis by (auto intro!: exI [of _ 0])
    next
      assume "x \<in> {(next_month ^^ k) (next_month ym) |k. k < n}"
      then obtain k where "x = (next_month ^^ k) (next_month ym)" "k < n" by blast
      then show ?thesis by (auto simp: funpow_swap1 intro!: exI [of _ "Suc k"])
    qed
  qed
  with ps p1 show ?case by (intro exI [of _ ps]) auto
next
  case 0
  then have "d' = d\<lparr>partitions := partitions d\<rparr>" by simp
  then show ?case by (intro exI [of _ "partitions d"]) simp
qed

interpretation partition_job: periodic_job partition_manager_run
proof
  fix now d d'
  assume "partition_manager_run now d = Inr d'"
  then obtain ps where d': "d' = d\<lparr>partitions := ps\<rparr>"
    unfolding partition_manager_run_def Let_def using ensure_partitions_Inr by blast
  show "wf_db d \<Longrightarrow> wf_db d'" unfolding d' by (simp add: wf_db_def keys_ok_def refs_ok_def formats_ok_def)
  show "job_frame d d'" unfolding d' by (simp add: job_frame_def)
qed

interpretation scheduled: periodic_job "run_job s j" for s j
proof
  fix now d d'
  assume r: "run_job s j now d = Inr d'"
  show "wf_db d \<Longrightarrow> wf_db d'"
    using r by (cases j) (auto simp: run_job_def intro: timeout_job.wf offline_job.wf partition_job.wf)
  show "job_frame d d'"
    using r by (cases j) (auto simp: run_job_def intro: timeout_job.frame offline_job.frame partition_job.frame)
qed

section \<open>What the jobs achieve\<close>

lemma fetch_command_timeout:
  "command_timeout_run now d = Inr d' \<Longrightarrow>
   fetch cm_id k (commands d') = map_option (\<lambda>c. if overdue now c then timed_out now c else c) (fetch cm_id k (commands d))"
  by (auto simp: command_timeout_run_def fetch_update_where)

lemma fetch_offline_detector:
  "offline_detector_run s now d = Inr d' \<Longrightarrow>
   fetch gw_id k (gateways d') =
     map_option (\<lambda>g. if silent (now - offline_threshold_sec s * 1000000) g then g\<lparr>gw_status := ''offline''\<rparr> else g)
       (fetch gw_id k (gateways d))"
  by (auto simp: offline_detector_run_def Let_def fetch_update_where split: if_splits)

text \<open>Twelve months are a year: the ranges of consecutive months are consecutive and not empty.\<close>

lemma leap_arith:
  fixes p a b c :: nat
  assumes "B \<Longrightarrow> A" "C \<Longrightarrow> B" "b \<le> p"
  shows "Suc p * 365 + (a + (if A then 1 else 0)) - (b + (if B then 1 else 0)) + (c + (if C then 1 else 0)) =
    p * 365 + a - b + c + (if A \<and> (\<not> B \<or> C) then 366 else 365)"
  using assms by (cases A; cases B; cases C) simp_all

lemma days_before_year_Suc:
  assumes "1 \<le> y"
  shows "days_before_year (Suc y) = days_before_year y + (if is_leap y then 366 else 365)"
proof -
  obtain p where p: "y = Suc p" using assms by (cases y) auto
  have d: "Suc p div 4 = p div 4 + (if Suc p mod 4 = 0 then 1 else 0)"
    "Suc p div 100 = p div 100 + (if Suc p mod 100 = 0 then 1 else 0)"
    "Suc p div 400 = p div 400 + (if Suc p mod 400 = 0 then 1 else 0)"
    by (simp_all add: div_Suc)
  have "(4::nat) dvd 100" "(100::nat) dvd 400" by simp_all
  then have m: "Suc p mod 100 = 0 \<Longrightarrow> Suc p mod 4 = 0" "Suc p mod 400 = 0 \<Longrightarrow> Suc p mod 100 = 0"
    unfolding dvd_eq_mod_eq_0 [symmetric] by (blast intro: dvd_trans)+
  have b: "p div 100 \<le> p" by simp
  show ?thesis
    unfolding p days_before_year_def Let_def is_leap_def diff_Suc_1 d
    using leap_arith [OF m b, where a = "p div 4" and c = "p div 400"] .
qed

lemma month_cases:
  fixes m :: nat
  assumes "1 \<le> m" "m \<le> 12"
  shows "m \<in> {1, 2, 3, 4, 5, 6, 7, 8, 9, 10, 11, 12}"
  using assms unfolding insert_iff empty_iff by presburger

lemma month_start_next:
  assumes "1 \<le> fst ym" "1 \<le> snd ym" "snd ym \<le> 12"
  shows "month_start (next_month ym) = month_start ym + int (days_in_month (fst ym) (snd ym)) * day_us"
proof -
  obtain y m where ym: "ym = (y, m)" by (cases ym)
  have "ymd2ord (fst (next_month ym)) (snd (next_month ym)) 1 = ymd2ord y m 1 + days_in_month y m"
  proof (cases "m = 12")
    case True
    with assms ym show ?thesis
      by (simp add: next_month_def ymd2ord_def days_before_year_Suc days_before_month_def days_in_month_def
          month_starts_def month_lengths_def numeral_eq_Suc)
  next
    case False
    with assms ym month_cases [of m] show ?thesis
      by (auto simp: ym next_month_def ymd2ord_def days_before_month_def days_in_month_def
          month_starts_def month_lengths_def)
  qed
  then show ?thesis by (simp add: month_start_def ym algebra_simps)
qed

lemma next_month_valid:
  "1 \<le> fst ym \<and> 1 \<le> snd ym \<and> snd ym \<le> 12 \<Longrightarrow>
   1 \<le> fst (next_month ym) \<and> 1 \<le> snd (next_month ym) \<and> snd (next_month ym) \<le> 12"
  by (auto simp: next_month_def split: prod.splits if_splits)

lemma month_start_less:
  assumes "1 \<le> fst ym" "1 \<le> snd ym" "snd ym \<le> 12"
  shows "month_start ym < month_start (next_month ym)"
proof -
  from month_cases [OF assms(2,3)] have "0 < days_in_month (fst ym) (snd ym)"
    by (auto simp: days_in_month_def month_lengths_def)
  then show ?thesis using month_start_next [OF assms] by (simp add: day_us_def)
qed

text \<open>An instant lies in the partition of its UTC calendar month.\<close>

lemma in_partition_own_month:
  assumes "representable t"
  shows "in_partition (dt_year (utc_datetime t), dt_month (utc_datetime t)) t"
proof -
  define u where "u = utc_datetime t"
  from utc_datetime_correct [OF assms] have v: "valid_datetime u" and i: "instant_of u 0 = t" by (simp_all add: u_def)
  let ?ym = "(dt_year u, dt_month u)"
  have d: "1 \<le> dt_day u" "dt_day u \<le> days_in_month (dt_year u) (dt_month u)" "1 \<le> dt_year u" "1 \<le> dt_month u" "dt_month u \<le> 12"
    using v by (auto simp: valid_datetime_def valid_date_def)
  define tod where "tod = int (dt_hour u) * 3600000000 + int (dt_minute u) * 60000000 + int (dt_second u) * 1000000 + int (dt_micro u)"
  have "0 \<le> tod" "tod < day_us" using v by (auto simp: tod_def valid_datetime_def day_us_def)
  moreover have "t = month_start ?ym + (int (dt_day u) - 1) * day_us + tod"
    using i d(1) by (simp add: instant_of_def month_start_def tod_def ymd2ord_def algebra_simps of_nat_diff)
  moreover have "(int (dt_day u) - 1) * day_us + day_us \<le> int (days_in_month (dt_year u) (dt_month u)) * day_us"
    using d(2) by (simp add: day_us_def)
  moreover have "0 \<le> (int (dt_day u) - 1) * day_us" using d(1) by (simp add: day_us_def)
  moreover have "month_start (next_month ?ym) = month_start ?ym + int (days_in_month (dt_year u) (dt_month u)) * day_us"
    using month_start_next [of ?ym] d by simp
  ultimately have "month_start ?ym \<le> t" "t < month_start (next_month ?ym)" by linarith+
  then show ?thesis by (simp add: in_partition_def u_def)
qed

text \<open>Consecutive ranges cover everything between their ends.\<close>

lemma covered_by_months:
  "month_start ym \<le> t \<Longrightarrow> t < month_start ((next_month ^^ n) ym) \<Longrightarrow> \<exists>k < n. in_partition ((next_month ^^ k) ym) t"
proof (induction n)
  case (Suc n)
  show ?case
  proof (cases "t < month_start ((next_month ^^ n) ym)")
    case True
    with Suc show ?thesis by (metis less_SucI)
  next
    case False
    then have "in_partition ((next_month ^^ n) ym) t" using Suc.prems(2) by (simp add: in_partition_def)
    then show ?thesis by blast
  qed
qed simp

text \<open>Different months do not overlap.\<close>

definition month_index :: "nat \<times> nat \<Rightarrow> nat" where
  "month_index ym = (fst ym - 1) * 12 + (snd ym - 1)"

definition month_of_index :: "nat \<Rightarrow> nat \<times> nat" where
  "month_of_index n = (n div 12 + 1, n mod 12 + 1)"

lemma month_of_index_inverse:
  "1 \<le> fst ym \<Longrightarrow> 1 \<le> snd ym \<Longrightarrow> snd ym \<le> 12 \<Longrightarrow> month_of_index (month_index ym) = ym"
proof -
  assume a: "1 \<le> fst ym" "1 \<le> snd ym" "snd ym \<le> 12"
  then obtain p q where "ym = (Suc p, Suc q)" "q < 12"
    by (cases ym; cases "fst ym"; cases "snd ym") auto
  then show ?thesis by (simp add: month_of_index_def month_index_def)
qed

lemma next_month_index: "next_month (month_of_index n) = month_of_index (Suc n)"
proof -
  have "n mod 12 < 12" by simp
  then consider "n mod 12 = 11" | "Suc (n mod 12) < 12" by linarith
  then show ?thesis
  proof cases
    case 1
    then have "Suc n div 12 = Suc (n div 12)" "Suc n mod 12 = 0" by (simp_all add: div_Suc mod_Suc)
    with 1 show ?thesis by (simp add: next_month_def month_of_index_def)
  next
    case 2
    then have "Suc n div 12 = n div 12" "Suc n mod 12 = Suc (n mod 12)" by (simp_all add: div_Suc mod_Suc)
    with 2 show ?thesis by (simp add: next_month_def month_of_index_def)
  qed
qed

lemma partitions_disjoint:
  assumes "1 \<le> fst ym" "1 \<le> snd ym" "snd ym \<le> 12" "1 \<le> fst ym'" "1 \<le> snd ym'" "snd ym' \<le> 12"
    and "in_partition ym t" "in_partition ym' t"
  shows "ym = ym'"
proof -
  let ?s = "\<lambda>n. month_start (month_of_index n)"
  have "?s n < ?s (Suc n)" for n
    using month_start_less [of "month_of_index n"] by (simp add: next_month_index) (simp add: month_of_index_def)
  then have mono: "strict_mono ?s" by (simp add: strict_mono_Suc_iff)
  define a b where "a = month_index ym" "b = month_index ym'"
  then have ym: "ym = month_of_index a" "ym' = month_of_index b"
    using assms by (simp_all add: month_of_index_inverse)
  from assms(7,8) have "?s a < ?s (Suc b)" "?s b < ?s (Suc a)"
    by (auto simp: in_partition_def ym next_month_index)
  then have "a < Suc b" "b < Suc a"
    using strict_mono_less [OF mono, of a "Suc b"] strict_mono_less [OF mono, of b "Suc a"] by simp_all
  then have "a = b" by linarith
  then show ?thesis by (simp add: ym)
qed

text \<open>The loop stops at the first month whose rows are in DEFAULT.\<close>

lemma ensure_partitions_cases:
  "case ensure_partitions n ym d of
     Inl e \<Rightarrow> e = IntegrityError \<and> (\<exists>k < n. \<exists>r \<in> set (telemetry d). in_default d r \<and> in_partition ((next_month ^^ k) ym) (te_ts r))
   | Inr d' \<Rightarrow> (\<forall>k < n. \<forall>r \<in> set (telemetry d). \<not> (in_default d r \<and> in_partition ((next_month ^^ k) ym) (te_ts r)))"
proof (induction n arbitrary: ym d)
  case (Suc n)
  let ?blocked = "\<exists>r \<in> set (telemetry d). in_default d r \<and> in_partition ym (te_ts r)"
  have nx: "(case ym of (y, m) \<Rightarrow> if m + 1 > 12 then (y + 1, 1) else (y, m + 1)) = next_month ym"
    by (auto simp: next_month_def split: prod.splits)
  have step: "(next_month ^^ Suc k) ym = (next_month ^^ k) (next_month ym)" for k by (simp add: funpow_swap1)
  show ?case
  proof (cases ?blocked)
    case True
    then have "ym \<notin> set (partitions d)" by (auto simp: in_default_def list_ex_iff)
    with True have "create_partition ym d = Inl IntegrityError" by (auto simp: create_partition_def list_ex_iff)
    with True show ?thesis by (auto intro!: exI [of _ 0])
  next
    case False
    define d1 where "d1 = d\<lparr>partitions := (if ym \<in> set (partitions d) then partitions d else partitions d @ [ym])\<rparr>"
    have c: "create_partition ym d = Inr d1" using False by (auto simp: create_partition_def list_ex_iff d1_def)
    have same: "r \<in> set (telemetry d) \<Longrightarrow> in_default d1 r = in_default d r" for r
      using False by (auto simp: d1_def in_default_def list_ex_iff)
    have t: "telemetry d1 = telemetry d" by (simp add: d1_def)
    have e: "ensure_partitions (Suc n) ym d = ensure_partitions n (next_month ym) d1" by (simp only: ensure_partitions.simps c nx sum.case)
    have ih: "case ensure_partitions n (next_month ym) d1 of
        Inl e \<Rightarrow> e = IntegrityError \<and> (\<exists>k < n. \<exists>r \<in> set (telemetry d). in_default d r \<and> in_partition ((next_month ^^ Suc k) ym) (te_ts r))
      | Inr d' \<Rightarrow> (\<forall>k < n. \<forall>r \<in> set (telemetry d). \<not> (in_default d r \<and> in_partition ((next_month ^^ Suc k) ym) (te_ts r)))"
      using Suc.IH [where ym = "next_month ym" and d = d1] same unfolding step t by (auto split: sum.splits)
    have "\<forall>r \<in> set (telemetry d). \<not> (in_default d r \<and> in_partition ((next_month ^^ k) ym) (te_ts r))"
      if "k < Suc n" "\<forall>k < n. \<forall>r \<in> set (telemetry d). \<not> (in_default d r \<and> in_partition ((next_month ^^ Suc k) ym) (te_ts r))" for k
      using that False by (cases k) (auto simp del: funpow.simps(2))
    then show ?thesis using ih unfolding e by (auto split: sum.splits simp del: funpow.simps(2))
  qed
qed simp

end
