(* ===== verification/CommandLife.thy ===== *)
theory CommandLife
  imports Responses Scheduler
begin

text \<open>
  The life of a command while the API server, the worker and the scheduler run against the same
  database. A state is the database and the requests the API has stored but not finished
  (\<open>issue_begin\<close> done, \<open>issue_finish\<close> to come); a step is a command request that begins or
  finishes, any request served in one piece, a message, or a job. The invariants hold in every reachable state, whatever the interleaving.
\<close>

type_synonym pending_request = "command_in \<times> user \<times> gateway \<times> actuator_channel \<times> command"
type_synonym system = "db \<times> pending_request list"

inductive step :: "system \<Rightarrow> system \<Rightarrow> bool" where
  begins: "issue_begin s now r b g u d = (Inr (gw, a, c), d') \<Longrightarrow> step (d, fl) (d', (b, u, gw, a, c) # fl)"
| finishes: "(b, u, st) \<in> set fl \<Longrightarrow> issue_finish w b u st d = (x, d', ms) \<Longrightarrow> step (d, fl) (d', remove1 (b, u, st) fl)"
| serves: "serve dp rq sv = (x, sv', ms) \<Longrightarrow> step (sv_db sv, fl) (sv_db sv', fl)"
| message: "dispatch loads clk now topic payload d c = (Inr d', c') \<Longrightarrow> step (d, fl) (d', fl)"
| job: "run_job s j now d = Inr d' \<Longrightarrow> step (d, fl) (d', fl)"

inductive_cases step_elim: "step s s'"

definition reachable :: "system \<Rightarrow> system \<Rightarrow> bool" where
  "reachable = step\<^sup>*\<^sup>*"

section \<open>What no step changes of a command\<close>

text \<open>The request as issued stays, and a recorded response is never dropped.\<close>

definition same_request :: "command \<Rightarrow> command \<Rightarrow> bool" where
  "same_request c c' =
     (cm_id c' = cm_id c \<and> cm_gateway_id c' = cm_gateway_id c \<and>
      cm_actuator_channel_id c' = cm_actuator_channel_id c \<and> cm_action c' = cm_action c \<and>
      cm_issued_by c' = cm_issued_by c \<and> cm_issued_at c' = cm_issued_at c \<and> cm_expires_at c' = cm_expires_at c \<and>
      cm_timeout_ms c' = cm_timeout_ms c \<and> cm_require_ack c' = cm_require_ack c \<and> cm_reason c' = cm_reason c \<and>
      (cm_response c \<noteq> None \<longrightarrow> cm_response c' \<noteq> None) \<and> (cm_completed_at c \<noteq> None \<longrightarrow> cm_completed_at c' \<noteq> None))"

definition keeps_requests :: "db \<Rightarrow> db \<Rightarrow> bool" where
  "keeps_requests d d' =
     (\<forall>k c. fetch cm_id k (commands d) = Some c \<longrightarrow>
        (\<exists>c'. fetch cm_id k (commands d') = Some c' \<and> same_request c c'))"

lemma same_request_refl [simp]: "same_request c c"
  by (simp add: same_request_def)

lemma same_request_trans: "same_request c c' \<Longrightarrow> same_request c' c'' \<Longrightarrow> same_request c c''"
  by (simp add: same_request_def)

lemma keeps_same [simp]: "commands d' = commands d \<Longrightarrow> keeps_requests d d'"
  by (simp add: keeps_requests_def)

lemma keeps_trans: "keeps_requests d d' \<Longrightarrow> keeps_requests d' d'' \<Longrightarrow> keeps_requests d d''"
  unfolding keeps_requests_def by (meson same_request_trans)

lemma keeps_map:
  assumes "\<And>k. fetch cm_id k (commands d') = map_option f (fetch cm_id k (commands d))"
    and "\<And>c. same_request c (f c)"
  shows "keeps_requests d d'"
  using assms by (simp add: keeps_requests_def)

lemma fetch_modify_const:
  assumes "key g = k"
  shows "fetch key k' (modify key k (\<lambda>_. g) rows) =
    (if k' = k then map_option (\<lambda>_. g) (fetch key k rows) else fetch key k' rows)"
  using assms by (induction rows) auto

lemma issue_begin_keeps:
  assumes "issue_begin s now r b g u d = (Inr (gw, a, c), d')"
  shows "keeps_requests d d'"
  using insert_command_Inr [OF issue_begin_Inr(5) [OF assms]]
  by (auto simp: keeps_requests_def fetch_append)

lemma fetch_mark_published:
  "fetch cm_id k (commands (mark_published cid d)) =
     map_option (\<lambda>c. if k = cid then c\<lparr>cm_status := ''published''\<rparr> else c) (fetch cm_id k (commands d))"
  by (cases "k = cid") (simp_all add: mark_published_def fetch_modify_same fetch_modify_other option.map_ident)

lemma issue_finish_db: "issue_finish w b u (gw, a, c) d = (x, d', ms) \<Longrightarrow> d' = d \<or> d' = mark_published (cm_id c) d"
  by (auto simp: issue_finish_def split: sum.splits option.splits)

lemma mark_published_keeps: "keeps_requests d (mark_published cid d)"
  unfolding keeps_requests_def by (auto simp: fetch_mark_published same_request_def)

lemma issue_finish_keeps:
  assumes "issue_finish w b u st d = (x, d', ms)"
  shows "keeps_requests d d'"
proof -
  obtain gw a c where "st = (gw, a, c)" by (cases st)
  with assms issue_finish_db [of w b u gw a c d x d' ms] mark_published_keeps show ?thesis by auto
qed

lemma issue_command_keeps: "issue_command w now r b g u d = (x, d', ms) \<Longrightarrow> keeps_requests d d'"
  by (auto simp: issue_command_def dest!: issue_begin_Inl dest: issue_begin_keeps issue_finish_keeps
      split: prod.splits sum.splits intro: keeps_trans)

lemma serve_keeps:
  assumes "serve dp rq sv = (x, sv', ms)"
  shows "keeps_requests (sv_db sv) (sv_db sv')"
proof -
  have "keeps_requests d d'" if e: "endpoint dp rq l u c d = (r, d', ms')" for l u c d r d' ms'
  proof (cases "\<exists>g b. c = IssueCommand g b")
    case True
    with e show ?thesis by (auto split: prod.splits sum.splits intro: issue_command_keeps)
  qed (use e endpoint_commands in \<open>auto intro: keeps_same\<close>)
  with assms show ?thesis
    by (auto simp: serve_def split: target.splits prod.splits sum.splits if_splits)
qed

text \<open>A response rewrites the row it names, and only status, response and completion time.\<close>

lemma command_response_fetch:
  assumes "save_command (answered body s ts cmd) d = Inr d'" "fetch cm_id (cm_id cmd) (commands d) = Some cmd"
  shows "fetch cm_id k (commands d') = (if k = cm_id cmd then Some (answered body s ts cmd) else fetch cm_id k (commands d))"
  using assms by (auto simp: save_command_def answered_def fetch_modify_const)

lemma command_response_keeps:
  assumes "command_response_handle now g body d = Inr d'"
  shows "keeps_requests d d'"
  using assms
proof (cases rule: command_response_Inr)
  case (stored v cmd s ts)
  obtain k where "fetch cm_id k (commands d) = Some cmd" using stored(2) by (rule get_command_row_Some)
  then have f: "fetch cm_id (cm_id cmd) (commands d) = Some cmd" using fetch_Some_key by metis
  show ?thesis
    unfolding keeps_requests_def
    by (auto simp: command_response_fetch [OF stored(4) f] f same_request_def answered_def)
qed simp

lemma save_gateway_commands: "save_gateway g d = Inr d' \<Longrightarrow> commands d' = commands d"
  by (auto simp: save_gateway_def)

lemma telemetry_commands:
  assumes "telemetry_handle clk now g body d c = (Inr d', c')"
  shows "commands d' = commands d"
  using assms
proof (cases rule: telemetry_handle_Inr)
  case (stored vs ts gw xs d1)
  then show ?thesis using telemetry_values_effect [OF stored(5)] save_gateway_commands [OF stored(6)] by simp
qed simp

lemma handle_keeps:
  assumes "handle clk k now g body d c = (Inr d', c')"
  shows "keeps_requests d d'"
proof (cases k)
  case Telemetry
  with assms have "telemetry_handle clk now g body d c = (Inr d', c')" by (simp add: handle_def)
  then show ?thesis by (simp add: telemetry_commands)
next
  case CommandResponse
  with assms show ?thesis by (auto simp: handle_def intro: command_response_keeps)
qed (use assms save_gateway_commands in
    \<open>auto simp: handle_def state_handle_def heartbeat_handle_def split: option.splits sum.splits\<close>)

lemma dispatch_keeps:
  assumes "dispatch loads clk now topic payload d c = (Inr d', c')"
  shows "keeps_requests d d'"
  using assms by (cases rule: dispatch_Inr) (auto intro: handle_keeps)

lemma run_job_keeps:
  assumes "run_job s j now d = Inr d'"
  shows "keeps_requests d d'"
proof (cases j)
  case OfflineDetector
  with assms show ?thesis
    by (auto simp: run_job_def offline_detector_run_def Let_def split: if_splits)
next
  case CommandTimeout
  with assms show ?thesis
    by (intro keeps_map [where f = "\<lambda>c. if overdue now c then timed_out now c else c"])
      (auto simp: run_job_def fetch_command_timeout same_request_def timed_out_def)
next
  case PartitionManager
  with assms ensure_partitions_Inr show ?thesis
    by (fastforce simp: run_job_def partition_manager_run_def Let_def)
qed

lemma step_keeps: "step (d, fl) (d', fl') \<Longrightarrow> keeps_requests d d'"
  by (auto elim!: step_elim intro: issue_begin_keeps issue_finish_keeps serve_keeps dispatch_keeps run_job_keeps)

lemma step_wf: "step (d, fl) (d', fl') \<Longrightarrow> wf_db d \<Longrightarrow> wf_db d'"
  by (auto elim!: step_elim intro: issue_begin_wf issue_finish_wf serve_wf dispatch_wf scheduled.wf)

lemma reachable_wf:
  assumes "reachable s s'" "wf_db (fst s)"
  shows "wf_db (fst s')"
  using assms unfolding reachable_def
proof (induction rule: rtranclp_induct)
  case (step y z)
  then show ?case using step_wf [of "fst y" "snd y" "fst z" "snd z"] by simp
qed

text \<open>Every step keeps what the response models need.\<close>

lemma run_job_typed:
  assumes "run_job s j now d = Inr d'" "typed_rows d"
  shows "typed_rows d'"
proof (cases j)
  case CommandTimeout
  with assms(1) have "commands d' = update_where (overdue now) (timed_out now) (commands d) \<and> d' = d\<lparr>commands := commands d'\<rparr>"
    by (auto simp: run_job_def command_timeout_run_def split: if_splits)
  then show ?thesis
    using assms(2) by (elim conjE typed_subset) (auto simp: update_where_def timed_out_def)
next
  case OfflineDetector
  with assms show ?thesis
    by (auto simp: run_job_def offline_detector_run_def Let_def typed_rows_def split: if_splits)
next
  case PartitionManager
  with assms ensure_partitions_Inr show ?thesis
    by (fastforce simp: run_job_def partition_manager_run_def Let_def typed_rows_def)
qed

lemma step_typed: "step (d, fl) (d', fl') \<Longrightarrow> typed_rows d \<Longrightarrow> typed_rows d'"
proof (erule step_elim; clarsimp)
  fix w b u gw a c x ms
  assume "typed_rows d" "issue_finish w b u (gw, a, c) d = (x, d', ms)"
  then show "typed_rows d'" using issue_finish_db [of w b u gw a c d x d' ms] published_typed by auto
qed (auto intro: begin_typed serve_typed dispatch_typed run_job_typed)

lemma reachable_typed:
  assumes "reachable s s'" "wf_db (fst s)" "typed_rows (fst s)"
  shows "wf_db (fst s') \<and> typed_rows (fst s')"
  using assms unfolding reachable_def
proof (induction rule: rtranclp_induct)
  case (step y z)
  then show ?case
    using step_wf [of "fst y" "snd y" "fst z" "snd z"] step_typed [of "fst y" "snd y" "fst z" "snd z"] by simp
qed simp

lemma reachable_keeps:
  assumes "reachable s s'"
  shows "keeps_requests (fst s) (fst s')"
  using assms unfolding reachable_def
proof (induction rule: rtranclp_induct)
  case (step y z)
  then show ?case using step_keeps [of "fst y" "snd y" "fst z" "snd z"] keeps_trans by simp
qed simp

section \<open>Where a status comes from\<close>

text \<open>Only the timeout job makes a command \<open>timeout\<close> without a response of its gateway.\<close>

lemma timeout_exact:
  assumes "command_timeout_run now d = Inr d'" "fetch cm_id k (commands d) = Some c"
  shows "fetch cm_id k (commands d') = Some (if overdue now c then timed_out now c else c)"
  using fetch_command_timeout [OF assms(1)] assms(2) by simp

lemma settled_not_overdue: "cm_status c \<notin> {''pending'', ''published''} \<Longrightarrow> \<not> overdue now c"
  by (simp add: overdue_def)

lemma run_job_settled:
  assumes "run_job s j now d = Inr d'" "fetch cm_id k (commands d) = Some c"
    "cm_status c \<notin> {''pending'', ''published''}"
  shows "fetch cm_id k (commands d') = Some c"
proof (cases j)
  case OfflineDetector
  with assms show ?thesis
    by (auto simp: run_job_def offline_detector_run_def Let_def split: if_splits)
next
  case CommandTimeout
  with assms show ?thesis
    using timeout_exact settled_not_overdue by (simp add: run_job_def)
next
  case PartitionManager
  with assms ensure_partitions_Inr show ?thesis
    by (fastforce simp: run_job_def partition_manager_run_def Let_def)
qed

section \<open>Open and closed commands\<close>

definition command_closed :: "string \<Rightarrow> db \<Rightarrow> bool" where
  "command_closed k d =
     (case fetch cm_id k (commands d) of None \<Rightarrow> False | Some c \<Rightarrow> cm_status c \<notin> {''pending'', ''published''})"

text \<open>
  The two steps that can open a closed command again: the second transaction of its own request, and
  a response of its gateway whose status is \<open>pending\<close> or \<open>published\<close>.
\<close>

definition late_finish :: "string \<Rightarrow> system \<Rightarrow> system \<Rightarrow> bool" where
  "late_finish k s s' =
     (\<exists>b u gw a c w x ms. (b, u, gw, a, c) \<in> set (snd s) \<and> cm_id c = k \<and>
        issue_finish w b u (gw, a, c) (fst s) = (x, fst s', ms) \<and> snd s' = remove1 (b, u, gw, a, c) (snd s))"

definition open_answer :: "string \<Rightarrow> system \<Rightarrow> system \<Rightarrow> bool" where
  "open_answer k s s' =
     (\<exists>loads clk now topic payload cache cache' serial cmd body st ts.
        dispatch loads clk now topic payload (fst s) cache = (Inr (fst s'), cache') \<and>
        match_topic topic = Some (serial, ''command/response'') \<and>
        fst (gateway_uuid_by_serial clk (fst s) serial cache) = Inr (Some (cm_gateway_id cmd)) \<and>
        loads payload = Inr body \<and> jget body ''status'' (JStr ''executed'') = Inr (JStr st) \<and> st \<in> {''pending'', ''published''} \<and>
        fetch cm_id k (commands (fst s)) = Some cmd \<and> fetch cm_id k (commands (fst s')) = Some (answered body st ts cmd))"

lemma closed_fetch: "fetch cm_id k (commands d') = fetch cm_id k (commands d) \<Longrightarrow> command_closed k d' = command_closed k d"
  by (simp add: command_closed_def)

lemma command_closed_stored: "command_closed k d \<Longrightarrow> \<exists>c. fetch cm_id k (commands d) = Some c \<and> cm_status c \<notin> {''pending'', ''published''}"
  by (auto simp: command_closed_def split: option.splits)

lemma begins_fetch:
  assumes "issue_begin s now r b g u d = (Inr (gw, a, c), d')" "fetch cm_id k (commands d) = Some cmd"
  shows "fetch cm_id k (commands d') = Some cmd" "cm_id c \<noteq> k"
  using insert_command_Inr [OF issue_begin_Inr(5) [OF assms(1)]] fetch_SomeD [OF assms(2)] assms(2)
  by (auto simp: fetch_append)

lemma issue_command_fetch:
  assumes "issue_command w now r b g u d = (x, d', ms)" "fetch cm_id k (commands d) = Some cmd"
  shows "fetch cm_id k (commands d') = Some cmd"
proof (cases "issue_begin (w_settings w) now r b g u d")
  case (Pair y d1)
  show ?thesis
  proof (cases y)
    case (Inl e)
    from issue_command_refused [OF Pair [unfolded Inl]] assms show ?thesis by simp
  next
    case (Inr st)
    obtain gw a c where st: "st = (gw, a, c)" by (cases st)
    from assms show ?thesis
      unfolding issue_command_stored [OF Pair [unfolded Inr st]] by (auto simp: fetch_append split: if_splits)
  qed
qed

lemma serve_fetch:
  assumes "serve dp rq sv = (x, sv', ms)" "fetch cm_id k (commands (sv_db sv)) = Some cmd"
  shows "fetch cm_id k (commands (sv_db sv')) = Some cmd"
proof -
  have "fetch cm_id k (commands d') = Some cmd" if e: "endpoint dp rq l u c (sv_db sv) = (r, d', ms')" for l u c r d' ms'
  proof (cases "\<exists>g b. c = IssueCommand g b")
    case True
    with e assms(2) show ?thesis by (auto split: prod.splits sum.splits intro: issue_command_fetch)
  qed (use e assms(2) endpoint_commands in auto)
  with assms show ?thesis
    by (auto simp: serve_def split: target.splits prod.splits sum.splits if_splits)
qed

lemma message_fetch:
  assumes d: "dispatch loads clk now topic payload d c = (Inr d', c')" and k: "fetch cm_id k (commands d) = Some cmd"
  obtains (same) "fetch cm_id k (commands d') = Some cmd"
    | (answer) serial body st ts where "match_topic topic = Some (serial, ''command/response'')"
        "fst (gateway_uuid_by_serial clk d serial c) = Inr (Some (cm_gateway_id cmd))" "loads payload = Inr body"
        "jget body ''status'' (JStr ''executed'') = Inr (JStr st)" "fetch cm_id k (commands d') = Some (answered body st ts cmd)"
  using d
proof (cases rule: dispatch_Inr)
  case (handled serial kind g c1 body)
  show ?thesis
  proof (cases "kind_of kind = CommandResponse")
    case True
    then have kd: "kind = ''command/response''" by (auto simp: kind_of_def split: if_splits)
    from handled(4) True have "command_response_handle now g body d = Inr d'" by (simp add: handle_def)
    then show ?thesis
    proof (cases rule: command_response_Inr)
      case (stored v cmd' s ts)
      obtain k' where "fetch cm_id k' (commands d) = Some cmd'" using stored(2) by (rule get_command_row_Some)
      then have f: "fetch cm_id (cm_id cmd') (commands d) = Some cmd'" using fetch_Some_key by metis
      note n = command_response_fetch [OF stored(4) f, of k]
      show ?thesis
      proof (cases "k = cm_id cmd'")
        case True
        then have "cmd' = cmd" using f k by simp
        with True n stored(3,5) handled kd show ?thesis by (intro answer [of serial body s ts]) auto
      qed (use n k same in auto)
    qed (use k same in simp)
  next
    case False
    from handled(4) False have "commands d' = commands d"
      by (cases "kind_of kind") (auto simp: handle_def state_handle_def heartbeat_handle_def save_gateway_commands
          dest: telemetry_commands split: option.splits sum.splits)
    with k show ?thesis by (intro same) simp
  qed
qed (use k same in simp)

text \<open>Every other step leaves a closed command closed.\<close>

lemma step_opens:
  assumes "step s s'" "command_closed k (fst s)" "\<not> command_closed k (fst s')"
  shows "late_finish k s s' \<or> open_answer k s s'"
proof -
  obtain cmd where k: "fetch cm_id k (commands (fst s)) = Some cmd" "cm_status cmd \<notin> {''pending'', ''published''}"
    using command_closed_stored [OF assms(2)] by blast
  have same: False if "fetch cm_id k (commands (fst s')) = Some cmd"
    using that k assms by (simp add: command_closed_def)
  from assms(1) show ?thesis
  proof cases
    case (begins st now r b g u d gw a c d' fl)
    then show ?thesis using begins_fetch(1) k(1) same by fastforce
  next
    case (finishes b u st fl w d x d' ms)
    obtain gw a c where st: "st = (gw, a, c)" by (cases st)
    have "d' \<noteq> d" using same k(1) finishes by auto
    then have d': "d' = mark_published (cm_id c) d" using issue_finish_db finishes st by metis
    have "cm_id c = k"
    proof (rule ccontr)
      assume "cm_id c \<noteq> k"
      then have "fetch cm_id k (commands d') = Some cmd" using k(1) finishes(1) by (simp add: d' fetch_mark_published)
      with same finishes(2) show False by simp
    qed
    then show ?thesis using finishes st by (fastforce simp: late_finish_def)
  next
    case (serves dp rq sv x sv' ms fl)
    then show ?thesis using serve_fetch k(1) same by fastforce
  next
    case (message loads clk now topic payload d c d' c' fl)
    have f: "fetch cm_id k (commands d) = Some cmd" using k(1) message by simp
    from message(3) f show ?thesis
    proof (cases rule: message_fetch)
      case (answer serial body st ts)
      then have "st \<in> {''pending'', ''published''}" using assms(3) message by (auto simp: command_closed_def answered_def)
      then have "open_answer k s s'" unfolding open_answer_def message(1,2) fst_conv using message(3) answer f by blast
      then show ?thesis ..
    qed (use same message in simp)
  next
    case (job st j now d d' fl)
    then show ?thesis using run_job_settled k same by fastforce
  qed
qed

lemma reachable_opens:
  assumes "reachable s s'" "command_closed k (fst s)" "\<not> command_closed k (fst s')"
  shows "\<exists>t t'. reachable s t \<and> step t t' \<and> reachable t' s' \<and> command_closed k (fst t) \<and> \<not> command_closed k (fst t') \<and>
    (late_finish k t t' \<or> open_answer k t t')"
  using assms(1,3) unfolding reachable_def
proof (induction rule: rtranclp_induct)
  case (step y z)
  show ?case
  proof (cases "command_closed k (fst y)")
    case True
    with step step_opens show ?thesis by (intro exI [of _ y] exI [of _ z]) auto
  next
    case False
    with step show ?thesis by (metis rtranclp.rtrancl_into_rtrancl)
  qed
qed (use assms(2) in simp)

text \<open>A request whose command is stored cannot begin again.\<close>

lemma step_requests:
  assumes "step (d, fl) (d', fl')" "fetch cm_id k (commands d) = Some cmd" "(b, u, gw, a, c) \<in> set fl'" "cm_id c = k"
  shows "(b, u, gw, a, c) \<in> set fl"
  using assms by (auto elim!: step_elim dest: begins_fetch(2) set_mp [OF set_remove1_subset])

lemma reachable_requests:
  assumes "reachable s s'" "fetch cm_id k (commands (fst s)) = Some cmd"
  shows "(b, u, gw, a, c) \<in> set (snd s') \<Longrightarrow> cm_id c = k \<Longrightarrow> (b, u, gw, a, c) \<in> set (snd s)"
  using assms(1) unfolding reachable_def
proof (induction rule: rtranclp_induct)
  case (step y z)
  have "keeps_requests (fst s) (fst y)" using step(1) by (intro reachable_keeps) (simp add: reachable_def)
  then obtain cmd' where "fetch cm_id k (commands (fst y)) = Some cmd'"
    using assms(2) by (auto simp: keeps_requests_def)
  then show ?case using step_requests [of "fst y" "snd y" "fst z" "snd z"] step by simp
qed simp

text \<open>A run of the timeout job past the expiry closes the command, whatever it went through before.\<close>

lemma tick_timeout_closes:
  assumes "keeps_requests d0 d" "fetch cm_id k (commands d0) = Some c" "cm_expires_at c < now"
  shows "command_closed k (tick_once command_timeout_run now d)" "keeps_requests d0 (tick_once command_timeout_run now d)"
proof -
  obtain c' where c': "fetch cm_id k (commands d) = Some c'" "same_request c c'"
    using assms(1,2) by (auto simp: keeps_requests_def)
  have t: "command_timeout_run now d = Inr (tick_once command_timeout_run now d)"
    by (simp add: tick_once_def command_timeout_run_def)
  have "cm_expires_at c' < now" using c'(2) assms(3) by (simp add: same_request_def)
  then show "command_closed k (tick_once command_timeout_run now d)"
    using timeout_exact [OF t c'(1)] by (auto simp: command_closed_def overdue_def)
  have "run_job default_settings CommandTimeout now d = Inr (tick_once command_timeout_run now d)"
    using t by (simp add: run_job_def)
  then show "keeps_requests d0 (tick_once command_timeout_run now d)"
    using keeps_trans [OF assms(1) run_job_keeps] by blast
qed

text \<open>
  The lost answer: the gateway's response arrives between the publish and the second commit of the
  API, the commit overwrites its status, and the timeout job then finds a \<open>published\<close> command.
\<close>

lemma answer_then_published_then_timeout:
  assumes i: "issue_begin (w_settings w) now r b g u d = (Inr (gw, a, c), d1)"
    and w: "w_client w" "w_broker w = None" "w_commit w = None"
    and resp: "save_command (answered body st ts c) d1 = Inr d2"
    and t: "cm_expires_at c < later"
  shows "\<exists>x d3 ms d4. issue_finish w b u (gw, a, c) d2 = (Inr x, d3, ms) \<and> command_timeout_run later d3 = Inr d4 \<and>
    fetch cm_id (cm_id c) (commands d4) = Some (timed_out later (answered body ''published'' ts c))"
proof -
  note ins = insert_command_Inr [OF issue_begin_Inr(5) [OF i]]
  have "fetch cm_id (cm_id c) (commands d1) = Some c"
    using ins by (simp add: fetch_append fetch_None_iff [symmetric])
  then have d2: "fetch cm_id (cm_id c) (commands d2) = Some (answered body st ts c)"
    using command_response_fetch [OF resp] by simp
  define d3 where "d3 = mark_published (cm_id c) d2"
  have "\<exists>x ms. issue_finish w b u (gw, a, c) d2 = (Inr x, d3, ms)"
    using w by (simp add: issue_finish_def publish_def d3_def)
  moreover have d3: "fetch cm_id (cm_id c) (commands d3) = Some (answered body ''published'' ts c)"
    by (simp add: d3_def fetch_mark_published d2 answered_def)
  moreover have "overdue later (answered body ''published'' ts c)"
    using t by (simp add: overdue_def answered_def)
  ultimately show ?thesis
    by (auto simp: command_timeout_run_def fetch_update_where)
qed

section \<open>Heartbeats\<close>

text \<open>
  After a heartbeat is handled, the offline detector leaves its gateway \<open>online\<close> as long as it runs
  at most the threshold after the heartbeat's timestamp.
\<close>

lemma heartbeat_keeps_online:
  assumes "fetch gw_id g (gateways d) = Some gw" "gw_status gw \<in> {''online'', ''offline''}"
    and "jget body ''timestamp'' JNull = Inr stamp" "parse_iso8601 now stamp = Inr ts"
    and "heartbeat_handle now g body d = Inr d1" "offline_detector_run s later d1 = Inr d2"
    and "later \<le> ts + offline_threshold_sec s * 1000000"
  shows "fetch gw_id g (gateways d2) = Some (gw\<lparr>gw_last_seen_at := Some ts, gw_status := ''online''\<rparr>)"
proof -
  let ?gw = "gw\<lparr>gw_last_seen_at := Some ts, gw_status := ''online''\<rparr>"
  have "gw\<lparr>gw_last_seen_at := Some ts, gw_status := (if gw_status gw = ''offline'' then ''online'' else gw_status gw)\<rparr> = ?gw"
    using assms(2) by auto
  then have "save_gateway ?gw d = Inr d1" using assms(1,3-5) by (simp add: heartbeat_handle_def)
  moreover have "gw_id gw = g" using assms(1) by (rule fetch_Some_key)
  ultimately have "fetch gw_id g (gateways d1) = Some ?gw"
    using assms(1) by (auto simp: save_gateway_def fetch_modify_const)
  then show ?thesis
    using assms(7) by (simp add: fetch_offline_detector [OF assms(6)] silent_def)
qed

end
