(* ===== verification/Lifecycle.thy ===== *)
theory Lifecycle
  imports Scheduler
begin

text \<open>
  How the three processes start, run and stop: \<open>server/app/utils/sd.py\<close>, \<open>db.py\<close>, the lifespans of
  \<open>main.py\<close> and \<open>mqtt_publisher.py\<close>, and the \<open>_main\<close> of the worker and the scheduler. A process is
  the sequence of its visible events and the exception it ends with, if any. What happens outside
  is an argument: whether systemd's socket exists, whether the broker accepts the connection, how
  the consumer task stands, how often the watchdog timer fired.
\<close>

datatype event =
    Logging string
  | Notify string
  | LogWarning security_warning
  | NotifyWarning security_warning
  | MqttConnect
  | MqttDisconnect
  | Subscribe string
  | Cancel string
  | LogError string
  | EngineDisposed

section \<open>sd.py\<close>

definition enabled :: "bool \<Rightarrow> string option \<Rightarrow> bool" where
  "enabled notifier socket = (notifier \<and> (case socket of None \<Rightarrow> False | Some s \<Rightarrow> s \<noteq> []))"

definition ready :: "bool \<Rightarrow> event list" where
  "ready en = (if en then [Notify ''READY=1''] else [])"

definition watchdog :: "bool \<Rightarrow> event list" where
  "watchdog en = (if en then [Notify ''WATCHDOG=1''] else [])"

definition stopping :: "bool \<Rightarrow> event list" where
  "stopping en = (if en then [Notify ''STOPPING=1''] else [])"

definition status :: "bool \<Rightarrow> string \<Rightarrow> event list" where
  "status en text = (if en then [Notify (''STATUS='' @ text)] else [])"

text \<open>The handlers and processors of \<open>logging\<close> and \<open>structlog\<close> are theirs; the level is what the code sets.\<close>

definition setup_logging_basic :: "string \<Rightarrow> event list" where
  "setup_logging_basic level = [Logging level]"

text \<open>The loop until it is cancelled after \<open>n\<close> sleeps; without systemd it only sleeps and swallows the cancel.\<close>

primrec watchdog_loop :: "bool \<Rightarrow> nat \<Rightarrow> event list" where
  "watchdog_loop en 0 = []"
| "watchdog_loop en (Suc n) = watchdog en @ watchdog_loop en n"

section \<open>db.py\<close>

text \<open>
  The engine's parameters stand for the engine; \<open>next_engine\<close> numbers the engines made, so that two
  of them can be told apart.
\<close>

record engine =
  en_number :: nat
  en_url :: string
  en_pool_size :: int
  en_max_overflow :: int

record db_module =
  dm_engine :: "engine option"
  dm_sessionmaker :: "engine option"
  dm_next :: nat

definition make_engine :: "settings \<Rightarrow> nat \<Rightarrow> engine" where
  "make_engine s n = \<lparr>en_number = n, en_url = database_url s, en_pool_size = db_pool_size s, en_max_overflow = db_max_overflow s\<rparr>"

definition get_engine :: "settings \<Rightarrow> db_module \<Rightarrow> engine \<times> db_module" where
  "get_engine s m =
     (case dm_engine m of
        Some e \<Rightarrow> (e, m)
      | None \<Rightarrow> (let e = make_engine s (dm_next m) in (e, m\<lparr>dm_engine := Some e, dm_next := Suc (dm_next m)\<rparr>)))"

definition get_sessionmaker :: "settings \<Rightarrow> db_module \<Rightarrow> engine \<times> db_module" where
  "get_sessionmaker s m =
     (case dm_sessionmaker m of
        Some e \<Rightarrow> (e, m)
      | None \<Rightarrow> (case get_engine s m of (e, m') \<Rightarrow> (e, m'\<lparr>dm_sessionmaker := Some e\<rparr>)))"

definition dispose_engine :: "db_module \<Rightarrow> event list \<times> db_module" where
  "dispose_engine m =
     (case dm_engine m of
        None \<Rightarrow> ([], m)
      | Some _ \<Rightarrow> ([EngineDisposed], m\<lparr>dm_engine := None, dm_sessionmaker := None\<rparr>))"

text \<open>A sessionmaker always works on the current engine.\<close>

definition dm_ok :: "db_module \<Rightarrow> bool" where
  "dm_ok m = (case dm_sessionmaker m of None \<Rightarrow> True | Some e \<Rightarrow> dm_engine m = Some e)"

lemma get_sessionmaker_ok:
  assumes "dm_ok m" "get_sessionmaker s m = (e, m')"
  shows "dm_ok m' \<and> dm_engine m' = Some e \<and> dm_sessionmaker m' = Some e \<and> get_sessionmaker s m' = (e, m')"
  using assms by (auto simp: get_sessionmaker_def get_engine_def dm_ok_def Let_def split: option.splits)

lemma dispose_engine_ok: "dispose_engine m = (ev, m') \<Longrightarrow> dm_ok m \<Longrightarrow> dm_ok m' \<and> dm_engine m' = None \<and> dm_sessionmaker m' = None"
  by (auto simp: dispose_engine_def dm_ok_def split: option.splits)

section \<open>The API process\<close>

text \<open>
  \<open>mqtt_lifespan\<close> around the body: a refused connection runs the \<open>finally\<close> and ends with its
  exception; the client is disconnected on every way out.
\<close>

definition mqtt_lifespan :: "exn option \<Rightarrow> event list \<Rightarrow> event list \<times> exn option" where
  "mqtt_lifespan connect body =
     (case connect of
        Some e \<Rightarrow> ([MqttDisconnect], Some e)
      | None \<Rightarrow> ([MqttConnect] @ body @ [MqttDisconnect], None))"

definition app_lifespan :: "settings \<Rightarrow> bool \<Rightarrow> exn option \<Rightarrow> nat \<Rightarrow> db_module \<Rightarrow> event list \<times> exn option \<times> db_module" where
  "app_lifespan s en connect ticks m =
     (let pre = setup_logging_basic (log_level s) @ status en ''starting'' @
            concat (map (\<lambda>w. LogWarning w # (if en then [NotifyWarning w] else [])) (validate_security s));
          body = ready en @ status en ''active'' @ watchdog_loop en ticks @ status en ''stopping'' @ stopping en @
            [Cancel ''sd-watchdog'']
      in case mqtt_lifespan connect body of
           (ev, Some e) \<Rightarrow> (pre @ ev, Some e, m)
         | (ev, None) \<Rightarrow> (case dispose_engine m of (ev', m') \<Rightarrow> (pre @ ev @ ev', None, m')))"

section \<open>The worker process\<close>

text \<open>
  The consumer task when the stop signal arrives: still consuming, or ended by an exception (a lost
  broker connection). \<open>in_time\<close>: it subscribed within 60 seconds. The watchdog task starts before
  that: \<open>early\<close> counts its ticks before the subscription stands, or until the wait is given up, and
  \<open>late\<close> those between the subscription and READY.
\<close>

datatype consumer = Consuming | Dead exn

definition worker_main ::
  "settings \<Rightarrow> bool \<Rightarrow> bool \<Rightarrow> consumer \<Rightarrow> nat \<Rightarrow> nat \<Rightarrow> nat \<Rightarrow> db_module \<Rightarrow> event list \<times> exn option \<times> db_module" where
  "worker_main s en in_time con early late ticks m =
     (let start = setup_logging_basic (log_level s) @ status en ''starting'' @ watchdog_loop en early
      in if \<not> in_time then
        (start @ [LogError ''worker not ready in 60s'', Cancel ''mqtt-consumer'', Cancel ''sd-watchdog''], None, m)
      else
        (let ev = start @ [Subscribe ''gw/+/#''] @ watchdog_loop en late @ ready en @ status en ''subscribed gw/+/#'' @
               watchdog_loop en ticks @ status en ''stopping'' @ stopping en @
               [Cancel ''mqtt-consumer'', Cancel ''sd-watchdog'']
         in case con of
              Dead e \<Rightarrow> (ev, Some e, m)
            | Consuming \<Rightarrow> (case dispose_engine m of (ev', m') \<Rightarrow> (ev @ ev', None, m'))))"

section \<open>The scheduler process\<close>

text \<open>
  The first run of the partition manager, then the jobs in whatever order their timers fire
  (\<open>fired\<close>, each with its clock reading), until the stop signal.
\<close>

fun run_fired :: "settings \<Rightarrow> (job \<times> instant) list \<Rightarrow> db \<Rightarrow> db" where
  "run_fired s [] d = d"
| "run_fired s ((j, now) # fired) d = run_fired s fired (tick_once (run_job s j) now d)"

definition scheduler_main ::
  "settings \<Rightarrow> bool \<Rightarrow> instant \<Rightarrow> (job \<times> instant) list \<Rightarrow> nat \<Rightarrow> db_module \<Rightarrow> db \<Rightarrow> event list \<times> db_module \<times> db" where
  "scheduler_main s en now fired ticks m d =
     (let d1 = tick_once partition_manager_run now d;
          ev0 = (case partition_manager_run now d of Inl _ \<Rightarrow> [LogError ''initial partition_manager failed''] | Inr _ \<Rightarrow> []);
          ev = setup_logging_basic (log_level s) @ status en ''starting'' @ ev0 @ ready en @ status en ''3 jobs running'' @ watchdog_loop en ticks @
            status en ''stopping'' @ stopping en @
            map Cancel [''offline_detector'', ''command_timeout'', ''partition_manager'', ''sd-watchdog'']
      in case dispose_engine m of (ev', m') \<Rightarrow> (ev @ ev', m', run_fired s fired d1))"

section \<open>What systemd sees\<close>

lemma set_watchdog_loop: "set (watchdog_loop en n) \<subseteq> {Notify ''WATCHDOG=1''}"
  by (induction n) (auto simp: watchdog_def)

lemma count_watchdog_loop: "count_list (watchdog_loop en n) (Notify ''WATCHDOG=1'') = (if en then n else 0)"
  by (induction n) (auto simp: watchdog_def)

lemma ready_not_status: "Notify ''READY=1'' \<notin> set (status en t)"
  by (simp add: status_def)

text \<open>The API reports ready exactly when the broker connection stands.\<close>

lemma app_ready_iff:
  assumes "app_lifespan s en connect ticks m = (ev, x, m')"
  shows "Notify ''READY=1'' \<in> set ev \<longleftrightarrow> en \<and> connect = None"
proof -
  have w: "Notify ''READY=1'' \<notin> set (watchdog_loop en n)" for n
    using set_watchdog_loop [of en n] by auto
  have v: "Notify ''READY=1'' \<notin> set (concat (map (\<lambda>w. LogWarning w # (if en then [NotifyWarning w] else [])) ws))" for ws
    by simp
  show ?thesis
    using assms w v
    by (auto simp: app_lifespan_def setup_logging_basic_def mqtt_lifespan_def Let_def dispose_engine_def ready_def ready_not_status stopping_def
        split: option.splits)
qed

text \<open>The worker's watchdog does not watch the consumer; a worker that is never ready says so by silence.\<close>

lemma worker_watchdog:
  "fst (worker_main s True True (Dead e) early late ticks m) @ fst (dispose_engine m) = fst (worker_main s True True Consuming early late ticks m)"
  "count_list (fst (worker_main s True True con early late ticks m)) (Notify ''WATCHDOG=1'') = early + late + ticks"
  "snd (worker_main s True True (Dead e) early late ticks m) = (Some e, m)"
  "Notify ''READY=1'' \<in> set (fst (worker_main s en in_time con early late ticks m)) \<longleftrightarrow> en \<and> in_time"
proof -
  have c: "count_list (fst (dispose_engine m)) (Notify ''WATCHDOG=1'') = 0"
    by (simp add: dispose_engine_def split: option.splits)
  note defs = worker_main_def setup_logging_basic_def Let_def count_watchdog_loop status_def ready_def stopping_def
  show "fst (worker_main s True True (Dead e) early late ticks m) @ fst (dispose_engine m) = fst (worker_main s True True Consuming early late ticks m)"
    "snd (worker_main s True True (Dead e) early late ticks m) = (Some e, m)"
    by (cases "dispose_engine m"; simp add: defs)+
  show "count_list (fst (worker_main s True True con early late ticks m)) (Notify ''WATCHDOG=1'') = early + late + ticks"
    using c by (cases con; cases "dispose_engine m") (simp_all add: defs)
  have w: "Notify ''READY=1'' \<notin> set (watchdog_loop en n)" for n
    using set_watchdog_loop [of en n] by auto
  show "Notify ''READY=1'' \<in> set (fst (worker_main s en in_time con early late ticks m)) \<longleftrightarrow> en \<and> in_time"
    using w by (cases en; cases in_time; cases con; cases "dm_engine m") (simp_all add: defs dispose_engine_def)
qed

lemma run_fired_wf: "wf_db d \<Longrightarrow> wf_db (run_fired s fired d)"
proof (induction fired arbitrary: d)
  case (Cons f fired)
  then show ?case using scheduled.tick_once_ok [of d s "fst f" "snd f"] by (cases f) simp
qed simp

lemma run_fired_frame: "job_frame d (run_fired s fired d)"
proof (induction fired arbitrary: d)
  case (Cons f fired)
  then show ?case
    using scheduled.tick_once_ok [of d s "fst f" "snd f"] job_frame_trans by (cases f) fastforce
qed simp

section \<open>The engine between disposals\<close>

text \<open>
  After any sequence of \<open>get_engine\<close>, \<open>get_sessionmaker\<close> and \<open>dispose_engine\<close> calls, a sessionmaker
  works on the current engine, asking twice gives the same one, and after a disposal the next one is
  new.
\<close>

datatype db_call = GetEngine | GetSessionmaker | Dispose

fun do_calls :: "settings \<Rightarrow> db_call list \<Rightarrow> db_module \<Rightarrow> db_module" where
  "do_calls s [] m = m"
| "do_calls s (GetEngine # cs) m = do_calls s cs (snd (get_engine s m))"
| "do_calls s (GetSessionmaker # cs) m = do_calls s cs (snd (get_sessionmaker s m))"
| "do_calls s (Dispose # cs) m = do_calls s cs (snd (dispose_engine m))"

definition fresh_module :: db_module where
  "fresh_module = \<lparr>dm_engine = None, dm_sessionmaker = None, dm_next = 0\<rparr>"

lemma engine_singleton:
  assumes "get_sessionmaker s (do_calls s calls fresh_module) = (e, m)"
  shows "dm_engine m = Some e \<and> get_engine s m = (e, m) \<and> get_sessionmaker s m = (e, m) \<and>
    (\<forall>e' m'. get_sessionmaker s (snd (dispose_engine m)) = (e', m') \<longrightarrow> en_number e < en_number e')"
proof -
  define ok where "ok m = (dm_ok m \<and> (case dm_engine m of None \<Rightarrow> True | Some e \<Rightarrow> en_number e < dm_next m))" for m
  have step: "ok (snd (get_engine s m))" "ok (snd (get_sessionmaker s m))" "ok (snd (dispose_engine m))" if "ok m" for m
    using that by (auto simp: ok_def dm_ok_def get_engine_def get_sessionmaker_def dispose_engine_def make_engine_def Let_def split: option.splits)
  have run: "ok m \<Longrightarrow> ok (do_calls s cs m)" for cs m
  proof (induction cs arbitrary: m)
    case (Cons c cs)
    then show ?case using step by (cases c) auto
  qed simp
  have "ok (do_calls s calls fresh_module)" by (rule run) (simp add: ok_def dm_ok_def fresh_module_def)
  then have o: "dm_ok (do_calls s calls fresh_module)" "ok m"
    using step(2) [of "do_calls s calls fresh_module"] assms by (simp_all add: ok_def)
  note g = get_sessionmaker_ok [OF o(1) assms]
  with o(2) show ?thesis
    by (auto simp: ok_def get_engine_def get_sessionmaker_def dispose_engine_def make_engine_def Let_def)
qed

end
