(* ===== verification/Migrations.thy ===== *)
theory Migrations
  imports Scheduler
begin

text \<open>
  The Alembic migrations (\<open>server/alembic/versions/0001_initial.py\<close>, \<open>0002_channel_slug.py\<close>) as
  sequences of schema operations with PostgreSQL's conditions (a table must not exist, a foreign
  key's target must, a referenced table is not dropped), and the column types of the ORM classes
  to compare them with. The data step of 0002, which invents slugs for existing channels, is a
  function on rows.
\<close>

section \<open>Schemas and operations\<close>

datatype coltype = UuidT | TextT | VarcharT nat | TimestampT | FloatT | IntegerT | BigIntT | BooleanT | JsonbT

record column =
  cl_name :: string
  cl_type :: coltype
  cl_nullable :: bool
  cl_primary :: bool
  cl_unique :: bool
  cl_fk :: "string option"
  cl_default :: bool

definition col :: "string \<Rightarrow> coltype \<Rightarrow> column" where
  "col n t = \<lparr>cl_name = n, cl_type = t, cl_nullable = True, cl_primary = False, cl_unique = False,
     cl_fk = None, cl_default = False\<rparr>"

definition not_null :: "column \<Rightarrow> column" where "not_null c = c\<lparr>cl_nullable := False\<rparr>"
definition prim_key :: "column \<Rightarrow> column" where "prim_key c = c\<lparr>cl_nullable := False, cl_primary := True\<rparr>"
definition uniq :: "column \<Rightarrow> column" where "uniq c = c\<lparr>cl_unique := True\<rparr>"
definition refers :: "string \<Rightarrow> column \<Rightarrow> column" where "refers t c = c\<lparr>cl_fk := Some t\<rparr>"
definition defaulted :: "column \<Rightarrow> column" where "defaulted c = c\<lparr>cl_default := True\<rparr>"

datatype part = DefaultPart | MonthPart "nat \<times> nat"

record tbl =
  tb_columns :: "column list"
  tb_uniques :: "(string \<times> string list) list"
  tb_checks :: "string list"
  tb_indexes :: "(string \<times> string list) list"
  tb_parts :: "part list"

type_synonym schema = "(string \<times> tbl) list"

datatype op =
    CreateTable string "column list" "string list list"
  | CreateIndex string string "string list"
  | CreatePartition string part
  | AddColumn string column
  | Backfill string string
  | SetNotNull string string
  | AddCheck string string
  | AddUnique string string "string list"
  | DropCheck string string
  | DropUnique string string
  | DropColumn string string
  | DropTable string
  | DropTableCascade string

definition table_names :: "schema \<Rightarrow> string list" where
  "table_names s = map fst s"

definition has_column :: "tbl \<Rightarrow> string \<Rightarrow> bool" where
  "has_column t c = list_ex (\<lambda>x. cl_name x = c) (tb_columns t)"

definition refers_to :: "string \<Rightarrow> tbl \<Rightarrow> bool" where
  "refers_to n t = list_ex (\<lambda>c. cl_fk c = Some n) (tb_columns t)"

text \<open>A change of one table, if it exists and the change applies.\<close>

fun alter :: "string \<Rightarrow> (tbl \<Rightarrow> tbl option) \<Rightarrow> schema \<Rightarrow> exn + schema" where
  "alter n f [] = Inl DBAPIError"
| "alter n f ((m, t) # s) =
     (if m = n then (case f t of None \<Rightarrow> Inl DBAPIError | Some t' \<Rightarrow> Inr ((m, t') # s))
      else (case alter n f s of Inl e \<Rightarrow> Inl e | Inr s' \<Rightarrow> Inr ((m, t) # s')))"

definition on_cond :: "bool \<Rightarrow> 'a \<Rightarrow> 'a option" where
  "on_cond b x = (if b then Some x else None)"

definition apply_op :: "op \<Rightarrow> schema \<Rightarrow> exn + schema" where
  "apply_op o' s =
     (case o' of
        CreateTable n cs us \<Rightarrow>
          if n \<in> set (table_names s) \<or> \<not> list_all (\<lambda>c. case cl_fk c of None \<Rightarrow> True | Some t \<Rightarrow> t \<in> set (table_names s)) cs
          then Inl DBAPIError
          else Inr (s @ [(n, \<lparr>tb_columns = cs, tb_uniques = map (Pair []) us, tb_checks = [], tb_indexes = [], tb_parts = []\<rparr>)])
      | CreateIndex i n cs \<Rightarrow>
          if list_ex (\<lambda>(_, t). i \<in> fst ` set (tb_indexes t)) s then Inl DBAPIError
          else alter n (\<lambda>t. on_cond (list_all (has_column t) cs) (t\<lparr>tb_indexes := tb_indexes t @ [(i, cs)]\<rparr>)) s
      | CreatePartition n p \<Rightarrow>
          alter n (\<lambda>t. Some (if p \<in> set (tb_parts t) then t else t\<lparr>tb_parts := tb_parts t @ [p]\<rparr>)) s
      | AddColumn n c \<Rightarrow>
          alter n (\<lambda>t. on_cond (\<not> has_column t (cl_name c)) (t\<lparr>tb_columns := tb_columns t @ [c]\<rparr>)) s
      | Backfill n c \<Rightarrow> alter n (\<lambda>t. on_cond (has_column t c) t) s
      | SetNotNull n c \<Rightarrow>
          alter n (\<lambda>t. on_cond (has_column t c)
            (t\<lparr>tb_columns := map (\<lambda>x. if cl_name x = c then not_null x else x) (tb_columns t)\<rparr>)) s
      | AddCheck k n \<Rightarrow> alter n (\<lambda>t. on_cond (k \<notin> set (tb_checks t)) (t\<lparr>tb_checks := tb_checks t @ [k]\<rparr>)) s
      | AddUnique k n cs \<Rightarrow>
          alter n (\<lambda>t. on_cond (list_all (has_column t) cs \<and> k \<notin> fst ` set (tb_uniques t))
            (t\<lparr>tb_uniques := tb_uniques t @ [(k, cs)]\<rparr>)) s
      | DropCheck k n \<Rightarrow>
          alter n (\<lambda>t. on_cond (k \<in> set (tb_checks t)) (t\<lparr>tb_checks := filter (\<lambda>x. x \<noteq> k) (tb_checks t)\<rparr>)) s
      | DropUnique k n \<Rightarrow>
          alter n (\<lambda>t. on_cond (k \<in> fst ` set (tb_uniques t)) (t\<lparr>tb_uniques := filter (\<lambda>x. fst x \<noteq> k) (tb_uniques t)\<rparr>)) s
      | DropColumn n c \<Rightarrow>
          alter n (\<lambda>t. on_cond (has_column t c) (t\<lparr>tb_columns := filter (\<lambda>x. cl_name x \<noteq> c) (tb_columns t)\<rparr>)) s
      | DropTable n \<Rightarrow>
          if n \<notin> set (table_names s) \<or> list_ex (\<lambda>(m, t). m \<noteq> n \<and> refers_to n t) s then Inl DBAPIError
          else Inr (filter (\<lambda>(m, _). m \<noteq> n) s)
      | DropTableCascade n \<Rightarrow> Inr (filter (\<lambda>(m, _). m \<noteq> n) s))"

fun run :: "op list \<Rightarrow> schema \<Rightarrow> exn + schema" where
  "run [] s = Inr s"
| "run (x # xs) s = (case apply_op x s of Inl e \<Rightarrow> Inl e | Inr s' \<Rightarrow> run xs s')"

section \<open>0001\<close>

definition create_identity :: "op list" where
  "create_identity =
    [CreateTable ''companies''
       [prim_key (col ''id'' UuidT),
        not_null (col ''name'' TextT),
        not_null (col ''company_type'' (VarcharT 32)),
        defaulted (not_null (col ''status'' (VarcharT 32))),
        defaulted (col ''created_at'' TimestampT),
        defaulted (col ''updated_at'' TimestampT)]
       [],
     CreateTable ''sites''
       [prim_key (col ''id'' UuidT),
        refers ''companies'' (not_null (col ''company_id'' UuidT)),
        not_null (col ''name'' TextT),
        col ''address'' TextT,
        col ''latitude'' FloatT,
        col ''longitude'' FloatT,
        defaulted (col ''created_at'' TimestampT)]
       [],
     CreateTable ''users''
       [prim_key (col ''id'' UuidT),
        uniq (not_null (col ''keycloak_user_id'' TextT)),
        uniq (not_null (col ''email'' TextT)),
        not_null (col ''name'' TextT),
        defaulted (not_null (col ''status'' (VarcharT 32))),
        defaulted (col ''created_at'' TimestampT)]
       [],
     CreateTable ''user_company_roles''
       [prim_key (col ''id'' UuidT),
        refers ''users'' (not_null (col ''user_id'' UuidT)),
        refers ''companies'' (not_null (col ''company_id'' UuidT)),
        not_null (col ''role'' (VarcharT 64)),
        defaulted (col ''created_at'' TimestampT)]
       [[''user_id'', ''company_id'', ''role'']],
     CreateTable ''user_gateway_permissions''
       [prim_key (col ''id'' UuidT),
        refers ''users'' (not_null (col ''user_id'' UuidT)),
        not_null (col ''gateway_id'' UuidT),
        not_null (col ''permission'' (VarcharT 32)),
        defaulted (col ''created_at'' TimestampT)]
       [[''user_id'', ''gateway_id'', ''permission'']]]"

definition create_devices :: "op list" where
  "create_devices =
    [CreateTable ''gateway_profiles''
       [prim_key (col ''id'' UuidT),
        not_null (col ''name'' TextT),
        not_null (col ''model'' TextT),
        not_null (col ''hardware_schema'' JsonbT),
        col ''description'' TextT,
        defaulted (col ''created_at'' TimestampT)]
       [],
     CreateTable ''gateways''
       [prim_key (col ''id'' UuidT),
        uniq (not_null (col ''serial_number'' TextT)),
        not_null (col ''name'' TextT),
        refers ''companies'' (not_null (col ''company_id'' UuidT)),
        refers ''sites'' (col ''site_id'' UuidT),
        refers ''gateway_profiles'' (col ''gateway_profile_id'' UuidT),
        defaulted (not_null (col ''status'' (VarcharT 32))),
        col ''firmware_version'' (VarcharT 64),
        col ''app_version'' (VarcharT 64),
        defaulted (col ''config_version'' IntegerT),
        col ''last_seen_at'' TimestampT,
        defaulted (col ''registered_at'' TimestampT)]
       [],
     CreateIndex ''ix_gateways_company'' ''gateways'' [''company_id''],
     CreateIndex ''ix_gateways_site'' ''gateways'' [''site_id''],
     CreateTable ''sensor_profiles''
       [prim_key (col ''id'' UuidT),
        not_null (col ''name'' TextT),
        col ''vendor'' TextT,
        col ''model'' TextT,
        not_null (col ''protocol'' (VarcharT 32)),
        col ''description'' TextT,
        not_null (col ''profile_schema'' JsonbT),
        defaulted (col ''enabled'' BooleanT),
        defaulted (col ''created_at'' TimestampT)]
       [],
     CreateTable ''sensor_channels''
       [prim_key (col ''id'' UuidT),
        refers ''gateways'' (not_null (col ''gateway_id'' UuidT)),
        refers ''sensor_profiles'' (not_null (col ''sensor_profile_id'' UuidT)),
        not_null (col ''display_name'' TextT),
        not_null (col ''interface_name'' (VarcharT 64)),
        not_null (col ''protocol'' (VarcharT 32)),
        col ''address'' (VarcharT 64),
        col ''slave_id'' IntegerT,
        defaulted (col ''polling_interval_sec'' IntegerT),
        defaulted (col ''enabled'' BooleanT),
        col ''config'' JsonbT,
        defaulted (col ''created_at'' TimestampT)]
       [],
     CreateIndex ''ix_sensor_channels_gateway'' ''sensor_channels'' [''gateway_id''],
     CreateTable ''actuator_channels''
       [prim_key (col ''id'' UuidT),
        refers ''gateways'' (not_null (col ''gateway_id'' UuidT)),
        not_null (col ''display_name'' TextT),
        not_null (col ''actuator_type'' (VarcharT 32)),
        not_null (col ''hardware_channel'' (VarcharT 64)),
        defaulted (not_null (col ''default_state'' (VarcharT 8))),
        col ''current_state'' (VarcharT 16),
        defaulted (col ''enabled'' BooleanT),
        col ''safety_config'' JsonbT,
        defaulted (col ''created_at'' TimestampT)]
       [],
     CreateIndex ''ix_actuator_channels_gateway'' ''actuator_channels'' [''gateway_id'']]"

definition create_telemetry_log :: "op list" where
  "create_telemetry_log =
    [CreateTable ''telemetry''
       [defaulted (prim_key (col ''id'' BigIntT)),
        not_null (col ''company_id'' UuidT),
        col ''site_id'' UuidT,
        not_null (col ''gateway_id'' UuidT),
        not_null (col ''sensor_channel_id'' UuidT),
        not_null (col ''measurement_key'' TextT),
        prim_key (col ''ts'' TimestampT),
        col ''value_double'' FloatT,
        col ''value_text'' TextT,
        col ''value_bool'' BooleanT,
        col ''value_json'' JsonbT,
        col ''unit'' TextT,
        col ''quality'' TextT,
        col ''raw'' JsonbT]
       [],
     CreateIndex ''ix_telemetry_gw_ch_ts'' ''telemetry'' [''gateway_id'', ''sensor_channel_id'', ''ts'']]"

definition create_rest :: "op list" where
  "create_rest =
    [CreateTable ''telemetry_latest''
       [prim_key (col ''gateway_id'' UuidT),
        prim_key (col ''sensor_channel_id'' UuidT),
        prim_key (col ''measurement_key'' (VarcharT 64)),
        not_null (col ''ts'' TimestampT),
        col ''value_double'' FloatT,
        col ''value_text'' TextT,
        col ''value_bool'' BooleanT,
        col ''value_json'' JsonbT,
        col ''unit'' (VarcharT 32),
        col ''quality'' (VarcharT 32)]
       [],
     CreateTable ''commands''
       [prim_key (col ''id'' TextT),
        refers ''gateways'' (not_null (col ''gateway_id'' UuidT)),
        refers ''actuator_channels'' (col ''actuator_channel_id'' UuidT),
        not_null (col ''action'' (VarcharT 32)),
        refers ''users'' (col ''issued_by'' UuidT),
        not_null (col ''issued_at'' TimestampT),
        not_null (col ''expires_at'' TimestampT),
        defaulted (col ''timeout_ms'' IntegerT),
        defaulted (col ''require_ack'' BooleanT),
        col ''reason'' TextT,
        defaulted (not_null (col ''status'' (VarcharT 32))),
        col ''response'' JsonbT,
        col ''completed_at'' TimestampT]
       [],
     CreateIndex ''ix_commands_gw_status'' ''commands'' [''gateway_id'', ''status''],
     CreateIndex ''ix_commands_expires'' ''commands'' [''expires_at''],
     CreateTable ''audit_logs''
       [prim_key (col ''id'' UuidT),
        refers ''users'' (col ''user_id'' UuidT),
        not_null (col ''action'' (VarcharT 64)),
        col ''target_type'' (VarcharT 64),
        col ''target_id'' TextT,
        col ''payload'' JsonbT,
        defaulted (col ''ts'' TimestampT)]
       [],
     CreateIndex ''ix_audit_user_ts'' ''audit_logs'' [''user_id'', ''ts'']]"

text \<open>The partitions made at migration time: the current month and the next three.\<close>

primrec month_ops :: "nat \<Rightarrow> nat \<times> nat \<Rightarrow> op list" where
  "month_ops 0 ym = []"
| "month_ops (Suc n) ym =
     CreatePartition ''telemetry'' (MonthPart ym) #
       month_ops n (case ym of (y, m) \<Rightarrow> if m + 1 > 12 then (y + 1, 1) else (y, m + 1))"

definition upgrade_0001 :: "instant \<Rightarrow> op list" where
  "upgrade_0001 now =
     create_identity @ create_devices @ create_telemetry_log @
     [CreatePartition ''telemetry'' DefaultPart] @
     (let t = utc_datetime now in month_ops 4 (dt_year t, dt_month t)) @ create_rest"

definition downgrade_0001 :: "op list" where
  "downgrade_0001 =
     [DropTable ''audit_logs'', DropTable ''commands'', DropTable ''telemetry_latest'', DropTableCascade ''telemetry'',
      DropTable ''actuator_channels'', DropTable ''sensor_channels'', DropTable ''sensor_profiles'',
      DropTable ''gateways'', DropTable ''gateway_profiles'', DropTable ''user_gateway_permissions'',
      DropTable ''user_company_roles'', DropTable ''users'', DropTable ''sites'', DropTable ''companies'']"

section \<open>0002\<close>

definition upgrade_0002 :: "op list" where
  "upgrade_0002 =
     [AddColumn ''sensor_channels'' (col ''slug'' (VarcharT 64)),
      Backfill ''sensor_channels'' ''slug'',
      SetNotNull ''sensor_channels'' ''slug'',
      AddCheck ''ck_sensor_channels_slug_format'' ''sensor_channels'',
      AddUnique ''uq_sensor_channels_gateway_slug'' ''sensor_channels'' [''gateway_id'', ''slug''],
      AddColumn ''actuator_channels'' (col ''slug'' (VarcharT 64)),
      Backfill ''actuator_channels'' ''slug'',
      SetNotNull ''actuator_channels'' ''slug'',
      AddCheck ''ck_actuator_channels_slug_format'' ''actuator_channels'',
      AddUnique ''uq_actuator_channels_gateway_slug'' ''actuator_channels'' [''gateway_id'', ''slug''],
      AddCheck ''ck_gateways_serial_number_format'' ''gateways'']"

definition downgrade_0002 :: "op list" where
  "downgrade_0002 =
     [DropCheck ''ck_gateways_serial_number_format'' ''gateways'',
      DropUnique ''uq_actuator_channels_gateway_slug'' ''actuator_channels'',
      DropCheck ''ck_actuator_channels_slug_format'' ''actuator_channels'',
      DropColumn ''actuator_channels'' ''slug'',
      DropUnique ''uq_sensor_channels_gateway_slug'' ''sensor_channels'',
      DropCheck ''ck_sensor_channels_slug_format'' ''sensor_channels'',
      DropColumn ''sensor_channels'' ''slug'']"

text \<open>
  The data step: a channel row of the old schema is its id and its gateway; every slug is NULL, so
  every row gets \<open>substring(id::text, 1, 8)\<close>, then the CHECK and the UNIQUE are validated.
\<close>

definition backfill_slug :: "uuid \<Rightarrow> string" where
  "backfill_slug i = take 8 (uuid_str i)"

definition migrate_channels :: "(uuid \<times> uuid) list \<Rightarrow> exn + (uuid \<times> uuid \<times> string) list" where
  "migrate_channels rows =
     (let new = map (\<lambda>(i, g). (i, g, backfill_slug i)) rows
      in if \<not> list_all (\<lambda>(i, g, s). slug_pattern s) new then Inl IntegrityError
         else if \<not> distinct (map (\<lambda>(i, g, s). (g, s)) new) then Inl IntegrityError
         else Inr new)"

section \<open>The ORM's columns\<close>

text \<open>
  The tables of \<open>server/app/models.py\<close>: the columns as the mapped classes declare them and the
  unique constraints over several columns. \<open>Mapped[T]\<close> without \<open>| None\<close> is NOT NULL, primary keys are
  the mapper's, and a column is \<open>defaulted\<close> when the declaration gives the server a default
  (\<open>server_default\<close>, \<open>Identity\<close>); a \<open>default\<close> that Python fills in is none.
\<close>

definition orm_tables :: "(string \<times> column list \<times> (string \<times> string list) list) list" where
  "orm_tables =
    [(''companies'',
       [prim_key (col ''id'' UuidT),
        not_null (col ''name'' TextT),
        not_null (col ''company_type'' (VarcharT 32)),
        not_null (col ''status'' (VarcharT 32)),
        defaulted (not_null (col ''created_at'' TimestampT)),
        defaulted (not_null (col ''updated_at'' TimestampT))],
       []),
     (''sites'',
       [prim_key (col ''id'' UuidT),
        refers ''companies'' (not_null (col ''company_id'' UuidT)),
        not_null (col ''name'' TextT),
        col ''address'' TextT,
        col ''latitude'' FloatT,
        col ''longitude'' FloatT,
        defaulted (not_null (col ''created_at'' TimestampT))],
       []),
     (''users'',
       [prim_key (col ''id'' UuidT),
        uniq (not_null (col ''keycloak_user_id'' TextT)),
        uniq (not_null (col ''email'' TextT)),
        not_null (col ''name'' TextT),
        not_null (col ''status'' (VarcharT 32)),
        defaulted (not_null (col ''created_at'' TimestampT))],
       []),
     (''user_company_roles'',
       [prim_key (col ''id'' UuidT),
        refers ''users'' (not_null (col ''user_id'' UuidT)),
        refers ''companies'' (not_null (col ''company_id'' UuidT)),
        not_null (col ''role'' (VarcharT 64)),
        defaulted (not_null (col ''created_at'' TimestampT))],
       [([], [''user_id'', ''company_id'', ''role''])]),
     (''user_gateway_permissions'',
       [prim_key (col ''id'' UuidT),
        refers ''users'' (not_null (col ''user_id'' UuidT)),
        not_null (col ''gateway_id'' UuidT),
        not_null (col ''permission'' (VarcharT 32)),
        defaulted (not_null (col ''created_at'' TimestampT))],
       [([], [''user_id'', ''gateway_id'', ''permission''])]),
     (''gateway_profiles'',
       [prim_key (col ''id'' UuidT),
        not_null (col ''name'' TextT),
        not_null (col ''model'' TextT),
        not_null (col ''hardware_schema'' JsonbT),
        col ''description'' TextT,
        defaulted (not_null (col ''created_at'' TimestampT))],
       []),
     (''gateways'',
       [prim_key (col ''id'' UuidT),
        uniq (not_null (col ''serial_number'' TextT)),
        not_null (col ''name'' TextT),
        refers ''companies'' (not_null (col ''company_id'' UuidT)),
        refers ''sites'' (col ''site_id'' UuidT),
        refers ''gateway_profiles'' (col ''gateway_profile_id'' UuidT),
        not_null (col ''status'' (VarcharT 32)),
        col ''firmware_version'' (VarcharT 64),
        col ''app_version'' (VarcharT 64),
        not_null (col ''config_version'' IntegerT),
        col ''last_seen_at'' TimestampT,
        defaulted (not_null (col ''registered_at'' TimestampT))],
       []),
     (''sensor_profiles'',
       [prim_key (col ''id'' UuidT),
        not_null (col ''name'' TextT),
        col ''vendor'' TextT,
        col ''model'' TextT,
        not_null (col ''protocol'' (VarcharT 32)),
        col ''description'' TextT,
        not_null (col ''profile_schema'' JsonbT),
        not_null (col ''enabled'' BooleanT),
        defaulted (not_null (col ''created_at'' TimestampT))],
       []),
     (''sensor_channels'',
       [prim_key (col ''id'' UuidT),
        refers ''gateways'' (not_null (col ''gateway_id'' UuidT)),
        not_null (col ''slug'' (VarcharT 64)),
        refers ''sensor_profiles'' (not_null (col ''sensor_profile_id'' UuidT)),
        not_null (col ''display_name'' TextT),
        not_null (col ''interface_name'' (VarcharT 64)),
        not_null (col ''protocol'' (VarcharT 32)),
        col ''address'' (VarcharT 64),
        col ''slave_id'' IntegerT,
        not_null (col ''polling_interval_sec'' IntegerT),
        not_null (col ''enabled'' BooleanT),
        col ''config'' JsonbT,
        defaulted (not_null (col ''created_at'' TimestampT))],
       [(''uq_sensor_channels_gateway_slug'', [''gateway_id'', ''slug''])]),
     (''actuator_channels'',
       [prim_key (col ''id'' UuidT),
        refers ''gateways'' (not_null (col ''gateway_id'' UuidT)),
        not_null (col ''slug'' (VarcharT 64)),
        not_null (col ''display_name'' TextT),
        not_null (col ''actuator_type'' (VarcharT 32)),
        not_null (col ''hardware_channel'' (VarcharT 64)),
        not_null (col ''default_state'' (VarcharT 8)),
        col ''current_state'' (VarcharT 16),
        not_null (col ''enabled'' BooleanT),
        col ''safety_config'' JsonbT,
        defaulted (not_null (col ''created_at'' TimestampT))],
       [(''uq_actuator_channels_gateway_slug'', [''gateway_id'', ''slug''])]),
     (''telemetry'',
       [defaulted (prim_key (col ''id'' BigIntT)),
        not_null (col ''company_id'' UuidT),
        col ''site_id'' UuidT,
        not_null (col ''gateway_id'' UuidT),
        not_null (col ''sensor_channel_id'' UuidT),
        not_null (col ''measurement_key'' (VarcharT 64)),
        prim_key (col ''ts'' TimestampT),
        col ''value_double'' FloatT,
        col ''value_text'' TextT,
        col ''value_bool'' BooleanT,
        col ''value_json'' JsonbT,
        col ''unit'' (VarcharT 32),
        col ''quality'' (VarcharT 32),
        col ''raw'' JsonbT],
       []),
     (''telemetry_latest'',
       [prim_key (col ''gateway_id'' UuidT),
        prim_key (col ''sensor_channel_id'' UuidT),
        prim_key (col ''measurement_key'' (VarcharT 64)),
        not_null (col ''ts'' TimestampT),
        col ''value_double'' FloatT,
        col ''value_text'' TextT,
        col ''value_bool'' BooleanT,
        col ''value_json'' JsonbT,
        col ''unit'' (VarcharT 32),
        col ''quality'' (VarcharT 32)],
       []),
     (''commands'',
       [prim_key (col ''id'' TextT),
        refers ''gateways'' (not_null (col ''gateway_id'' UuidT)),
        refers ''actuator_channels'' (col ''actuator_channel_id'' UuidT),
        not_null (col ''action'' (VarcharT 32)),
        refers ''users'' (col ''issued_by'' UuidT),
        not_null (col ''issued_at'' TimestampT),
        not_null (col ''expires_at'' TimestampT),
        not_null (col ''timeout_ms'' IntegerT),
        not_null (col ''require_ack'' BooleanT),
        col ''reason'' TextT,
        not_null (col ''status'' (VarcharT 32)),
        col ''response'' JsonbT,
        col ''completed_at'' TimestampT],
       []),
     (''audit_logs'',
       [prim_key (col ''id'' UuidT),
        refers ''users'' (col ''user_id'' UuidT),
        not_null (col ''action'' (VarcharT 64)),
        col ''target_type'' (VarcharT 64),
        col ''target_id'' TextT,
        col ''payload'' JsonbT,
        defaulted (not_null (col ''ts'' TimestampT))],
       [])]"

text \<open>
  The columns on which a database and the ORM disagree in the property \<open>f\<close>, the mapped columns the
  database lacks, the columns no class maps, and the unique constraints of only one side.
\<close>

definition db_columns :: "schema \<Rightarrow> string \<Rightarrow> column list" where
  "db_columns s t = (case map_of s t of None \<Rightarrow> [] | Some x \<Rightarrow> tb_columns x)"

definition find_column :: "string \<Rightarrow> column list \<Rightarrow> column option" where
  "find_column c cs = find (\<lambda>x. cl_name x = c) cs"

definition drift :: "(column \<Rightarrow> 'a) \<Rightarrow> schema \<Rightarrow> (string \<times> string) list" where
  "drift f s = concat (map (\<lambda>(t, cs, _). map (\<lambda>c. (t, cl_name c))
     (filter (\<lambda>c. map_option f (find_column (cl_name c) (db_columns s t)) \<noteq> Some (f c)) cs)) orm_tables)"

definition unmapped :: "schema \<Rightarrow> (string \<times> string) list" where
  "unmapped s = concat (map (\<lambda>(t, x). map (\<lambda>c. (t, cl_name c))
     (filter (\<lambda>c. case map_of orm_tables t of None \<Rightarrow> True | Some (cs, _) \<Rightarrow> find_column (cl_name c) cs = None) (tb_columns x))) s)"

definition same_uniques :: "schema \<Rightarrow> bool" where
  "same_uniques s = list_all (\<lambda>(t, _, us). case map_of s t of None \<Rightarrow> False | Some x \<Rightarrow> tb_uniques x = us) orm_tables"

section \<open>Running them\<close>

lemma run_append: "run (xs @ ys) s = (case run xs s of Inl e \<Rightarrow> Inl e | Inr s' \<Rightarrow> run ys s')"
  by (induction xs arbitrary: s) (auto split: sum.splits)

definition with_parts :: "part list \<Rightarrow> schema \<Rightarrow> schema" where
  "with_parts ps s = map (\<lambda>(n, t). (n, if n = ''telemetry'' then t\<lparr>tb_parts := ps\<rparr> else t)) s"

definition base_0001 :: schema where
  "base_0001 = (case run (create_identity @ create_devices @ create_telemetry_log) [] of Inl _ \<Rightarrow> [] | Inr s \<Rightarrow> s)"

definition full_0001 :: schema where
  "full_0001 = (case run create_rest base_0001 of Inl _ \<Rightarrow> [] | Inr s \<Rightarrow> s)"

lemma run_base: "run (create_identity @ create_devices @ create_telemetry_log) [] = Inr (with_parts [] base_0001)"
  by code_simp

lemma run_rest: "run create_rest (with_parts ps base_0001) = Inr (with_parts ps full_0001)"
  by code_simp

lemma run_down_0001: "run downgrade_0001 (with_parts ps full_0001) = Inr []"
  by code_simp

lemma run_up_down_0002: "run (upgrade_0002 @ downgrade_0002) (with_parts ps full_0001) = Inr (with_parts ps full_0001)"
  by code_simp

lemma run_up_0002: "is_ok (run upgrade_0002 (with_parts ps full_0001))"
  by code_simp

lemma drift_0002:
  "(case run upgrade_0002 (with_parts ps full_0001) of Inl _ \<Rightarrow> False | Inr s \<Rightarrow>
     drift cl_type s = [(''telemetry'', ''measurement_key''), (''telemetry'', ''unit''), (''telemetry'', ''quality'')] \<and>
     drift cl_nullable s =
       [(''companies'', ''created_at''), (''companies'', ''updated_at''), (''sites'', ''created_at''),
        (''users'', ''created_at''), (''user_company_roles'', ''created_at''),
        (''user_gateway_permissions'', ''created_at''), (''gateway_profiles'', ''created_at''),
        (''gateways'', ''config_version''), (''gateways'', ''registered_at''),
        (''sensor_profiles'', ''enabled''), (''sensor_profiles'', ''created_at''),
        (''sensor_channels'', ''polling_interval_sec''), (''sensor_channels'', ''enabled''),
        (''sensor_channels'', ''created_at''), (''actuator_channels'', ''enabled''),
        (''actuator_channels'', ''created_at''), (''commands'', ''timeout_ms''),
        (''commands'', ''require_ack''), (''audit_logs'', ''ts'')] \<and>
     drift cl_default s =
       [(''companies'', ''status''), (''users'', ''status''), (''gateways'', ''status''),
        (''gateways'', ''config_version''), (''sensor_profiles'', ''enabled''),
        (''sensor_channels'', ''polling_interval_sec''), (''sensor_channels'', ''enabled''),
        (''actuator_channels'', ''default_state''), (''actuator_channels'', ''enabled''),
        (''commands'', ''timeout_ms''), (''commands'', ''require_ack''), (''commands'', ''status'')] \<and>
     drift (\<lambda>c. (cl_primary c, cl_unique c, cl_fk c)) s = [] \<and> unmapped s = [] \<and> same_uniques s)"
  by code_simp

lemma alter_found:
  assumes "distinct (map fst s)" "n \<in> fst ` set s" "\<And>t. f t = Some (g t)"
  shows "alter n f s = Inr (map (\<lambda>(m, t). (m, if m = n then g t else t)) s)"
  using assms(1,2)
proof (induction s)
  case (Cons x s)
  obtain m t where x: "x = (m, t)" by (cases x)
  show ?case
  proof (cases "m = n")
    case True
    then have "map (\<lambda>(m, t). (m, if m = n then g t else t)) s = s"
      using Cons.prems(1) x by (intro map_idI) force
    then show ?thesis using True x assms(3) by simp
  next
    case False
    then show ?thesis using Cons x by auto
  qed
qed simp

lemma create_partition_op:
  "apply_op (CreatePartition ''telemetry'' p) (with_parts ps base_0001) =
     Inr (with_parts (if p \<in> set ps then ps else ps @ [p]) base_0001)"
proof -
  have "distinct (map fst base_0001)" "''telemetry'' \<in> set (map fst base_0001)" by code_simp+
  moreover have "map fst (with_parts ps base_0001) = map fst base_0001"
    by (simp add: with_parts_def case_prod_beta')
  ultimately have d: "distinct (map fst (with_parts ps base_0001))" "''telemetry'' \<in> fst ` set (with_parts ps base_0001)"
    by (simp_all flip: set_map)
  have "apply_op (CreatePartition ''telemetry'' p) (with_parts ps base_0001) =
    Inr (map (\<lambda>(m, t). (m, if m = ''telemetry''
      then (if p \<in> set (tb_parts t) then t else t\<lparr>tb_parts := tb_parts t @ [p]\<rparr>) else t)) (with_parts ps base_0001))"
    unfolding apply_op_def op.case by (rule alter_found [OF d]) simp
  also have "\<dots> = Inr (with_parts (if p \<in> set ps then ps else ps @ [p]) base_0001)"
    by (auto simp: with_parts_def)
  finally show ?thesis .
qed

lemma run_month_ops:
  "\<exists>qs. run (month_ops n ym) (with_parts ps base_0001) = Inr (with_parts qs base_0001) \<and>
     set qs = set ps \<union> {MonthPart ((next_month ^^ k) ym) |k. k < n}"
proof (induction n arbitrary: ym ps)
  case (Suc n)
  have nx: "(case ym of (y, m) \<Rightarrow> if m + 1 > 12 then (y + 1, 1) else (y, m + 1)) = next_month ym"
    by (auto simp: next_month_def split: prod.splits)
  define ps1 where "ps1 = (if MonthPart ym \<in> set ps then ps else ps @ [MonthPart ym])"
  have s1: "set ps1 = insert (MonthPart ym) (set ps)" by (auto simp: ps1_def)
  from Suc [of "next_month ym" ps1] obtain qs where qs:
    "run (month_ops n (next_month ym)) (with_parts ps1 base_0001) = Inr (with_parts qs base_0001)"
    "set qs = set ps1 \<union> {MonthPart ((next_month ^^ k) (next_month ym)) |k. k < n}" by blast
  have "{MonthPart ((next_month ^^ k) ym) |k. k < Suc n} = insert (MonthPart ym) {MonthPart ((next_month ^^ Suc k) ym) |k. k < n}"
    (is "?A = ?B")
  proof (intro subset_antisym subsetI)
    fix x assume "x \<in> ?A"
    then obtain k where "x = MonthPart ((next_month ^^ k) ym)" "k < Suc n" by blast
    then show "x \<in> ?B" by (cases k) auto
  next
    fix x assume "x \<in> ?B"
    then consider "x = MonthPart ((next_month ^^ 0) ym)" | k where "x = MonthPart ((next_month ^^ Suc k) ym)" "k < n"
      by auto
    then show "x \<in> ?A" by cases (blast, (metis (mono_tags, lifting) Suc_mono mem_Collect_eq))
  qed
  then have "set qs = set ps \<union> {MonthPart ((next_month ^^ k) ym) |k. k < Suc n}"
    using qs(2) s1 by (simp add: funpow_swap1)
  then show ?case using qs(1) by (intro exI [of _ qs]) (simp only: month_ops.simps run.simps nx create_partition_op ps1_def sum.case conj_absorb simp_thms)
qed auto

lemma telemetry_found: "\<exists>t. map_of (with_parts ps full_0001) ''telemetry'' = Some (t\<lparr>tb_parts := ps\<rparr>)"
proof -
  have "map_of (with_parts ps s) ''telemetry'' = map_option (\<lambda>t. t\<lparr>tb_parts := ps\<rparr>) (map_of s ''telemetry'')" for s
    by (induction s) (auto simp: with_parts_def)
  moreover have "map_of full_0001 ''telemetry'' \<noteq> None" by code_simp
  ultimately show ?thesis by auto
qed

lemma run_upgrade_0001:
  "\<exists>ps. run (upgrade_0001 now) [] = Inr (with_parts ps full_0001) \<and>
     set ps = insert DefaultPart {MonthPart ((next_month ^^ k) (dt_year (utc_datetime now), dt_month (utc_datetime now))) |k. k < 4}"
proof -
  define ym where "ym = (dt_year (utc_datetime now), dt_month (utc_datetime now))"
  obtain ps where ps: "run (month_ops 4 ym) (with_parts [DefaultPart] base_0001) = Inr (with_parts ps base_0001)"
    "set ps = set [DefaultPart] \<union> {MonthPart ((next_month ^^ k) ym) |k. k < 4}" using run_month_ops by metis
  have d: "run [CreatePartition ''telemetry'' DefaultPart] (with_parts [] base_0001) = Inr (with_parts [DefaultPart] base_0001)"
    by (simp add: create_partition_op)
  have "upgrade_0001 now = (create_identity @ create_devices @ create_telemetry_log) @
      [CreatePartition ''telemetry'' DefaultPart] @ month_ops 4 ym @ create_rest"
    by (simp add: upgrade_0001_def ym_def Let_def)
  then have "run (upgrade_0001 now) [] = Inr (with_parts ps full_0001)"
    by (simp only: run_append [of "create_identity @ create_devices @ create_telemetry_log"] run_base
        run_append [of "[CreatePartition ''telemetry'' DefaultPart]"] d run_append [of "month_ops 4 ym"] ps(1)
        run_rest sum.case)
  with ps(2) show ?thesis unfolding ym_def [symmetric] by (intro exI [of _ ps]) simp
qed

section \<open>Invented slugs\<close>

lemma hex_char_slug: "d < 16 \<Longrightarrow> slug_char (hex_char d)"
  by (auto simp: hex_char_def slug_char_def Let_def take_bit_nat_eq_self)

lemma hex_slug: "list_all slug_char (hex w n)"
  by (induction w arbitrary: n) (simp_all add: hex_char_slug)

lemma backfill_slug_hex: "backfill_slug i = take 8 (uuid_hex i)"
  by (simp add: backfill_slug_def uuid_str_def Let_def)

lemma backfill_slug_pattern: "slug_pattern (backfill_slug i)"
proof -
  have "list_all slug_char (uuid_hex i)" by (simp add: uuid_hex_def hex_slug)
  then have "list_all slug_char (take 8 (uuid_hex i))" by (auto simp: list_all_iff dest: in_set_takeD)
  moreover have "take 8 (uuid_hex i) \<noteq> []" using length_uuid_hex [of i] by (cases "uuid_hex i") auto
  ultimately show ?thesis by (simp add: slug_pattern_def backfill_slug_hex)
qed

lemma migrate_channels_iff:
  "migrate_channels rows =
    (if distinct (map (\<lambda>(i, g). (g, take 8 (uuid_hex i))) rows)
     then Inr (map (\<lambda>(i, g). (i, g, take 8 (uuid_hex i))) rows) else Inl IntegrityError)"
proof -
  have "list_all (\<lambda>(i, g, s). slug_pattern s) (map (\<lambda>(i, g). (i, g, backfill_slug i)) rows)"
    by (auto simp: list_all_iff backfill_slug_pattern)
  moreover have "map (\<lambda>(i, g, s). (g, s)) (map (\<lambda>(i, g). (i, g, backfill_slug i)) rows) =
    map (\<lambda>(i, g). (g, take 8 (uuid_hex i))) rows" by (simp add: backfill_slug_hex case_prod_beta')
  ultimately show ?thesis
    by (simp add: migrate_channels_def Let_def backfill_slug_hex case_prod_beta' comp_def)
qed

end
