(* ===== verification/Seed.thy ===== *)
theory Seed
  imports Auth PyJson
begin

text \<open>
  \<open>deploy/scripts/sim-seed.py\<close> and \<open>sim-fake-jwt.py\<close>: the data of the simulation mode and the
  unsigned token for it. The seed is one transaction of look-up-or-insert steps; what each
  \<open>uuid4\<close> call returned, the profile read from the file and the Korean display names (their
  characters are outside the modelled range) are the fields of \<open>seed_input\<close>. \<open>fetchone\<close> of a query
  without ORDER BY takes the first matching row of the table.
\<close>

record seed_input =
  su_company :: uuid
  su_site :: uuid
  su_user :: uuid
  su_role :: uuid
  su_gateway :: uuid
  su_perm :: uuid
  su_profile :: uuid
  su_sensor :: uuid
  su_vent :: uuid
  su_spray :: uuid
  su_profile_json :: json
  su_sensor_name :: string
  su_vent_name :: string
  su_spray_name :: string
  su_now :: instant

definition find_or_insert :: "(db \<Rightarrow> 'k option) \<Rightarrow> 'k \<Rightarrow> (db \<Rightarrow> exn + db) \<Rightarrow> db \<Rightarrow> exn + 'k \<times> db" where
  "find_or_insert look k ins d =
     (case look d of
        Some i \<Rightarrow> Inr (i, d)
      | None \<Rightarrow> (case ins d of Inl e \<Rightarrow> Inl e | Inr d' \<Rightarrow> Inr (k, d')))"

definition find_id :: "('r \<Rightarrow> 'k) \<Rightarrow> ('r \<Rightarrow> bool) \<Rightarrow> 'r list \<Rightarrow> 'k option" where
  "find_id key p rows = map_option key (find p rows)"

section \<open>The steps\<close>

definition seed_company :: "seed_input \<Rightarrow> db \<Rightarrow> exn + uuid \<times> db" where
  "seed_company u =
     find_or_insert (\<lambda>d. find_id co_id (\<lambda>c. co_name c = ''IoT Sim Co.'') (companies d)) (su_company u)
       (insert_company \<lparr>co_id = su_company u, co_name = ''IoT Sim Co.'', co_type = ''management'',
          co_status = ''active'', co_created_at = su_now u, co_updated_at = su_now u\<rparr>)"

definition seed_site :: "seed_input \<Rightarrow> uuid \<Rightarrow> db \<Rightarrow> exn + uuid \<times> db" where
  "seed_site u co =
     find_or_insert (\<lambda>d. find_id st_id (\<lambda>s. st_company_id s = co \<and> st_name s = ''Sim Farm'') (sites d)) (su_site u)
       (insert_site \<lparr>st_id = su_site u, st_company_id = co, st_name = ''Sim Farm'', st_address = None,
          st_latitude = None, st_longitude = None, st_created_at = su_now u\<rparr>)"

definition seed_user :: "seed_input \<Rightarrow> db \<Rightarrow> exn + uuid \<times> db" where
  "seed_user u =
     find_or_insert (\<lambda>d. find_id us_id (\<lambda>x. us_email x = ''admin@sim.local'') (users d)) (su_user u)
       (insert_user \<lparr>us_id = su_user u, us_keycloak_user_id = ''sim-admin'', us_email = ''admin@sim.local'',
          us_name = ''Sim Admin'', us_status = ''active'', us_created_at = su_now u\<rparr>)"

text \<open>\<open>ON CONFLICT ... DO NOTHING\<close>.\<close>

definition seed_role :: "seed_input \<Rightarrow> uuid \<Rightarrow> uuid \<Rightarrow> db \<Rightarrow> exn + db" where
  "seed_role u us co d =
     (if exists_key role_key (us, co, ''company_admin'') (company_roles d) then Inr d
      else insert_company_role \<lparr>cr_id = su_role u, cr_user_id = us, cr_company_id = co,
             cr_role = ''company_admin'', cr_created_at = su_now u\<rparr> d)"

definition seed_gateway :: "seed_input \<Rightarrow> string \<Rightarrow> uuid \<Rightarrow> uuid \<Rightarrow> db \<Rightarrow> exn + uuid \<times> db" where
  "seed_gateway u serial co st =
     find_or_insert (\<lambda>d. find_id gw_id (\<lambda>g. gw_serial_number g = serial) (gateways d)) (su_gateway u)
       (insert_gateway \<lparr>gw_id = su_gateway u, gw_serial_number = serial, gw_name = ''Sim Gateway 01'',
          gw_company_id = co, gw_site_id = Some st, gw_gateway_profile_id = None, gw_status = ''offline'',
          gw_firmware_version = None, gw_app_version = None, gw_config_version = 0,
          gw_last_seen_at = None, gw_registered_at = su_now u\<rparr>)"

definition seed_perm :: "seed_input \<Rightarrow> uuid \<Rightarrow> uuid \<Rightarrow> db \<Rightarrow> exn + db" where
  "seed_perm u us gw d =
     (if exists_key perm_key (us, gw, ''admin'') (permissions d) then Inr d
      else insert_permission \<lparr>pm_id = su_perm u, pm_user_id = us, pm_gateway_id = gw,
             pm_permission = ''admin'', pm_created_at = su_now u\<rparr> d)"

definition seed_profile :: "seed_input \<Rightarrow> db \<Rightarrow> exn + uuid \<times> db" where
  "seed_profile u =
     find_or_insert (\<lambda>d. find_id sp_id (\<lambda>p. sp_name p = ''env-6in1-sim'') (sensor_profiles d)) (su_profile u)
       (insert_sensor_profile \<lparr>sp_id = su_profile u, sp_name = ''env-6in1-sim'', sp_vendor = Some ''Sim Vendor'',
          sp_model = Some ''env-6in1-sim'', sp_protocol = ''modbus_rtu'', sp_description = None,
          sp_profile_schema = su_profile_json u, sp_enabled = True, sp_created_at = su_now u\<rparr>)"

definition seed_sensor :: "seed_input \<Rightarrow> uuid \<Rightarrow> uuid \<Rightarrow> db \<Rightarrow> exn + uuid \<times> db" where
  "seed_sensor u gw pr =
     find_or_insert (\<lambda>d. find_id sc_id (\<lambda>c. sc_gateway_id c = gw \<and> sc_slug c = ''env-1'') (sensor_channels d)) (su_sensor u)
       (insert_sensor_channel \<lparr>sc_id = su_sensor u, sc_gateway_id = gw, sc_slug = ''env-1'', sc_sensor_profile_id = pr,
          sc_display_name = su_sensor_name u, sc_interface_name = ''/dev/null'', sc_protocol = ''modbus_rtu'',
          sc_address = Some ''0001'', sc_slave_id = Some 1, sc_polling_interval_sec = 5, sc_enabled = True,
          sc_config = None, sc_created_at = su_now u\<rparr>)"

definition seed_actuator ::
  "uuid \<Rightarrow> instant \<Rightarrow> uuid \<Rightarrow> string \<Rightarrow> string \<Rightarrow> string \<Rightarrow> int \<Rightarrow> db \<Rightarrow> exn + uuid \<times> db" where
  "seed_actuator i now gw slug name hw max_on =
     find_or_insert (\<lambda>d. find_id ac_id (\<lambda>c. ac_gateway_id c = gw \<and> ac_slug c = slug) (actuator_channels d)) i
       (insert_actuator_channel \<lparr>ac_id = i, ac_gateway_id = gw, ac_slug = slug, ac_display_name = name,
          ac_actuator_type = ''relay'', ac_hardware_channel = hw, ac_default_state = ''off'',
          ac_current_state = None, ac_enabled = True,
          ac_safety_config = Some (JObj [(''max_on_duration_sec'', JInt max_on)]), ac_created_at = now\<rparr>)"

text \<open>\<open>main\<close>: an exception leaves the connection uncommitted; without a password it returns 1.\<close>

definition bind_id :: "exn + 'k \<times> db \<Rightarrow> ('k \<Rightarrow> db \<Rightarrow> exn + 'b) \<Rightarrow> exn + 'b" where
  "bind_id r f = (case r of Inl e \<Rightarrow> Inl e | Inr (k, d) \<Rightarrow> f k d)"

definition bind_db :: "exn + db \<Rightarrow> (db \<Rightarrow> exn + 'b) \<Rightarrow> exn + 'b" where
  "bind_db r f = (case r of Inl e \<Rightarrow> Inl e | Inr d \<Rightarrow> f d)"

definition seed_all :: "seed_input \<Rightarrow> string \<Rightarrow> db \<Rightarrow> exn + (uuid \<times> uuid) \<times> db" where
  "seed_all u serial d0 =
     bind_id (seed_company u d0) (\<lambda>co d1.
     bind_id (seed_site u co d1) (\<lambda>st d2.
     bind_id (seed_user u d2) (\<lambda>us d3.
     bind_db (seed_role u us co d3) (\<lambda>d4.
     bind_id (seed_gateway u serial co st d4) (\<lambda>gw d5.
     bind_db (seed_perm u us gw d5) (\<lambda>d6.
     bind_id (seed_profile u d6) (\<lambda>pr d7.
     bind_id (seed_sensor u gw pr d7) (\<lambda>_ d8.
     bind_id (seed_actuator (su_vent u) (su_now u) gw ''relay-vent'' (su_vent_name u) ''GPIO17'' 600 d8) (\<lambda>_ d9.
     bind_id (seed_actuator (su_spray u) (su_now u) gw ''relay-spray'' (su_spray_name u) ''GPIO27'' 60 d9) (\<lambda>_ d10.
       Inr ((us, gw), d10)))))))))))"

definition seed_main :: "string \<Rightarrow> seed_input \<Rightarrow> string \<Rightarrow> db \<Rightarrow> (exn + int) \<times> db" where
  "seed_main password u serial d =
     (if password = [] then (Inr 1, d)
      else case seed_all u serial d of Inl e \<Rightarrow> (Inl e, d) | Inr (_, d') \<Rightarrow> (Inr 0, d'))"

section \<open>Running the seed twice\<close>

lemma bind_simps [simp]:
  "bind_id (Inr (k, d)) f = f k d" "bind_db (Inr d) h = h d"
  "bind_id (Inl e) f = Inl e" "bind_db (Inl e) h = Inl e"
  by (simp_all add: bind_id_def bind_db_def)

lemma bind_id_Inr: "bind_id r f = Inr x \<longleftrightarrow> (\<exists>k d. r = Inr (k, d) \<and> f k d = Inr x)"
  by (auto simp: bind_id_def split: sum.splits prod.splits)

lemma bind_db_Inr: "bind_db r f = Inr x \<longleftrightarrow> (\<exists>d. r = Inr d \<and> f d = Inr x)"
  by (auto simp: bind_db_def split: sum.splits)

lemma find_append: "find p (xs @ ys) = (case find p xs of None \<Rightarrow> find p ys | Some x \<Rightarrow> Some x)"
  by (induction xs) auto

lemma find_id_append: "find_id key p rows = Some k \<Longrightarrow> find_id key p (rows @ ext) = Some k"
  by (auto simp: find_id_def find_append split: option.splits)

lemma find_id_Some: "find_id key p rows = Some k \<Longrightarrow> \<exists>r \<in> set rows. p r \<and> key r = k"
  by (auto simp: find_id_def find_Some_iff)

lemma find_or_insert_found: "look d = Some k \<Longrightarrow> find_or_insert look i ins d = Inr (k, d)"
  by (simp add: find_or_insert_def)

text \<open>A step finds its row, or inserts it where there was none.\<close>

lemma find_or_insert_cases:
  assumes "find_or_insert look k ins d = Inr (i, d')"
    and "look d = Some i \<Longrightarrow> d' = d \<Longrightarrow> P"
    and "look d = None \<Longrightarrow> i = k \<Longrightarrow> ins d = Inr d' \<Longrightarrow> P"
  shows P
  using assms by (auto simp: find_or_insert_def split: option.splits sum.splits)

lemmas inserts = insert_company_def insert_site_def insert_user_def insert_company_role_def insert_gateway_def
  insert_permission_def insert_sensor_profile_def insert_sensor_channel_def insert_actuator_channel_def

text \<open>What the two-stage seed leaves untouched: every table but the step's own.\<close>

definition found :: "string \<Rightarrow> uuid \<Rightarrow> uuid \<Rightarrow> uuid \<Rightarrow> uuid \<Rightarrow> uuid \<Rightarrow> db \<Rightarrow> bool" where
  "found serial co st us gw pr d =
     (find_id co_id (\<lambda>c. co_name c = ''IoT Sim Co.'') (companies d) = Some co \<and>
      find_id st_id (\<lambda>s. st_company_id s = co \<and> st_name s = ''Sim Farm'') (sites d) = Some st \<and>
      find_id us_id (\<lambda>x. us_email x = ''admin@sim.local'') (users d) = Some us \<and>
      (us, co, ''company_admin'') \<in> role_key ` set (company_roles d) \<and>
      find_id gw_id (\<lambda>g. gw_serial_number g = serial) (gateways d) = Some gw \<and>
      (us, gw, ''admin'') \<in> perm_key ` set (permissions d) \<and>
      find_id sp_id (\<lambda>p. sp_name p = ''env-6in1-sim'') (sensor_profiles d) = Some pr \<and>
      find_id sc_id (\<lambda>c. sc_gateway_id c = gw \<and> sc_slug c = ''env-1'') (sensor_channels d) \<noteq> None \<and>
      find_id ac_id (\<lambda>c. ac_gateway_id c = gw \<and> ac_slug c = ''relay-vent'') (actuator_channels d) \<noteq> None \<and>
      find_id ac_id (\<lambda>c. ac_gateway_id c = gw \<and> ac_slug c = ''relay-spray'') (actuator_channels d) \<noteq> None)"

lemma seed_company_Inr:
  assumes "seed_company u d = Inr (i, d')"
  shows "find_id co_id (\<lambda>c. co_name c = ''IoT Sim Co.'') (companies d') = Some i"
  using assms unfolding seed_company_def by (rule find_or_insert_cases) (auto simp: inserts find_id_def find_append)

lemma seed_site_Inr:
  assumes "seed_site u co d = Inr (i, d')"
  shows "find_id st_id (\<lambda>s. st_company_id s = co \<and> st_name s = ''Sim Farm'') (sites d') = Some i \<and>
    companies d' = companies d"
  using assms unfolding seed_site_def by (rule find_or_insert_cases) (auto simp: inserts find_id_def find_append)

lemma seed_user_Inr:
  assumes "seed_user u d = Inr (i, d')"
  shows "find_id us_id (\<lambda>x. us_email x = ''admin@sim.local'') (users d') = Some i \<and>
    companies d' = companies d \<and> sites d' = sites d"
  using assms unfolding seed_user_def by (rule find_or_insert_cases) (auto simp: inserts find_id_def find_append)

lemma seed_role_Inr:
  assumes "seed_role u us co d = Inr d'"
  shows "(us, co, ''company_admin'') \<in> role_key ` set (company_roles d') \<and>
    companies d' = companies d \<and> sites d' = sites d \<and> users d' = users d"
  using assms by (auto simp: seed_role_def inserts role_key_def split: if_splits)

lemma seed_gateway_Inr:
  assumes "seed_gateway u serial co st d = Inr (i, d')"
  shows "find_id gw_id (\<lambda>g. gw_serial_number g = serial) (gateways d') = Some i \<and>
    companies d' = companies d \<and> sites d' = sites d \<and> users d' = users d \<and> company_roles d' = company_roles d"
  using assms unfolding seed_gateway_def by (rule find_or_insert_cases) (auto simp: inserts find_id_def find_append)

lemma seed_perm_Inr:
  assumes "seed_perm u us gw d = Inr d'"
  shows "(us, gw, ''admin'') \<in> perm_key ` set (permissions d') \<and>
    companies d' = companies d \<and> sites d' = sites d \<and> users d' = users d \<and> company_roles d' = company_roles d \<and>
    gateways d' = gateways d"
  using assms by (auto simp: seed_perm_def inserts perm_key_def split: if_splits)

lemma seed_profile_Inr:
  assumes "seed_profile u d = Inr (i, d')"
  shows "find_id sp_id (\<lambda>p. sp_name p = ''env-6in1-sim'') (sensor_profiles d') = Some i \<and>
    companies d' = companies d \<and> sites d' = sites d \<and> users d' = users d \<and> company_roles d' = company_roles d \<and>
    gateways d' = gateways d \<and> permissions d' = permissions d"
  using assms unfolding seed_profile_def by (rule find_or_insert_cases) (auto simp: inserts find_id_def find_append)

lemma seed_sensor_Inr:
  assumes "seed_sensor u gw pr d = Inr (i, d')"
  shows "find_id sc_id (\<lambda>c. sc_gateway_id c = gw \<and> sc_slug c = ''env-1'') (sensor_channels d') = Some i \<and>
    companies d' = companies d \<and> sites d' = sites d \<and> users d' = users d \<and> company_roles d' = company_roles d \<and>
    gateways d' = gateways d \<and> permissions d' = permissions d \<and> sensor_profiles d' = sensor_profiles d"
  using assms unfolding seed_sensor_def by (rule find_or_insert_cases) (auto simp: inserts find_id_def find_append)

lemma seed_actuator_Inr:
  assumes "seed_actuator k now gw slug name hw mx d = Inr (i, d')"
  shows "find_id ac_id (\<lambda>c. ac_gateway_id c = gw \<and> ac_slug c = slug) (actuator_channels d') = Some i \<and>
    (\<exists>ext. actuator_channels d' = actuator_channels d @ ext) \<and>
    companies d' = companies d \<and> sites d' = sites d \<and> users d' = users d \<and> company_roles d' = company_roles d \<and>
    gateways d' = gateways d \<and> permissions d' = permissions d \<and> sensor_profiles d' = sensor_profiles d \<and>
    sensor_channels d' = sensor_channels d"
  using assms unfolding seed_actuator_def by (rule find_or_insert_cases) (auto simp: inserts find_id_def find_append)

lemma seed_all_steps:
  assumes "seed_all u serial d = Inr ((us, gw), d')"
  obtains co d1 st d2 d3 d4 d5 d6 pr d7 sc d8 v d9 sp where
      "seed_company u d = Inr (co, d1)" "seed_site u co d1 = Inr (st, d2)" "seed_user u d2 = Inr (us, d3)"
      "seed_role u us co d3 = Inr d4" "seed_gateway u serial co st d4 = Inr (gw, d5)" "seed_perm u us gw d5 = Inr d6"
      "seed_profile u d6 = Inr (pr, d7)" "seed_sensor u gw pr d7 = Inr (sc, d8)"
      "seed_actuator (su_vent u) (su_now u) gw ''relay-vent'' (su_vent_name u) ''GPIO17'' 600 d8 = Inr (v, d9)"
      "seed_actuator (su_spray u) (su_now u) gw ''relay-spray'' (su_spray_name u) ''GPIO27'' 60 d9 = Inr (sp, d')"
  using assms by (auto simp: seed_all_def bind_id_Inr bind_db_Inr)

lemma seed_all_found:
  assumes "seed_all u serial d = Inr ((us, gw), d')"
  shows "\<exists>co st pr. found serial co st us gw pr d'"
proof -
  from assms obtain co d1 st d2 d3 d4 d5 d6 pr d7 sc d8 v d9 sp where
    s: "seed_company u d = Inr (co, d1)" "seed_site u co d1 = Inr (st, d2)" "seed_user u d2 = Inr (us, d3)"
      "seed_role u us co d3 = Inr d4" "seed_gateway u serial co st d4 = Inr (gw, d5)" "seed_perm u us gw d5 = Inr d6"
      "seed_profile u d6 = Inr (pr, d7)" "seed_sensor u gw pr d7 = Inr (sc, d8)"
      "seed_actuator (su_vent u) (su_now u) gw ''relay-vent'' (su_vent_name u) ''GPIO17'' 600 d8 = Inr (v, d9)"
      "seed_actuator (su_spray u) (su_now u) gw ''relay-spray'' (su_spray_name u) ''GPIO27'' 60 d9 = Inr (sp, d')"
    by (rule seed_all_steps)
  note f = seed_company_Inr [OF s(1)] seed_site_Inr [OF s(2)] seed_user_Inr [OF s(3)] seed_role_Inr [OF s(4)]
    seed_gateway_Inr [OF s(5)] seed_perm_Inr [OF s(6)] seed_profile_Inr [OF s(7)] seed_sensor_Inr [OF s(8)]
    seed_actuator_Inr [OF s(9)] seed_actuator_Inr [OF s(10)]
  have vent: "find_id ac_id (\<lambda>c. ac_gateway_id c = gw \<and> ac_slug c = ''relay-vent'') (actuator_channels d') = Some v"
    using f(9,10) find_id_append by (metis (no_types, lifting))
  have "found serial co st us gw pr d'"
    unfolding found_def using f vent by simp
  then show ?thesis by blast
qed

text \<open>Where everything is found, the seed changes nothing.\<close>

lemma seed_all_again:
  assumes "found serial co st us gw pr d"
  shows "seed_all u serial d = Inr ((us, gw), d)"
proof -
  note f = assms [unfolded found_def]
  obtain sc v sp where x: "find_id sc_id (\<lambda>c. sc_gateway_id c = gw \<and> sc_slug c = ''env-1'') (sensor_channels d) = Some sc"
    "find_id ac_id (\<lambda>c. ac_gateway_id c = gw \<and> ac_slug c = ''relay-vent'') (actuator_channels d) = Some v"
    "find_id ac_id (\<lambda>c. ac_gateway_id c = gw \<and> ac_slug c = ''relay-spray'') (actuator_channels d) = Some sp"
    using f by auto
  have "seed_company u d = Inr (co, d)" "seed_site u co d = Inr (st, d)" "seed_user u d = Inr (us, d)"
    "seed_gateway u serial co st d = Inr (gw, d)" "seed_profile u d = Inr (pr, d)" "seed_sensor u gw pr d = Inr (sc, d)"
    "seed_actuator (su_vent u) (su_now u) gw ''relay-vent'' (su_vent_name u) ''GPIO17'' 600 d = Inr (v, d)"
    "seed_actuator (su_spray u) (su_now u) gw ''relay-spray'' (su_spray_name u) ''GPIO27'' 60 d = Inr (sp, d)"
    unfolding seed_company_def seed_site_def seed_user_def seed_gateway_def seed_profile_def seed_sensor_def seed_actuator_def
    using f x by (simp_all add: find_or_insert_found)
  moreover have "seed_role u us co d = Inr d" "seed_perm u us gw d = Inr d"
    unfolding seed_role_def seed_perm_def using f by simp_all
  ultimately show ?thesis by (simp add: seed_all_def)
qed

lemma find_or_insert_wf:
  assumes "find_or_insert look k ins d = Inr (i, d')" "wf_db d" "\<And>e. ins d = Inr e \<Longrightarrow> wf_db e"
  shows "wf_db d'"
  using assms(1) by (rule find_or_insert_cases) (use assms in auto)

lemma seed_steps_wf:
  "seed_company u d = Inr (i, d') \<Longrightarrow> wf_db d \<Longrightarrow> wf_db d'"
  "seed_site u co d = Inr (i, d') \<Longrightarrow> wf_db d \<Longrightarrow> wf_db d'"
  "seed_user u d = Inr (i, d') \<Longrightarrow> wf_db d \<Longrightarrow> wf_db d'"
  "seed_gateway u serial co st d = Inr (i, d') \<Longrightarrow> wf_db d \<Longrightarrow> wf_db d'"
  "seed_profile u d = Inr (i, d') \<Longrightarrow> wf_db d \<Longrightarrow> wf_db d'"
  "seed_sensor u gw pr d = Inr (i, d') \<Longrightarrow> wf_db d \<Longrightarrow> wf_db d'"
  "seed_actuator k now gw slug name hw mx d = Inr (i, d') \<Longrightarrow> wf_db d \<Longrightarrow> wf_db d'"
  unfolding seed_company_def seed_site_def seed_user_def seed_gateway_def seed_profile_def seed_sensor_def seed_actuator_def
  by (erule find_or_insert_wf, assumption, erule table_intros, assumption)+

lemma seed_links_wf:
  "seed_role u us co d = Inr d' \<Longrightarrow> wf_db d \<Longrightarrow> wf_db d'"
  "seed_perm u us gw d = Inr d' \<Longrightarrow> wf_db d \<Longrightarrow> wf_db d'"
  unfolding seed_role_def seed_perm_def by (auto split: if_splits intro: insert_company_role_wf insert_permission_wf)

lemma seed_all_wf:
  assumes "seed_all u serial d = Inr (r, d')" "wf_db d"
  shows "wf_db d'"
proof -
  obtain us gw where "r = (us, gw)" by (cases r)
  with assms(1) have "seed_all u serial d = Inr ((us, gw), d')" by simp
  then show ?thesis
    by (rule seed_all_steps) (use assms(2) in \<open>blast dest: seed_steps_wf seed_links_wf\<close>)
qed

section \<open>sim-fake-jwt.py\<close>

text \<open>URL-safe base64 without padding; a byte is a character of the model.\<close>

definition b64_alphabet :: string where
  "b64_alphabet = ''ABCDEFGHIJKLMNOPQRSTUVWXYZabcdefghijklmnopqrstuvwxyz0123456789-_''"

definition b64_char :: "nat \<Rightarrow> char" where
  "b64_char n = b64_alphabet ! n"

fun urlsafe_b64encode :: "nat list \<Rightarrow> string" where
  "urlsafe_b64encode [] = []"
| "urlsafe_b64encode [a] = [b64_char (a div 4), b64_char (a mod 4 * 16), CHR ''='', CHR ''='']"
| "urlsafe_b64encode [a, b] =
     [b64_char (a div 4), b64_char (a mod 4 * 16 + b div 16), b64_char (b mod 16 * 4), CHR ''='']"
| "urlsafe_b64encode (a # b # c # bs) =
     [b64_char (a div 4), b64_char (a mod 4 * 16 + b div 16), b64_char (b mod 16 * 4 + c div 64), b64_char (c mod 64)] @
     urlsafe_b64encode bs"

definition b64url :: "string \<Rightarrow> string" where
  "b64url s = rstrip_char CHR ''='' (urlsafe_b64encode (map of_char s))"

text \<open>\<open>json.dumps(x, separators=(",", ":"))\<close> of a dict of strings, integers and one nested list.\<close>

fun compact :: "json \<Rightarrow> string" where
  "compact (JStr s) = dumps_str s"
| "compact (JInt n) = str_of_int n"
| "compact (JArr xs) = ''['' @ join '','' (map compact xs) @ '']''"
| "compact (JObj kvs) = ''{'' @ join '','' (map (\<lambda>kv. dumps_str (fst kv) @ '':'' @ compact (snd kv)) kvs) @ ''}''"
| "compact (JBool b) = (if b then ''true'' else ''false'')"
| "compact _ = ''null''"

definition fake_header :: json where
  "fake_header = JObj [(''alg'', JStr ''none''), (''typ'', JStr ''JWT'')]"

definition fake_payload :: "int \<Rightarrow> json" where
  "fake_payload now = JObj
     [(''iss'', JStr ''http://localhost:8080/realms/iot-sim''), (''aud'', JStr ''iot-backend''),
      (''sub'', JStr ''sim-admin''), (''email'', JStr ''admin@sim.local''), (''name'', JStr ''Sim Admin''),
      (''iat'', JInt now), (''exp'', JInt (now + 3600)),
      (''realm_access'', JObj [(''roles'', JArr [JStr ''system_admin'', JStr ''company_admin''])])]"

definition fake_jwt :: "int \<Rightarrow> string" where
  "fake_jwt now = b64url (compact fake_header) @ ''.'' @ b64url (compact (fake_payload now)) @ ''.''"

section \<open>The encoding can be undone\<close>

definition b64_val :: "char \<Rightarrow> nat" where
  "b64_val c = length (takeWhile (\<lambda>d. d \<noteq> c) b64_alphabet)"

fun b64_decode :: "nat list \<Rightarrow> nat list" where
  "b64_decode (w # x # y # z # r) =
     (w * 4 + x div 16) # (x mod 16 * 16 + y div 4) # (y mod 4 * 64 + z) # b64_decode r"
| "b64_decode [w, x, y] = [w * 4 + x div 16, x mod 16 * 16 + y div 4]"
| "b64_decode [w, x] = [w * 4 + x div 16]"
| "b64_decode _ = []"

lemma takeWhile_nth:
  assumes "distinct xs" "n < length xs"
  shows "length (takeWhile (\<lambda>d. d \<noteq> xs ! n) xs) = n"
proof -
  have "xs ! i \<noteq> xs ! n" if "i < n" for i
    using assms that by (simp add: nth_eq_iff_index_eq)
  then have "takeWhile (\<lambda>d. d \<noteq> xs ! n) xs = take n xs"
    using assms(2) by (intro takeWhile_eq_take_P_nth) auto
  then show ?thesis using assms(2) by simp
qed

lemma b64_val_char: "n < 64 \<Longrightarrow> b64_val (b64_char n) = n \<and> b64_char n \<noteq> CHR ''='' \<and> slug_char (b64_char n)"
proof -
  assume n: "n < 64"
  have l: "length b64_alphabet = 64" "distinct b64_alphabet" by (simp_all add: b64_alphabet_def)
  have "list_all (\<lambda>c. c \<noteq> CHR ''='' \<and> slug_char c) b64_alphabet" by (simp add: b64_alphabet_def slug_char_def)
  then have "b64_char n \<noteq> CHR ''='' \<and> slug_char (b64_char n)"
    using n l(1) by (simp add: list_all_length b64_char_def)
  then show ?thesis using n l takeWhile_nth [of b64_alphabet n] by (simp add: b64_val_def b64_char_def)
qed

text \<open>The digits before the padding.\<close>

fun b64_digits :: "nat list \<Rightarrow> nat list" where
  "b64_digits [] = []"
| "b64_digits [a] = [a div 4, a mod 4 * 16]"
| "b64_digits [a, b] = [a div 4, a mod 4 * 16 + b div 16, b mod 16 * 4]"
| "b64_digits (a # b # c # bs) = [a div 4, a mod 4 * 16 + b div 16, b mod 16 * 4 + c div 64, c mod 64] @ b64_digits bs"

lemma b64_digit_bounds:
  fixes a b c :: nat
  assumes "a < 256" "b < 256" "c < 256"
  shows "a div 4 < 64" "a mod 4 * 16 < 64" "a mod 4 * 16 + b div 16 < 64" "b mod 16 * 4 < 64"
    "b mod 16 * 4 + c div 64 < 64" "c mod 64 < 64"
proof -
  have "a mod 4 < 4" "b div 16 < 16" "b mod 16 < 16" "c div 64 < 4" using assms by auto
  then show "a div 4 < 64" "a mod 4 * 16 < 64" "a mod 4 * 16 + b div 16 < 64" "b mod 16 * 4 < 64"
    "b mod 16 * 4 + c div 64 < 64" "c mod 64 < 64" using assms by auto
qed

lemma b64_digits_lt: "list_all (\<lambda>b. b < 256) bs \<Longrightarrow> list_all (\<lambda>n. n < 64) (b64_digits bs)"
  by (induction bs rule: b64_digits.induct) (auto simp: b64_digit_bounds)

lemma encode_digits:
  "\<exists>n. urlsafe_b64encode bs = map b64_char (b64_digits bs) @ replicate n CHR ''=''"
proof (induction bs rule: urlsafe_b64encode.induct)
  case (2 a)
  then show ?case by (intro exI [of _ 2]) (simp add: numeral_2_eq_2)
next
  case (3 a b)
  then show ?case by (intro exI [of _ 1]) simp
qed auto

lemma b64url_digits: "b64url s = map b64_char (b64_digits (map of_char s))"
proof -
  let ?ds = "map b64_char (b64_digits (map of_char s))"
  obtain n where n: "urlsafe_b64encode (map of_char s) = ?ds @ replicate n CHR ''=''" using encode_digits by blast
  have "list_all (\<lambda>b. b < 256) (map of_char s :: nat list)" by (simp add: list_all_iff)
  from b64_digits_lt [OF this] have "CHR ''='' \<notin> set ?ds"
    using b64_val_char by (fastforce simp: list_all_iff)
  then have "dropWhile (\<lambda>d. d = CHR ''='') (rev ?ds) = rev ?ds"
    using last_in_set [of ?ds] by (auto simp: dropWhile_eq_self_iff hd_rev)
  then have "dropWhile (\<lambda>d. d = CHR ''='') (rev (?ds @ replicate n CHR ''='')) = rev ?ds"
    using dropWhile_all [of "\<lambda>d. d = CHR ''=''" "replicate n CHR ''=''" "rev ?ds"] by (simp add: list_all_iff)
  then show ?thesis by (simp only: b64url_def rstrip_char_def n rev_rev_ident)
qed

lemma b64_decode_digits: "list_all (\<lambda>b. b < 256) bs \<Longrightarrow> b64_decode (b64_digits bs) = bs"
proof (induction bs rule: b64_digits.induct)
  case (2 a)
  then show ?case by simp
next
  case (3 a b)
  then have "b div 16 < 16" by auto
  with 3 show ?case by simp
next
  case (4 a b c bs)
  then have "b div 16 < 16" "c div 64 < 4" by auto
  with 4 show ?case by simp
qed simp

lemma b64url_inverse: "b64_decode (map b64_val (b64url s)) = map of_char s"
proof -
  have l: "list_all (\<lambda>b. b < 256) (map of_char s :: nat list)" by (simp add: list_all_iff)
  from b64_digits_lt [OF this] have "map (b64_val \<circ> b64_char) (b64_digits (map of_char s)) = b64_digits (map of_char s)"
    using b64_val_char by (intro map_idI) (auto simp: list_all_iff)
  then show ?thesis by (simp add: b64url_digits b64_decode_digits [OF l])
qed

lemma b64url_slug: "list_all slug_char (b64url s)"
proof -
  have "list_all (\<lambda>b. b < 256) (map of_char s :: nat list)" by (simp add: list_all_iff)
  from b64_digits_lt [OF this] show ?thesis
    using b64_val_char by (auto simp: b64url_digits list_all_iff)
qed

text \<open>The token has three segments of the base64url alphabet, the last one empty; the others decode.\<close>

lemma fake_jwt_segments:
  "\<exists>h p. fake_jwt now = h @ ''.'' @ p @ ''.'' \<and> list_all slug_char h \<and> list_all slug_char p \<and>
     b64_decode (map b64_val h) = map of_char (compact fake_header) \<and>
     b64_decode (map b64_val p) = map of_char (compact (fake_payload now))"
  by (intro exI [of _ "b64url (compact fake_header)"] exI [of _ "b64url (compact (fake_payload now))"])
    (simp add: fake_jwt_def b64url_slug b64url_inverse)

text \<open>The token reaches \<open>decode_jwt\<close> as it was printed.\<close>

lemma strip_no_space:
  assumes "list_all (\<lambda>c. \<not> is_space c) s"
  shows "strip s = s"
proof -
  have d: "dropWhile is_space t = t" if "list_all (\<lambda>c. \<not> is_space c) t" for t using that by (cases t) simp_all
  from assms have "list_all (\<lambda>c. \<not> is_space c) (rev s)" by (simp add: list_all_iff)
  with assms show ?thesis by (simp add: strip_def d)
qed

lemma slug_not_space: "slug_char c \<Longrightarrow> \<not> is_space c"
  by (auto simp: slug_char_def is_space_def Let_def)

lemma strip_fake_jwt: "strip (fake_jwt now) = fake_jwt now"
proof -
  have "list_all (\<lambda>c. \<not> is_space c) (b64url xs)" for xs
    using b64url_slug [of xs] slug_not_space by (auto simp: list_all_iff)
  moreover have "\<not> is_space CHR ''.''" by (simp add: is_space_def)
  ultimately show ?thesis by (intro strip_no_space) (simp add: fake_jwt_def)
qed

lemma fake_jwt_authenticates:
  assumes "\<not> kc_verify_signature s" "decode_unverified j (fake_jwt now) = Some (fake_payload now)"
    and "token_payload_of (fake_payload now) = Inr t" "get_current_user t d = Inr u"
  shows "authenticate s j w (Some (''Bearer '' @ fake_jwt now)) d cache = (Inr u, cache)"
  using assms by (simp add: authenticate_def get_token_def startswith_def removeprefix_def strip_fake_jwt decode_jwt_def)

end
