(* ===== verification/Hangul.thy ===== *)
theory Hangul
  imports PyValues
begin

text \<open>
  The texts of the document and the slides. A text is the list of its code points. \<open>ko\<close> reads one
  written in ASCII: between dollar signs are Hangul syllables in the Revised Romanization, letter by
  letter and separated by hyphens; between carets is a code point in hexadecimal; the rest is ASCII.
\<close>

type_synonym utext = "nat list"

definition ascii :: "string \<Rightarrow> utext" where
  "ascii s = map of_char s"

definition initials :: "string list" where
  "initials = [''g'', ''kk'', ''n'', ''d'', ''tt'', ''r'', ''m'', ''b'', ''pp'', ''s'', ''ss'', '''', ''j'', ''jj'', ''ch'', ''k'', ''t'', ''p'', ''h'']"

definition vowels :: "string list" where
  "vowels = [''a'', ''ae'', ''ya'', ''yae'', ''eo'', ''e'', ''yeo'', ''ye'', ''o'', ''wa'', ''wae'', ''oe'', ''yo'', ''u'', ''wo'', ''we'', ''wi'', ''yu'', ''eu'', ''ui'', ''i'']"

definition finals :: "string list" where
  "finals = ['''', ''g'', ''kk'', ''gs'', ''n'', ''nj'', ''nh'', ''d'', ''l'', ''lg'', ''lm'', ''lb'', ''ls'', ''lt'', ''lp'', ''lh'', ''m'', ''b'', ''bs'', ''s'', ''ss'', ''ng'', ''j'', ''ch'', ''k'', ''t'', ''p'', ''h'']"

fun position :: "string \<Rightarrow> string list \<Rightarrow> nat" where
  "position x [] = 0"
| "position x (y # ys) = (if x = y then 0 else Suc (position x ys))"

definition is_vowel :: "char \<Rightarrow> bool" where
  "is_vowel c = (c \<in> {CHR ''a'', CHR ''e'', CHR ''i'', CHR ''o'', CHR ''u'', CHR ''y'', CHR ''w''})"

definition syllable :: "string \<Rightarrow> nat" where
  "syllable s =
     (let i = takeWhile (\<lambda>c. \<not> is_vowel c) s;
          r = dropWhile (\<lambda>c. \<not> is_vowel c) s
      in 44032 + (position i initials * 21 + position (takeWhile is_vowel r) vowels) * 28 +
           position (dropWhile is_vowel r) finals)"

fun split_at :: "char \<Rightarrow> string \<Rightarrow> string list" where
  "split_at d [] = [[]]"
| "split_at d (c # cs) =
     (if c = d then [] # split_at d cs
      else (case split_at d cs of [] \<Rightarrow> [[c]] | l # ls \<Rightarrow> (c # l) # ls))"

definition hex_digit :: "char \<Rightarrow> nat" where
  "hex_digit c = (let n = of_char c in if n < 58 then n - 48 else n - 87)"

fun pieces :: "nat \<Rightarrow> string list \<Rightarrow> utext" where
  "pieces k [] = []"
| "pieces k (s # ss) =
     (if even k then ascii s else [foldl (\<lambda>n c. 16 * n + hex_digit c) 0 s]) @ pieces (Suc k) ss"

fun runs :: "nat \<Rightarrow> string list \<Rightarrow> utext" where
  "runs k [] = []"
| "runs k (s # ss) =
     (if even k then pieces 0 (split_at CHR ''^'' s) else map syllable (split_at CHR ''-'' s)) @ runs (Suc k) ss"

definition ko :: "string \<Rightarrow> utext" where
  "ko s = runs 0 (split_at CHR ''$'' s)"

end
