(* ===== verification/PlanHwpx.thy ===== *)
theory PlanHwpx
  imports Hangul
begin

text \<open>
  The document builder of \<open>build_plan_hwpx.py\<close>: id counters, the paragraph helpers and the table
  builder, up to the assembly of the section file. A text is the list of its code points (the
  document is Korean). A chunk keeps what varies in the XML template it is printed with: ids,
  style references, escaped texts, cell addresses and sizes. The Python globals \<open>pid\<close>, \<open>tid\<close> and
  \<open>paragraphs\<close> are the builder's state.
\<close>

section \<open>Styles\<close>

definition CHAR_BODY :: nat where "CHAR_BODY = 0"
definition CHAR_TITLE_L :: nat where "CHAR_TITLE_L = 12"
definition CHAR_SECT :: nat where "CHAR_SECT = 13"
definition CHAR_TBL_HDR :: nat where "CHAR_TBL_HDR = 9"
definition CHAR_SMALL :: nat where "CHAR_SMALL = 11"
definition PARA_DEFAULT :: nat where "PARA_DEFAULT = 0"
definition PARA_CENTER :: nat where "PARA_CENTER = 20"
definition PARA_TBL_C :: nat where "PARA_TBL_C = 21"
definition PARA_TBL_J :: nat where "PARA_TBL_J = 22"
definition PARA_L1 :: nat where "PARA_L1 = 24"
definition PARA_L2 :: nat where "PARA_L2 = 25"
definition PARA_L3 :: nat where "PARA_L3 = 26"
definition PARA_SECT_HDR :: nat where "PARA_SECT_HDR = 27"
definition BORDER_TBL :: nat where "BORDER_TBL = 3"
definition BORDER_HDR :: nat where "BORDER_HDR = 4"
definition TXT_WIDTH :: int where "TXT_WIDTH = 42520"

section \<open>Chunks and the builder's state\<close>

record cell =
  ce_id :: nat
  ce_para :: nat
  ce_char :: nat
  ce_border :: nat
  ce_text :: utext
  ce_col :: nat
  ce_row :: nat
  ce_width :: int
  ce_height :: int

record table =
  ta_wrap_id :: nat
  ta_id :: nat
  ta_rows :: "cell list list"
  ta_row_cnt :: nat
  ta_col_cnt :: nat
  ta_width :: int
  ta_height :: int

datatype chunk =
    Para (para_id: nat) nat nat "utext option"
  | Table table

record builder =
  bu_pid :: nat
  bu_tid :: nat
  bu_chunks :: "chunk list"

definition start :: builder where
  "start = \<lparr>bu_pid = 1000000010, bu_tid = 2000000001, bu_chunks = []\<rparr>"

definition next_pid :: "builder \<Rightarrow> nat \<times> builder" where
  "next_pid b = (bu_pid b, b\<lparr>bu_pid := Suc (bu_pid b)\<rparr>)"

definition next_tid :: "builder \<Rightarrow> nat \<times> builder" where
  "next_tid b = (bu_tid b, b\<lparr>bu_tid := Suc (bu_tid b)\<rparr>)"

definition append_chunk :: "chunk \<Rightarrow> builder \<Rightarrow> builder" where
  "append_chunk c b = b\<lparr>bu_chunks := bu_chunks b @ [c]\<rparr>"

section \<open>html.escape\<close>

definition escape1 :: "nat \<Rightarrow> utext" where
  "escape1 c =
     (if c = 38 then ascii ''&amp;'' else if c = 60 then ascii ''&lt;'' else if c = 62 then ascii ''&gt;''
      else if c = 34 then ascii ''&quot;'' else if c = 39 then ascii ''&#x27;'' else [c])"

definition escape :: "utext \<Rightarrow> utext" where
  "escape t = concat (map escape1 t)"

section \<open>Paragraphs\<close>

definition para :: "utext \<Rightarrow> nat \<Rightarrow> nat \<Rightarrow> builder \<Rightarrow> builder" where
  "para text par chr b = (case next_pid b of (i, b') \<Rightarrow> append_chunk (Para i par chr (Some (escape text))) b')"

definition blank :: "builder \<Rightarrow> builder" where
  "blank b = (case next_pid b of (i, b') \<Rightarrow> append_chunk (Para i 0 0 None) b')"

definition title_main :: "utext \<Rightarrow> builder \<Rightarrow> builder" where
  "title_main text = para text PARA_CENTER CHAR_TITLE_L"

definition chapter_head :: "utext \<Rightarrow> builder \<Rightarrow> builder" where
  "chapter_head text = para text PARA_SECT_HDR CHAR_SECT"

definition section_head :: "utext \<Rightarrow> utext \<Rightarrow> builder \<Rightarrow> builder" where
  "section_head num text = para (num @ [32] @ text) PARA_L1 CHAR_TBL_HDR"

definition L1 :: "utext \<Rightarrow> utext \<Rightarrow> builder \<Rightarrow> builder" where
  "L1 text marker = para (marker @ [32] @ text) PARA_L1 CHAR_BODY"

definition L2 :: "utext \<Rightarrow> utext \<Rightarrow> builder \<Rightarrow> builder" where
  "L2 text marker = para (marker @ [32] @ text) PARA_L2 CHAR_BODY"

definition L3 :: "utext \<Rightarrow> utext \<Rightarrow> builder \<Rightarrow> builder" where
  "L3 text marker = para (marker @ [32] @ text) PARA_L3 CHAR_BODY"

text \<open>The default markers: a white square, a white circle, a hyphen, a reference mark.\<close>

definition marker :: "nat \<Rightarrow> nat option" where
  "marker level = (if level = 1 then Some 9633 else if level = 2 then Some 9675 else if level = 3 then Some 45 else None)"

definition para_level :: "nat \<Rightarrow> nat" where
  "para_level level = (if level = 1 then PARA_L1 else if level = 2 then PARA_L2 else PARA_L3)"

definition note_line :: "utext \<Rightarrow> builder \<Rightarrow> builder" where
  "note_line text = para ([8251, 32] @ text) PARA_L1 CHAR_SMALL"

definition kv :: "utext \<Rightarrow> utext \<Rightarrow> nat \<Rightarrow> builder \<Rightarrow> exn + builder" where
  "kv key val level b =
     (case marker level of
        None \<Rightarrow> Inl KeyError
      | Some m \<Rightarrow> Inr (para ([m, 32] @ key @ [32, 58, 32] @ val) (para_level level) CHAR_BODY b))"

text \<open>\<open>text.split("\n")\<close>; a line of white space becomes an empty paragraph.\<close>

fun split_lines :: "utext \<Rightarrow> utext list" where
  "split_lines [] = [[]]"
| "split_lines (c # cs) =
     (if c = 10 then [] # split_lines cs
      else (case split_lines cs of [] \<Rightarrow> [[c]] | l # ls \<Rightarrow> (c # l) # ls))"

definition is_white :: "nat \<Rightarrow> bool" where
  "is_white c = (c \<in> {9, 10, 11, 12, 13, 28, 29, 30, 31, 32, 133, 160, 5760, 8232, 8233, 8239, 8287, 12288} \<or>
     (8192 \<le> c \<and> c \<le> 8202))"

definition code_line :: "utext \<Rightarrow> builder \<Rightarrow> builder" where
  "code_line line b =
     (case next_pid b of (i, b') \<Rightarrow>
        append_chunk (Para i PARA_L2 CHAR_SMALL (if list_all is_white line then None else Some (escape line))) b')"

definition code_block :: "utext \<Rightarrow> builder \<Rightarrow> builder" where
  "code_block text b = fold code_line (split_lines text) b"

section \<open>Tables\<close>

text \<open>
  The column widths for percentages that are integers; without percentages each column gets the
  integer part of the float \<open>TXT_WIDTH * (100 / n) / 100\<close>, the argument \<open>share\<close>. The rounding error goes to the last column.
\<close>

definition raw_widths :: "(nat \<Rightarrow> int) \<Rightarrow> nat \<Rightarrow> int list option \<Rightarrow> int list" where
  "raw_widths share n pct =
     (case pct of None \<Rightarrow> replicate n (share n) | Some ws \<Rightarrow> map (\<lambda>w. if w < 0 then - (TXT_WIDTH * (- w) div 100) else TXT_WIDTH * w div 100) ws)"

definition col_widths :: "(nat \<Rightarrow> int) \<Rightarrow> nat \<Rightarrow> int list option \<Rightarrow> exn + int list" where
  "col_widths share n pct =
     (let ws = raw_widths share n pct
      in if ws = [] then Inl (if pct = None then ZeroDivisionError else IndexError)
         else Inr (ws[length ws - 1 := last ws + (TXT_WIDTH - sum_list ws)]))"

definition row_h :: int where "row_h = 2400"

fun build_cells :: "int list \<Rightarrow> nat \<Rightarrow> bool \<Rightarrow> nat \<Rightarrow> utext list \<Rightarrow> builder \<Rightarrow> exn + cell list \<times> builder" where
  "build_cells ws row hdr col [] b = Inr ([], b)"
| "build_cells ws row hdr col (t # ts) b =
     (if length ws \<le> col then Inl IndexError
      else (case next_pid b of (i, b') \<Rightarrow>
        (case build_cells ws row hdr (Suc col) ts b' of
           Inl e \<Rightarrow> Inl e
         | Inr (cs, b'') \<Rightarrow>
             Inr (\<lparr>ce_id = i, ce_para = (if hdr then PARA_TBL_C else PARA_TBL_J),
                   ce_char = (if hdr then CHAR_TBL_HDR else CHAR_BODY),
                   ce_border = (if hdr then BORDER_HDR else BORDER_TBL), ce_text = escape t,
                   ce_col = col, ce_row = row, ce_width = ws ! col, ce_height = row_h\<rparr> # cs, b''))))"

fun build_rows :: "int list \<Rightarrow> nat \<Rightarrow> utext list list \<Rightarrow> builder \<Rightarrow> exn + cell list list \<times> builder" where
  "build_rows ws row [] b = Inr ([], b)"
| "build_rows ws row (r # rs) b =
     (case build_cells ws row (row = 0) 0 r b of
        Inl e \<Rightarrow> Inl e
      | Inr (cs, b') \<Rightarrow>
          (case build_rows ws (Suc row) rs b' of Inl e \<Rightarrow> Inl e | Inr (css, b'') \<Rightarrow> Inr (cs # css, b'')))"

definition add_table :: "(nat \<Rightarrow> int) \<Rightarrow> utext list \<Rightarrow> utext list list \<Rightarrow> int list option \<Rightarrow> builder \<Rightarrow> exn + builder" where
  "add_table share headers rows pct b =
     (case col_widths share (length headers) pct of
        Inl e \<Rightarrow> Inl e
      | Inr ws \<Rightarrow>
          (case next_pid b of (wrap, b1) \<Rightarrow> (case next_tid b1 of (tid, b2) \<Rightarrow>
            (case build_rows ws 0 (headers # rows) b2 of
               Inl e \<Rightarrow> Inl e
             | Inr (css, b3) \<Rightarrow>
                 Inr (append_chunk (Table \<lparr>ta_wrap_id = wrap, ta_id = tid, ta_rows = css,
                   ta_row_cnt = length rows + 1, ta_col_cnt = length headers, ta_width = TXT_WIDTH,
                   ta_height = row_h * int (length rows + 1)\<rparr>) b3)))))"

section \<open>The widths fill the text block\<close>

lemma sum_list_fix_last:
  assumes "ws \<noteq> []"
  shows "sum_list (ws[length ws - 1 := last ws + (t - sum_list ws)]) = (t :: int)"
proof -
  obtain xs x where "ws = xs @ [x]" using assms by (cases ws rule: rev_cases) auto
  then show ?thesis by simp
qed

lemma col_widths_sum:
  assumes "col_widths share n pct = Inr ws"
  shows "sum_list ws = TXT_WIDTH \<and> length ws = (case pct of None \<Rightarrow> n | Some p \<Rightarrow> length p) \<and> ws \<noteq> []"
proof -
  from assms have r: "raw_widths share n pct \<noteq> []"
    "ws = (raw_widths share n pct)[length (raw_widths share n pct) - 1 :=
       last (raw_widths share n pct) + (TXT_WIDTH - sum_list (raw_widths share n pct))]"
    by (auto simp: col_widths_def Let_def split: if_splits)
  have "length ws = (case pct of None \<Rightarrow> n | Some p \<Rightarrow> length p)"
    by (simp add: r(2) raw_widths_def split: option.splits)
  moreover have "ws \<noteq> []" using r by auto
  ultimately show ?thesis using sum_list_fix_last [OF r(1), of TXT_WIDTH] r(2) by simp
qed

lemma build_cells_widths:
  "build_cells ws row hdr col ts b = Inr (cs, b') \<Longrightarrow>
   map ce_width cs = take (length ts) (drop col ws) \<and> map ce_col cs = [col..<col + length ts] \<and>
   col + length ts \<le> max col (length ws) \<and>
   map ce_id cs = [bu_pid b..<bu_pid b + length ts] \<and> bu_pid b' = bu_pid b + length ts \<and> bu_chunks b' = bu_chunks b \<and>
   bu_tid b' = bu_tid b"
proof (induction ts arbitrary: col b cs)
  case (Cons t ts)
  then obtain cs' where l: "col < length ws"
    and c: "build_cells ws row hdr (Suc col) ts (b\<lparr>bu_pid := Suc (bu_pid b)\<rparr>) = Inr (cs', b')"
    and cs: "map ce_width cs = ws ! col # map ce_width cs'" "map ce_col cs = col # map ce_col cs'"
      "map ce_id cs = bu_pid b # map ce_id cs'"
    by (auto simp: next_pid_def split: if_splits sum.splits prod.splits)
  have u: "[i..<i + length (t # ts)] = i # [Suc i..<Suc i + length ts]" for i
    by (simp add: upt_conv_Cons del: upt_Suc)
  have d: "take (length (t # ts)) (drop col ws) = ws ! col # take (length ts) (drop (Suc col) ws)"
    using l by (simp add: Cons_nth_drop_Suc [symmetric])
  from Cons.IH [OF c] l show ?case unfolding cs u d by (simp del: upt_Suc)
qed auto

section \<open>Escaped text\<close>

lemma escape_safe: "60 \<notin> set (escape t) \<and> 62 \<notin> set (escape t) \<and> 34 \<notin> set (escape t)"
  by (auto simp: escape_def escape1_def ascii_def split: if_splits)

text \<open>Reading the entities back.\<close>

fun unescape :: "utext \<Rightarrow> utext" where
  "unescape [] = []"
| "unescape (c # r) =
     (if c \<noteq> 38 then c # unescape r
      else if take 4 r = ascii ''amp;'' then 38 # unescape (drop 4 r)
      else if take 3 r = ascii ''lt;'' then 60 # unescape (drop 3 r)
      else if take 3 r = ascii ''gt;'' then 62 # unescape (drop 3 r)
      else if take 5 r = ascii ''quot;'' then 34 # unescape (drop 5 r)
      else if take 5 r = ascii ''#x27;'' then 39 # unescape (drop 5 r)
      else c # unescape r)"

lemma unescape_escape: "unescape (escape t) = t"
proof (induction t)
  case (Cons c t)
  have e: "escape (c # t) = escape1 c @ escape t" by (simp add: escape_def)
  have s: "escape1 38 = [38, 97, 109, 112, 59]" "escape1 60 = [38, 108, 116, 59]" "escape1 62 = [38, 103, 116, 59]"
    "escape1 34 = [38, 113, 117, 111, 116, 59]" "escape1 39 = [38, 35, 120, 50, 55, 59]"
    by (simp_all add: escape1_def ascii_def)
  consider "c \<in> {38, 60, 62, 34, 39}" | "c \<notin> {38, 60, 62, 34, 39}" by blast
  then show ?case
  proof cases
    case 1
    then show ?thesis using Cons by (auto simp: e s ascii_def)
  next
    case 2
    then have "escape1 c = [c]" by (simp add: escape1_def)
    with 2 Cons show ?thesis by (simp add: e)
  qed
qed (simp add: escape_def)

section \<open>A document\<close>

text \<open>The body of the script is a sequence of helper calls; the assembled file is the fixed first paragraph (id \<open>SEC_FIRST_ID\<close>) and the chunks.\<close>

datatype call =
    CallP utext nat nat
  | CallBlank
  | CallTitle utext
  | CallChapter utext
  | CallSection utext utext
  | CallL1 utext
  | CallL2 utext
  | CallL3 utext
  | CallNote utext
  | CallKv utext utext nat
  | CallCode utext
  | CallTable "utext list" "utext list list" "int list option"

definition do_call :: "(nat \<Rightarrow> int) \<Rightarrow> call \<Rightarrow> builder \<Rightarrow> exn + builder" where
  "do_call share c b =
     (case c of
        CallP t par chr \<Rightarrow> Inr (para t par chr b)
      | CallBlank \<Rightarrow> Inr (blank b)
      | CallTitle t \<Rightarrow> Inr (title_main t b)
      | CallChapter t \<Rightarrow> Inr (chapter_head t b)
      | CallSection num t \<Rightarrow> Inr (section_head num t b)
      | CallL1 t \<Rightarrow> Inr (L1 t [9633] b)
      | CallL2 t \<Rightarrow> Inr (L2 t [9675] b)
      | CallL3 t \<Rightarrow> Inr (L3 t [45] b)
      | CallNote t \<Rightarrow> Inr (note_line t b)
      | CallKv key val level \<Rightarrow> kv key val level b
      | CallCode t \<Rightarrow> Inr (code_block t b)
      | CallTable hs rs pct \<Rightarrow> add_table share hs rs pct b)"

fun document :: "(nat \<Rightarrow> int) \<Rightarrow> call list \<Rightarrow> builder \<Rightarrow> exn + builder" where
  "document share [] b = Inr b"
| "document share (c # cs) b = (case do_call share c b of Inl e \<Rightarrow> Inl e | Inr b' \<Rightarrow> document share cs b')"

definition SEC_FIRST_ID :: nat where "SEC_FIRST_ID = 1000000001"

fun chunk_ids :: "chunk \<Rightarrow> nat list" where
  "chunk_ids (Para i _ _ _) = [i]"
| "chunk_ids (Table t) = ta_wrap_id t # map ce_id (concat (ta_rows t))"

definition all_ids :: "builder \<Rightarrow> nat list" where
  "all_ids b = concat (map chunk_ids (bu_chunks b))"

fun table_ok :: "chunk \<Rightarrow> bool" where
  "table_ok (Para _ _ _ _) = True"
| "table_ok (Table t) =
     (ta_row_cnt t = length (ta_rows t) \<and> ta_width t = TXT_WIDTH \<and>
      (\<forall>r \<in> set (ta_rows t). map ce_col r = [0..<length r] \<and>
         (length r = ta_col_cnt t \<longrightarrow> sum_list (map ce_width r) = TXT_WIDTH)))"

text \<open>The paragraph ids handed out so far are exactly those in the chunks, in order.\<close>

definition ids_ok :: "builder \<Rightarrow> bool" where
  "ids_ok b = (1000000010 \<le> bu_pid b \<and> all_ids b = [1000000010..<bu_pid b])"

lemma upt_join: "n \<le> m \<Longrightarrow> m \<le> k \<Longrightarrow> [n..<m] @ [m..<k] = [n..<k]"
  using upt_add_eq_append [of n m "k - m"] by simp

lemma append_para_ids:
  "ids_ok b \<Longrightarrow> ids_ok (append_chunk (Para (bu_pid b) par chr t) (b\<lparr>bu_pid := Suc (bu_pid b)\<rparr>))"
  by (simp add: ids_ok_def all_ids_def append_chunk_def)

lemma code_block_ids: "ids_ok b \<Longrightarrow> ids_ok (code_block t b)"
proof -
  have "ids_ok b \<Longrightarrow> ids_ok (fold code_line ls b)" for ls
    by (induction ls arbitrary: b) (auto simp: code_line_def next_pid_def append_para_ids)
  then show "ids_ok b \<Longrightarrow> ?thesis" by (simp add: code_block_def)
qed

lemma build_rows_ids:
  "build_rows ws row rs b = Inr (css, b') \<Longrightarrow>
   map ce_id (concat css) = [bu_pid b..<bu_pid b'] \<and> bu_pid b \<le> bu_pid b' \<and> bu_chunks b' = bu_chunks b \<and>
   length css = length rs \<and>
   (\<forall>r \<in> set css. map ce_width r = take (length r) ws \<and> map ce_col r = [0..<length r])"
proof (induction rs arbitrary: row b css)
  case (Cons r rs)
  then obtain cs b1 css' where c: "build_cells ws row (row = 0) 0 r b = Inr (cs, b1)"
    and r: "build_rows ws (Suc row) rs b1 = Inr (css', b')" and css: "css = cs # css'"
    by (auto split: sum.splits prod.splits)
  from build_cells_widths [OF c] have k: "map ce_width cs = take (length r) ws" "map ce_col cs = [0..<length r]"
    "map ce_id cs = [bu_pid b..<bu_pid b + length r]" "bu_pid b1 = bu_pid b + length r" "bu_chunks b1 = bu_chunks b"
    by simp_all
  from k(2) have l: "length cs = length r" by (metis diff_zero length_map length_upt)
  from Cons.IH [OF r] have i: "map ce_id (concat css') = [bu_pid b1..<bu_pid b']" "bu_pid b1 \<le> bu_pid b'"
    "bu_chunks b' = bu_chunks b1" "length css' = length rs"
    "\<forall>r \<in> set css'. map ce_width r = take (length r) ws \<and> map ce_col r = [0..<length r]" by simp_all
  have "map ce_id (concat css) = [bu_pid b..<bu_pid b1] @ [bu_pid b1..<bu_pid b']"
    by (simp add: css k(3,4) i(1) del: upt_Suc)
  also have "\<dots> = [bu_pid b..<bu_pid b']"
    using i(2) k(4) by (intro upt_join) simp_all
  finally show ?case using i k l css by simp
qed auto

lemma table_effect:
  assumes "add_table share hs rs pct b = Inr b'" "ids_ok b" "list_all table_ok (bu_chunks b)"
    "case pct of None \<Rightarrow> True | Some w \<Rightarrow> length w = length hs"
  shows "ids_ok b' \<and> list_all table_ok (bu_chunks b')"
proof -
  define b2 where "b2 = b\<lparr>bu_pid := Suc (bu_pid b), bu_tid := Suc (bu_tid b)\<rparr>"
  from assms(1) obtain ws css b3 where w: "col_widths share (length hs) pct = Inr ws"
    and r: "build_rows ws 0 (hs # rs) b2 = Inr (css, b3)"
    and b': "b' = append_chunk (Table \<lparr>ta_wrap_id = bu_pid b, ta_id = bu_tid b, ta_rows = css,
                   ta_row_cnt = length rs + 1, ta_col_cnt = length hs, ta_width = TXT_WIDTH,
                   ta_height = row_h * int (length rs + 1)\<rparr>) b3"
    by (auto simp: add_table_def next_pid_def next_tid_def b2_def split: sum.splits prod.splits)
  from build_rows_ids [OF r] have i: "map ce_id (concat css) = [Suc (bu_pid b)..<bu_pid b3]" "Suc (bu_pid b) \<le> bu_pid b3"
    "bu_chunks b3 = bu_chunks b" "length css = length rs + 1"
    "\<forall>r \<in> set css. map ce_width r = take (length r) ws \<and> map ce_col r = [0..<length r]"
    by (simp_all add: b2_def)
  have ws: "sum_list ws = TXT_WIDTH" "length ws = length hs"
    using col_widths_sum [OF w] assms(4) by (auto split: option.splits)
  have ids: "all_ids b = [1000000010..<bu_pid b]" "1000000010 \<le> bu_pid b" using assms(2) by (simp_all add: ids_ok_def)
  have "all_ids b' = all_ids b @ bu_pid b # map ce_id (concat css)"
    by (simp add: b' all_ids_def append_chunk_def i(3))
  also have "bu_pid b # map ce_id (concat css) = [bu_pid b..<bu_pid b3]"
    using i(1,2) by (simp add: upt_conv_Cons del: upt_Suc)
  also have "all_ids b @ [bu_pid b..<bu_pid b3] = [1000000010..<bu_pid b3]"
    using ids i(2) upt_join [of 1000000010 "bu_pid b" "bu_pid b3"] by simp
  finally have "ids_ok b'" using ids(2) i(2) by (simp add: ids_ok_def b' append_chunk_def)
  moreover have "list_all table_ok (bu_chunks b')"
    using assms(3) i ws by (auto simp: b' append_chunk_def)
  ultimately show ?thesis by simp
qed

text \<open>A table call gives a width for every header.\<close>

fun call_ok :: "call \<Rightarrow> bool" where
  "call_ok (CallTable hs rs pct) = (case pct of None \<Rightarrow> True | Some w \<Rightarrow> length w = length hs)"
| "call_ok _ = True"

lemma code_block_chunks: "list_all table_ok (bu_chunks b) \<Longrightarrow> list_all table_ok (bu_chunks (code_block t b))"
proof -
  have "list_all table_ok (bu_chunks b) \<Longrightarrow> list_all table_ok (bu_chunks (fold code_line ls b))" for ls
    by (induction ls arbitrary: b) (auto simp: code_line_def next_pid_def append_chunk_def)
  then show "list_all table_ok (bu_chunks b) \<Longrightarrow> ?thesis" by (simp add: code_block_def)
qed

lemmas helpers = title_main_def chapter_head_def section_head_def L1_def L2_def L3_def note_line_def kv_def

lemma do_call_effect:
  assumes "do_call share c b = Inr b'" "call_ok c" "ids_ok b" "list_all table_ok (bu_chunks b)"
  shows "ids_ok b' \<and> list_all table_ok (bu_chunks b')"
proof (cases c)
  case (CallTable hs rs pct)
  then show ?thesis using table_effect assms by (simp add: do_call_def)
next
  case (CallCode t)
  then show ?thesis using assms code_block_ids code_block_chunks by (auto simp: do_call_def)
qed (use assms append_para_ids in \<open>auto simp: do_call_def helpers para_def blank_def next_pid_def append_chunk_def
    split: option.splits\<close>)

lemma document_effect:
  "document share cs b = Inr b' \<Longrightarrow> list_all call_ok cs \<Longrightarrow> ids_ok b \<Longrightarrow> list_all table_ok (bu_chunks b) \<Longrightarrow>
   ids_ok b' \<and> list_all table_ok (bu_chunks b')"
proof (induction cs arbitrary: b)
  case (Cons c cs)
  then obtain b1 where "do_call share c b = Inr b1" "document share cs b1 = Inr b'" by (auto split: sum.splits)
  then show ?case using Cons do_call_effect by auto
qed auto

end
