(* ===== verification/Examples.thy ===== *)
theory Examples
  imports LatestView CommandLife Catalog Channels TelemetryApi Lifecycle Migrations Seed PlanHwpx
begin

text \<open>
  A small installation the witnesses of the properties run on: one company, site and user, two
  gateways with a sensor and an actuator channel on the first, and the user's permissions.
\<close>

definition ada :: user where
  "ada = \<lparr>us_id = 1, us_keycloak_user_id = ''kc-ada'', us_email = ''a@x'', us_name = ''Ada'', us_status = ''active'', us_created_at = 0\<rparr>"

definition bob :: user where
  "bob = \<lparr>us_id = 2, us_keycloak_user_id = ''kc-bob'', us_email = ''b@x'', us_name = ''Bob'', us_status = ''active'', us_created_at = 0\<rparr>"

definition farm_gateway :: gateway where
  "farm_gateway = \<lparr>gw_id = 10, gw_serial_number = ''GW-1'', gw_name = ''Farm'', gw_company_id = 5, gw_site_id = Some 6,
     gw_gateway_profile_id = None, gw_status = ''online'', gw_firmware_version = None, gw_app_version = None,
     gw_config_version = 0, gw_last_seen_at = Some 0, gw_registered_at = 0\<rparr>"

definition spare_gateway :: gateway where
  "spare_gateway = farm_gateway\<lparr>gw_id := 11, gw_serial_number := ''GW-2'', gw_status := ''offline'', gw_last_seen_at := None, gw_registered_at := 7\<rparr>"

definition env_sensor :: sensor_channel where
  "env_sensor = \<lparr>sc_id = 20, sc_gateway_id = 10, sc_slug = ''env-1'', sc_sensor_profile_id = 7, sc_display_name = ''Env'',
     sc_interface_name = ''rs485'', sc_protocol = ''modbus_rtu'', sc_address = None, sc_slave_id = None,
     sc_polling_interval_sec = 10, sc_enabled = True, sc_config = None, sc_created_at = 0\<rparr>"

definition vent :: actuator_channel where
  "vent = \<lparr>ac_id = 30, ac_gateway_id = 10, ac_slug = ''vent'', ac_display_name = ''Vent'', ac_actuator_type = ''relay'',
     ac_hardware_channel = ''GPIO17'', ac_default_state = ''off'', ac_current_state = None, ac_enabled = True,
     ac_safety_config = None, ac_created_at = 0\<rparr>"

definition perm :: "uuid \<Rightarrow> user \<Rightarrow> uuid \<Rightarrow> string \<Rightarrow> permission" where
  "perm i u g p = \<lparr>pm_id = i, pm_user_id = us_id u, pm_gateway_id = g, pm_permission = p, pm_created_at = 0\<rparr>"

definition old_command :: command where
  "old_command = \<lparr>cm_id = ''cmd-1'', cm_gateway_id = 10, cm_actuator_channel_id = Some 30, cm_action = ''ON'',
     cm_issued_by = Some 1, cm_issued_at = 0, cm_expires_at = 5000000, cm_timeout_ms = 3000, cm_require_ack = True,
     cm_reason = None, cm_status = ''published'', cm_response = None, cm_completed_at = None\<rparr>"

definition farm :: db where
  "farm = empty_db\<lparr>
     companies := [\<lparr>co_id = 5, co_name = ''Co'', co_type = ''customer'', co_status = ''active'', co_created_at = 0, co_updated_at = 0\<rparr>],
     sites := [\<lparr>st_id = 6, st_company_id = 5, st_name = ''Site'', st_address = None, st_latitude = None, st_longitude = None, st_created_at = 0\<rparr>],
     users := [ada, bob],
     permissions := [perm 40 ada 10 ''admin'', perm 41 bob 10 ''control''],
     gateways := [farm_gateway, spare_gateway],
     sensor_profiles := [\<lparr>sp_id = 7, sp_name = ''P'', sp_vendor = None, sp_model = None, sp_protocol = ''modbus_rtu'',
       sp_description = None, sp_profile_schema = JObj [], sp_enabled = True, sp_created_at = 0\<rparr>],
     sensor_channels := [env_sensor],
     actuator_channels := [vent],
     commands := [old_command]\<rparr>"

definition switch_on :: command_in where
  "switch_on = \<lparr>cmin_actuator_channel_id = 30, cmin_action = ON, cmin_expires_in_sec = 5, cmin_timeout_ms = 3000,
     cmin_require_ack = True, cmin_reason = None\<rparr>"

definition good_world :: world where
  "good_world = \<lparr>w_settings = default_settings, w_frepr = \<lambda>_. [], w_client = True, w_broker = None, w_commit = None\<rparr>"

definition reading :: json where
  "reading = JObj [(''timestamp'', JStr ''2026-05-04T12:00:00Z''),
     (''values'', JArr [JObj [(''sensor_channel_id'', JStr ''env-1''), (''measurement_key'', JStr ''ammonia''),
                         (''value'', JInt 18), (''unit'', JStr ''ppm'')]])]"

lemmas farm_defs = farm_def empty_db_def ada_def bob_def farm_gateway_def spare_gateway_def env_sensor_def vent_def
  perm_def old_command_def

lemma farm_wf: "wf_db farm"
  by (simp add: wf_db_def keys_ok_def refs_ok_def formats_ok_def farm_defs ref_ok_def opt_ok_def serial_check_def
      slug_pattern_def slug_char_def perm_key_def sc_wire_def ac_wire_def)

lemma farm_view: "latest_view farm"
  by (simp add: latest_view_def farm_def empty_db_def)

section \<open>One message, evaluated\<close>

lemmas send_simps = dispatch_def gateway_uuid_by_serial_def empty_cache_def cached_simps select_gateway_def text_ok_def
  scalar_one_or_none_def handle_def kind_of_def save_gateway_def gateway_types_def gateway_refs_def ref_ok_def opt_ok_def
  varchar_ok_def int4_ok_def representable_def day_us_def flush_def farm_defs

lemma reading_ts: "parse_iso8601 now (JStr ''2026-05-04T12:00:00Z'') = Inr 1777896000000000"
  by code_simp

lemma farm_topics:
  "match_topic ''gw/GW-1/telemetry'' = Some (''GW-1'', ''telemetry'')"
  "match_topic ''gw/GW-1/heartbeat'' = Some (''GW-1'', ''heartbeat'')"
  "match_topic ''gw/GW-1/command/response'' = Some (''GW-1'', ''command/response'')"
  by code_simp+

lemma reading_handled:
  "\<exists>d' c'. telemetry_handle (\<lambda>_. 0) 9 10 reading farm empty_cache = (Inr d', c') \<and>
     map te_value_double (telemetry d') = [Some (Fin False 18 0)] \<and> map tl_measurement_key (telemetry_latest d') = [''ammonia'']"
  by (simp add: send_simps telemetry_handle_def reading_def reading_ts py_or_def telemetry_value_def select_sensor_def
      sensor_channel_uuid_by_slug_def sc_wire_def store_value_def float_of_int_exact bind_text_def insert_telemetry_def
      telemetry_row_of_def latest_row_of_def upsert_latest_def latest_types_def seen_online_def)

lemma reading_dispatched:
  "\<exists>d' c'. dispatch (\<lambda>_. Inr reading) (\<lambda>_. 0) 9 ''gw/GW-1/telemetry'' [] farm empty_cache = (Inr d', c') \<and>
     map tl_measurement_key (telemetry_latest d') = [''ammonia'']"
  by (simp add: send_simps farm_topics telemetry_handle_def reading_def reading_ts py_or_def telemetry_value_def select_sensor_def
      sensor_channel_uuid_by_slug_def sc_wire_def store_value_def float_of_int_exact bind_text_def insert_telemetry_def
      telemetry_row_of_def latest_row_of_def upsert_latest_def latest_types_def seen_online_def)

end
