(* ===== verification/JsonLoads.thy ===== *)
theory JsonLoads
  imports PyJson
begin

text \<open>
  \<open>json.loads\<close> of a payload's bytes, as CPython's scanner does it: UTF-8, the strict scanner of
  strings, the number pattern, objects whose later duplicates win, the limit on the digits of an
  integer. The model's characters have code points below 256 and NUL or a byte order mark selects
  another encoding, so the result is \<open>None\<close> where the text needs a character the model does not
  have. \<open>json_loads_in\<close> counts the levels the interpreter's recursion limit allows; \<open>json_loads\<close> is the
  reader without one. Fuel bounds the nesting: twice the text's
  length is enough (\<open>json_decode_settled\<close>) and more changes nothing (\<open>json_decode_fuel\<close>). The main
  facts are that \<open>json_loads\<close> reads back what \<open>json_dumps\<close> prints and that it returns.
\<close>

type_synonym 'a scan = "(exn + 'a \<times> string) option"

abbreviation ok :: "'a \<Rightarrow> string \<Rightarrow> 'a scan" where
  "ok v r \<equiv> Some (Inr (v, r))"

abbreviation bad_json :: "'a scan" where
  "bad_json \<equiv> Some (Inl JSONDecodeError)"

definition andthen :: "'a scan \<Rightarrow> ('a \<Rightarrow> string \<Rightarrow> 'b scan) \<Rightarrow> 'b scan" where
  "andthen x k = (case x of None \<Rightarrow> None | Some (Inl e) \<Rightarrow> Some (Inl e) | Some (Inr (v, r)) \<Rightarrow> k v r)"

lemma andthen_simps [simp]:
  "andthen (ok v r) k = k v r" "andthen (Some (Inl e)) k = Some (Inl e)" "andthen None k = None"
  by (simp_all add: andthen_def)

lemma andthen_ok:
  assumes "andthen x k = ok w t"
  obtains v r where "x = ok v r" "k v r = ok w t"
  using assms by (auto simp: andthen_def split: option.splits sum.splits)

section \<open>Bytes to text\<close>

text \<open>
  The bytes \<open>C2\<close> and \<open>C3\<close> start the two-byte form of the code points 128 to 255; \<open>C4\<close> to \<open>DF\<close> that
  of code points above 255; an invalid sequence is a \<open>UnicodeDecodeError\<close>, a \<open>ValueError\<close> that is
  not a \<open>JSONDecodeError\<close>.
\<close>

fun decode_utf8 :: "string \<Rightarrow> (exn + string) option" where
  "decode_utf8 [] = Some (Inr [])"
| "decode_utf8 (b # bs) =
     (let n = (of_char b :: nat) in
      if n < 128 then map_option (map_sum id ((#) b)) (decode_utf8 bs)
      else if n < 194 then Some (Inl ValueError)
      else if n < 224 then
        (case bs of
           [] \<Rightarrow> Some (Inl ValueError)
         | c # cs \<Rightarrow>
             (let m = (of_char c :: nat) in
              if m < 128 \<or> 192 \<le> m then Some (Inl ValueError)
              else if n < 196 then map_option (map_sum id ((#) (char_of (64 * (n - 192) + (m - 128))))) (decode_utf8 cs)
              else None))
      else None)"

definition utf8_text :: "string \<Rightarrow> bool" where
  "utf8_text bs = (list_all (\<lambda>b. of_char b \<noteq> (0 :: nat)) (take 2 bs) \<and>
     (case bs of [] \<Rightarrow> True | b # _ \<Rightarrow> of_char b < (224 :: nat)))"

section \<open>Tokens\<close>

definition is_ws :: "char \<Rightarrow> bool" where
  "is_ws c = ((of_char c :: nat) \<in> {32, 9, 10, 13})"

definition skip_ws :: "string \<Rightarrow> string" where
  "skip_ws s = dropWhile is_ws s"

definition hex_val :: "char \<Rightarrow> nat option" where
  "hex_val c =
     (let n = (of_char c :: nat) in
      if 48 \<le> n \<and> n \<le> 57 then Some (n - 48)
      else if 97 \<le> n \<and> n \<le> 102 then Some (n - 87)
      else if 65 \<le> n \<and> n \<le> 70 then Some (n - 55)
      else None)"

text \<open>The four digits after \<open>\u\<close>.\<close>

definition hex4 :: "char \<Rightarrow> char \<Rightarrow> char \<Rightarrow> char \<Rightarrow> nat option" where
  "hex4 a b c d =
     (case (hex_val a, hex_val b, hex_val c, hex_val d) of
        (Some k, Some l, Some m, Some n) \<Rightarrow> Some (4096 * k + 256 * l + 16 * m + n)
      | _ \<Rightarrow> None)"

definition unescape_char :: "char \<Rightarrow> char option" where
  "unescape_char c =
     (if c = CHR 0x22 then Some (CHR 0x22)
      else if c = CHR 0x5C then Some (CHR 0x5C)
      else if c = CHR ''/'' then Some (CHR ''/'')
      else if c = CHR ''b'' then Some (CHR 0x08)
      else if c = CHR ''f'' then Some (CHR 0x0C)
      else if c = CHR ''n'' then Some (CHR 0x0A)
      else if c = CHR ''r'' then Some (CHR 0x0D)
      else if c = CHR ''t'' then Some (CHR 0x09)
      else None)"

text \<open>A string, from after its opening quote.\<close>

fun scan_string :: "string \<Rightarrow> string scan" where
  "scan_string [] = bad_json"
| "scan_string (c # cs) =
     (if c = CHR 0x22 then ok [] cs
      else if c = CHR 0x5C then
        (case cs of
           [] \<Rightarrow> bad_json
         | e # es \<Rightarrow>
             if e = CHR ''u'' then
               (case es of
                  h1 # h2 # h3 # h4 # r \<Rightarrow>
                    (case hex4 h1 h2 h3 h4 of
                       None \<Rightarrow> bad_json
                     | Some n \<Rightarrow>
                         if 256 \<le> n then None
                         else andthen (scan_string r) (\<lambda>t q. ok (char_of n # t) q))
                | _ \<Rightarrow> bad_json)
             else (case unescape_char e of
                     None \<Rightarrow> bad_json
                   | Some d \<Rightarrow> andthen (scan_string es) (\<lambda>t q. ok (d # t) q)))
      else if of_char c < (32 :: nat) then bad_json
      else andthen (scan_string cs) (\<lambda>t q. ok (c # t) q))"

section \<open>Numbers\<close>

text \<open>\<open>float\<close> of \<open>m * 10 ^ e\<close>: the nearest binary64, ties to even, infinite past the largest.\<close>

definition floor_log2 :: "nat \<Rightarrow> nat \<Rightarrow> int" where
  "floor_log2 p q =
     (let l = int (bit_length p) - int (bit_length q) in
      if (if 0 \<le> l then q * 2 ^ nat l \<le> p else q \<le> p * 2 ^ nat (- l)) then l else l - 1)"

definition round_ratio :: "nat \<Rightarrow> nat \<Rightarrow> nat" where
  "round_ratio p q =
     (let k = p div q; r = p mod q in if 2 * r > q \<or> (2 * r = q \<and> odd k) then Suc k else k)"

definition float_of_dec :: "bool \<Rightarrow> nat \<Rightarrow> int \<Rightarrow> pyfloat" where
  "float_of_dec s m e =
     (if m = 0 then Fin s 0 0
      else
        (let p = m * 10 ^ nat e; q = 10 ^ nat (- e);
             k = max (- 1074) (floor_log2 p q - 52);
             n = round_ratio (p * 2 ^ nat (- k)) (q * 2 ^ nat k)
         in if 0 \<le> k \<and> 2 ^ 1024 \<le> n * 2 ^ nat k then Inf s else Fin s n k))"

text \<open>
  The number pattern \<open>(-?(?:0|[1-9][0-9]*))(\.[0-9]+)?([eE][-+]?[0-9]+)?\<close> as sign, digits, fraction,
  exponent and what follows.
\<close>

definition int_digits :: "string \<Rightarrow> string" where
  "int_digits s = (case takeWhile is_digit s of [] \<Rightarrow> [] | d # ds \<Rightarrow> if d = CHR ''0'' then [d] else d # ds)"

definition frac_digits :: "string \<Rightarrow> string" where
  "frac_digits s = (case s of c # cs \<Rightarrow> if c = CHR ''.'' then takeWhile is_digit cs else [] | [] \<Rightarrow> [])"

definition exp_part :: "string \<Rightarrow> string \<times> string" where
  "exp_part s =
     (case s of
        c # cs \<Rightarrow>
          if c = CHR ''e'' \<or> c = CHR ''E'' then
            (case cs of
               g # ds \<Rightarrow> if g = CHR ''+'' \<or> g = CHR ''-'' then ([g], takeWhile is_digit ds)
                         else ([], takeWhile is_digit cs)
             | [] \<Rightarrow> ([], []))
          else ([], [])
      | [] \<Rightarrow> ([], []))"

definition max_str_digits :: nat where "max_str_digits = 4300"

definition scan_number :: "string \<Rightarrow> json scan" where
  "scan_number s =
     (let neg = (s \<noteq> [] \<and> hd s = CHR ''-''); s1 = (if neg then tl s else s);
          ds = int_digits s1; s2 = drop (length ds) s1
      in if ds = [] then bad_json
         else
           (let fs = frac_digits s2; s3 = (if fs = [] then s2 else drop (Suc (length fs)) s2);
                (g, es) = exp_part s3; s4 = (if es = [] then s3 else drop (Suc (length g + length es)) s3)
            in if fs = [] \<and> es = [] then
                 (if max_str_digits < length ds then Some (Inl ValueError)
                  else ok (JInt (if neg then - int (digits_val ds) else int (digits_val ds))) s4)
               else
                 (let x = (if g = ''-'' then - int (digits_val es) else int (digits_val es))
                  in ok (JFloat (float_of_dec neg (digits_val (ds @ fs)) (x - int (length fs)))) s4)))"

section \<open>Values\<close>

text \<open>\<open>dict(pairs)\<close>: a key keeps its first position and takes its last value.\<close>

fun dict_put :: "string \<Rightarrow> json \<Rightarrow> (string \<times> json) list \<Rightarrow> (string \<times> json) list" where
  "dict_put k v [] = [(k, v)]"
| "dict_put k v ((k', v') # d) = (if k = k' then (k, v) # d else (k', v') # dict_put k v d)"

definition dict_of :: "(string \<times> json) list \<Rightarrow> (string \<times> json) list" where
  "dict_of kvs = foldl (\<lambda>d (k, v). dict_put k v d) [] kvs"

definition literals :: "(string \<times> json) list" where
  "literals =
     [(''null'', JNull), (''true'', JBool True), (''false'', JBool False), (''NaN'', JFloat NaN),
      (''Infinity'', JFloat (Inf False)), (''-Infinity'', JFloat (Inf True))]"

definition scan_literal :: "string \<Rightarrow> json scan" where
  "scan_literal s =
     (case find (\<lambda>(w, _). prefix w s) literals of
        Some (w, v) \<Rightarrow> ok v (drop (length w) s)
      | None \<Rightarrow> scan_number s)"

text \<open>
  The scanner enters the interpreter's recursion check at every opening brace and bracket: \<open>l\<close> is how
  many more it allows, \<open>None\<close> for an interpreter without a limit.
\<close>

definition descend :: "nat option \<Rightarrow> (nat option \<Rightarrow> 'a scan) \<Rightarrow> 'a scan" where
  "descend l k = (case l of None \<Rightarrow> k None | Some 0 \<Rightarrow> Some (Inl RecursionError) | Some (Suc d) \<Rightarrow> k (Some d))"

lemma descend_simps [simp]:
  "descend None k = k None" "descend (Some 0) k = Some (Inl RecursionError)" "descend (Some (Suc d)) k = k (Some d)"
  by (simp_all add: descend_def)

lemma descend_rule: "P (Some (Inl RecursionError)) \<Longrightarrow> (\<And>l. P (k l)) \<Longrightarrow> P (descend l k)"
  by (auto simp: descend_def split: option.split nat.split)

lemma descend_cong: "(\<And>l. k l = k' l) \<Longrightarrow> descend l k = descend l k'"
  by (simp add: descend_def split: option.split nat.split)

text \<open>
  \<open>scan_once\<close>, the rest of an object after the quote that opens a key, and the rest of an array
  from an element on.
\<close>

fun scan_value :: "nat option \<Rightarrow> nat \<Rightarrow> string \<Rightarrow> json scan"
  and scan_members :: "nat option \<Rightarrow> nat \<Rightarrow> string \<Rightarrow> (string \<times> json) list scan"
  and scan_elements :: "nat option \<Rightarrow> nat \<Rightarrow> string \<Rightarrow> json list scan" where
  "scan_value l 0 s = None"
| "scan_value l (Suc n) s =
     (case s of
        [] \<Rightarrow> bad_json
      | c # cs \<Rightarrow>
          if c = CHR 0x22 then andthen (scan_string cs) (\<lambda>t r. ok (JStr t) r)
          else if c = CHR ''{'' then
            descend l (\<lambda>l. case skip_ws cs of
               [] \<Rightarrow> bad_json
             | d # ds \<Rightarrow>
                 if d = CHR ''}'' then ok (JObj []) ds
                 else if d = CHR 0x22 then andthen (scan_members l n ds) (\<lambda>kvs r. ok (JObj (dict_of kvs)) r)
                 else bad_json)
          else if c = CHR ''['' then
            descend l (\<lambda>l. case skip_ws cs of
               [] \<Rightarrow> bad_json
             | d # ds \<Rightarrow>
                 if d = CHR '']'' then ok (JArr []) ds
                 else andthen (scan_elements l n (d # ds)) (\<lambda>xs r. ok (JArr xs) r))
          else scan_literal s)"
| "scan_members l 0 s = None"
| "scan_members l (Suc n) s =
     andthen (scan_string s) (\<lambda>k r.
       case skip_ws r of
         [] \<Rightarrow> bad_json
       | c # cs \<Rightarrow>
           if c \<noteq> CHR '':'' then bad_json
           else andthen (scan_value l n (skip_ws cs)) (\<lambda>v r.
             case skip_ws r of
               [] \<Rightarrow> bad_json
             | c # cs \<Rightarrow>
                 if c = CHR ''}'' then ok [(k, v)] cs
                 else if c = CHR '','' then
                   (case skip_ws cs of
                      [] \<Rightarrow> bad_json
                    | d # ds \<Rightarrow>
                        if d = CHR 0x22 then andthen (scan_members l n ds) (\<lambda>kvs r. ok ((k, v) # kvs) r)
                        else bad_json)
                 else bad_json))"
| "scan_elements l 0 s = None"
| "scan_elements l (Suc n) s =
     andthen (scan_value l n s) (\<lambda>v r.
       case skip_ws r of
         [] \<Rightarrow> bad_json
       | c # cs \<Rightarrow>
           if c = CHR '']'' then ok [v] cs
           else if c = CHR '','' then andthen (scan_elements l n (skip_ws cs)) (\<lambda>vs r. ok (v # vs) r)
           else bad_json)"

definition json_decode :: "nat option \<Rightarrow> nat \<Rightarrow> string \<Rightarrow> (exn + json) option" where
  "json_decode l n s =
     (case scan_value l n (skip_ws s) of
        None \<Rightarrow> None
      | Some (Inl e) \<Rightarrow> Some (Inl e)
      | Some (Inr (v, r)) \<Rightarrow> Some (if skip_ws r = [] then Inr v else Inl JSONDecodeError))"

definition json_loads_in :: "nat option \<Rightarrow> string \<Rightarrow> (exn + json) option" where
  "json_loads_in l bs =
     (if \<not> utf8_text bs then None
      else
        (case decode_utf8 bs of
           None \<Rightarrow> None
         | Some (Inl e) \<Rightarrow> Some (Inl e)
         | Some (Inr s) \<Rightarrow> json_decode l (2 * length s + 2) s))"

text \<open>The reader where the limit plays no part.\<close>

definition json_loads :: "string \<Rightarrow> (exn + json) option" where
  "json_loads bs = json_loads_in None bs"

section \<open>Reading back what was printed\<close>

lemma hex_val_char: "d < 16 \<Longrightarrow> hex_val (hex_char d) = Some d"
  by (auto simp: hex_val_def hex_char_def Let_def take_bit_nat_eq_self)

lemma hex4_read:
  assumes "n < 65536"
  shows "\<exists>a b c d. hex 4 n = [a, b, c, d] \<and> hex4 a b c d = Some n"
proof -
  have "4 = Suc (Suc (Suc (Suc 0)))" by simp
  then have h: "hex 4 n = [hex_char (n div 16 div 16 div 16 mod 16), hex_char (n div 16 div 16 mod 16),
      hex_char (n div 16 mod 16), hex_char (n mod 16)]"
    by (simp only: hex.simps append.simps)
  have "4096 * (n div 16 div 16 div 16 mod 16) + 256 * (n div 16 div 16 mod 16) + 16 * (n div 16 mod 16) + n mod 16 = n"
  proof -
    have d: "16 * (m div 16) + m mod 16 = m" for m :: nat by simp
    have "n div 16 div 16 div 16 mod 16 = n div 16 div 16 div 16"
      using assms by (simp add: div_mult2_eq [symmetric])
    then show ?thesis using d [of n] d [of "n div 16"] d [of "n div 16 div 16"] by linarith
  qed
  then show ?thesis unfolding h by (simp add: hex4_def hex_val_char)
qed

lemma scan_plain:
  "c \<noteq> CHR 0x22 \<Longrightarrow> c \<noteq> CHR 0x5C \<Longrightarrow> 32 \<le> (of_char c :: nat) \<Longrightarrow>
    scan_string (c # t) = andthen (scan_string t) (\<lambda>u q. ok (c # u) q)"
  by simp

lemma scan_escaped:
  "unescape_char e = Some d \<Longrightarrow>
    scan_string (CHR 0x5C # e # t) = andthen (scan_string t) (\<lambda>u q. ok (d # u) q)"
  by (auto simp: unescape_char_def)

lemma scan_escape_char:
  "scan_string (escape_char c @ t) = andthen (scan_string t) (\<lambda>u q. ok (c # u) q)"
proof -
  let ?n = "of_char c :: nat"
  have lt: "\<not> 256 \<le> ?n" using nat_of_char_less_256 [of c] by (simp only: not_le)
  have k: "?n = 10 \<Longrightarrow> c = CHR 0x0A" "?n = 13 \<Longrightarrow> c = CHR 0x0D" "?n = 9 \<Longrightarrow> c = CHR 0x09"
    "?n = 12 \<Longrightarrow> c = CHR 0x0C" "?n = 8 \<Longrightarrow> c = CHR 0x08"
    by (rule of_char_eqI [where 'a = nat], simp)+
  consider "c = CHR 0x22" | "c = CHR 0x5C" | "c = CHR 0x0A" | "c = CHR 0x0D" | "c = CHR 0x09" | "c = CHR 0x0C" | "c = CHR 0x08"
    | (plain) "c \<noteq> CHR 0x22" "c \<noteq> CHR 0x5C" "32 \<le> ?n" "?n \<le> 126" "?n \<notin> {10, 13, 9, 12, 8}"
    | (hex) "c \<noteq> CHR 0x22" "c \<noteq> CHR 0x5C" "\<not> (32 \<le> ?n \<and> ?n \<le> 126)" "?n \<notin> {10, 13, 9, 12, 8}"
    using k by fast
  then show ?thesis
  proof cases
    case plain
    then have "escape_char c = [c]" by (simp add: escape_char_def Let_def)
    then show ?thesis using plain scan_plain by simp
  next
    case hex
    obtain h1 h2 h3 h4 where h: "hex 4 ?n = [h1, h2, h3, h4]" "hex4 h1 h2 h3 h4 = Some ?n"
      using hex4_read [of ?n] lt by fastforce
    have "escape_char c = [CHR 0x5C, CHR ''u''] @ hex 4 ?n"
      using hex by (simp add: escape_char_def Let_def)
    then show ?thesis by (simp add: h lt)
  qed (simp_all add: escape_char_def scan_escaped unescape_char_def)
qed

lemma scan_dumps_str: "scan_string (concat (map escape_char s) @ CHR 0x22 # r) = ok s r"
  by (induction s) (simp_all add: scan_escape_char)

text \<open>What follows a value in an object or array, or at the end.\<close>

definition delim :: "string \<Rightarrow> bool" where
  "delim r = (case r of [] \<Rightarrow> True | c # _ \<Rightarrow> c \<in> {CHR '','', CHR '']'', CHR ''}''})"

lemma delim_simps [simp]:
  "delim []" "delim (CHR '','' # r)" "delim (CHR '']'' # r)" "delim (CHR ''}'' # r)"
  by (simp_all add: delim_def)

lemma str_of_nat_Cons: "\<exists>d ds. str_of_nat n = d # ds \<and> is_digit d \<and> (d = CHR ''0'' \<longrightarrow> n = 0 \<and> ds = [])"
proof (induction n rule: str_of_nat.induct)
  case (1 n)
  have z: "digit_char k = CHR ''0'' \<longleftrightarrow> k = 0" if "k < 10" for k
  proof
    assume "digit_char k = CHR ''0''"
    moreover have "digit_val (CHR ''0'') = 0" by (simp add: digit_val_def)
    ultimately show "k = 0" using digit_char_simps(2) [OF that] by metis
  next
    have "digit_char 0 = CHR ''0''" by code_simp
    then show "k = 0 \<Longrightarrow> digit_char k = CHR ''0''" by simp
  qed
  show ?case
  proof (cases "n < 10")
    case True
    then show ?thesis by (simp add: str_of_nat.simps [of n] z)
  next
    case False
    then show ?thesis using 1 by (auto simp: str_of_nat.simps [of n])
  qed
qed

lemma delim_digits: "delim r \<Longrightarrow> takeWhile is_digit r = []"
  by (cases r) (auto simp: delim_def is_digit_def)

lemma delim_number: "delim r \<Longrightarrow> frac_digits r = [] \<and> exp_part r = ([], [])"
  by (cases r) (auto simp: delim_def frac_digits_def exp_part_def)

lemma int_digits_str: "delim r \<Longrightarrow> int_digits (str_of_nat n @ r) = str_of_nat n"
proof -
  assume r: "delim r"
  have "takeWhile is_digit (str_of_nat n @ r) = str_of_nat n"
    using str_of_nat_digits [of n] delim_digits [OF r] by (simp add: list_all_iff takeWhile_append2)
  moreover obtain d ds where "str_of_nat n = d # ds" "d = CHR ''0'' \<longrightarrow> ds = []"
    using str_of_nat_Cons [of n] by blast
  ultimately show ?thesis by (simp add: int_digits_def)
qed

lemma scan_literal_nat:
  assumes "delim r" "length (str_of_nat m) \<le> max_str_digits"
  shows "scan_literal (str_of_nat m @ r) = ok (JInt (int m)) r"
    and "scan_literal (CHR ''-'' # str_of_nat m @ r) = ok (JInt (- int m)) r"
proof -
  obtain d ds where d: "str_of_nat m = d # ds" "is_digit d"
    using str_of_nat_Cons [of m] by blast
  then have m: "d \<noteq> CHR ''-''" "d \<noteq> CHR ''n''" "d \<noteq> CHR ''t''" "d \<noteq> CHR ''f''" "d \<noteq> CHR ''N''" "d \<noteq> CHR ''I''"
    by (auto simp: is_digit_def)
  note f = delim_number [OF assms(1)] int_digits_str [OF assms(1), of m] digits_val_str_of_nat [of m]
  have "scan_number (str_of_nat m @ r) = ok (JInt (int m)) r"
    "scan_number (CHR ''-'' # str_of_nat m @ r) = ok (JInt (- int m)) r"
    using assms(2) m f unfolding d(1) by (simp_all add: scan_number_def Let_def)
  moreover have "find (\<lambda>(w, _). prefix w (str_of_nat m @ r)) literals = None"
    "find (\<lambda>(w, _). prefix w (CHR ''-'' # str_of_nat m @ r)) literals = None"
    using m unfolding d(1) by (simp_all add: literals_def)
  ultimately show "scan_literal (str_of_nat m @ r) = ok (JInt (int m)) r"
    "scan_literal (CHR ''-'' # str_of_nat m @ r) = ok (JInt (- int m)) r"
    by (simp_all add: scan_literal_def)
qed

lemma scan_literal_int:
  assumes "delim r" "length (str_of_nat (nat \<bar>n\<bar>)) \<le> max_str_digits"
  shows "scan_literal (str_of_int n @ r) = ok (JInt n) r"
  using scan_literal_nat [OF assms] by (cases "n < 0") (simp_all add: str_of_int_def)

lemma skip_ws_Cons [simp]: "\<not> is_ws c \<Longrightarrow> skip_ws (c # s) = c # s"
  by (simp add: skip_ws_def)

lemma skip_ws_space [simp]: "skip_ws (CHR '' '' # s) = skip_ws s"
  by (simp add: skip_ws_def is_ws_def)

lemma is_ws_punct [simp]:
  "\<not> is_ws (CHR 0x22)" "\<not> is_ws (CHR ''{'')" "\<not> is_ws (CHR ''}'')" "\<not> is_ws (CHR ''['')" "\<not> is_ws (CHR '']'')"
  "\<not> is_ws (CHR '','')" "\<not> is_ws (CHR '':'')"
  by (simp_all add: is_ws_def)

text \<open>The values \<open>json_dumps\<close> and \<open>json_loads\<close> agree on: no finite floats, dicts as Python has them.\<close>

fun loadable :: "json \<Rightarrow> bool" where
  "loadable (JInt n) = (length (str_of_nat (nat \<bar>n\<bar>)) \<le> max_str_digits)"
| "loadable (JFloat (Fin _ _ _)) = False"
| "loadable (JArr xs) = list_all loadable xs"
| "loadable (JObj kvs) = (distinct (map fst kvs) \<and> list_all (\<lambda>(_, v). loadable v) kvs)"
| "loadable _ = True"

lemma json_dumps_Cons:
  assumes "loadable v"
  shows "\<exists>c cs. json_dumps f v = c # cs \<and> \<not> is_ws c \<and> c \<noteq> CHR '']''"
proof -
  have d: "\<not> is_ws c \<and> c \<noteq> CHR '']''" if "is_digit c" for c
    using that by (auto simp: is_ws_def is_digit_def)
  show ?thesis
  proof (cases v)
    case (JInt n)
    then show ?thesis
      using d str_of_nat_Cons [of "nat n"] by (cases "n < 0") (auto simp: str_of_int_def is_ws_def)
  next
    case (JFloat x)
    then show ?thesis using assms by (cases x) (simp_all add: is_ws_def)
  qed (simp_all add: is_ws_def dumps_str_def)
qed

lemma skip_ws_dumps: "loadable v \<Longrightarrow> skip_ws (json_dumps f v @ r) = json_dumps f v @ r"
  using json_dumps_Cons [of v f] by auto

lemma dict_put_new: "k \<notin> fst ` set d \<Longrightarrow> dict_put k v d = d @ [(k, v)]"
  by (induction d) auto

lemma dict_of_distinct: "distinct (map fst kvs) \<Longrightarrow> dict_of kvs = kvs"
proof -
  have "distinct (map fst (d @ kvs)) \<Longrightarrow> foldl (\<lambda>d (k, v). dict_put k v d) d kvs = d @ kvs" for d
    by (induction kvs arbitrary: d) (auto simp: dict_put_new)
  from this [of "[]"] show "distinct (map fst kvs) \<Longrightarrow> dict_of kvs = kvs" by (simp add: dict_of_def)
qed

lemma join_simps [simp]:
  "join sep [x] = x" "join sep (x # y # zs) = x @ sep @ join sep (y # zs)"
  by (simp_all add: join_def)

definition reads :: "(pyfloat \<Rightarrow> string) \<Rightarrow> json \<Rightarrow> bool" where
  "reads f v \<longleftrightarrow> (\<forall>n r. 2 * length (json_dumps f v) \<le> n \<longrightarrow> delim r \<longrightarrow>
     scan_value None n (json_dumps f v @ r) = ok v r)"

lemma scan_elements_dumps:
  assumes "\<And>x. x \<in> set (y # ys) \<Longrightarrow> reads f x \<and> loadable x"
    and "2 * length (join '', '' (map (json_dumps f) (y # ys))) + 1 \<le> n"
  shows "scan_elements None n (join '', '' (map (json_dumps f) (y # ys)) @ CHR '']'' # r) = ok (y # ys) r"
  using assms
proof (induction ys arbitrary: y n)
  case Nil
  then obtain m where n: "n = Suc m" "2 * length (json_dumps f y) \<le> m" by (cases n) auto
  then show ?case using Nil.prems(1) [of y] by (simp add: reads_def)
next
  case (Cons z zs)
  let ?t = "join '', '' (map (json_dumps f) (z # zs))"
  obtain m where n: "n = Suc m" "2 * length (json_dumps f y) \<le> m" "2 * length ?t + 1 \<le> m"
    using Cons.prems(2) by (cases n) auto
  have y: "scan_value None m (json_dumps f y @ CHR '','' # CHR '' '' # ?t @ CHR '']'' # r) =
      ok y (CHR '','' # CHR '' '' # ?t @ CHR '']'' # r)"
    using Cons.prems(1) [of y] n(2) by (simp add: reads_def)
  have t: "\<exists>q. ?t = json_dumps f z @ q" by (cases zs) auto
  then have w: "skip_ws (?t @ CHR '']'' # r) = ?t @ CHR '']'' # r"
    using Cons.prems(1) [of z] skip_ws_dumps [of z f] by auto
  have "scan_elements None m (?t @ CHR '']'' # r) = ok (z # zs) r"
    using Cons.prems(1) by (intro Cons.IH n(3)) auto
  then show ?case using y w unfolding n(1) by simp
qed

abbreviation member_text :: "(pyfloat \<Rightarrow> string) \<Rightarrow> string \<times> json \<Rightarrow> string" where
  "member_text f kv \<equiv> dumps_str (fst kv) @ '': '' @ json_dumps f (snd kv)"

lemma scan_members_dumps:
  assumes "\<And>kv. kv \<in> set (y # ys) \<Longrightarrow> reads f (snd kv) \<and> loadable (snd kv)"
    and "2 * length (join '', '' (map (member_text f) (y # ys))) \<le> n"
  shows "\<exists>s. join '', '' (map (member_text f) (y # ys)) = CHR 0x22 # s \<and>
    scan_members None n (s @ CHR ''}'' # r) = ok (y # ys) r"
  using assms
proof (induction ys arbitrary: y n)
  case Nil
  obtain k v where y: "y = (k, v)" by (cases y)
  obtain m where n: "n = Suc m" "2 * length (json_dumps f v) \<le> m"
    using Nil.prems(2) y by (cases n) (auto simp: dumps_str_def)
  have v: "scan_value None m (json_dumps f v @ CHR ''}'' # r) = ok v (CHR ''}'' # r)"
    "skip_ws (json_dumps f v @ CHR ''}'' # r) = json_dumps f v @ CHR ''}'' # r"
    using Nil.prems(1) [of y] n(2) y skip_ws_dumps by (auto simp: reads_def)
  show ?case by (simp add: y n(1) dumps_str_def scan_dumps_str v)
next
  case (Cons z zs)
  obtain k v where y: "y = (k, v)" by (cases y)
  define t where "t = join '', '' (map (member_text f) (z # zs))"
  have j: "join '', '' (map (member_text f) (y # z # zs)) =
      CHR 0x22 # concat (map escape_char k) @ CHR 0x22 # CHR '':'' # CHR '' '' # json_dumps f v @ CHR '','' # CHR '' '' # t"
    by (simp add: y dumps_str_def t_def)
  obtain m where n: "n = Suc m" "2 * length (json_dumps f v) \<le> m" "2 * length t \<le> m"
    using Cons.prems(2) unfolding j by (cases n) auto
  obtain s where s: "t = CHR 0x22 # s" "scan_members None m (s @ CHR ''}'' # r) = ok (z # zs) r"
    using Cons.IH [OF _ n(3) [unfolded t_def]] Cons.prems(1) unfolding t_def by auto
  let ?r = "CHR '','' # CHR '' '' # t @ CHR ''}'' # r"
  have v: "scan_value None m (json_dumps f v @ ?r) = ok v ?r" "skip_ws (json_dumps f v @ ?r) = json_dumps f v @ ?r"
    using Cons.prems(1) [of y] n(2) y skip_ws_dumps by (auto simp: reads_def)
  have "scan_members None n (concat (map escape_char k) @ CHR 0x22 # CHR '':'' # CHR '' '' # json_dumps f v @ ?r) =
      ok (y # z # zs) r"
    using v unfolding s(1) by (simp add: n(1) y scan_dumps_str s(2))
  then show ?case unfolding j by simp
qed

lemma reads_literal:
  assumes "json_dumps f v = c # cs" "c \<noteq> CHR 0x22" "c \<noteq> CHR ''{''" "c \<noteq> CHR ''[''"
    and "\<And>r. delim r \<Longrightarrow> scan_literal (c # cs @ r) = ok v r"
  shows "reads f v"
  unfolding reads_def
proof (intro allI impI)
  fix n r assume "2 * length (json_dumps f v) \<le> n" "delim r"
  then show "scan_value None n (json_dumps f v @ r) = ok v r" using assms by (cases n) auto
qed

lemma reads_bool: "reads f (JBool b)"
  using reads_literal [of f "JBool True" "CHR ''t''" "''rue''"] reads_literal [of f "JBool False" "CHR ''f''" "''alse''"]
  by (cases b) (simp_all add: scan_literal_def literals_def)

lemma reads_null: "reads f JNull"
  using reads_literal [of f JNull "CHR ''n''" "''ull''"] by (simp add: scan_literal_def literals_def)

lemma reads_float: "loadable (JFloat x) \<Longrightarrow> reads f (JFloat x)"
  using reads_literal [of f "JFloat NaN" "CHR ''N''" "''aN''"]
    reads_literal [of f "JFloat (Inf False)" "CHR ''I''" "''nfinity''"]
    reads_literal [of f "JFloat (Inf True)" "CHR ''-''" "''Infinity''"]
  by (cases x rule: pyfloat.exhaust; cases "case x of Inf b \<Rightarrow> b | _ \<Rightarrow> True")
    (simp_all add: scan_literal_def literals_def)

lemma loadable_reads: "loadable v \<Longrightarrow> reads f v"
proof (induction v)
  case (JInt n)
  have "\<exists>c cs. str_of_int n = c # cs \<and> c \<noteq> CHR 0x22 \<and> c \<noteq> CHR ''{'' \<and> c \<noteq> CHR ''[''"
    using str_of_nat_Cons [of "nat n"] by (cases "n < 0") (auto simp: str_of_int_def is_digit_def)
  then obtain c cs where c: "str_of_int n = c # cs" "c \<noteq> CHR 0x22" "c \<noteq> CHR ''{''" "c \<noteq> CHR ''[''"
    by blast
  then show ?case
    using scan_literal_int [of _ n] JInt by (intro reads_literal [of f "JInt n" c cs]) auto
next
  case (JStr s)
  show ?case unfolding reads_def
  proof (intro allI impI)
    fix n r assume "2 * length (json_dumps f (JStr s)) \<le> n"
    then show "scan_value None n (json_dumps f (JStr s) @ r) = ok (JStr s) r"
      by (cases n) (simp_all add: dumps_str_def scan_dumps_str)
  qed
next
  case (JArr xs)
  show ?case unfolding reads_def
  proof (intro allI impI)
    fix n r assume n: "2 * length (json_dumps f (JArr xs)) \<le> n"
    then obtain m where m: "n = Suc m" by (cases n) auto
    show "scan_value None n (json_dumps f (JArr xs) @ r) = ok (JArr xs) r"
    proof (cases xs)
      case Nil
      then show ?thesis by (simp add: m join_def)
    next
      case (Cons y ys)
      have l: "list_all loadable xs" using JArr.prems by simp
      have "scan_elements None m (join '', '' (map (json_dumps f) xs) @ CHR '']'' # r) = ok xs r"
        unfolding Cons using JArr.IH l n m by (intro scan_elements_dumps) (auto simp: Cons list_all_iff)
      moreover have "\<exists>c cs. join '', '' (map (json_dumps f) xs) = c # cs \<and> \<not> is_ws c \<and> c \<noteq> CHR '']''"
        using json_dumps_Cons [of y f] l by (cases ys) (auto simp: Cons)
      ultimately show ?thesis by (auto simp: m)
    qed
  qed
next
  case (JObj kvs)
  show ?case unfolding reads_def
  proof (intro allI impI)
    fix n r assume n: "2 * length (json_dumps f (JObj kvs)) \<le> n"
    then obtain m where m: "n = Suc m" by (cases n) auto
    show "scan_value None n (json_dumps f (JObj kvs) @ r) = ok (JObj kvs) r"
    proof (cases kvs)
      case Nil
      then show ?thesis by (simp add: m join_def)
    next
      case (Cons y ys)
      have l: "reads f (snd kv) \<and> loadable (snd kv)" if "kv \<in> set kvs" for kv
        using JObj that by (cases kv) (fastforce simp: list_all_iff)
      have "\<exists>s. join '', '' (map (member_text f) (y # ys)) = CHR 0x22 # s \<and>
          scan_members None m (s @ CHR ''}'' # r) = ok (y # ys) r"
        using l n m by (intro scan_members_dumps) (auto simp: Cons)
      then show ?thesis using dict_of_distinct [of kvs] JObj.prems by (auto simp: m Cons)
    qed
  qed
qed (simp_all add: reads_null reads_bool reads_float)

section \<open>The round trip\<close>

lemma decode_printable: "list_all printable s \<Longrightarrow> decode_utf8 s = Some (Inr s)"
  by (induction s) (auto simp: printable_def simp del: printable_Char)

lemma utf8_printable: "list_all printable s \<Longrightarrow> utf8_text s"
  by (cases s; cases "tl s") (auto simp: utf8_text_def printable_def simp del: printable_Char)

lemma json_dumps_loadable: "loadable v \<Longrightarrow> json_dumps f v = json_dumps g v"
proof (induction v)
  case (JFloat x)
  then show ?case by (cases x) simp_all
next
  case (JArr xs)
  then have "map (json_dumps f) xs = map (json_dumps g) xs" by (simp add: list_all_iff)
  then show ?case by (simp only: json_dumps.simps)
next
  case (JObj kvs)
  then have "map (member_text f) kvs = map (member_text g) kvs" by (fastforce simp: list_all_iff)
  then show ?case by (simp only: json_dumps.simps)
qed simp_all

lemma json_round_trip:
  assumes "loadable v"
  shows "json_loads (json_dumps f v) = Some (Inr v)"
proof -
  have p: "list_all printable (json_dumps f v)"
    using json_dumps_printable [of "\<lambda>_. []" v] json_dumps_loadable [OF assms, of f "\<lambda>_. []"] by simp
  have "scan_value None (2 * length (json_dumps f v) + 2) (json_dumps f v @ []) = ok v []"
    using loadable_reads [OF assms, of f] unfolding reads_def by (auto simp del: scan_value.simps append_Nil2)
  moreover have "skip_ws (json_dumps f v) = json_dumps f v" using skip_ws_dumps [OF assms, of f "[]"] by simp
  ultimately show ?thesis
    by (simp add: json_loads_def json_loads_in_def utf8_printable [OF p] decode_printable [OF p] json_decode_def skip_ws_def
        del: scan_value.simps)
qed

lemma str_of_nat_length: "m < 10 ^ Suc k \<Longrightarrow> length (str_of_nat m) \<le> Suc k"
proof (induction k arbitrary: m)
  case (Suc k)
  then have "m div 10 < 10 ^ Suc k" by (simp add: less_mult_imp_div_less mult.commute)
  from Suc.IH [OF this] show ?case by (subst str_of_nat.simps) simp
next
  case 0
  then show ?case by (simp add: str_of_nat.simps [of m])
qed

section \<open>Fuel\<close>

lemma skip_ws_length: "length (skip_ws s) \<le> length s"
  by (simp add: skip_ws_def length_dropWhile_le)

lemma andthen_iff: "andthen x k = ok w t \<longleftrightarrow> (\<exists>v r. x = ok v r \<and> k v r = ok w t)"
  by (auto simp: andthen_def split: option.splits sum.splits)

lemma scan_string_step:
  assumes "scan_string (c # cs) = ok t r"
  shows "cs = r \<or> (\<exists>u. scan_string cs = ok u r) \<or> (\<exists>e es u. cs = e # es \<and> scan_string es = ok u r) \<or>
    (\<exists>e h1 h2 h3 h4 es u. cs = e # h1 # h2 # h3 # h4 # es \<and> scan_string es = ok u r)"
  using assms unfolding scan_string.simps(2) [of c cs]
  by (auto simp add: andthen_iff simp del: scan_string.simps split: if_split_asm list.split_asm option.split_asm)

lemma scan_string_shorter: "scan_string s = ok t r \<Longrightarrow> length r < length s"
proof (induction s arbitrary: t rule: length_induct)
  case (1 s)
  show ?case
  proof (cases s)
    case (Cons c cs)
    have ih: "scan_string p = ok u r \<Longrightarrow> length p < length s \<Longrightarrow> length r < length p" for p u
      using 1(1) by blast
    show ?thesis
      using scan_string_step [OF 1(2) [unfolded Cons]] unfolding Cons
      by (elim disjE exE conjE) (fastforce dest: ih simp: Cons)+
  qed (use 1 in simp)
qed

lemma scan_literal_shorter: "scan_literal s = ok v r \<Longrightarrow> length r < length s"
proof -
  have l: "find (\<lambda>(w, _). prefix w s) literals = Some (w, x) \<Longrightarrow> 0 < length w \<and> length w \<le> length s" for w x
    by (auto simp: literals_def split: if_splits dest!: prefix_length_le)
  have "int_digits u \<noteq> [] \<Longrightarrow> length (drop (length (int_digits u)) u) < length u" for u
    by (cases u) (auto simp: int_digits_def)
  then have n: "scan_number s = ok v r \<Longrightarrow> length r < length s"
    by (force simp: scan_number_def Let_def split: if_splits prod.splits)
  assume a: "scan_literal s = ok v r"
  show ?thesis
  proof (cases "find (\<lambda>(w, _). prefix w s) literals")
    case None
    then show ?thesis using a n by (simp add: scan_literal_def)
  next
    case (Some p)
    obtain w x where p: "p = (w, x)" by (cases p)
    then have "r = drop (length w) s" using a Some by (simp add: scan_literal_def)
    then show ?thesis using l [OF Some [unfolded p]] by (cases s; cases w) auto
  qed
qed

lemma skip_ws_eq: "skip_ws s = c # cs \<Longrightarrow> length cs < length s"
  using skip_ws_length [of s] by simp

definition shrinks :: "nat \<Rightarrow> 'a scan \<Rightarrow> bool" where
  "shrinks n x \<longleftrightarrow> (\<forall>v r. x = ok v r \<longrightarrow> length r < n)"

lemma shrinks_simps [simp]:
  "shrinks n (ok v r) \<longleftrightarrow> length r < n" "shrinks n (Some (Inl e))" "shrinks n None"
  by (simp_all add: shrinks_def)

lemma shrinks_andthen:
  "shrinks m x \<Longrightarrow> (\<And>v r. length r < m \<Longrightarrow> shrinks n (k v r)) \<Longrightarrow> shrinks n (andthen x k)"
  by (auto simp: shrinks_def andthen_iff)

lemma shrinks_if: "(c \<Longrightarrow> shrinks n a) \<Longrightarrow> (\<not> c \<Longrightarrow> shrinks n b) \<Longrightarrow> shrinks n (if c then a else b)"
  by simp

lemma shrinks_descend: "(\<And>l. shrinks n (k l)) \<Longrightarrow> shrinks n (descend l k)"
  by (rule descend_rule) simp_all

lemma shrinks_mono: "shrinks m x \<Longrightarrow> m \<le> n \<Longrightarrow> shrinks n x"
  by (fastforce simp: shrinks_def)

lemma shrinks_string: "shrinks (length s) (scan_string s)"
  by (simp add: shrinks_def scan_string_shorter)

lemma scan_shrinks:
  "shrinks (length s) (scan_value l n s)" "shrinks (length s) (scan_members l n s)" "shrinks (length s) (scan_elements l n s)"
proof (induction n arbitrary: l s)
  case (Suc n)
  have v: "shrinks (length u) (scan_value l n (skip_ws u))" and e: "shrinks (length u) (scan_elements l n (skip_ws u))" for u l
    by (rule shrinks_mono [OF Suc.IH(1) skip_ws_length], rule shrinks_mono [OF Suc.IH(3) skip_ws_length])
  note del = scan_string.simps
  { case 1
    have lit: "shrinks (length s) (scan_literal s)" by (simp add: shrinks_def scan_literal_shorter)
    show ?case
    proof (cases s)
      case (Cons c cs)
      have "shrinks (length s) (andthen (scan_string cs) (\<lambda>t r. ok (JStr t) r))"
        by (rule shrinks_andthen [OF shrinks_string]) (simp add: Cons)
      moreover have "shrinks (length s) (andthen (scan_members l n ds) (\<lambda>kvs r. ok (JObj (dict_of kvs)) r))"
        if "skip_ws cs = d # ds" for d ds l
        using skip_ws_eq [OF that] by (intro shrinks_andthen [OF Suc.IH(2)]) (simp add: Cons)
      moreover have "shrinks (length s) (andthen (scan_elements l n (d # ds)) (\<lambda>xs r. ok (JArr xs) r))"
        if "skip_ws cs = d # ds" for d ds l
        using skip_ws_eq [OF that] by (intro shrinks_andthen [OF Suc.IH(3)]) (simp add: Cons)
      ultimately show ?thesis
        using lit unfolding Cons scan_value.simps list.case
        by (intro shrinks_if shrinks_descend) (auto simp del: del split: list.split dest: skip_ws_eq)
    qed simp
  next
    case 2
    show ?case
      unfolding scan_members.simps
      by (intro shrinks_andthen [OF shrinks_string])
        (auto intro!: shrinks_andthen [OF v] shrinks_andthen [OF Suc.IH(2)] dest!: skip_ws_eq split: list.split)
  next
    case 3
    show ?case
      unfolding scan_elements.simps
      by (intro shrinks_andthen [OF Suc.IH(1)])
        (auto intro!: shrinks_andthen [OF e] dest!: skip_ws_eq split: list.split)
  }
qed simp_all

lemma andthen_cong:
  "x = y \<Longrightarrow> (\<And>v r. x = ok v r \<Longrightarrow> k v r = k' v r) \<Longrightarrow> andthen x k = andthen y k'"
  by (auto simp: andthen_def split: option.splits sum.splits)

lemma shrinksD: "x = ok v r \<Longrightarrow> shrinks n x \<Longrightarrow> length r < n"
  by (simp add: shrinks_def)

text \<open>More fuel than twice the text's length changes nothing.\<close>

lemma scan_fuel:
  "2 * length s + 1 \<le> n \<Longrightarrow> n \<le> m \<Longrightarrow> scan_value l m s = scan_value l n s"
  "2 * length s + 2 \<le> n \<Longrightarrow> n \<le> m \<Longrightarrow> scan_members l m s = scan_members l n s"
  "2 * length s + 2 \<le> n \<Longrightarrow> n \<le> m \<Longrightarrow> scan_elements l m s = scan_elements l n s"
proof (induction n arbitrary: l s m)
  case (Suc n)
  note w = skip_ws_length
  { case 1
    then obtain k where m: "m = Suc k" "n \<le> k" by (cases m) auto
    show ?case
    proof (cases s)
      case (Cons c cs)
      have o: "scan_members l k ds = scan_members l n ds" "scan_elements l k (d # ds) = scan_elements l n (d # ds)"
        if "skip_ws cs = d # ds" for d ds l
        using skip_ws_eq [OF that] 1 m(2) by (auto intro!: Suc.IH simp: Cons)
      show ?thesis unfolding m(1) Cons scan_value.simps list.case
        by (intro if_cong refl descend_cong) (auto simp: o split: list.split)
    qed (simp add: m(1))
  next
    case 2
    then obtain k where m: "m = Suc k" "n \<le> k" by (cases m) auto
    have v: "scan_value l k (skip_ws cs) = scan_value l n (skip_ws cs)"
      if "scan_string s = ok t r" "skip_ws r = c # cs" for t r c cs
      using skip_ws_eq [OF that(2)] scan_string_shorter [OF that(1)] 2 m(2) w [of cs] by (intro Suc.IH) auto
    have "scan_members l k es = scan_members l n es"
      if "scan_string s = ok t r" "skip_ws r = c # cs" "scan_value l n (skip_ws cs) = ok v r2" "skip_ws r2 = d # ds"
        "skip_ws ds = e # es"
      for t r c cs v r2 d ds e es
      using skip_ws_eq [OF that(2)] skip_ws_eq [OF that(4)] skip_ws_eq [OF that(5)] scan_string_shorter [OF that(1)]
        shrinksD [OF that(3) scan_shrinks(1)] 2 m(2) w [of cs] by (intro Suc.IH) auto
    then show ?case
      unfolding m(1) scan_members.simps
      by (intro andthen_cong [OF refl]) (auto intro!: andthen_cong simp: v split: list.split)
  next
    case 3
    then obtain k where m: "m = Suc k" "n \<le> k" by (cases m) auto
    have v: "scan_value l k s = scan_value l n s" using 3 m(2) by (intro Suc.IH) auto
    have "scan_elements l k (skip_ws ds) = scan_elements l n (skip_ws ds)"
      if "scan_value l n s = ok v r" "skip_ws r = d # ds" for v r d ds
      using skip_ws_eq [OF that(2)] shrinksD [OF that(1) scan_shrinks(1)] 3 m(2) w [of ds] by (intro Suc.IH) auto
    then show ?case
      unfolding m(1) scan_elements.simps v by (auto intro!: andthen_cong split: list.split)
  }
qed simp_all

lemma json_decode_fuel: "2 * length s + 2 \<le> n \<Longrightarrow> json_decode l n s = json_decode l (2 * length s + 2) s"
  using scan_fuel(1) [of "skip_ws s" "2 * length s + 2" n] skip_ws_length [of s] by (simp add: json_decode_def)

section \<open>The reader returns\<close>

text \<open>A \<open>\u\<close> escape of a code point the model has no character for, at the start of a text or anywhere in it.\<close>

definition wide_escape :: "string \<Rightarrow> bool" where
  "wide_escape s =
     (case s of
        b # u # h1 # h2 # h3 # h4 # _ \<Rightarrow>
          b = CHR 0x5C \<and> u = CHR ''u'' \<and> (case hex4 h1 h2 h3 h4 of None \<Rightarrow> False | Some n \<Rightarrow> 256 \<le> n)
      | _ \<Rightarrow> False)"

definition narrow :: "string \<Rightarrow> bool" where
  "narrow s = list_all (\<lambda>t. \<not> wide_escape t) (suffixes s)"

lemma narrow_suffix: "narrow s \<Longrightarrow> suffix r s \<Longrightarrow> narrow r"
  by (auto simp: narrow_def list_all_iff intro: suffix_order.trans)

text \<open>What a scanner leaves is a suffix of what it was given.\<close>

definition leaves_suffix :: "string \<Rightarrow> 'a scan \<Rightarrow> bool" where
  "leaves_suffix s x \<longleftrightarrow> (\<forall>v r. x = ok v r \<longrightarrow> suffix r s)"

lemma leaves_suffix_simps [simp]:
  "leaves_suffix s (ok v r) \<longleftrightarrow> suffix r s" "leaves_suffix s (Some (Inl e))" "leaves_suffix s None"
  by (simp_all add: leaves_suffix_def)

lemma leaves_suffix_andthen:
  "leaves_suffix s x \<Longrightarrow> (\<And>v r. suffix r s \<Longrightarrow> leaves_suffix s (k v r)) \<Longrightarrow> leaves_suffix s (andthen x k)"
  by (auto simp: leaves_suffix_def andthen_iff)

lemma leaves_suffix_descend: "(\<And>l. leaves_suffix s (k l)) \<Longrightarrow> leaves_suffix s (descend l k)"
  by (rule descend_rule) simp_all

lemma leaves_suffix_mono: "leaves_suffix r x \<Longrightarrow> suffix r s \<Longrightarrow> leaves_suffix s x"
  by (auto simp: leaves_suffix_def intro: suffix_order.trans)

lemma skip_ws_suffix: "suffix (skip_ws s) s"
  by (simp add: skip_ws_def suffix_dropWhile)

lemma skip_ws_tail: "skip_ws s = c # cs \<Longrightarrow> suffix s t \<Longrightarrow> suffix cs t"
  using skip_ws_suffix [of s] by (metis suffix_ConsD suffix_order.trans)

lemma scan_string_suffix: "leaves_suffix s (scan_string s)"
proof (induction s rule: length_induct)
  case (1 s)
  show ?case
  proof (cases s)
    case (Cons c cs)
    have ih: "scan_string p = ok u r \<Longrightarrow> length p < length s \<Longrightarrow> suffix r p" for p u r
      using 1 by (auto simp: leaves_suffix_def)
    have "suffix r s" if "scan_string s = ok t r" for t r
      using scan_string_step [OF that [unfolded Cons]] unfolding Cons
      by (elim disjE exE conjE) (auto intro!: suffix_ConsI intro: ih simp: Cons)
    then show ?thesis by (simp add: leaves_suffix_def)
  qed simp
qed

lemma leaves_suffix_if: "leaves_suffix s a \<Longrightarrow> leaves_suffix s b \<Longrightarrow> leaves_suffix s (if c then a else b)"
  by simp

lemma leaves_suffix_case: "(\<And>a b. leaves_suffix s (f a b)) \<Longrightarrow> leaves_suffix s (case p of (a, b) \<Rightarrow> f a b)"
  by (cases p) simp

lemma suffix_steps:
  "suffix r s \<Longrightarrow> suffix (drop n r) s" "suffix r s \<Longrightarrow> suffix (tl r) s"
  "suffix q s \<Longrightarrow> suffix r s \<Longrightarrow> suffix (if c then q else r) s"
  using suffix_order.trans [OF suffix_drop] suffix_order.trans [OF suffix_tl] by simp_all

lemma scan_number_suffix: "leaves_suffix s (scan_number s)"
  unfolding scan_number_def Let_def
  by (intro leaves_suffix_if leaves_suffix_case)
    (simp_all only: leaves_suffix_simps, (intro suffix_steps suffix_order.refl)+)

lemma scan_literal_suffix: "leaves_suffix s (scan_literal s)"
  using scan_number_suffix [of s] by (auto simp: scan_literal_def suffix_drop split: option.split)

lemma scan_suffix:
  "leaves_suffix s (scan_value l n s)" "leaves_suffix s (scan_members l n s)" "leaves_suffix s (scan_elements l n s)"
proof (induction n arbitrary: l s)
  case (Suc n)
  note ih = Suc.IH [THEN leaves_suffix_mono]
  have t: "suffix r u \<Longrightarrow> suffix (skip_ws r) u" for r u using skip_ws_suffix suffix_order.trans by blast
  { case 1
    show ?case
    proof (cases s)
      case (Cons c cs)
      have "leaves_suffix s (andthen (scan_string cs) (\<lambda>t r. ok (JStr t) r))"
        by (rule leaves_suffix_andthen [OF leaves_suffix_mono [OF scan_string_suffix]]) (simp_all add: Cons suffix_ConsI)
      moreover have "leaves_suffix s (andthen (scan_members l n ds) (\<lambda>kvs r. ok (JObj (dict_of kvs)) r)) \<and>
          leaves_suffix s (andthen (scan_elements l n (d # ds)) (\<lambda>xs r. ok (JArr xs) r)) \<and> suffix ds s"
        if "skip_ws cs = d # ds" for d ds l
      proof -
        have "suffix (d # ds) s" using skip_ws_suffix [of cs] that by (simp add: Cons suffix_ConsI)
        then show ?thesis by (auto intro!: leaves_suffix_andthen ih dest: suffix_ConsD)
      qed
      ultimately show ?thesis
        using scan_literal_suffix [of s] unfolding Cons scan_value.simps list.case
        by (intro leaves_suffix_if leaves_suffix_descend) (auto simp del: scan_string.simps split: list.split)
    qed simp
  next
    case 2
    show ?case
      unfolding scan_members.simps
      by (intro leaves_suffix_andthen [OF scan_string_suffix])
        (auto intro!: leaves_suffix_andthen ih t split: list.split; blast dest: skip_ws_tail)
  next
    case 3
    show ?case
      unfolding scan_elements.simps
      by (intro leaves_suffix_andthen [OF Suc.IH(1)])
        (auto intro!: leaves_suffix_andthen ih t split: list.split; blast dest: skip_ws_tail)
  }
qed simp_all

text \<open>A scan that is settled has a value or one of the three exceptions of \<open>json.loads\<close>: its fuel sufficed.\<close>

definition settled :: "'a scan \<Rightarrow> bool" where
  "settled x = (case x of None \<Rightarrow> False | Some (Inl e) \<Rightarrow> e \<in> {JSONDecodeError, ValueError, RecursionError} | Some (Inr _) \<Rightarrow> True)"

lemma settled_simps [simp]:
  "settled (ok v r)" "settled bad_json" "settled (Some (Inl ValueError))" "settled (Some (Inl RecursionError))"
  by (simp_all add: settled_def)

lemma settled_andthen: "settled x \<Longrightarrow> (\<And>v r. x = ok v r \<Longrightarrow> settled (k v r)) \<Longrightarrow> settled (andthen x k)"
  by (auto simp: settled_def andthen_def split: option.splits sum.splits)

lemma settled_if: "(c \<Longrightarrow> settled a) \<Longrightarrow> (\<not> c \<Longrightarrow> settled b) \<Longrightarrow> settled (if c then a else b)"
  by simp

lemma settled_descend: "(\<And>l. settled (k l)) \<Longrightarrow> settled (descend l k)"
  by (rule descend_rule) simp_all

lemma settled_string: "narrow s \<Longrightarrow> settled (scan_string s)"
proof (induction s rule: length_induct)
  case (1 s)
  show ?case
  proof (cases s)
    case (Cons c cs)
    have ih: "settled (andthen (scan_string r) (\<lambda>t q. ok (f t) q))" if "suffix r cs" for f :: "string \<Rightarrow> string" and r
    proof (rule settled_andthen)
      have "narrow r" using narrow_suffix [OF 1(2)] that by (simp add: Cons suffix_ConsI)
      moreover have "length r < length s" using suffix_length_le [OF that] by (simp add: Cons)
      ultimately show "settled (scan_string r)" using 1(1) by blast
    qed simp
    have w: "n < 256" if "c = CHR 0x5C" "cs = CHR ''u'' # h1 # h2 # h3 # h4 # r" "hex4 h1 h2 h3 h4 = Some n" for h1 h2 h3 h4 r n
      using 1(2) that by (auto simp: narrow_def wide_escape_def Cons)
    show ?thesis
      unfolding Cons scan_string.simps(2)
      by (auto simp del: scan_string.simps split: list.split option.split intro!: ih suffix_ConsI dest: w)
  qed simp
qed

lemma settled_literal: "settled (scan_literal s)"
proof -
  have "settled (scan_number s)" by (auto simp: scan_number_def Let_def split: prod.split)
  then show ?thesis by (auto simp: scan_literal_def split: option.split)
qed

lemma decode_utf8_total:
  "list_all (\<lambda>b. of_char b < (196 :: nat)) bs \<Longrightarrow> decode_utf8 bs = Some (Inl ValueError) \<or> (\<exists>s. decode_utf8 bs = Some (Inr s))"
proof (induction bs rule: length_induct)
  case (1 bs)
  have ih: "decode_utf8 r = Some (Inl ValueError) \<or> (\<exists>s. decode_utf8 r = Some (Inr s))"
    if "length r < length bs" "suffix r bs" for r
    using 1 that by (auto simp: list_all_iff dest: set_mono_suffix)
  show ?case
  proof (cases bs)
    case (Cons b cs)
    then have b: "of_char b < (196 :: nat)" using 1(2) by simp
    have 1: "decode_utf8 cs = Some (Inl ValueError) \<or> (\<exists>s. decode_utf8 cs = Some (Inr s))"
      by (rule ih) (simp_all add: Cons suffix_ConsI)
    have 2: "decode_utf8 ds = Some (Inl ValueError) \<or> (\<exists>s. decode_utf8 ds = Some (Inr s))" if "cs = c # ds" for c ds
      by (rule ih) (simp_all add: Cons that suffix_ConsI)
    show ?thesis
      unfolding Cons decode_utf8.simps Let_def using 1 b
      by (auto simp del: decode_utf8.simps split: list.split dest: 2)
  qed simp
qed

lemma scan_settled:
  "narrow s \<Longrightarrow> 2 * length s + 1 \<le> n \<Longrightarrow> settled (scan_value l n s)"
  "narrow s \<Longrightarrow> 2 * length s + 2 \<le> n \<Longrightarrow> settled (scan_members l n s)"
  "narrow s \<Longrightarrow> 2 * length s + 2 \<le> n \<Longrightarrow> settled (scan_elements l n s)"
proof (induction n arbitrary: l s)
  case (Suc n)
  note w = skip_ws_length
  { case 1
    show ?case
    proof (cases s)
      case (Cons c cs)
      have "settled (andthen (scan_string cs) (\<lambda>t r. ok (JStr t) r))"
        using narrow_suffix [OF 1(1), of cs] by (intro settled_andthen settled_string) (simp_all add: Cons suffix_ConsI)
      moreover have "settled (andthen (scan_members l n ds) (\<lambda>kvs r. ok (JObj (dict_of kvs)) r)) \<and>
          settled (andthen (scan_elements l n (d # ds)) (\<lambda>xs r. ok (JArr xs) r))" if e: "skip_ws cs = d # ds" for d ds l
      proof -
        have "suffix (d # ds) s" using skip_ws_suffix [of cs] e by (simp add: Cons suffix_ConsI)
        then have "narrow (d # ds)" "narrow ds"
          by (rule narrow_suffix [OF 1(1)], rule narrow_suffix [OF 1(1) suffix_ConsD])
        moreover have "2 * length ds + 2 \<le> n" "2 * length (d # ds) + 2 \<le> n"
          using skip_ws_eq [OF e] w [of cs] 1(2) e by (simp_all add: Cons)
        ultimately show ?thesis using Suc.IH by (auto intro!: settled_andthen)
      qed
      ultimately show ?thesis
        using settled_literal [of s] unfolding Cons scan_value.simps list.case
        by (intro settled_if settled_descend) (auto simp del: scan_string.simps split: list.split)
    qed simp
  next
    case 2
    have v: "settled (scan_value l n (skip_ws cs))" if e: "scan_string s = ok t r" "skip_ws r = c # cs" for t r c cs
    proof (rule Suc.IH)
      have "suffix r s" using scan_string_suffix [of s] e(1) by (simp add: leaves_suffix_def)
      then have "suffix (skip_ws cs) s" using skip_ws_tail [OF e(2)] skip_ws_suffix suffix_order.trans by blast
      then show "narrow (skip_ws cs)" by (rule narrow_suffix [OF 2(1)])
      show "2 * length (skip_ws cs) + 1 \<le> n"
        using scan_string_shorter [OF e(1)] skip_ws_eq [OF e(2)] w [of cs] 2(2) by simp
    qed
    have m: "settled (scan_members l n es)"
      if e: "scan_string s = ok t r" "skip_ws r = c # cs" "scan_value l n (skip_ws cs) = ok v r2" "skip_ws r2 = d # ds"
        "skip_ws ds = q # es" for t r c cs v r2 d ds q es
    proof (rule Suc.IH)
      have "suffix r s" using scan_string_suffix [of s] e(1) by (simp add: leaves_suffix_def)
      then have "suffix (skip_ws cs) s" using skip_ws_tail [OF e(2)] skip_ws_suffix suffix_order.trans by blast
      then have "suffix r2 s" using scan_suffix(1) [of "skip_ws cs" l n] e(3) suffix_order.trans by (auto simp: leaves_suffix_def)
      then have "suffix es s" using skip_ws_tail [OF e(5)] skip_ws_tail [OF e(4)] by blast
      then show "narrow es" by (rule narrow_suffix [OF 2(1)])
      show "2 * length es + 2 \<le> n"
        using scan_string_shorter [OF e(1)] skip_ws_eq [OF e(2)] skip_ws_eq [OF e(4)] skip_ws_eq [OF e(5)]
          shrinksD [OF e(3) scan_shrinks(1)] w [of cs] 2(2) by simp
    qed
    show ?case
      unfolding scan_members.simps
      by (intro settled_andthen settled_string 2(1)) (auto intro!: settled_andthen v m split: list.split)
  next
    case 3
    have v: "settled (scan_value l n s)" using 3 by (intro Suc.IH) auto
    have m: "settled (scan_elements l n (skip_ws ds))" if e: "scan_value l n s = ok v r" "skip_ws r = d # ds" for v r d ds
    proof (rule Suc.IH)
      have "suffix r s" using scan_suffix(1) [of s l n] e(1) by (simp add: leaves_suffix_def)
      then have "suffix (skip_ws ds) s" using skip_ws_tail [OF e(2)] skip_ws_suffix suffix_order.trans by blast
      then show "narrow (skip_ws ds)" by (rule narrow_suffix [OF 3(1)])
      show "2 * length (skip_ws ds) + 2 \<le> n"
        using shrinksD [OF e(1) scan_shrinks(1)] skip_ws_eq [OF e(2)] w [of ds] 3(2) by simp
    qed
    show ?case
      unfolding scan_elements.simps by (intro settled_andthen v) (auto intro!: settled_andthen m split: list.split)
  }
qed simp_all

lemma json_decode_settled:
  assumes "narrow s" "2 * length s + 2 \<le> n"
  shows "\<exists>r. json_decode l n s = Some r \<and> (\<forall>e. r = Inl e \<longrightarrow> e \<in> {JSONDecodeError, ValueError, RecursionError})"
proof -
  have "settled (scan_value l n (skip_ws s))"
    using assms skip_ws_length [of s] by (intro scan_settled narrow_suffix [OF assms(1) skip_ws_suffix]) simp
  then show ?thesis by (auto simp: settled_def json_decode_def split: option.splits sum.splits)
qed

section \<open>The recursion limit\<close>

text \<open>A limit changes a result only into a \<open>RecursionError\<close>.\<close>

definition unless_deep :: "'a scan \<Rightarrow> 'a scan \<Rightarrow> bool" where
  "unless_deep x y \<longleftrightarrow> x = Some (Inl RecursionError) \<or> x = y"

lemma unless_deep_simps [simp]: "unless_deep x x" "unless_deep (Some (Inl RecursionError)) y"
  by (simp_all add: unless_deep_def)

lemma unless_deep_andthen:
  "unless_deep x y \<Longrightarrow> (\<And>v r. unless_deep (k v r) (k' v r)) \<Longrightarrow> unless_deep (andthen x k) (andthen y k')"
  by (auto simp: unless_deep_def andthen_def split: option.splits sum.splits)

lemma unless_deep_descend: "(\<And>l. unless_deep (k l) (k' None)) \<Longrightarrow> unless_deep (descend l k) (descend None k')"
  by (auto simp: descend_def split: option.split nat.split)

lemma unless_deep_if:
  "(c \<Longrightarrow> unless_deep a a') \<Longrightarrow> (\<not> c \<Longrightarrow> unless_deep b b') \<Longrightarrow> unless_deep (if c then a else b) (if c then a' else b')"
  by simp

lemma unless_deep_list:
  "(\<And>d ds. unless_deep (f d ds) (f' d ds)) \<Longrightarrow>
   unless_deep (case xs of [] \<Rightarrow> bad_json | d # ds \<Rightarrow> f d ds) (case xs of [] \<Rightarrow> bad_json | d # ds \<Rightarrow> f' d ds)"
  by (cases xs) simp_all

lemma scan_unless_deep:
  "unless_deep (scan_value l n s) (scan_value None n s)"
  "unless_deep (scan_members l n s) (scan_members None n s)"
  "unless_deep (scan_elements l n s) (scan_elements None n s)"
proof (induction n arbitrary: l s)
  case (Suc n)
  note steps = unless_deep_if unless_deep_list unless_deep_descend unless_deep_andthen unless_deep_simps(1) Suc.IH
  { case 1 show ?case unfolding scan_value.simps by (intro steps)
  next
    case 2 show ?case unfolding scan_members.simps by (intro steps)
  next
    case 3 show ?case unfolding scan_elements.simps by (intro steps)
  }
qed simp_all

lemma json_decode_unless_deep: "json_decode l n s = Some (Inl RecursionError) \<or> json_decode l n s = json_decode None n s"
  using scan_unless_deep(1) [of l n "skip_ws s"] by (auto simp: unless_deep_def json_decode_def)

text \<open>It takes more opening braces and brackets than the limit.\<close>

definition openings :: "string \<Rightarrow> nat" where
  "openings s = length (filter (\<lambda>c. c = CHR ''{'' \<or> c = CHR ''['') s)"

lemma openings_suffix: "suffix r s \<Longrightarrow> openings r \<le> openings s"
  by (auto simp: openings_def suffix_def)

definition deep :: "nat option \<Rightarrow> string \<Rightarrow> 'a scan \<Rightarrow> bool" where
  "deep l s x \<longleftrightarrow> (x = Some (Inl RecursionError) \<longrightarrow> (\<exists>d. l = Some d \<and> d < openings s))"

lemma deep_simps [simp]: "deep l s (ok v r)" "deep l s bad_json" "deep l s None" "deep l s (Some (Inl ValueError))"
  by (simp_all add: deep_def)

lemma deep_mono: "deep l r x \<Longrightarrow> suffix r s \<Longrightarrow> deep l s x"
  using openings_suffix [of r s] by (auto simp: deep_def)

lemma deep_andthen: "deep l s x \<Longrightarrow> (\<And>v r. x = ok v r \<Longrightarrow> deep l s (k v r)) \<Longrightarrow> deep l s (andthen x k)"
  by (auto simp: deep_def andthen_def split: option.splits sum.splits)

lemma deep_descend:
  assumes "\<And>l. deep l cs (k l)" "c = CHR ''{'' \<or> c = CHR ''[''"
  shows "deep l (c # cs) (descend l k)"
proof (cases l)
  case (Some d)
  have "openings (c # cs) = Suc (openings cs)" using assms(2) by (auto simp: openings_def)
  then show ?thesis using assms(1) Some by (cases d) (auto simp: deep_def)
qed (use assms(1) in \<open>auto simp: deep_def\<close>)

lemma deep_if: "(c \<Longrightarrow> deep l s a) \<Longrightarrow> (\<not> c \<Longrightarrow> deep l s b) \<Longrightarrow> deep l s (if c then a else b)"
  by simp

lemma deep_case:
  "(\<And>d ds. skip_ws r = d # ds \<Longrightarrow> deep l s (f d ds)) \<Longrightarrow> deep l s (case skip_ws r of [] \<Rightarrow> bad_json | d # ds \<Rightarrow> f d ds)"
  by (cases "skip_ws r") simp_all

lemma deep_string: "deep l s (scan_string t)"
proof (induction t rule: length_induct)
  case (1 t)
  show ?case
  proof (cases t)
    case (Cons c cs)
    have ih: "deep l s (andthen (scan_string r) (\<lambda>t q. ok (f t) q))" if "suffix r cs" for f :: "string \<Rightarrow> string" and r
      using 1 suffix_length_le [OF that] by (intro deep_andthen) (auto simp: Cons)
    show ?thesis
      unfolding Cons scan_string.simps(2)
      by (auto simp del: scan_string.simps split: list.split option.split intro!: ih suffix_ConsI)
  qed simp
qed

lemma deep_literal: "deep l s (scan_literal t)"
proof -
  have "deep l s (scan_number t)" by (auto simp: scan_number_def Let_def split: prod.split)
  then show ?thesis by (auto simp: scan_literal_def split: option.split)
qed

lemma scan_deep:
  "deep l s (scan_value l n s)" "deep l s (scan_members l n s)" "deep l s (scan_elements l n s)"
proof (induction n arbitrary: l s)
  case (Suc n)
  note ih = Suc.IH [THEN deep_mono]
  have left: "suffix r t" if "x = ok v r" "leaves_suffix t x" for x :: "'a scan" and v r t
    using that by (simp add: leaves_suffix_def)
  have t: "suffix r u \<Longrightarrow> suffix (skip_ws r) u" for r u using skip_ws_suffix suffix_order.trans by blast
  { case 1
    show ?case
    proof (cases s)
      case (Cons c cs)
      have sub: "suffix (d # ds) cs \<and> suffix ds cs" if "skip_ws cs = d # ds" for d ds
        using skip_ws_suffix [of cs] that by (auto dest: suffix_ConsD)
      show ?thesis
        unfolding Cons scan_value.simps list.case
        by (intro deep_if deep_descend deep_case)
          (auto intro!: deep_andthen ih(2,3) deep_string deep_literal dest: sub simp del: scan_string.simps)
    qed simp
  next
    case 2
    have v: "deep l s (scan_value l n (skip_ws cs))" if "scan_string s = ok k r" "skip_ws r = c # cs" for k r c cs
      using ih(1) t skip_ws_tail [OF that(2) left [OF that(1) scan_string_suffix]] by blast
    have m: "deep l s (scan_members l n ds)"
      if "scan_string s = ok k r" "skip_ws r = c # cs" "scan_value l n (skip_ws cs) = ok v q" "skip_ws q = d # es" "skip_ws es = e # ds"
      for k r c cs v q d es e ds
    proof -
      have "suffix cs s" using skip_ws_tail [OF that(2) left [OF that(1) scan_string_suffix]] .
      then have "suffix q s" using left [OF that(3) scan_suffix(1)] t suffix_order.trans by blast
      then have "suffix ds s" using skip_ws_tail [OF that(5)] skip_ws_tail [OF that(4)] by blast
      then show ?thesis by (rule ih(2))
    qed
    show ?case
      unfolding scan_members.simps
      by (intro deep_andthen deep_string deep_if deep_case deep_simps) (auto intro: v m)
  next
    case 3
    have m: "deep l s (scan_elements l n (skip_ws cs))" if "scan_value l n s = ok v r" "skip_ws r = c # cs" for v r c cs
      using ih(3) t skip_ws_tail [OF that(2) left [OF that(1) scan_suffix(1)]] by blast
    show ?case
      unfolding scan_elements.simps
      by (intro deep_andthen Suc.IH(1) deep_if deep_case deep_simps) (auto intro: m)
  }
qed simp_all

lemma json_decode_deep:
  assumes "json_decode (Some d) n s = Some (Inl RecursionError)"
  shows "d < openings s"
proof -
  have "scan_value (Some d) n (skip_ws s) = Some (Inl RecursionError)"
    using assms by (auto simp: json_decode_def split: option.splits sum.splits if_splits)
  then show ?thesis using scan_deep(1) [of "Some d" "skip_ws s" n] openings_suffix [OF skip_ws_suffix, of s] by (simp add: deep_def)
qed

lemma decode_openings: "decode_utf8 bs = Some (Inr s) \<Longrightarrow> openings s \<le> openings bs"
proof (induction bs arbitrary: s rule: length_induct)
  case (1 bs)
  show ?case
  proof (cases bs)
    case (Cons b cs)
    have skip: "openings r \<le> openings (b # r)" for b r by (simp add: openings_def)
    have wide: "openings (char_of (64 * (k - 192) + m) # r) = openings r" if "194 \<le> k" "k < 196" "m < 64" for k m :: nat and r
    proof -
      have "of_char (char_of (64 * (k - 192) + m) :: char) = 64 * (k - 192) + m" using that by (simp add: take_bit_eq_mod)
      then have "char_of (64 * (k - 192) + m) \<noteq> CHR ''{''" "char_of (64 * (k - 192) + m) \<noteq> CHR ''[''"
        using that by (auto dest: arg_cong [of _ _ "of_char :: char \<Rightarrow> nat"])
      then show ?thesis by (simp add: openings_def)
    qed
    have push: "x = Some (Inr t) \<and> s = c # t"
      if "map_option (map_sum id ((#) c)) x = Some (Inr s)" "tl s = t" for x :: "(exn + string) option" and c t
      using that by (cases x; cases "the x") auto
    consider
        (one) t where "decode_utf8 cs = Some (Inr t)" "s = b # t"
      | (two) c ds t k m where "cs = c # ds" "decode_utf8 ds = Some (Inr t)" "s = char_of (64 * (k - 192) + m) # t"
          "194 \<le> k" "k < 196" "m < (64 :: nat)"
    proof (cases "of_char b < (128 :: nat)")
      case True
      from 1(2) True have "map_option (map_sum id ((#) b)) (decode_utf8 cs) = Some (Inr s)"
        unfolding Cons decode_utf8.simps(2) Let_def by (simp only: if_True)
      then show ?thesis using one push by blast
    next
      case False
      then obtain c ds where c: "cs = c # ds" "194 \<le> (of_char b :: nat)" "of_char b < (196 :: nat)"
          "128 \<le> (of_char c :: nat)" "of_char c < (192 :: nat)"
          "map_option (map_sum id ((#) (char_of (64 * (of_char b - 192) + (of_char c - 128) :: nat)))) (decode_utf8 ds) = Some (Inr s)"
        using 1(2) unfolding Cons decode_utf8.simps(2) Let_def
        by (auto simp del: decode_utf8.simps simp: not_less not_le split: if_splits list.splits)
      moreover have "of_char c - 128 < (64 :: nat)" using c(4,5) by linarith
      ultimately show ?thesis using two push by blast
    qed
    then show ?thesis
    proof cases
      case one
      then show ?thesis using 1(1) Cons by (auto simp: openings_def)
    next
      case two
      then have "openings t \<le> openings ds" using 1(1) Cons by simp
      then show ?thesis using wide [OF two(4-6), of t] skip [of ds] skip [of cs] two(1,3) Cons by (metis order_trans)
    qed
  qed (use 1 in \<open>simp add: openings_def\<close>)
qed

text \<open>And the limit is exact: one bracket more than it allows is enough.\<close>

lemma scan_brackets: "2 * d + 1 \<le> n \<Longrightarrow> scan_value (Some d) n (replicate (Suc d) (CHR ''['')) = Some (Inl RecursionError)"
proof (induction d arbitrary: n)
  case 0
  then show ?case by (cases n) simp_all
next
  case (Suc d)
  then obtain m where n: "n = Suc (Suc m)" "2 * d + 1 \<le> m" by (cases n; cases "n - 1") auto
  from Suc.IH [OF n(2)] show ?case by (simp add: n(1))
qed

lemma json_loads_brackets: "json_loads_in (Some d) (replicate (Suc d) (CHR ''['')) = Some (Inl RecursionError)"
proof -
  let ?s = "replicate (Suc d) (CHR ''['')"
  have p: "list_all printable ?s" by (simp add: list_all_iff printable_def)
  have "skip_ws ?s = ?s" by simp
  then show ?thesis
    using scan_brackets [of d "2 * length ?s + 2"]
    by (simp add: json_loads_in_def utf8_printable [OF p] decode_printable [OF p] json_decode_def del: replicate_Suc scan_value.simps)
qed

end
