(* ===== verification/Simulator.thy ===== *)
theory Simulator
  imports Prelude Complex_Main
begin

text \<open>
  \<open>deploy/scripts/modbus_simulator.py\<close>: a Modbus slave that stands in for the gas sensors. \<open>rnd\<close> is
  the rounding of a float operation and \<open>sine\<close> is \<open>math.sin\<close>, both arguments; a float is its exact
  rational value. The loop is its list of turns, each with the time since the start and the three
  random integers. The data block and the calls on the slave's store are what \<open>pymodbus\<close> is given.
\<close>

record sim_args =
  sa_port :: string
  sa_baud :: int
  sa_slave_id :: int
  sa_update_interval :: rat
  sa_reg_count :: nat

definition default_args :: "string \<Rightarrow> sim_args" where
  "default_args port = \<lparr>sa_port = port, sa_baud = 9600, sa_slave_id = 1, sa_update_interval = 2, sa_reg_count = 10\<rparr>"

text \<open>One slave for every address: \<open>single=True\<close>.\<close>

record modbus_context =
  mc_holding :: "int list"
  mc_single :: bool

definition make_context :: "nat \<Rightarrow> modbus_context" where
  "make_context reg_count = \<lparr>mc_holding = replicate reg_count 0, mc_single = True\<rparr>"

text \<open>\<open>int(x)\<close> cuts the fraction off.\<close>

definition int_of_float :: "rat \<Rightarrow> int" where
  "int_of_float x = (if x < 0 then - \<lfloor>- x\<rfloor> else \<lfloor>x\<rfloor>)"

text \<open>\<open>int(base + swing * math.sin(t / period) + noise)\<close>, every operation rounded.\<close>

definition wave :: "(rat \<Rightarrow> rat) \<Rightarrow> (rat \<Rightarrow> rat) \<Rightarrow> rat \<Rightarrow> rat \<Rightarrow> rat \<Rightarrow> rat \<Rightarrow> int \<Rightarrow> int" where
  "wave rnd sine base swing period t noise =
     int_of_float (rnd (rnd (base + rnd (swing * sine (rnd (t / period)))) + of_int noise))"

record turn =
  tu_t :: rat
  tu_nh3 :: int
  tu_h2s :: int
  tu_co2 :: int

text \<open>What one turn writes, from register 0 on.\<close>

definition registers :: "(rat \<Rightarrow> rat) \<Rightarrow> (rat \<Rightarrow> rat) \<Rightarrow> turn \<Rightarrow> int list" where
  "registers rnd sine u =
     [wave rnd sine 250 50 60 (tu_t u) (tu_nh3 u),
      wave rnd sine 100 50 90 (tu_t u) (tu_h2s u),
      wave rnd sine 1150 350 120 (tu_t u) (tu_co2 u)]"

text \<open>The values of \<open>random.randint\<close>.\<close>

definition turn_ok :: "turn \<Rightarrow> bool" where
  "turn_ok u = (\<bar>tu_nh3 u\<bar> \<le> 5 \<and> \<bar>tu_h2s u\<bar> \<le> 3 \<and> \<bar>tu_co2 u\<bar> \<le> 10)"

text \<open>The calls of \<open>setValues\<close>: function code, first register, values.\<close>

type_synonym register_write = "nat \<times> nat \<times> int list"

definition update_once :: "(rat \<Rightarrow> rat) \<Rightarrow> (rat \<Rightarrow> rat) \<Rightarrow> turn \<Rightarrow> register_write" where
  "update_once rnd sine u = (3, 0, registers rnd sine u)"

fun update_loop :: "(rat \<Rightarrow> rat) \<Rightarrow> (rat \<Rightarrow> rat) \<Rightarrow> turn list \<Rightarrow> register_write list" where
  "update_loop rnd sine [] = []"
| "update_loop rnd sine (u # us) = update_once rnd sine u # update_loop rnd sine us"

datatype sim_event =
    Starting string int int
  | Updating rat
  | Serve string int int string int

text \<open>\<open>main\<close>: the slave id reaches the message it prints and nothing else.\<close>

definition sim_main :: "sim_args \<Rightarrow> modbus_context \<times> sim_event list" where
  "sim_main a =
     (make_context (sa_reg_count a),
      [Starting (sa_port a) (sa_baud a) (sa_slave_id a), Updating (sa_update_interval a),
       Serve (sa_port a) (sa_baud a) 8 ''N'' 1])"

section \<open>Bounds\<close>

text \<open>What the proof uses of binary64 rounding and of \<open>math.sin\<close>.\<close>

definition float_like :: "(rat \<Rightarrow> rat) \<Rightarrow> (rat \<Rightarrow> rat) \<Rightarrow> bool" where
  "float_like rnd sine \<longleftrightarrow>
     mono rnd \<and> (\<forall>n :: int. \<bar>n\<bar> \<le> 2 ^ 53 \<longrightarrow> rnd (of_int n) = of_int n) \<and> (\<forall>x. \<bar>sine x\<bar> \<le> 1)"

lemma rnd_between:
  assumes "float_like rnd sine" "of_int a \<le> x" "x \<le> of_int b" "\<bar>a\<bar> \<le> 2 ^ 53" "\<bar>b\<bar> \<le> 2 ^ 53"
  shows "of_int a \<le> rnd x \<and> rnd x \<le> of_int b"
proof -
  have m: "mono rnd" and f: "rnd (of_int a) = of_int a" "rnd (of_int b) = of_int b"
    using assms(1,4,5) by (auto simp: float_like_def)
  show ?thesis using monoD [OF m assms(2)] monoD [OF m assms(3)] f by simp
qed

lemma int_of_float_between: "of_int a \<le> x \<Longrightarrow> x \<le> of_int b \<Longrightarrow> 0 \<le> a \<Longrightarrow> a \<le> int_of_float x \<and> int_of_float x \<le> b"
proof -
  assume x: "of_int a \<le> x" "x \<le> of_int b" "0 \<le> a"
  then have "\<not> x < 0" by (meson leD of_int_0_le_iff order_trans)
  with x show ?thesis by (simp add: int_of_float_def le_floor_iff floor_le_iff)
qed

lemma wave_bounds:
  assumes f: "float_like rnd sine" and n: "\<bar>noise\<bar> \<le> k"
    and b: "0 \<le> swing" "swing + k \<le> base" "base + swing + k \<le> 2 ^ 53"
  shows "base - swing - k \<le> wave rnd sine (of_int base) (of_int swing) period t noise \<and>
    wave rnd sine (of_int base) (of_int swing) period t noise \<le> base + swing + k"
proof -
  define s where "s = sine (rnd (t / period))"
  have s: "- 1 \<le> s" "s \<le> 1" using f by (auto simp: s_def float_like_def abs_le_iff minus_le_iff)
  have k: "0 \<le> k" "- k \<le> noise" "noise \<le> k" using n by auto
  define x where "x = rnd (of_int swing * s)"
  have "of_int (- swing) \<le> of_int swing * s" "of_int swing * s \<le> of_int swing"
    using mult_left_mono [OF s(1), of "of_int swing"] mult_left_mono [OF s(2), of "of_int swing"] b(1) by simp_all
  then have x: "of_int (- swing) \<le> x" "x \<le> of_int swing"
    using rnd_between [OF f, of "- swing" "of_int swing * s" swing] b k by (auto simp: x_def)
  define y where "y = rnd (of_int base + x)"
  have y: "of_int (base - swing) \<le> y" "y \<le> of_int (base + swing)"
    using rnd_between [OF f, of "base - swing" "of_int base + x" "base + swing"] x b k by (auto simp: y_def)
  have "of_int (- k) \<le> (of_int noise :: rat)" "(of_int noise :: rat) \<le> of_int k"
    using k by (simp_all only: of_int_le_iff)
  then have z: "of_int (base - swing - k) \<le> y + of_int noise" "y + of_int noise \<le> of_int (base + swing + k)"
    using y by simp_all
  have "of_int (base - swing - k) \<le> rnd (y + of_int noise) \<and> rnd (y + of_int noise) \<le> of_int (base + swing + k)"
    using b k by (intro rnd_between [OF f z]) auto
  then show ?thesis
    unfolding wave_def s_def [symmetric] x_def [symmetric] y_def [symmetric]
    using int_of_float_between [of "base - swing - k" "rnd (y + of_int noise)" "base + swing + k"] b by simp
qed

lemma update_loop_map: "update_loop rnd sine us = map (update_once rnd sine) us"
  by (induction us) auto

end
