(* ===== verification/PlanXml.thy ===== *)
theory PlanXml
  imports PlanHwpx
begin

text \<open>
  The file \<open>build_plan_hwpx.py\<close> writes: the XML templates its helpers append, the fixed first
  paragraph, and the assembly. \<open>well_nested\<close> reads the tags of a text back; the last section shows
  that every file the builder can produce is well nested, whatever texts it is given.
\<close>

section \<open>Templates\<close>

definition num :: "nat \<Rightarrow> utext" where
  "num n = ascii (str_of_nat n)"

definition inum :: "int \<Rightarrow> utext" where
  "inum n = ascii (str_of_int n)"

fun join_lines :: "utext list \<Rightarrow> utext" where
  "join_lines [] = []"
| "join_lines [l] = l"
| "join_lines (l # ls) = l @ [10] @ join_lines ls"

text \<open>The text element of a paragraph: empty for a blank line.\<close>

fun text_xml :: "utext option \<Rightarrow> utext" where
  "text_xml None = ascii ''<hp:t/>''"
| "text_xml (Some safe) = ascii ''<hp:t>'' @ safe @ ascii ''</hp:t>''"

definition para_xml :: "nat \<Rightarrow> nat \<Rightarrow> nat \<Rightarrow> utext option \<Rightarrow> utext" where
  \<open>para_xml i par chr body =
    ascii ''  <hp:p id="'' @ num i @ ascii ''" paraPrIDRef="'' @ num par @
    ascii ''" styleIDRef="0" pageBreak="0" columnBreak="0" merged="0">'' @ [10] @
    ascii ''    <hp:run charPrIDRef="'' @ num chr @ ascii ''">'' @ text_xml body @ ascii ''</hp:run>'' @ [10] @
    ascii ''  </hp:p>'' @ [10]\<close>

definition render_cell :: "cell \<Rightarrow> utext" where
  \<open>render_cell c =
    ascii ''        <hp:tc name="" header="0" hasMargin="0" protect="0" editable="0" dirty="1" borderFillIDRef="'' @
    num (ce_border c) @
    ascii ''"><hp:subList id="" textDirection="HORIZONTAL" lineWrap="BREAK" vertAlign="CENTER" linkListIDRef="0" linkListNextIDRef="0" textWidth="0" textHeight="0" hasTextRef="0" hasNumRef="0"><hp:p paraPrIDRef="'' @
    num (ce_para c) @ ascii ''" styleIDRef="0" pageBreak="0" columnBreak="0" merged="0" id="'' @ num (ce_id c) @
    ascii ''"><hp:run charPrIDRef="'' @ num (ce_char c) @ ascii ''"><hp:t>'' @ ce_text c @
    ascii ''</hp:t></hp:run></hp:p></hp:subList><hp:cellAddr colAddr="'' @ num (ce_col c) @ ascii ''" rowAddr="'' @
    num (ce_row c) @ ascii ''"/><hp:cellSpan colSpan="1" rowSpan="1"/><hp:cellSz width="'' @ inum (ce_width c) @
    ascii ''" height="'' @ inum (ce_height c) @
    ascii ''"/><hp:cellMargin left="141" right="141" top="141" bottom="141"/></hp:tc>''\<close>

definition render_row :: "cell list \<Rightarrow> utext" where
  \<open>render_row cs = join_lines ([ascii ''      <hp:tr>''] @ map render_cell cs @ [ascii ''      </hp:tr>''])\<close>

definition render_table :: "table \<Rightarrow> utext" where
  \<open>render_table t =
    ascii ''  <hp:p id="'' @ num (ta_wrap_id t) @
    ascii ''" paraPrIDRef="0" styleIDRef="0" pageBreak="0" columnBreak="0" merged="0">'' @ [10] @
    ascii ''    <hp:run charPrIDRef="0">'' @ [10] @
    ascii ''      <hp:tbl id="'' @ num (ta_id t) @
    ascii ''" zOrder="0" numberingType="TABLE" textWrap="TOP_AND_BOTTOM" textFlow="BOTH_SIDES" lock="0" dropcapstyle="None" pageBreak="CELL" repeatHeader="1" rowCnt="'' @
    num (ta_row_cnt t) @ ascii ''" colCnt="'' @ num (ta_col_cnt t) @ ascii ''" cellSpacing="0" borderFillIDRef="'' @
    num BORDER_TBL @ ascii ''" noAdjust="0">'' @ [10] @
    ascii ''        <hp:sz width="'' @ inum (ta_width t) @ ascii ''" widthRelTo="ABSOLUTE" height="'' @
    inum (ta_height t) @ ascii ''" heightRelTo="ABSOLUTE" protect="0"/>'' @ [10] @
    ascii ''        <hp:pos treatAsChar="1" affectLSpacing="0" flowWithText="1" allowOverlap="0" holdAnchorAndSO="0" vertRelTo="PARA" horzRelTo="COLUMN" vertAlign="TOP" horzAlign="LEFT" vertOffset="0" horzOffset="0"/>'' @ [10] @
    ascii ''        <hp:outMargin left="0" right="0" top="0" bottom="0"/>'' @ [10] @
    ascii ''        <hp:inMargin left="141" right="141" top="141" bottom="141"/>'' @ [10] @
    join_lines (map render_row (ta_rows t)) @ [10] @
    ascii ''      </hp:tbl>'' @ [10] @
    ascii ''    </hp:run>'' @ [10] @
    ascii ''  </hp:p>'' @ [10]\<close>

fun render :: "chunk \<Rightarrow> utext" where
  "render (Para i par chr body) = para_xml i par chr body"
| "render (Table t) = render_table t"

section \<open>The file\<close>

definition XML_HEAD :: utext where
  \<open>XML_HEAD = concat (map (\<lambda>l. l @ [10])
    [ascii ''<?xml version='1.0' encoding='UTF-8'?>'',
     ascii ''<hs:sec xmlns:hp="http://www.hancom.co.kr/hwpml/2011/paragraph" xmlns:hs="http://www.hancom.co.kr/hwpml/2011/section" xmlns:ha="http://www.hancom.co.kr/hwpml/2011/app" xmlns:hp10="http://www.hancom.co.kr/hwpml/2016/paragraph" xmlns:hc="http://www.hancom.co.kr/hwpml/2011/core" xmlns:hh="http://www.hancom.co.kr/hwpml/2011/head" xmlns:hhs="http://www.hancom.co.kr/hwpml/2011/history" xmlns:hm="http://www.hancom.co.kr/hwpml/2011/master-page" xmlns:hpf="http://www.hancom.co.kr/schema/2011/hpf" xmlns:dc="http://purl.org/dc/elements/1.1/" xmlns:opf="http://www.idpf.org/2007/opf/" xmlns:ooxmlchart="http://www.hancom.co.kr/hwpml/2016/ooxmlchart" xmlns:hwpunitchar="http://www.hancom.co.kr/hwpml/2016/HwpUnitChar" xmlns:epub="http://www.idpf.org/2007/ops" xmlns:config="urn:oasis:names:tc:opendocument:xmlns:config:1.0">''])\<close>

definition SEC_FIRST :: utext where
  \<open>SEC_FIRST = concat (map (\<lambda>l. l @ [10])
    [ascii ''  <hp:p id="1000000001" paraPrIDRef="0" styleIDRef="0" pageBreak="0" columnBreak="0" merged="0">'',
     ascii ''    <hp:run charPrIDRef="0">'',
     ascii ''      <hp:secPr id="" textDirection="HORIZONTAL" spaceColumns="1134" tabStop="8000" tabStopVal="4000" tabStopUnit="HWPUNIT" outlineShapeIDRef="1" memoShapeIDRef="0" textVerticalWidthHead="0" masterPageCnt="0">'',
     ascii ''        <hp:grid lineGrid="0" charGrid="0" wonggojiFormat="0"/>'',
     ascii ''        <hp:startNum pageStartsOn="BOTH" page="0" pic="0" tbl="0" equation="0"/>'',
     ascii ''        <hp:visibility hideFirstHeader="0" hideFirstFooter="0" hideFirstMasterPage="0" border="SHOW_ALL" fill="SHOW_ALL" hideFirstPageNum="0" hideFirstEmptyLine="0" showLineNumber="0"/>'',
     ascii ''        <hp:lineNumberShape restartType="0" countBy="0" distance="0" startNumber="0"/>'',
     ascii ''        <hp:pagePr landscape="WIDELY" width="59528" height="84186" gutterType="LEFT_ONLY">'',
     ascii ''          <hp:margin header="4252" footer="4252" gutter="0" left="8504" right="8504" top="5668" bottom="4252"/>'',
     ascii ''        </hp:pagePr>'',
     ascii ''        <hp:footNotePr>'',
     ascii ''          <hp:autoNumFormat type="DIGIT" userChar="" prefixChar="" suffixChar=")" supscript="0"/>'',
     ascii ''          <hp:noteLine length="-1" type="SOLID" width="0.12 mm" color="#000000"/>'',
     ascii ''          <hp:noteSpacing betweenNotes="283" belowLine="567" aboveLine="850"/>'',
     ascii ''          <hp:numbering type="CONTINUOUS" newNum="1"/>'',
     ascii ''          <hp:placement place="EACH_COLUMN" beneathText="0"/>'',
     ascii ''        </hp:footNotePr>'',
     ascii ''        <hp:endNotePr>'',
     ascii ''          <hp:autoNumFormat type="DIGIT" userChar="" prefixChar="" suffixChar=")" supscript="0"/>'',
     ascii ''          <hp:noteLine length="14692344" type="SOLID" width="0.12 mm" color="#000000"/>'',
     ascii ''          <hp:noteSpacing betweenNotes="0" belowLine="567" aboveLine="850"/>'',
     ascii ''          <hp:numbering type="CONTINUOUS" newNum="1"/>'',
     ascii ''          <hp:placement place="END_OF_DOCUMENT" beneathText="0"/>'',
     ascii ''        </hp:endNotePr>'',
     ascii ''        <hp:pageBorderFill type="BOTH" borderFillIDRef="1" textBorder="PAPER" headerInside="0" footerInside="0" fillArea="PAPER">'',
     ascii ''          <hp:offset left="1417" right="1417" top="1417" bottom="1417"/>'',
     ascii ''        </hp:pageBorderFill>'',
     ascii ''        <hp:pageBorderFill type="EVEN" borderFillIDRef="1" textBorder="PAPER" headerInside="0" footerInside="0" fillArea="PAPER">'',
     ascii ''          <hp:offset left="1417" right="1417" top="1417" bottom="1417"/>'',
     ascii ''        </hp:pageBorderFill>'',
     ascii ''        <hp:pageBorderFill type="ODD" borderFillIDRef="1" textBorder="PAPER" headerInside="0" footerInside="0" fillArea="PAPER">'',
     ascii ''          <hp:offset left="1417" right="1417" top="1417" bottom="1417"/>'',
     ascii ''        </hp:pageBorderFill>'',
     ascii ''      </hp:secPr>'',
     ascii ''      <hp:ctrl>'',
     ascii ''        <hp:colPr id="" type="NEWSPAPER" layout="LEFT" colCount="1" sameSz="1" sameGap="0"/>'',
     ascii ''      </hp:ctrl>'',
     ascii ''    </hp:run>'',
     ascii ''    <hp:run charPrIDRef="0"><hp:t/></hp:run>'',
     ascii ''  </hp:p>''])\<close>

definition XML_TAIL :: utext where
  \<open>XML_TAIL = concat (map (\<lambda>l. l @ [10])
    [ascii ''</hs:sec>''])\<close>

definition section_file :: "builder \<Rightarrow> utext" where
  "section_file b = XML_HEAD @ SEC_FIRST @ concat (map render (bu_chunks b)) @ XML_TAIL"

section \<open>Reading the tags back\<close>

text \<open>
  A reader over the characters: outside a tag, in its name (last character first), or in its
  attributes (the name and the last character); with the stack of open elements, \<open>None\<close> once an end
  tag met the wrong element or a bracket stands where none may. Declarations and empty elements leave
  the stack alone.
\<close>

definition apply_tag :: "utext \<Rightarrow> nat \<Rightarrow> utext list \<Rightarrow> utext list option" where
  "apply_tag name final st =
     (if name = [] then None
      else if hd name = 63 then Some st
      else if hd name = 47 then (case st of [] \<Rightarrow> None | n # st' \<Rightarrow> if n = tl name then Some st' else None)
      else if final = 47 then Some st
      else Some (name # st))"

datatype mode = Outside | InName utext | InAttributes utext nat

type_synonym reader = "mode \<times> utext list option"

fun read_char :: "nat \<Rightarrow> reader \<Rightarrow> reader" where
  "read_char c (Outside, st) = (if c = 60 then InName [] else Outside, if c = 62 then None else st)"
| "read_char c (InName b, st) =
     (if c = 62 then (Outside, case st of None \<Rightarrow> None | Some s \<Rightarrow> apply_tag (rev b) (hd (b @ [0])) s)
      else if c = 60 then (InName b, None)
      else if c = 32 then (InAttributes b c, st)
      else (InName (c # b), st))"
| "read_char c (InAttributes b l, st) =
     (if c = 62 then (Outside, case st of None \<Rightarrow> None | Some s \<Rightarrow> apply_tag (rev b) l s)
      else if c = 60 then (InAttributes b l, None)
      else (InAttributes b c, st))"

definition read_text :: "utext \<Rightarrow> reader \<Rightarrow> reader" where
  "read_text t r = fold read_char t r"

definition well_nested :: "utext \<Rightarrow> bool" where
  "well_nested t = (read_text t (Outside, Some []) = (Outside, Some []))"

lemma read_text_simps [simp]:
  "read_text [] r = r" "read_text (c # t) r = read_text t (read_char c r)"
  "read_text (t @ u) r = read_text u (read_text t r)"
  by (simp_all add: read_text_def)

text \<open>A piece of a template is read from left to right, without looking at what follows it.\<close>

lemma read_ascii [simp]:
  "read_text (ascii []) r = r" "read_text (ascii (c # s)) r = read_text (ascii s) (read_char (of_char c) r)"
  by (simp_all add: ascii_def)

lemma read_cong: "r = r' \<Longrightarrow> read_text t r = read_text t r'"
  by simp

lemma num_chars: "60 \<notin> set (num n)" "62 \<notin> set (num n)"
proof -
  have "c \<noteq> CHR ''<'' \<and> c \<noteq> CHR ''>''" if "c \<in> set (str_of_nat n)" for c
    using str_of_nat_digits [of n] that by (auto simp: list_all_iff is_digit_def)
  moreover have "c = CHR ''<''" if "of_char c = (60 :: nat)" for c
  proof -
    have "of_char c = (of_char CHR ''<'' :: nat)" using that by simp
    then show ?thesis by (simp only: of_char_eq_iff)
  qed
  moreover have "c = CHR ''>''" if "of_char c = (62 :: nat)" for c
  proof -
    have "of_char c = (of_char CHR ''>'' :: nat)" using that by simp
    then show ?thesis by (simp only: of_char_eq_iff)
  qed
  ultimately show "60 \<notin> set (num n)" "62 \<notin> set (num n)"
    by (fastforce simp: num_def ascii_def)+
qed

lemma inum_chars: "60 \<notin> set (inum n)" "62 \<notin> set (inum n)"
  using num_chars [of "nat n"] num_chars [of "nat (- n)"]
  by (auto simp: inum_def str_of_int_def num_def ascii_def)

lemma read_inside:
  "60 \<notin> set t \<Longrightarrow> 62 \<notin> set t \<Longrightarrow> read_text t (InAttributes b l, st) = (InAttributes b (last (l # t)), st)"
  by (induction t arbitrary: l) auto

lemma read_outside: "60 \<notin> set t \<Longrightarrow> 62 \<notin> set t \<Longrightarrow> read_text t (Outside, st) = (Outside, st)"
  by (induction t) auto

lemmas read_pieces [simp] = read_inside [OF num_chars] read_inside [OF inum_chars]

text \<open>What the builder stores is escaped: neither angle bracket occurs in it.\<close>

fun chunk_safe :: "chunk \<Rightarrow> bool" where
  "chunk_safe (Para _ _ _ body) = (case body of None \<Rightarrow> True | Some t \<Rightarrow> 60 \<notin> set t \<and> 62 \<notin> set t)"
| "chunk_safe (Table t) = (\<forall>r \<in> set (ta_rows t). \<forall>c \<in> set r. 60 \<notin> set (ce_text c) \<and> 62 \<notin> set (ce_text c))"

lemma read_text_xml:
  "read_text (text_xml None) r = read_text (ascii ''<hp:t/>'') r"
  "read_text (text_xml (Some safe)) r = read_text (ascii ''<hp:t>'' @ safe @ ascii ''</hp:t>'') r"
  by simp_all

lemma read_para:
  "chunk_safe (Para i par chr body) \<Longrightarrow> read_text (para_xml i par chr body) (Outside, Some st) = (Outside, Some st)"
proof (cases body)
  case None
  then show ?thesis unfolding para_xml_def by (simp only: None) (simp add: read_text_xml apply_tag_def cong: read_cong)
next
  case (Some safe)
  then show "chunk_safe (Para i par chr body) \<Longrightarrow> ?thesis"
    unfolding para_xml_def by (simp only: Some) (simp add: read_text_xml apply_tag_def read_outside cong: read_cong)
qed

lemma read_cell:
  "60 \<notin> set (ce_text c) \<Longrightarrow> 62 \<notin> set (ce_text c) \<Longrightarrow> read_text (render_cell c) (Outside, Some st) = (Outside, Some st)"
  unfolding render_cell_def by (simp add: apply_tag_def read_outside cong: read_cong)


lemma read_joined:
  assumes "\<And>l. l \<in> set ls \<Longrightarrow> read_text l (Outside, Some st) = (Outside, Some st)"
  shows "read_text (join_lines ls) (Outside, Some st) = (Outside, Some st)"
  using assms by (induction ls rule: join_lines.induct) auto

lemma join_lines_snoc: "join_lines (ls @ [z]) = (if ls = [] then z else join_lines ls @ [10] @ z)"
  by (induction ls rule: join_lines.induct) auto

lemma join_lines_Cons: "join_lines (a # ls) = (if ls = [] then a else a @ [10] @ join_lines ls)"
  by (cases ls) auto

lemma read_row:
  assumes "\<And>c. c \<in> set cs \<Longrightarrow> 60 \<notin> set (ce_text c) \<and> 62 \<notin> set (ce_text c)"
  shows "read_text (render_row cs) (Outside, Some st) = (Outside, Some st)"
proof -
  let ?tr = "[104, 112, 58, 116, 114] :: utext"
  have o: "read_text (ascii ''      <hp:tr>'' @ [10]) (Outside, Some st) = (Outside, Some (?tr # st))"
    "read_text (ascii ''      </hp:tr>'') (Outside, Some (?tr # st)) = (Outside, Some st)"
    by (simp_all add: apply_tag_def cong: read_cong)
  have c: "read_text (join_lines (map render_cell cs)) (Outside, Some (?tr # st)) = (Outside, Some (?tr # st))"
    using assms read_cell by (intro read_joined) auto
  show ?thesis
    unfolding render_row_def using o c by (simp add: join_lines_Cons join_lines_snoc)
qed

lemma read_table:
  assumes "chunk_safe (Table t)"
  shows "read_text (render_table t) (Outside, Some st) = (Outside, Some st)"
proof -
  have "read_text (join_lines (map render_row (ta_rows t))) (Outside, Some s) = (Outside, Some s)" for s
    using assms read_row by (intro read_joined) auto
  then show ?thesis unfolding render_table_def by (simp add: apply_tag_def cong: read_cong)
qed

lemma read_chunk: "chunk_safe c \<Longrightarrow> read_text (render c) (Outside, Some st) = (Outside, Some st)"
  by (cases c) (simp_all only: render.simps read_para read_table)

lemma read_chunks:
  "list_all chunk_safe cs \<Longrightarrow> read_text (concat (map render cs)) (Outside, Some st) = (Outside, Some st)"
  by (induction cs) (simp_all add: read_chunk)

lemma read_lines:
  "read_text (concat (map (\<lambda>l. l @ [10]) [])) r = r"
  "read_text (concat (map (\<lambda>l. l @ [10]) (l # ls))) r =
     read_text (concat (map (\<lambda>l. l @ [10]) ls)) (read_char 10 (read_text l r))"
  by simp_all

lemma hs_sec: "ascii ''hs:sec'' = [104, 115, 58, 115, 101, 99]"
  by (simp add: ascii_def)

lemma read_frame:
  "read_text XML_HEAD (Outside, Some []) = (Outside, Some [ascii ''hs:sec''])"
  "read_text SEC_FIRST (Outside, Some [ascii ''hs:sec'']) = (Outside, Some [ascii ''hs:sec''])"
  "read_text XML_TAIL (Outside, Some [ascii ''hs:sec'']) = (Outside, Some [])"
  unfolding XML_HEAD_def SEC_FIRST_def XML_TAIL_def hs_sec
  by (simp_all add: read_lines apply_tag_def cong: read_cong)

lemma section_file_well_nested: "list_all chunk_safe (bu_chunks b) \<Longrightarrow> well_nested (section_file b)"
  by (simp add: section_file_def well_nested_def read_frame read_chunks)

section \<open>The builder only stores escaped texts\<close>

lemma escape_chars: "60 \<notin> set (escape t)" "62 \<notin> set (escape t)"
  using escape_safe by auto

lemma build_cells_safe:
  "build_cells ws row hdr col ts b = Inr (cs, b') \<Longrightarrow> \<forall>c \<in> set cs. 60 \<notin> set (ce_text c) \<and> 62 \<notin> set (ce_text c)"
proof (induction ts arbitrary: col b cs)
  case (Cons t ts)
  then obtain b1 cs' c where "build_cells ws row hdr (Suc col) ts b1 = Inr (cs', b')" "cs = c # cs'" "ce_text c = escape t"
    by (auto split: if_splits sum.splits prod.splits)
  with Cons.IH [OF this(1)] show ?case by (simp add: escape_chars)
qed simp

lemma build_rows_safe:
  "build_rows ws row rs b = Inr (css, b') \<Longrightarrow> \<forall>r \<in> set css. \<forall>c \<in> set r. 60 \<notin> set (ce_text c) \<and> 62 \<notin> set (ce_text c)"
proof (induction rs arbitrary: row b css)
  case (Cons r rs)
  then obtain cs b1 css' where "build_cells ws row (row = 0) 0 r b = Inr (cs, b1)"
    "build_rows ws (Suc row) rs b1 = Inr (css', b')" "css = cs # css'"
    by (auto split: sum.splits prod.splits)
  with Cons.IH [OF this(2)] build_cells_safe [OF this(1)] show ?case by simp
qed simp

lemma code_block_safe: "list_all chunk_safe (bu_chunks b) \<Longrightarrow> list_all chunk_safe (bu_chunks (code_block t b))"
proof -
  have "list_all chunk_safe (bu_chunks b) \<Longrightarrow> list_all chunk_safe (bu_chunks (fold code_line ls b))" for ls
    by (induction ls arbitrary: b) (auto simp: code_line_def next_pid_def append_chunk_def escape_chars)
  then show "list_all chunk_safe (bu_chunks b) \<Longrightarrow> ?thesis" by (simp add: code_block_def)
qed

lemma do_call_safe:
  assumes "do_call share c b = Inr b'" "list_all chunk_safe (bu_chunks b)"
  shows "list_all chunk_safe (bu_chunks b')"
proof (cases c)
  case (CallTable hs rs pct)
  with assms(1) obtain ws b2 css b3 t where r: "build_rows ws 0 (hs # rs) b2 = Inr (css, b3)" "bu_chunks b2 = bu_chunks b"
    "bu_chunks b' = bu_chunks b3 @ [Table t]" "ta_rows t = css"
    by (auto simp: do_call_def add_table_def next_pid_def next_tid_def append_chunk_def simp del: build_rows.simps
        split: sum.splits prod.splits)
  have "bu_chunks b3 = bu_chunks b" using build_rows_ids [OF r(1)] r(2) by simp
  with r(3,4) build_rows_safe [OF r(1)] assms(2) show ?thesis by simp
next
  case (CallCode t)
  then show ?thesis using assms code_block_safe by (auto simp: do_call_def)
qed (use assms in \<open>auto simp: do_call_def helpers para_def blank_def next_pid_def append_chunk_def escape_chars
    split: option.splits\<close>)

lemma document_safe:
  "document share cs b = Inr b' \<Longrightarrow> list_all chunk_safe (bu_chunks b) \<Longrightarrow> list_all chunk_safe (bu_chunks b')"
  by (induction cs arbitrary: b) (auto split: sum.splits dest: do_call_safe)

end
