(* ===== verification/PlanText.thy ===== *)
theory PlanText
  imports PlanXml
begin

text \<open>
  The body of \<open>build_plan_hwpx.py\<close>: its helper calls in order, one definition per chapter, with
  the texts as \<open>ko\<close> of \<open>Hangul\<close> reads them.
\<close>

section \<open>The calls\<close>

definition cover :: "call list" where
  \<open>cover =
    [CallTitle (ko ''$san-eob-yong$ CM4 $gi-ban$ IoT Gateway $ja-che$ $ho-seu-ting$ $peul-raes-pom$''),
     CallTitle (ko ''$sang-se$ $gu-hyeon$ $gye-hoeg-seo$''),
     CallBlank,
     CallP (ko ''$jag-seong-il$ : 2026-05-03'') PARA_CENTER CHAR_BODY,
     CallP (ko ''$gu-chug$ $bang-sig$ : Docker $mi-sa-yong$ ^b7^ systemd $gi-ban$ $ja-che$ $ho-seu-ting$'') PARA_CENTER CHAR_BODY,
     CallP (ko ''$haeg-sim$ $gu-seong$ : VerneMQ + PostgreSQL + Keycloak + FastAPI + React (Vite)'') PARA_CENTER CHAR_BODY,
     CallP (ko ''$jag-seong$ $ju-che$ : Solo + Claude Code AI Pair'') PARA_CENTER CHAR_BODY,
     CallBlank,
     CallBlank]\<close>

definition chapter_1 :: "call list" where
  \<open>chapter_1 =
    [CallChapter ([8544] @ ascii ''. '' @ ko ''$mun-seo$ $gae-yo$''),
     CallSection (ascii ''1.'') (ko ''$jag-seong$ $mog-jeog$''),
     CallL1 (ko ''$bon$ $gye-hoeg-seo-neun$ $san-eob-yong$ Raspberry Pi Compute Module 4(CM4) $gi-ban$ IoT Gateway $je-pum-eul$ $ja-che$ $ho-seu-ting$ $seo-beo-wa$ $yeon-dong-ha-yeo$ $sang-yong-hwa-ha-gi$ $wi-han$ $sang-se$ $gu-hyeon$ $gye-hoeg-seo-i-da$.''),
     CallL1 (ko ''$yeo-reo$ $sa-yong-ja-ga$ $gag-ja$ $ha-na$ $i-sang-ui$ IoT Gateway$reul$ $bo-yu-ha-go$, Gateway$ma-da$ $seo-ro$ $da-reun$ $jong-ryu-ui$ $sen-seo$^b7^$je-eo$ $jang-chi-reul$ $yeon-gyeol-hal$ $su$ $iss-da-neun$ $jeom-eul$ $gi-bon$ $jeon-je-ro$ $han-da$.''),
     CallL1 (ko ''$tta-ra-seo$ $bon$ $si-seu-tem-eun$ $dan-sun$ $de-i-teo$ $su-jib-gi-ga$ $a-ni-ra$, IoT Gateway Fleet Management Platform$eu-ro$ $seol-gye-han-da$.''),
     CallBlank,
     CallSection (ascii ''2.'') (ko ''10$ga-ji$ $haeg-sim$ $yo-gu-sa-hang$''),
     CallL1 (ko ''$sa-yong-ja-byeol$ $yeo-reo$ Gateway $gwan-ri$''),
     CallL2 (ko ''$han$ $sa-yong-ja-ga$ N$gae-ui$ Gateway$reul$ $bo-yu$ $ga-neung-ha-myeo$, $gwon-han-e$ $tta-ra$ $jo-hoe$^b7^$je-eo$ $beom-wi-ga$ $dal-ra-jin-da$.''),
     CallL1 (ko ''Gateway$byeol$ $seo-ro$ $da-reun$ $sen-seo$ $gu-seong$ $gwan-ri$''),
     CallL2 (ko ''Gateway A$neun$ $on-seub-do$ $sen-seo$ 2$gae$ + $su-wi$ $sen-seo$ 1$gae$, Gateway B$neun$ $gi-ul-gi$ $sen-seo$ + GPS $deung$ $ja-yu$ $jo-hab$.''),
     CallL1 (ko ''$ril-re-i$^b7^$bael-beu$^b7^$peom-peu$ $deung$ $je-eo$ $chae-neol$ $gwan-ri$''),
     CallL2 (ko ''Gateway$byeol$ $aeg-chu-e-i-teo$ $chae-neol$ $su-wa$ $jong-ryu-ga$ $sang-i-ha-myeo$, $gag-gag$ $an-jeon$ $jeong-chaeg-eul$ $ga-jin-da$.''),
     CallL1 (ko ''$sen-seo$ $jong-ryu$ $chu-ga$ $si$ $ko-deu$ $su-jeong$ $choe-so-hwa$''),
     CallL2 (ko ''$sae$ $sen-seo$ $mo-del-eun$ Sensor Profile JSON $chu-ga-man-eu-ro$ $dong-jag-ha-do-rog$ $seol-gye$.''),
     CallL1 (ko ''Gateway $seol-jeong$ $jung-ang$ $gwan-ri$ $mich$ $won-gyeog$ $ban-yeong$''),
     CallL2 (ko ''desired/reported $pae-teon-eu-ro$ $seo-beo-e-seo$ $bal-haeng-han$ $seol-jeong-eul$ Gateway$ga$ $da-un-ro-deu$^b7^$jeog-yong$^b7^$bo-go$.''),
     CallL1 (ko ''$sa-yong-ja$^b7^$go-gaeg-sa$^b7^$hyeon-jang$^b7^$jang-bi$ $dan-wi$ $gwon-han$''),
     CallL2 (ko ''System Admin ^2192^ $gwan-ri-hoe-sa$ ^2192^ $go-gaeg-sa$ ^2192^ $hyeon-jang$ ^2192^ $jang-bi$ 5$gye-cheung$ + Maintenance Engineer $byeol-do$ $chug$.''),
     CallL1 (ko ''$won-gyeog$ $je-eo$ $myeong-ryeong-ui$ $an-jeon-seong$ $hwag-bo$''),
     CallL2 (ko ''8$ga-ji$ $an-jeon$ $jo-geon$(idempotency, expires, timeout, ack, local safety, audit, fail-safe, override).''),
     CallL1 (ko ''$jang-bi$ $sang-tae$^b7^$sen-seo$^b7^$al-ram$^b7^$i-ryeog$ $tong-hab$ $gwan-ri$''),
     CallL2 (ko ''Telemetry, command $i-ryeog$, config $i-ryeog$, audit $ro-geu-reul$ $dan-il$ DB$e$ $tong-hab$.''),
     CallL1 (ko ''Docker $eobs-i$ systemd $gi-ban$ $un-yeong$''),
     CallL2 (ko ''$san-eob-yong$ $seo-beo-e-seo$ $keon-te-i-neo$ $ui-jon-seong-eul$ $je-geo-ha-go$ OS $seo-bi-seu$ $dan-wi-ro$ $myeong-hwag$ $gwan-ri$.''),
     CallL1 (ko ''$mu-ryo$ OSS $gi-ban$ $sang-yong-hwa$ $ga-neung$ $gu-jo$''),
     CallL2 (ko ''AGPL/BSL/GPL $ri-seu-keu-ga$ $eobs-neun$ $keom-po-neon-teu-man$ $chae-taeg$. OSS Notice^b7^SBOM $bal-haeng$.''),
     CallBlank]\<close>

definition chapter_2 :: "call list" where
  \<open>chapter_2 =
    [CallChapter ([8545] @ ascii ''. '' @ ko ''$jeon-je$ $jo-geon$ $mich$ $seol-gye$ $cheol-hag$''),
     CallSection (ascii ''1.'') (ko ''$sa-eob$ $mich$ $un-yeong$ $jeon-je$''),
     CallTable [ko ''$hang-mog$'', ko ''$jeon-je$'']
       [[ko ''$seo-bi-seu$ $un-yeong$'', ko ''$ja-che$ $seo-beo$ $un-yeong$ ($peo-beul-rig$ IoT $peul-raes-pom$ $mi-sa-yong$)''],
        [ko ''$peo-beul-rig$ IoT $peul-raes-pom$'', ko ''AWS IoT, Azure IoT, GCP IoT $mi-sa-yong$''],
        [ko ''$keon-te-i-neo$'', ko ''Docker $mi-sa-yong$''],
        [ko ''$seo-beo$ OS'', ko ''Ubuntu Server 24.04 LTS ^b7^ $sa-nae$ $mul-ri$ $meo-sin$''],
        [ko ''$sa-yong-ja$ $gu-jo$'', ko ''$han$ $sa-yong-ja-ga$ $yeo-reo$ Gateway $bo-yu$ $ga-neung$''],
        [ko ''$sen-seo$ $gu-seong$'', ko ''Gateway$ma-da$ $jong-ryu$^b7^$su-ryang$ $sang-i$''],
        [ko ''$je-eo$ $gu-seong$'', ko ''Gateway$ma-da$ $ril-re-i$^b7^$bael-beu$^b7^$peom-peu$ $gu-seong$ $sang-i$''],
        [ko ''$gwan-ri-hoe-sa$'', ko ''$jeon-che$ $sa-yong-ja$^b7^Gateway $tong-hab$ $gwan-ri$''],
        [ko ''$il-ban$ $sa-yong-ja$'', ko ''$bon-in-e-ge$ $hal-dang-doen$ Gateway$man$ $jeob-geun$''],
        [ko ''$ra-i-seon-seu$'', ko ''$mu-ryo$ OSS $jung-sim$ (AGPL/BSL/GPL $ri-seu-keu$ $choe-so-hwa$)'']]
       (Some [25, 75]),
     CallBlank,
     CallSection (ascii ''2.'') (ko ''$gi-sul$ $seu-taeg$ ($hwag-jeong$)''),
     CallTable [ko ''$gye-cheung$'', ko ''$gi-sul$ / $beo-jeon$'', ko ''$bi-go$'']
       [[ascii ''MQTT Broker'', ascii ''VerneMQ'', ascii ''Apache 2.0''],
        [ascii ''DB'', ascii ''PostgreSQL 16'', ko ''Ubuntu apt $gi-bon$ $je-gong$''],
        [ko ''$in-jeung$'', ascii ''Keycloak (latest stable)'', ko ''PostgreSQL backend $gong-yu$''],
        [ascii ''Backend'', ascii ''FastAPI (Python 3.12)'', ko ''asyncio ^b7^ pydantic v2''],
        [ascii ''Frontend'', ascii ''React + Vite (SPA)'', ko ''TypeScript ^b7^ MIT''],
        [ascii ''Chart'', ascii ''Apache ECharts'', ascii ''Apache 2.0''],
        [ascii ''Reverse Proxy'', ascii ''Nginx + certbot'', ko ''Let^27^s Encrypt $ja-dong$ $bal-geub$''],
        [ko ''$seo-bi-seu$ $gwan-ri$'', ascii ''systemd'', ascii ''Restart=always''],
        [ascii ''Gateway OS'', ko ''Pi OS Lite / Ubuntu ARM64 (Phase 2 $gyeol-jeong$)'', ko ''Yocto$neun$ $ob-syeon$''],
        [ko ''Gateway $tong-sin$'', ko ''MQTT (Phase 1: plain ^b7^ Phase 7: TLS)'', ko ''QoS 1 $gwon-jang$''],
        [ko ''Gateway $seol-jeong$'', ko ''$seo-beo$ desired/reported $gu-jo$'', ascii ''config_version + hash'']]
       (Some [18, 42, 40]),
     CallBlank,
     CallSection (ascii ''3.'') (ko ''$haeg-sim$ $seol-gye$ $cheol-hag$ 4$won-chig$''),
     CallL1 (ko ''$won-chig$ 1 : Gateway $jung-sim$ $en-ti-ti$''),
     CallL2 (ko ''$bae-gyeong$ : $han$ $sa-yong-ja-ga$ $yeo-reo$ Gateway$reul$ $bo-yu-ha-go$, $ha-na-ui$ Gateway$ga$ $teug-jeong$ $hoe-sa$^b7^$hyeon-jang-e$ $bae-jeong-doel$ $su$ $iss-eum$.''),
     CallL2 (ko ''$jeog-yong$ : $gwon-han$ $pan-dan-eul$ User ^d7^ Company ^d7^ Gateway 3$chug-eu-ro$ $gyeol-hab$.''),
     CallL2 (ko ''$gyeol-gwa$ : $sa-yong-ja$ $byeon-gyeong$/$i-jeon$ $si-e-do$ Gateway $dan-wi$ $gwon-han$^b7^$tong-gye-ga$ $an-jeong-jeog-eu-ro$ $yu-ji$.''),
     CallL1 (ko ''$won-chig$ 2 : $sen-seo$ $jong-ryu-neun$ $ko-deu-ga$ $a-ni-ra$ Profile''),
     CallL2 (ko ''$bae-gyeong$ : $sen-seo-ga$ $neul$ $ttae-ma-da$ schema^b7^Gateway $ko-deu-reul$ $su-jeong-ha-myeon$ $yu-ji-bo-su-ga$ $eo-ryeob-da$.''),
     CallL2 (ko ''$jeog-yong$ : $sen-seo$ $mo-del$ $jeong-bo-neun$ Sensor Profile(JSON), Gateway $yeon-gyeol$ $in-seu-teon-seu-neun$ Sensor Channel$ro$ $bun-ri$.''),
     CallL2 (ko ''$gyeol-gwa$ : $sae$ $sen-seo$ $chu-ga$ $si$ Backend^b7^Gateway $ko-deu$ $mu-su-jeong$ (Profile JSON$man$ $chu-ga$).''),
     CallL1 (ko ''$won-chig$ 3 : Gateway Config $jung-ang$ $beo-jeon$ $gwan-ri$''),
     CallL2 (ko ''$bae-gyeong$ : Gateway$ma-da$ $sen-seo$ $gu-seong-i$ $dal-ra$ $go-jeong$ $seol-jeong-eu-ro$ $dong-jag-ha-myeon$ $an$ $doem$.''),
     CallL2 (ko ''$jeog-yong$ : $seo-beo-ga$ Gateway$byeol$ desired_config $bal-haeng$ ^2192^ Gateway$ga$ reported_config$ro$ $bo-go$.''),
     CallL2 (ko ''$gyeol-gwa$ : $eo-tteon$ Gateway$ga$ $eo-tteon$ $beo-jeon-ui$ $seol-jeong-eul$ $jeog-yong$ $jung-in-ji$ 100% $chu-jeog$ $ga-neung$, rollback $yong-i$.''),
     CallL1 (ko ''$won-chig$ 4 : Docker $dae-sin$ systemd''),
     CallL2 (ko ''$bae-gyeong$ : $san-eob-yong$ $seo-beo$ $un-yeong$ $hwan-gyeong-e-seo$ $keon-te-i-neo$ $ui-jon-seong$ $je-geo$, OS $seo-bi-seu$ $dan-wi$ $gwan-ri$ $pil-yo$.''),
     CallL2 (ko ''$jeog-yong$ : nginx, vernemq, postgresql, keycloak, iot-backend, iot-worker, iot-scheduler 7$jong$ unit $deung-rog$.''),
     CallL2 (ko ''$gyeol-gwa$ : $dan-il$ OS $an-e-seo$ $myeong-hwag-han$ $chaeg-im$ $bun-ri$^b7^$ro-geu$ $wi-chi$^b7^$jae-si-jag$ $jeong-chaeg$ $il-gwan$ $gwan-ri$.''),
     CallBlank]\<close>

definition chapter_3 :: "call list" where
  \<open>chapter_3 =
    [CallChapter ([8546] @ ascii ''. '' @ ko ''$si-seu-tem$ $a-ki-teg-cheo$''),
     CallSection (ascii ''1.'') (ko ''$jeon-che$ $si-seu-tem$ $gae-nyeom-do$ (Concept Architecture)''),
     CallL1 (ko ''$gye-cheung$ $gu-seong$ (Top-Down)''),
     CallL2 (ko ''USER LAYER ^2014^ $il-ban$ $sa-yong-ja$, $go-gaeg-sa$ $gwan-ri-ja$, $gwan-ri-hoe-sa$ $gwan-ri-ja$''),
     CallL2 (ko ''WEB PORTAL ^2014^ React + Vite SPA + Apache ECharts (Nginx $jeong-jeog$ $pa-il$)''),
     CallL2 (ko ''SELF-HOSTED SERVER ^2014^ Ubuntu 24.04 LTS ^b7^ systemd $gi-ban$ 7$jong$ $seo-bi-seu$''),
     CallL3 (ascii ''Nginx (HTTPS reverse proxy)''),
     CallL3 (ascii ''Keycloak (OIDC/OAuth2)''),
     CallL3 (ascii ''Backend API (FastAPI)''),
     CallL3 (ko ''Worker (MQTT $cheo-ri$)''),
     CallL3 (ko ''Scheduler ($ju-gi$ $jag-eob$)''),
     CallL3 (ko ''PostgreSQL ($gwan-gye-hyeong$ DB)''),
     CallL3 (ascii ''VerneMQ (MQTT broker)''),
     CallL2 (ko ''STORAGE ^2014^ $peom-we-eo$ $jeo-jang-so$, Gateway $seol-jeong$, $baeg-eob$, $ro-geu$ $beon-deul$''),
     CallL2 (ko ''GATEWAY LAYER ^2014^ N$dae-ui$ CM4 Gateway + Safety MCU''),
     CallL1 (ko ''$ju-yo$ $de-i-teo$ $heu-reum$''),
     CallL2 (ko ''HTTPS : User ^2194^ Web Portal ^2194^ Backend API''),
     CallL2 (ko ''MQTT : VerneMQ ^2194^ Gateway (telemetry ^b7^ command ^b7^ config ^b7^ OTA)''),
     CallL2 (ko ''$nae-bu$ IPC : Backend ^2194^ PostgreSQL, Worker ^2194^ PostgreSQL, Backend ^2194^ VerneMQ''),
     CallBlank,
     CallSection (ascii ''2.'') (ko ''$sang-se$ $si-seu-tem$ $gu-seong-do$ (Detailed Architecture)''),
     CallL1 (ko ''$seo-beo$ $cheug$ (Ubuntu 24.04 ^b7^ systemd)''),
     CallL2 (ko ''Nginx 443/80 ^2014^ HTTPS reverse proxy + $jeong-jeog$ $pa-il$''),
     CallL3 (ko ''/ ^2192^ frontend $jeong-jeog$ $pa-il$''),
     CallL3 (ko ''/api/ ^2192^ 127.0.0.1:8000 (Backend)''),
     CallL3 (ko ''/auth/ ^2192^ 127.0.0.1:8080 (Keycloak)''),
     CallL2 (ko ''Application Service 3$jong$''),
     CallL3 (ko ''iot-backend.service : FastAPI :8000 ^2014^ REST API, $gwon-han$ $geom-sa$, Command publish, Config $saeng-seong$''),
     CallL3 (ko ''iot-worker.service : Python ^2014^ MQTT subscribe, telemetry $su-sin$, latest upsert, alarm eval''),
     CallL3 (ko ''iot-scheduler.service : Python ^2014^ offline $pan-jeong$, command timeout, partition $jeong-ri$, report $saeng-seong$''),
     CallL2 (ko ''Infra Service 3$jong$''),
     CallL3 (ko ''Keycloak :8080 ^2014^ OIDC/OAuth2, realm: iot-platform, role 7$jong$''),
     CallL3 (ko ''PostgreSQL :5432 ^2014^ iot_platform DB + keycloak DB (RLS $geom-to$)''),
     CallL3 (ko ''VerneMQ :1883/:8883 ^2014^ MQTT broker, password^2192^X.509(Phase 7)''),
     CallL2 (ko ''Storage $di-reg-teo-ri$''),
     CallL3 (ko ''/var/lib/iot-platform/firmware/ ^2014^ OTA $i-mi-ji$''),
     CallL3 (ko ''/var/lib/iot-platform/gateway-configs/ ^2014^ desired/reported snapshot''),
     CallL3 (ko ''/var/lib/iot-platform/backups/ ^2014^ pg_dump $gyeol-gwa$''),
     CallL3 (ko ''/var/lib/iot-platform/log-bundles/ ^2014^ $jang-bi$ $ro-geu$ $su-jib$''),
     CallL1 (ko ''Gateway $cheug$ (CM4 Linux + Safety MCU)''),
     CallL2 (ascii ''CM4 Linux User Space (/opt/iot-gateway/)''),
     CallL3 (ko ''gateway-agent ^2014^ $me-in$ $ru-peu$, $bu-ting$ $heu-reum$''),
     CallL3 (ko ''sensor-service ^2014^ Modbus/AI/DI polling''),
     CallL3 (ko ''actuator-service ^2014^ GPIO/Relay $je-eo$''),
     CallL3 (ko ''rule-engine ^2014^ Local Rule ($o-peu-ra-in-e-seo-do$ $dong-jag$)''),
     CallL3 (ko ''mqtt-client ^2014^ Telemetry/Command/Config publish^b7^subscribe''),
     CallL3 (ko ''local-db (SQLite) ^2014^ telemetry queue, command log''),
     CallL3 (ko ''ota-agent ^2014^ $i-mi-ji$ $geom-jeung$^b7^$jeog-yong$''),
     CallL3 (ko ''health-agent ^2014^ CPU/MEM/Net heartbeat''),
     CallL2 (ascii ''STM32 / NXP Safety MCU''),
     CallL3 (ko ''$ril-re-i$/$bael-beu$ $jig-jeob$ $je-eo$ (low-level)''),
     CallL3 (ko ''Local Interlock ^2014^ $sen-seo$ $jo-geon$ $wi-ban$ $si$ $cha-dan$''),
     CallL3 (ko ''Watchdog ^2014^ Linux $haeng$ $si$ $ja-dong$ fail-safe''),
     CallL3 (ko ''Fail-safe state $gang-je$ $jeon-hwan$''),
     CallL3 (ko ''$mul-ri-jeog$ $bi-sang$ $jeong-ji$ $ib-ryeog$ $cheo-ri$''),
     CallL2 (ko ''Field I/O ^2014^ RS-485(Modbus RTU), GPIO Relay, Analog 0-10V/4-20mA, GPS, Digital Input''),
     CallBlank,
     CallSection (ascii ''3.'') (ko ''$seo-beo$ $gu-seong$ ^2014^ systemd $seo-bi-seu$ 7+$jong$''),
     CallTable [ko ''$seo-bi-seu$'', ko ''$bun-ryu$'', ko ''$yeog-hal$'']
       [[ascii ''nginx.service'', ko ''$pil-su$'', ko ''HTTPS reverse proxy, $jeong-jeog$ $pa-il$ $je-gong$''],
        [ascii ''vernemq.service'', ko ''$pil-su$'', ascii ''MQTT Broker (Phase 1: 1883 plain, Phase 7: 8883 TLS)''],
        [ascii ''postgresql.service'', ko ''$pil-su$'', ko ''$gwan-gye-hyeong$ DB ^b7^ $sen-seo$ $de-i-teo$ ^b7^ keycloak DB $gong-yu$''],
        [ascii ''keycloak.service'', ko ''$pil-su$'', ko ''$sa-yong-ja$ $in-jeung$ ^b7^ OIDC/OAuth2 $to-keun$ $bal-geub$''],
        [ascii ''iot-backend.service'', ko ''$pil-su$'', ko ''REST API ^b7^ $gwon-han$ $geom-sa$ ^b7^ Gateway $gwan-ri$ ^b7^ $myeong-ryeong$ $bal-haeng$''],
        [ascii ''iot-worker.service'', ko ''$pil-su$'', ko ''MQTT subscribe ^b7^ telemetry ingestion ^b7^ alarm eval''],
        [ascii ''iot-scheduler.service'', ko ''$pil-su$'', ko ''offline $pan-dan$ ^b7^ timeout $cheo-ri$ ^b7^ $baeg-eob$ ^b7^ OTA $sang-tae$ $hwag-in$''],
        [ascii ''prometheus.service'', ko ''$seon-taeg$'', ko ''$nae-bu$ metric $su-jib$ (Phase 7+)''],
        [ascii ''opensearch.service'', ko ''$seon-taeg$'', ko ''$ro-geu$ $geom-saeg$ ($pil-yo$ $si$)'']]
       (Some [25, 12, 63]),
     CallNote (ko ''$mo-deun$ $seo-bi-seu-neun$ EnvironmentFile=/etc/iot-platform/{name}.env $ro$ $hwan-gyeong$ $byeon-su$ $bun-ri$. Restart=always ^b7^ After=network.target.''),
     CallBlank,
     CallSection (ascii ''4.'') (ko ''$gwon-jang$ $seo-beo$ $di-reg-teo-ri$ $gu-jo$''),
     CallL1 (ko ''/opt/iot-platform/ ^2014^ $ae-peul-ri-ke-i-syeon$ $seol-chi$''),
     CallL2 (ascii ''backend/ : app/, venv/, migrations/, scripts/''),
     CallL2 (ascii ''worker/  : app/, venv/''),
     CallL2 (ascii ''scheduler/ : app/, venv/''),
     CallL2 (ascii ''frontend/ : current/, releases/''),
     CallL2 (ko ''releases/ : backend-1.0.0/ ^2026^ backend-1.0.x/''),
     CallL2 (ko ''current ^2192^ releases/backend-1.0.x (atomic switch via symlink)''),
     CallL1 (ko ''/etc/iot-platform/ ^2014^ $hwan-gyeong$ $byeon-su$ $bun-ri$''),
     CallL2 (ko ''backend.env (DATABASE_URL, KC_ISSUER, ^2026^)''),
     CallL2 (ko ''worker.env (MQTT_HOST, MQTT_USER, ^2026^)''),
     CallL2 (ascii ''scheduler.env, mqtt.env, db.env, keycloak.env''),
     CallL1 (ko ''/var/lib/iot-platform/ ^2014^ $un-yeong$ $de-i-teo$''),
     CallL2 (ko ''firmware/ (OTA $i-mi-ji$)''),
     CallL2 (ascii ''gateway-configs/ (desired/reported snapshots)''),
     CallL2 (ko ''reports/ ($jeong-gi$ $tong-gye$ $ri-po-teu$)''),
     CallL2 (ko ''log-bundles/ (Gateway $jin-dan$ $ro-geu$)''),
     CallL2 (ko ''backups/ (pg_dump ^b7^ realm export)''),
     CallL1 (ko ''/var/log/iot-platform/ ^2014^ $ro-geu$''),
     CallL2 (ascii ''backend.log, worker.log, scheduler.log, mqtt-ingestion.log''),
     CallBlank,
     CallSection (ascii ''5.'') (ko ''Backend / Worker / Scheduler $yeog-hal$ $bun-dam$''),
     CallL1 (ascii ''Backend API''),
     CallL2 (ko ''$seong-gyeog$ : REST ^b7^ $dong-gi$ $yo-cheong$ $cheo-ri$''),
     CallL2 (ko ''$ju-yo$ $chaeg-im$''),
     CallL3 (ko ''$sa-yong-ja$ $in-jeung$ $yeon-dong$ (Keycloak JWT $geom-jeung$)''),
     CallL3 (ko ''User ^b7^ Company ^b7^ Site ^b7^ Gateway $gwon-han$ $geom-sa$''),
     CallL3 (ko ''Gateway $deung-rog$ / Profile / Channel $gwan-ri$''),
     CallL3 (ko ''Gateway Config $saeng-seong$ ^b7^ $beo-jeon$ $gwan-ri$''),
     CallL3 (ko ''MQTT command publish (request $bal-haeng$)''),
     CallL3 (ko ''Telemetry $jo-hoe$ API ^b7^ latest $jo-hoe$''),
     CallL3 (ko ''Alarm Rule $gwan-ri$ ^b7^ Audit Log''),
     CallL1 (ascii ''Worker''),
     CallL2 (ko ''$seong-gyeog$ : MQTT subscribe ^b7^ $bi-dong-gi$ $i-ben-teu$ $cheo-ri$''),
     CallL2 (ko ''$ju-yo$ $chaeg-im$''),
     CallL3 (ko ''MQTT subscribe (gw/+/telemetry, state, ^2026^)''),
     CallL3 (ko ''Telemetry message $geom-jeung$ (schema ^b7^ timestamp)''),
     CallL3 (ko ''Telemetry $jeo-jang$ ($wol-byeol$ partition table)''),
     CallL3 (ascii ''telemetry_latest UPSERT''),
     CallL3 (ko ''Heartbeat / state $cheo-ri$''),
     CallL3 (ko ''Command response $cheo-ri$''),
     CallL3 (ko ''Reported_config $cheo-ri$ ^b7^ Alarm evaluation''),
     CallL1 (ascii ''Scheduler''),
     CallL2 (ko ''$seong-gyeog$ : $ju-gi$ $jag-eob$ ^b7^ cron $dae-che$''),
     CallL2 (ko ''$ju-yo$ $chaeg-im$''),
     CallL3 (ko ''Gateway offline $pan-dan$ (heartbeat timeout)''),
     CallL3 (ko ''$mi-eung-dab$ command timeout $cheo-ri$''),
     CallL3 (ko ''$o-rae-doen$ telemetry partition drop''),
     CallL3 (ko ''$baeg-eob$ $sil-haeng$ (pg_dump ^b7^ realm export)''),
     CallL3 (ko ''OTA job $sang-tae$ $hwag-in$ ^b7^ $jae-si-do$''),
     CallL3 (ko ''$al-ram$ $jae-jeon-song$''),
     CallL3 (ko ''$tong-gye$ / $ri-po-teu$ $saeng-seong$''),
     CallBlank]\<close>

definition chapter_4 :: "call list" where
  \<open>chapter_4 =
    [CallChapter ([8547] @ ascii ''. '' @ ko ''$sa-yong-ja$ $mich$ $gwon-han$ $mo-del$''),
     CallSection (ascii ''1.'') (ko ''$gwon-han$ $gye-cheung$ (Top-Down)''),
     CallL1 (ko ''System Admin ^2014^ $si-seu-tem$ $jeon-che$ $seol-jeong$ ^b7^ $mo-deun$ $hoe-sa$^b7^Gateway $gwan-ri$''),
     CallL1 (ko ''Management Company Admin ^2014^ $mo-deun$ $go-gaeg-sa$^b7^$jeon-che$ Gateway $gwan-je$^b7^$yu-ji-bo-su$''),
     CallL1 (ko ''Customer Company Admin ^2014^ $bon-in$ $hoe-sa$ $sa-yong-ja$^b7^$hyeon-jang$^b7^Gateway $gwan-ri$''),
     CallL1 (ko ''Site Manager ^2014^ $teug-jeong$ $hyeon-jang$ Gateway $gwan-ri$''),
     CallL1 (ko ''Operator ^2014^ $heo-yong-doen$ Gateway$ui$ $je-eo$ $chae-neol$ $jo-jag$''),
     CallL1 (ko ''Viewer ^2014^ $sen-seo$ $de-i-teo$^b7^$sang-tae$ $jo-hoe-man$ $ga-neung$''),
     CallL1 (ko ''Maintenance Engineer ($byeol-do$ $chug$) ^2014^ $jin-dan$^b7^$ro-geu$ $su-jib$^b7^OTA^b7^$jae-bu-ting$''),
     CallBlank,
     CallSection (ascii ''2.'') (ko ''$gwon-han$ $te-i-beul$ 3$chug$''),
     CallTable [ko ''$te-i-beul$'', ko ''$jo-hab$ $ki$'']
       [[ascii ''user_company_roles'', ko ''user ^d7^ company ^d7^ role''],
        [ascii ''user_site_permissions'', ko ''user ^d7^ site ^d7^ permission''],
        [ascii ''user_gateway_permissions'', ko ''user ^d7^ gateway ^d7^ permission'']]
       (Some [35, 65]),
     CallL1 (ko ''$gwon-han$ $jong-ryu$ (permission)''),
     CallL2 (ko ''view ^2014^ $jo-hoe-man$ $ga-neung$''),
     CallL2 (ko ''control ^2014^ $aeg-chu-e-i-teo$ $je-eo$ $ga-neung$''),
     CallL2 (ko ''configure ^2014^ $seol-jeong$ $byeon-gyeong$ $ga-neung$''),
     CallL2 (ko ''maintain ^2014^ $yu-ji-bo-su$^b7^OTA^b7^$jae-bu-ting$''),
     CallL2 (ko ''admin ^2014^ $mo-deun$ $gwon-han$ + $gwon-han$ $wi-im$''),
     CallBlank,
     CallSection (ascii ''3.'') (ko ''Keycloak $gu-seong$''),
     CallL1 (ascii ''Realm : iot-platform''),
     CallL1 (ko ''DB Backend : PostgreSQL $gong-yu$ $in-seu-teon-seu$ $an$ $byeol-do$ db (db=keycloak)''),
     CallL1 (ko ''Groups (Company $mae-ping$)''),
     CallL2 (ascii ''management-company''),
     CallL2 (ko ''customer-company-a / customer-company-b / customer-company-c ^2026^''),
     CallL1 (ko ''Roles (7$jong$, Phase 1$e-seo$ $mo-du$ $saeng-seong$)''),
     CallL2 (ko ''system_admin ^b7^ management_admin ^b7^ company_admin ^b7^ site_manager ^b7^ operator ^b7^ viewer ^b7^ maintenance_engineer''),
     CallBlank,
     CallSection (ascii ''4.'') (ko ''Keycloak ^2194^ Backend $chaeg-im$ $bun-ri$''),
     CallL1 (ko ''Keycloak $chaeg-im$''),
     CallL2 (ko ''$sa-yong-ja$ $in-jeung$, $bi-mil-beon-ho$ $jeong-chaeg$, OTP/2FA, $bi-mil-beon-ho$ reset''),
     CallL2 (ko ''OIDC/OAuth2 $to-keun$ $bal-geub$, role claim $je-gong$''),
     CallL1 (ko ''Backend $chaeg-im$''),
     CallL2 (ko ''company_id ^b7^ site_id ^b7^ gateway_id $gi-ban$ $sil$ $jeob-geun$ $gwon-han$ $pan-dan$''),
     CallL2 (ko ''Keycloak claim$man$ $sin-roe-ha-ji$ $anh-go$ DB $gwon-han$ $mae-ping-eu-ro$ $choe-jong$ $geom-jeung$''),
     CallL1 (ko ''$to-keun$ $geom-jeung$ $heu-reum$''),
     CallL2 (ko ''React ^2192^ Keycloak OIDC $ro-geu-in$ ^2192^ Bearer token ^2192^ /api/* $yo-cheong$''),
     CallL2 (ko ''Backend$ga$ JWT $geom-jeung$ ^2192^ DB $gwon-han$ $mae-ping$ ^2192^ $eung-dab$''),
     CallBlank]\<close>

definition chapter_5a :: "call list" where
  \<open>chapter_5a =
    [CallChapter ([8548] @ ascii ''. '' @ ko ''$de-i-teo$ $mo-del$ (PostgreSQL)''),
     CallSection (ascii ''1.'') (ko ''$haeg-sim$ ERD $yo-yag$''),
     CallL1 (ascii ''Identity / Auth : users, user_company_roles, user_site_permissions, user_gateway_permissions''),
     CallL1 (ko ''Asset $gye-cheung$ : companies ^2192^ sites ^2192^ gateways''),
     CallL1 (ascii ''Profile : gateway_profiles, sensor_profiles, actuator_profiles''),
     CallL1 (ko ''Channel ($in-seu-teon-seu$) : sensor_channels, actuator_channels (gateways$e$ $jong-sog$)''),
     CallL1 (ko ''Telemetry : telemetry ($wol-byeol$ partition), telemetry_latest''),
     CallL1 (ascii ''Config : gateway_configs, gateway_config_history''),
     CallL1 (ascii ''Operations : commands, alarm_rules, audit_logs, bulk_jobs''),
     CallBlank,
     CallSection (ascii ''2.'') (ko ''$haeg-sim$ $te-i-beul$ DDL (Phase 2 $u-seon$)''),
     CallL1 (ascii ''companies''),
     CallCode (join_lines
       [ascii ''CREATE TABLE companies ('',
        ascii ''    id UUID PRIMARY KEY,'',
        ascii ''    name TEXT NOT NULL,'',
        ko ''    company_type TEXT NOT NULL,      -- ^27^management^27^ | ^27^customer^27^'',
        ko ''    status TEXT NOT NULL DEFAULT ^27^active^27^,'',
        ascii ''    created_at TIMESTAMPTZ DEFAULT now(),'',
        ascii ''    updated_at TIMESTAMPTZ DEFAULT now()'',
        ascii '');'']),
     CallL1 (ascii ''sites''),
     CallCode (join_lines
       [ascii ''CREATE TABLE sites ('',
        ascii ''    id UUID PRIMARY KEY,'',
        ascii ''    company_id UUID NOT NULL REFERENCES companies(id),'',
        ascii ''    name TEXT NOT NULL,'',
        ascii ''    address TEXT,'',
        ascii ''    latitude  DOUBLE PRECISION,'',
        ascii ''    longitude DOUBLE PRECISION,'',
        ascii ''    created_at TIMESTAMPTZ DEFAULT now()'',
        ascii '');'']),
     CallL1 (ascii ''users''),
     CallCode (join_lines
       [ascii ''CREATE TABLE users ('',
        ascii ''    id UUID PRIMARY KEY,'',
        ascii ''    keycloak_user_id TEXT UNIQUE NOT NULL,'',
        ascii ''    email TEXT UNIQUE NOT NULL,'',
        ascii ''    name TEXT NOT NULL,'',
        ko ''    status TEXT NOT NULL DEFAULT ^27^active^27^,'',
        ascii ''    created_at TIMESTAMPTZ DEFAULT now()'',
        ascii '');'']),
     CallL1 (ascii ''gateways''),
     CallCode (join_lines
       [ascii ''CREATE TABLE gateways ('',
        ascii ''    id UUID PRIMARY KEY,'',
        ascii ''    serial_number TEXT UNIQUE NOT NULL,'',
        ascii ''    name TEXT NOT NULL,'',
        ascii ''    company_id UUID NOT NULL REFERENCES companies(id),'',
        ascii ''    site_id UUID REFERENCES sites(id),'',
        ascii ''    gateway_profile_id UUID REFERENCES gateway_profiles(id),'',
        ko ''    status TEXT NOT NULL DEFAULT ^27^offline^27^,'',
        ascii ''    firmware_version TEXT,'',
        ascii ''    app_version TEXT,'',
        ascii ''    config_version INTEGER DEFAULT 0,'',
        ascii ''    last_seen_at TIMESTAMPTZ,'',
        ascii ''    registered_at TIMESTAMPTZ DEFAULT now()'',
        ascii '');'']),
     CallL1 (ascii ''user_gateway_permissions''),
     CallCode (join_lines
       [ascii ''CREATE TABLE user_gateway_permissions ('',
        ascii ''    id UUID PRIMARY KEY,'',
        ascii ''    user_id UUID NOT NULL REFERENCES users(id),'',
        ascii ''    gateway_id UUID NOT NULL,'',
        ascii ''    permission TEXT NOT NULL,'',
        ascii ''        -- view | control | configure | maintain | admin'',
        ascii ''    UNIQUE(user_id, gateway_id, permission)'',
        ascii '');'']),
     CallBlank,
     CallSection (ascii ''3.'') (ko ''Sensor Profile / Sensor Channel $bun-ri$''),
     CallL1 (ko ''sensor_profiles : $sen-seo$ $mo-del$ $jeong-ui$ ($jae-sa-yong$)''),
     CallL2 (ko ''$ben-deo$ / $mo-del$ / $tong-sin$ $peu-ro-to-kol$ / interface_type''),
     CallL2 (ko ''$cheug-jeong$ $hang-mog$ (key, display_name, unit, data_type)''),
     CallL2 (ascii ''scale / offset / min / max / quality''),
     CallL2 (ascii ''register map (Modbus function_code, register, length)''),
     CallL2 (ascii ''default_polling_interval_sec''),
     CallL2 (ascii ''visualization (line_chart / gauge / map)''),
     CallL1 (ko ''$ye-si$ : RS485 Temperature Humidity Sensor''),
     CallCode (join_lines
       [ascii ''{'',
        ascii ''  "name": "RS485 Temperature Humidity Sensor",'',
        ascii ''  "vendor": "Generic", "model": "TH-RS485-01",'',
        ascii ''  "protocol": "modbus_rtu", "interface_type": "rs485",'',
        ascii ''  "default_polling_interval_sec": 10,'',
        ascii ''  "measurements": ['',
        ascii ''    {"key": "temperature", "unit": "degC",'',
        ascii ''     "modbus": {"function_code": 3, "register": 0, "length": 1},'',
        ascii ''     "scale": 0.1, "visualization": "line_chart"},'',
        ascii ''    {"key": "humidity", "unit": "%",'',
        ascii ''     "modbus": {"function_code": 3, "register": 1, "length": 1},'',
        ascii ''     "scale": 0.1, "visualization": "line_chart"}'',
        ascii ''  ]'',
        ascii ''}'']),
     CallL1 (ko ''sensor_channels : Gateway$e$ $sil-je$ $yeon-gyeol-doen$ $in-seu-teon-seu$''),
     CallL2 (ko ''$eo-tteon$ Gateway$e$ (gateway_id)''),
     CallL2 (ko ''$eo-tteon$ Sensor Profile$eul$ (sensor_profile_id)''),
     CallL2 (ko ''$eo-tteon$ $in-teo-pe-i-seu$/$po-teu-ro$ (interface_name)''),
     CallL2 (ascii ''Modbus slave_id / address''),
     CallL2 (ascii ''polling_interval_sec / enabled / display_name''),
     CallL2 (ko ''override $ga-neung-han$ config JSONB''),
     CallL1 (ko ''$ye-si$ : GW-000001$ui$ 1$beon$ RS-485$e$ $seul-re-i-beu$ 1$ro$ $yeon-gyeol$''),
     CallCode (join_lines
       [ascii ''{'',
        ascii ''  "gateway_id":         "GW-000001",'',
        ascii ''  "sensor_channel_id":  "sensor-01",'',
        ascii ''  "sensor_profile_id":  "profile-rs485-temp-humi-001",'',
        ko ''  "display_name":       "1$beon$ $on-seub-do$ $sen-seo$",'',
        ascii ''  "interface":          "rs485_1",'',
        ascii ''  "protocol":           "modbus_rtu",'',
        ascii ''  "slave_id":           1,'',
        ascii ''  "polling_interval_sec": 10,'',
        ascii ''  "enabled":            true'',
        ascii ''}'']),
     CallBlank]\<close>

definition chapter_5b :: "call list" where
  \<open>chapter_5b =
    [CallSection (ascii ''4.'') (ko ''Telemetry $jeo-jang$ $mo-del$''),
     CallL1 (ko ''$jeo-jang$ $jeon-ryag$''),
     CallL2 (ko ''$sen-seo-ma-da$ $keol-reom-i$ $da-reu-meu-ro$ measurement_key + value_* $da-jung$ $keol-reom$ $pae-teon$''),
     CallL2 (ko ''$wol-byeol$ partition$eu-ro$ retention $jeong-chaeg$ (drop partition$eu-ro$ $ppa-reun$ $jeong-ri$)''),
     CallL2 (ko ''$dae-si-bo-deu-neun$ telemetry_latest $dan-il$ $te-i-beul$ ^2192^ O(1) $jo-hoe$''),
     CallL2 (ko ''Worker$e-seo$ INSERT + UPSERT $dong-si$ $su-haeng$''),
     CallL1 (ascii ''DDL''),
     CallCode (join_lines
       [ascii ''CREATE TABLE telemetry ('',
        ascii ''    id BIGSERIAL,'',
        ascii ''    company_id UUID NOT NULL,'',
        ascii ''    site_id UUID,'',
        ascii ''    gateway_id UUID NOT NULL REFERENCES gateways(id),'',
        ascii ''    sensor_channel_id UUID NOT NULL REFERENCES sensor_channels(id),'',
        ascii ''    measurement_key TEXT NOT NULL,'',
        ascii ''    ts TIMESTAMPTZ NOT NULL,'',
        ascii ''    value_double DOUBLE PRECISION,'',
        ascii ''    value_text TEXT, value_bool BOOLEAN, value_json JSONB,'',
        ascii ''    unit TEXT, quality TEXT, raw JSONB,'',
        ascii ''    PRIMARY KEY (id, ts)'',
        ascii '') PARTITION BY RANGE (ts);'',
        ascii '''',
        ascii ''CREATE TABLE telemetry_2026_05 PARTITION OF telemetry'',
        ko ''    FOR VALUES FROM (^27^2026-05-01^27^) TO (^27^2026-06-01^27^);'',
        ascii '''',
        ascii ''CREATE TABLE telemetry_latest ('',
        ascii ''    gateway_id UUID, sensor_channel_id UUID,'',
        ascii ''    measurement_key TEXT, ts TIMESTAMPTZ,'',
        ascii ''    value_double DOUBLE PRECISION,'',
        ascii ''    value_text TEXT, value_bool BOOLEAN, value_json JSONB,'',
        ascii ''    unit TEXT, quality TEXT,'',
        ascii ''    PRIMARY KEY (gateway_id, sensor_channel_id, measurement_key)'',
        ascii '');'']),
     CallL1 (ko ''$ye-si$ $de-i-teo$''),
     CallTable [ascii ''gateway_id'', ascii ''sensor_channel_id'', ascii ''measurement_key'', ascii ''value_double'', ascii ''unit'']
       [[ascii ''GW-001'', ascii ''sensor-01'', ascii ''temperature'', ascii ''24.7'', ascii ''degC''],
        [ascii ''GW-001'', ascii ''sensor-01'', ascii ''humidity'', ascii ''61.2'', ascii ''%''],
        [ascii ''GW-002'', ascii ''sensor-02'', ascii ''tilt_x'', ascii ''3.2'', ascii ''deg'']]
       (Some [18, 24, 25, 18, 15]),
     CallNote (ko ''$hyang-hu$ TimescaleDB Community $gi-neung$ $geom-to$ $ga-neung$. $dan$ Timescale License $hon-jae$ $ju-ui$.''),
     CallBlank,
     CallSection (ascii ''5.'') (ko ''Gateway Config $beo-jeon$ $gwan-ri$''),
     CallL1 (ko ''$cheo-ri$ $heu-reum$ (6$dan-gye$)''),
     CallL2 (ko ''1) Web Portal$e-seo$ $gwan-ri-ja$ $byeon-gyeong$ ^2192^ 2) Backend DB$e$ config $jeo-jang$''),
     CallL2 (ko ''3) Config Generator$ga$ version + hash $saeng-seong$''),
     CallL2 (ko ''4) MQTT publish gw/{id}/config/desired ^2192^ 5) Gateway $seol-jeong$ $jeog-yong$''),
     CallL2 (ko ''6) MQTT report gw/{id}/config/reported ($jeog-yong$ $gyeol-gwa$ $bo-go$)''),
     CallL1 (ascii ''DDL''),
     CallCode (join_lines
       [ascii ''CREATE TABLE gateway_configs ('',
        ascii ''    id UUID PRIMARY KEY,'',
        ascii ''    gateway_id UUID NOT NULL REFERENCES gateways(id),'',
        ascii ''    config_version INTEGER NOT NULL,'',
        ascii ''    config_hash TEXT NOT NULL,'',
        ascii ''    desired_config JSONB NOT NULL,'',
        ko ''    status TEXT NOT NULL DEFAULT ^27^pending^27^,'',
        ascii ''    created_by UUID REFERENCES users(id),'',
        ascii ''    created_at TIMESTAMPTZ DEFAULT now(),'',
        ascii ''    applied_at TIMESTAMPTZ,'',
        ascii ''    UNIQUE(gateway_id, config_version)'',
        ascii '');'',
        ascii '''',
        ascii ''CREATE TABLE gateway_config_history ('',
        ascii ''    id UUID PRIMARY KEY,'',
        ascii ''    gateway_id UUID NOT NULL REFERENCES gateways(id),'',
        ascii ''    config_version INTEGER NOT NULL,'',
        ascii ''    config_snapshot JSONB NOT NULL,'',
        ascii ''    change_reason TEXT,'',
        ascii ''    changed_by UUID REFERENCES users(id),'',
        ascii ''    changed_at TIMESTAMPTZ DEFAULT now()'',
        ascii '');'']),
     CallL1 (ko ''desired_config $ye-si$ ($seo-beo$)''),
     CallCode (join_lines
       [ascii ''{'',
        ascii ''  "gateway_id": "GW-000001",'',
        ascii ''  "config_version": 12,'',
        ascii ''  "config_hash": "a83f2e9d",'',
        ascii ''  "interfaces": [...],'',
        ascii ''  "sensors":    [...],'',
        ascii ''  "actuators":  [...],'',
        ascii ''  "rules":      [...]'',
        ascii ''}'']),
     CallL1 (ko ''reported_config $ye-si$ (Gateway)''),
     CallCode (join_lines
       [ascii ''{'',
        ascii ''  "gateway_id": "GW-000001",'',
        ascii ''  "applied_config_version": 12,'',
        ascii ''  "config_hash": "a83f2e9d",'',
        ascii ''  "status": "applied",'',
        ascii ''  "applied_at": "2026-05-02T12:00:00Z",'',
        ascii ''  "errors": []'',
        ascii ''}'']),
     CallBlank]\<close>

definition chapter_6 :: "call list" where
  \<open>chapter_6 =
    [CallChapter ([8549] @ ascii ''. '' @ ko ''$tong-sin$ $seol-gye$ (MQTT)''),
     CallSection (ascii ''1.'') (ko ''Topic $seol-gye$ $won-chig$''),
     CallL1 (ko ''$bi-gwon-jang$ ($sa-yong-ja$ $gi-jun$)''),
     CallL2 (ko ''user/{userId}/gateway/{gatewayId}/telemetry ^2192^ $sa-yong-ja$ $byeon-gyeong$/$i-jeon$ $si$ topic $jae-gu-seong$ $pil-yo$, ACL $bog-jab$''),
     CallL1 (ko ''$gwon-jang$ (Gateway $gi-jun$)''),
     CallL2 (ko ''gw/{gatewayId}/telemetry ^2192^ Gateway $dan-il$ $sig-byeol-ja$ $gi-jun$, ACL $dan-sun$, $sa-yong-ja$ $mae-ping-eun$ Backend DB''),
     CallBlank,
     CallSection (ascii ''2.'') (ko ''Topic $gwon-han$ (publish / subscribe)''),
     CallL1 (ko ''Gateway ^2192^ Server (publish $gwon-han$)''),
     CallTable [ascii ''Topic'', ko ''$yong-do$'']
       [[ascii ''gw/{id}/telemetry'', ko ''$sen-seo$ $cheug-jeong-gabs$''],
        [ascii ''gw/{id}/state'', ko ''$jeon-che$ $sang-tae$ (cpu^b7^mem^b7^net)''],
        [ascii ''gw/{id}/heartbeat'', ko ''$ju-gi$ alive $sin-ho$''],
        [ascii ''gw/{id}/event'', ko ''$e-reo$^b7^$gyeong-bo$^b7^$i-ben-teu$''],
        [ascii ''gw/{id}/config/reported'', ko ''$hyeon-jae$ $jeog-yong-doen$ config''],
        [ascii ''gw/{id}/command/response'', ko ''$myeong-ryeong$ $sil-haeng$ $gyeol-gwa$''],
        [ascii ''gw/{id}/ota/status'', ko ''OTA $jin-haeng$ $sang-hwang$'']]
       (Some [40, 60]),
     CallL1 (ko ''Server ^2192^ Gateway (subscribe $gwon-han$)''),
     CallTable [ascii ''Topic'', ko ''$yong-do$'']
       [[ascii ''gw/{id}/config/desired'', ko ''$seo-beo-ga$ $bal-haeng-ha-neun$ $seol-jeong$''],
        [ascii ''gw/{id}/command/request'', ko ''$won-gyeog$ $je-eo$ $myeong-ryeong$''],
        [ascii ''gw/{id}/ota/request'', ko ''OTA $jag-eob$ $ji-si$'']]
       (Some [40, 60]),
     CallL1 (ko ''VerneMQ ACL $jeong-chaeg$ (Phase 7)''),
     CallL2 (ko ''Gateway $gye-jeong-eun$ $ja-gi$ gw/{own_id}/* $man$ publish/subscribe $ga-neung$''),
     CallL2 (ko ''Backend $gye-jeong-eun$ $mo-deun$ topic publish/subscribe $ga-neung$''),
     CallL2 (ko ''Phase 1 : password file (gateway / admin $gye-jeong$ 1$gae-ssig$)''),
     CallL2 (ko ''Phase 7 : X.509 client cert + serial ^2192^ topic ACL $mae-ping$''),
     CallBlank,
     CallSection (ascii ''3.'') (ko ''Payload $ye-si$''),
     CallL1 (ascii ''Telemetry Payload (gw/{id}/telemetry)''),
     CallCode (join_lines
       [ascii ''{'',
        ascii ''  "message_id": "msg-20260502-000001",'',
        ascii ''  "gateway_id": "GW-000001",'',
        ascii ''  "timestamp":  "2026-05-02T12:00:00Z",'',
        ascii ''  "values": ['',
        ascii ''    {'',
        ascii ''      "sensor_channel_id": "sensor-01",'',
        ascii ''      "measurement_key": "temperature",'',
        ascii ''      "value": 24.7, "unit": "degC", "quality": "good"'',
        ascii ''    },'',
        ascii ''    {'',
        ascii ''      "sensor_channel_id": "sensor-01",'',
        ascii ''      "measurement_key": "humidity",'',
        ascii ''      "value": 61.2, "unit": "%", "quality": "good"'',
        ascii ''    }'',
        ascii ''  ]'',
        ascii ''}'']),
     CallL1 (ascii ''Gateway State Payload (gw/{id}/state)''),
     CallCode (join_lines
       [ascii ''{'',
        ascii ''  "gateway_id": "GW-000001",'',
        ascii ''  "timestamp":  "2026-05-02T12:00:00Z",'',
        ascii ''  "status":     "online",'',
        ascii ''  "app_version":      "1.0.3",'',
        ascii ''  "firmware_version": "2026.05.02",'',
        ascii ''  "config_version":   12,'',
        ascii ''  "uptime_sec":       82344,'',
        ascii ''  "cpu_temp":         51.3,'',
        ascii ''  "memory_usage_percent": 38.7,'',
        ascii ''  "disk_usage_percent":   42.1,'',
        ascii ''  "network": {'',
        ascii ''    "ethernet": true,'',
        ascii ''    "ip":       "192.168.0.25",'',
        ascii ''    "rtt_ms":   34'',
        ascii ''  }'',
        ascii ''}'']),
     CallNote (ko ''$gong-tong$ envelope : message_id (idempotency) + gateway_id + timestamp(UTC ISO8601). $mo-deun$ $me-si-ji$ QoS 1 $gwon-jang$.''),
     CallBlank,
     CallSection (ascii ''4.'') (ko ''$won-gyeog$ $je-eo$ $myeong-ryeong$ $heu-reum$ (11 step)''),
     CallL1 (ko ''1) User ^2192^ Backend API : $ril-re-i$ ON $yo-cheong$ (POST /api/.../commands)''),
     CallL1 (ko ''2) Backend ^2192^ Backend : $sa-yong-ja$ $gwon-han$ $geom-sa$ (User ^d7^ Gateway)''),
     CallL1 (ko ''3) Backend ^2192^ PostgreSQL : command $saeng-seong$ (status=pending)''),
     CallL1 (ko ''4) Backend ^2192^ VerneMQ : MQTT publish gw/{id}/command/request''),
     CallL1 (ko ''5) VerneMQ ^2192^ Gateway : $myeong-ryeong$ $jeon-dal$''),
     CallL1 (ko ''6) Gateway ^2192^ Gateway : Local Safety Rule $che-keu$ (interlock, max_on)''),
     CallL1 (ko ''7) Gateway ^2192^ Relay/Valve : GPIO $je-eo$''),
     CallL1 (ko ''8) Relay/Valve ^2192^ Gateway : $sil-haeng$ $gyeol-gwa$ $pi-deu-baeg$''),
     CallL1 (ko ''9) Gateway ^2192^ VerneMQ : MQTT publish gw/{id}/command/response''),
     CallL1 (ko ''10) Worker ^2192^ PostgreSQL : $eung-dab$ $su-sin$, command status $eob-de-i-teu$''),
     CallL1 (ko ''11) Backend ^2192^ User : $gyeol-gwa$ $pyo-si$ (executed / failed / timeout)''),
     CallBlank]\<close>

definition chapter_7 :: "call list" where
  \<open>chapter_7 =
    [CallChapter ([8550] @ ascii ''. '' @ ko ''$an-jeon$ $mich$ $ja-dong-hwa$''),
     CallSection (ascii ''1.'') (ko ''$myeong-ryeong$ $an-jeon$ $jo-geon$ (8$ga-ji$)''),
     CallTable [ko ''$jo-geon$'', ko ''$seol-myeong$'']
       [[ascii ''command_id'', ko ''$jung-bog$ $sil-haeng$ $bang-ji$ (idempotency key)''],
        [ascii ''expires_at'', ko ''$o-rae-doen$ $myeong-ryeong$ $ja-dong$ $pye-gi$''],
        [ascii ''timeout_ms'', ko ''$ji-yeon$ $myeong-ryeong$ $sil-pae$ $cheo-ri$''],
        [ascii ''require_ack'', ko ''$sil-haeng$ $gyeol-gwa$ $pil-su$ $hwag-in$''],
        [ascii ''local_safety_check'', ko ''$hyeon-jang$ $jo-geon$ $wi-ban$ $si$ $geo-bu$''],
        [ascii ''audit_log'', ko ''$sa-yong-ja$^b7^$si-gan$^b7^$dae-sang$^b7^$gyeol-gwa$ $bo-gwan$''],
        [ascii ''fail_safe'', ko ''$jang-ae$ $si$ $an-jeon$ $sang-tae-ro$ $jeon-hwan$''],
        [ascii ''manual_override'', ko ''$hyeon-jang$ $su-dong$ $je-eo$ $u-seon$'']]
       (Some [25, 75]),
     CallBlank,
     CallSection (ascii ''2.'') (ko ''Alarm Rule $seol-gye$''),
     CallL1 (ko ''alarm_rules $te-i-beul$''),
     CallCode (join_lines
       [ascii ''CREATE TABLE alarm_rules ('',
        ascii ''    id UUID PRIMARY KEY,'',
        ascii ''    gateway_id UUID NOT NULL REFERENCES gateways(id),'',
        ascii ''    sensor_channel_id UUID NOT NULL REFERENCES sensor_channels(id),'',
        ascii ''    measurement_key TEXT NOT NULL,'',
        ko ''    condition TEXT NOT NULL,         -- ^27^>^27^, ^27^<^27^, ^27^=^27^, ...'',
        ascii ''    threshold DOUBLE PRECISION,'',
        ascii ''    duration_sec INTEGER DEFAULT 0,'',
        ascii ''    severity TEXT NOT NULL,          -- info | warning | critical'',
        ascii ''    enabled BOOLEAN DEFAULT true,'',
        ascii ''    created_at TIMESTAMPTZ DEFAULT now()'',
        ascii '');'']),
     CallL1 (ko ''Alarm Rule $ye-si$''),
     CallCode (join_lines
       [ascii ''{'',
        ascii ''  "gateway_id":  "GW-000001",'',
        ascii ''  "sensor_channel_id": "sensor-01",'',
        ascii ''  "measurement_key": "temperature",'',
        ascii ''  "condition": ">", "threshold": 35.0,'',
        ascii ''  "duration_sec": 60,'',
        ascii ''  "severity": "warning",'',
        ascii ''  "action": "notify"'',
        ascii ''}'']),
     CallBlank,
     CallSection (ascii ''3.'') (ko ''$ja-dong$ $je-eo$ Rule ($seo-beo$ + Gateway $yang-jjog$ $bae-po$)''),
     CallL1 (ko ''$bae-po$ $i-yu$''),
     CallL2 (ko ''$tong-sin$ $jang-ae$ $si-e-do$ $dong-jag-hae-ya$ $ha-meu-ro$ Gateway $ro-keol$ Rule Engine$e$ $ham-kke$ $bae-po$''),
     CallL1 (ko ''$ja-dong$ $je-eo$ Rule $ye-si$''),
     CallCode (join_lines
       [ascii ''{'',
        ascii ''  "rule_id": "control-rule-001",'',
        ascii ''  "if": {'',
        ascii ''    "sensor_channel_id": "sensor-02",'',
        ascii ''    "measurement_key": "water_level",'',
        ascii ''    "condition": "<", "threshold": 20'',
        ascii ''  },'',
        ascii ''  "then": {'',
        ascii ''    "actuator_channel_id": "relay-01",'',
        ascii ''    "action": "ON"'',
        ascii ''  },'',
        ascii ''  "safety": { "max_on_duration_sec": 300 }'',
        ascii ''}'']),
     CallBlank]\<close>

definition chapter_8 :: "call list" where
  \<open>chapter_8 =
    [CallChapter ([8551] @ ascii ''. '' @ ascii ''Web Portal''),
     CallSection (ascii ''1.'') (ko ''$gwon-han-byeol$ $hwa-myeon$ $gu-seong$''),
     CallL1 (ko ''$il-ban$ $sa-yong-ja$ $hwa-myeon$''),
     CallL2 (ko ''$nae$ Gateway $mog-rog$''),
     CallL3 (ko ''$i-reum$ / $seol-chi$ $wi-chi$''),
     CallL3 (ko ''Online^b7^Offline $sang-tae$''),
     CallL3 (ko ''$al-ram$ $sang-tae$''),
     CallL3 (ko ''$ju-yo$ $sen-seo$ $choe-sin-gabs$''),
     CallL3 (ko ''$je-eo$ $ga-neung$ $aeg-chu-e-i-teo$''),
     CallL3 (ko ''$choe-geun$ $i-ben-teu$''),
     CallL1 (ko ''Gateway $sang-se$ $hwa-myeon$''),
     CallL2 (ko ''$gi-bon$ $jeong-bo$ / $ne-teu-wo-keu$ $sang-tae$''),
     CallL2 (ko ''$sen-seo$ $chae-neol$ $mog-rog$''),
     CallL2 (ko ''$choe-sin$ $sen-seo-gabs$ (telemetry_latest)''),
     CallL2 (ko ''$si-gye-yeol$ $geu-rae-peu$ (Apache ECharts)''),
     CallL2 (ko ''$je-eo$ $chae-neol$ (Toggle / Slider)''),
     CallL2 (ko ''$al-ram$ $i-ryeog$ / $myeong-ryeong$ $i-ryeog$''),
     CallL2 (ko ''$seol-jeong$ $beo-jeon$ / $yu-ji-bo-su$ $ro-geu$''),
     CallL1 (ko ''$gwan-ri-ja$ $hwa-myeon$''),
     CallL2 (ko ''$sa-yong-ja$ ^b7^ $go-gaeg-sa$ ^b7^ $hyeon-jang$ $gwan-ri$''),
     CallL2 (ko ''Gateway $deung-rog$ / $so-yu-gwon$ $hal-dang$''),
     CallL2 (ko ''Gateway Profile $gwan-ri$''),
     CallL2 (ko ''Sensor Profile $gwan-ri$''),
     CallL2 (ko ''Sensor / Actuator Channel $seol-jeong$''),
     CallL2 (ko ''Gateway Template $gwan-ri$''),
     CallL2 (ascii ''Bulk Operation / OTA''),
     CallL2 (ko ''Audit Log $jo-hoe$''),
     CallBlank,
     CallSection (ascii ''2.'') (ko ''Sensor $chu-ga$ Wizard (8$dan-gye$)''),
     CallTable [ko ''$dan-gye$'', ko ''$i-reum$'', ko ''$seol-myeong$'']
       [[ascii ''1'', ko ''Gateway $seon-taeg$'', ko ''$eo-tteon$ $jang-bi-e$ $chu-ga-ha-na$''],
        [ascii ''2'', ko ''$in-teo-pe-i-seu$ $seon-taeg$'', ko ''RS-485 #1/2 ^b7^ AI ^b7^ DI ^b7^ I2C ^b7^ UART''],
        [ascii ''3'', ko ''Sensor Profile $seon-taeg$'', ko ''$on-seub-do$ ^b7^ $mi-se-meon-ji$ ^b7^ $gi-ul-gi$ ^b7^ $su-wi$ ^b7^ pH ...''],
        [ascii ''4'', ko ''$tong-sin$ $seol-jeong$'', ko ''Modbus slave_id ^b7^ baudrate ^b7^ parity''],
        [ascii ''5'', ko ''$cheug-jeong$ $ju-gi$'', ascii ''polling_interval_sec''],
        [ascii ''6'', ko ''$pyo-si$ $i-reum$'', ko ''$sa-yong-ja-e-ge$ $bo-yeo-jul$ $i-reum$''],
        [ascii ''7'', ko ''$jeo-jang$'', ko ''sensor_channels $te-i-beul-e$ INSERT''],
        [ascii ''8'', ko ''Config $bae-po$'', ascii ''config_version + 1, MQTT desired publish'']]
       (Some [8, 22, 70]),
     CallBlank,
     CallSection (ascii ''3.'') (ko ''$dong-jeog$ Dashboard $ja-dong$ $saeng-seong$''),
     CallL1 (ko ''$cheug-jeong$ $ki$ ^2192^ Widget $mae-ping$''),
     CallTable [ascii ''measurement_key'', ascii ''Widget'']
       [[ascii ''temperature'', ascii ''Line Chart + Current Value Card''],
        [ascii ''humidity'', ascii ''Line Chart + Gauge''],
        [ascii ''pressure'', ascii ''Line Chart''],
        [ascii ''pm2_5'', ascii ''Gauge + Line Chart''],
        [ascii ''tilt_x, tilt_y'', ascii ''2-axis Tilt View + Line''],
        [ascii ''water_level'', ascii ''Gauge''],
        [ascii ''relay_state'', ascii ''Toggle + Status Card''],
        [ascii ''valve_state'', ascii ''Toggle + Status Card''],
        [ascii ''gps'', ascii ''Map'']]
       (Some [35, 65]),
     CallL1 (ko ''Sensor Profile$ui$ visualization $seol-jeong$ $ye$''),
     CallCode (join_lines
       [ascii ''{'',
        ascii ''  "key": "temperature",'',
        ascii ''  "display_name": "Temperature",'',
        ascii ''  "unit": "degC",'',
        ascii ''  "visualization": "line_chart",'',
        ascii ''  "display_group": "environment",'',
        ascii ''  "order": 1'',
        ascii ''}'']),
     CallL1 (ko ''$hyo-gwa$''),
     CallL2 (ko ''$sae$ $sen-seo$ $chu-ga$ $si$ frontend $su-jeong$ 0$jul$''),
     CallL2 (ko ''Gateway$byeol$ $da-reun$ $dae-si-bo-deu$ $ja-dong$ $saeng-seong$''),
     CallL2 (ko ''$sa-yong-ja-byeol$ widget $sun-seo$ $keo-seu-teom$ $ga-neung$''),
     CallBlank,
     CallSection (ascii ''4.'') (ascii ''Bulk Operation''),
     CallL1 (ko ''$ji-won$ $jag-eob$ (8$jong$)''),
     CallL2 (ko ''Gateway $il-gwal$ $hyeon-jang$ $bae-jeong$ ^2014^ company/site $mae-ping$ $byeon-gyeong$''),
     CallL2 (ko ''$sa-yong-ja$ $gwon-han$ $il-gwal$ $bu-yeo$ ^2014^ $teug-jeong$ group ^2192^ $da-su$ Gateway''),
     CallL2 (ko ''$sen-seo$ polling $il-gwal$ $byeon-gyeong$ ^2014^ sensor_channels.polling_interval_sec''),
     CallL2 (ko ''$al-ram$ $gi-jun$ $il-gwal$ $byeon-gyeong$ ^2014^ alarm_rules.threshold''),
     CallL2 (ko ''OTA $il-gwal$ $eob-de-i-teu$ ^2014^ $ta-ges$ $pil-teo$ + $jeom-jin$ $bae-po$''),
     CallL2 (ko ''Gateway $il-gwal$ $jae-si-jag$ ^2014^ command publish (reboot)''),
     CallL2 (ko ''$seol-jeong$ $il-gwal$ $bae-po$ ^2014^ Template $gi-ban$ desired_config $bal-haeng$''),
     CallL2 (ko ''$ro-geu$ $il-gwal$ $su-jib$ ^2014^ log/upload topic $teu-ri-geo$''),
     CallL1 (ko ''bulk_jobs $te-i-beul$''),
     CallCode (join_lines
       [ascii ''CREATE TABLE bulk_jobs ('',
        ascii ''    id UUID PRIMARY KEY,'',
        ascii ''    job_type TEXT NOT NULL,'',
        ascii ''    target_filter JSONB NOT NULL,    -- {"company_id": "...", "site_id": "...", "tags": [...]}'',
        ko ''    payload JSONB NOT NULL,          -- $jag-eob-byeol$ $pa-ra-mi-teo$'',
        ko ''    status TEXT NOT NULL DEFAULT ^27^pending^27^,'',
        ascii ''    created_by UUID REFERENCES users(id),'',
        ascii ''    created_at TIMESTAMPTZ DEFAULT now(),'',
        ascii ''    completed_at TIMESTAMPTZ'',
        ascii '');'']),
     CallBlank]\<close>

definition chapter_9 :: "call list" where
  \<open>chapter_9 =
    [CallChapter ([8552] @ ascii ''. '' @ ascii ''Gateway Agent''),
     CallSection (ascii ''1.'') (ko ''$nae-bu$ $gu-seong$ (/opt/iot-gateway/)''),
     CallL1 (ko ''gateway-agent ^2014^ $me-in$ $ru-peu$''),
     CallL1 (ko ''sensor-service ^2014^ Modbus / AI / DI polling''),
     CallL1 (ko ''actuator-service ^2014^ GPIO / Relay $je-eo$''),
     CallL1 (ko ''rule-engine ^2014^ Local Rule ($o-peu-ra-in$ $ga-yong$)''),
     CallL1 (ko ''mqtt-client ^2014^ TLS pub/sub''),
     CallL1 (ko ''local-db ^2014^ SQLite (queue^b7^log)''),
     CallL1 (ko ''ota-agent ^2014^ $i-mi-ji$ $geom-jeung$^b7^$jeog-yong$''),
     CallL1 (ko ''health-agent ^2014^ heartbeat $song-sin$''),
     CallL1 (ko ''config/ ^2014^ $seol-jeong$ $pa-il$''),
     CallL1 (ko ''logs/ ^2014^ $hoe-jeon$ $ro-geu$''),
     CallBlank,
     CallSection (ascii ''2.'') (ko ''$bu-ting$ $heu-reum$ (14$dan-gye$)''),
     CallL1 (ko ''01. Gateway ID $hwag-in$''),
     CallL1 (ko ''02. $in-jeung-seo$^b7^$seol-jeong$ $pa-il$ $hwag-in$''),
     CallL1 (ko ''03. $ne-teu-wo-keu$ $hwag-in$''),
     CallL1 (ko ''04. MQTT Broker $yeon-gyeol$''),
     CallL1 (ko ''05. $hyeon-jae$ config_version $bo-go$''),
     CallL1 (ko ''06. $seo-beo$ desired_config $hwag-in$''),
     CallL1 (ko ''07. $beo-jeon-i$ $da-reu-myeon$ $da-un-ro-deu$''),
     CallL1 (ko ''08. $seol-jeong$ $yu-hyo-seong$ $geom-sa$''),
     CallL1 (ko ''09. Sensor driver $gu-seong$''),
     CallL1 (ko ''10. Actuator driver $gu-seong$''),
     CallL1 (ko ''11. Rule engine $gu-seong$''),
     CallL1 (ko ''12. reported_config $jeon-song$''),
     CallL1 (ko ''13. $sen-seo$ polling $si-jag$''),
     CallL1 (ko ''14. $ju-gi$ heartbeat $jeon-song$''),
     CallBlank,
     CallSection (ascii ''3.'') (ko ''Local Buffer $jeong-chaeg$ (SQLite)''),
     CallTable [ko ''$hang-mog$'', ko ''$jeong-chaeg$'']
       [[ko ''$jeo-jang$ $dae-sang$'', ko ''telemetry ^b7^ event ^b7^ command response''],
        [ko ''$jae-jeon-song$ $sun-seo$'', ko ''timestamp $o-reum-cha-sun$''],
        [ko ''$jung-bog$ $bang-ji$'', ko ''message_id $gi-ban$''],
        [ko ''$bo-jon$ $gi-gan$'', ko ''7~30$il$ ($jeong-chaeg$ $ga-neung$)''],
        [ko ''$jeo-jang-gong-gan$ $cho-gwa$'', ko ''$o-rae-doen$ telemetry$bu-teo$ $sag-je$''],
        [ko ''$u-seon-sun-wi$'', ascii ''event > command_response > telemetry'']]
       (Some [25, 75]),
     CallBlank,
     CallSection (ascii ''4.'') (ko ''Safety MCU $seol-gye$ (CM4 + STM32 $i-jung$ $gu-jo$)''),
     CallL1 (ko ''CM4 Linux $chaeg-im$''),
     CallL2 (ko ''$keul-ra-u-deu$ $tong-sin$ (MQTT TLS)''),
     CallL2 (ko ''$de-i-teo$ $jeo-jang$ (SQLite local buffer)''),
     CallL2 (ko ''$go-su-jun$ $myeong-ryeong$ $cheo-ri$ / Rule engine''),
     CallL2 (ko ''OTA / $jin-dan$ / $ro-geu$ $su-jib$''),
     CallL1 (ko ''STM32 / NXP Safety MCU $chaeg-im$''),
     CallL2 (ko ''$ril-re-i$ / $bael-beu$ $jig-jeob$ $je-eo$ (low-level)''),
     CallL2 (ko ''Local Interlock ^2014^ $sen-seo$ $jo-geon$ $wi-ban$ $si$ $cha-dan$''),
     CallL2 (ko ''Watchdog ^2014^ Linux $haeng$ $si$ $ja-dong$ fail-safe''),
     CallL2 (ko ''Fail-safe state $gang-je$ $jeon-hwan$''),
     CallL2 (ko ''$mul-ri-jeog$ $bi-sang$ $jeong-ji$ $ib-ryeog$ $cheo-ri$''),
     CallL1 (ko ''$pil-su$ $an-jeon$ $gi-neung$ 8$ga-ji$''),
     CallTable [ko ''$gi-neung$'', ko ''$seol-myeong$'']
       [[ascii ''Fail-safe state'', ko ''$jang-ae$ $si$ $ril-re-i$/$bael-beu$ $gi-bon$ $an-jeon$ $sang-tae$''],
        [ascii ''Max ON duration'', ko ''$ril-re-i-ga$ $neo-mu$ $o-rae$ $kyeo-ji-ji$ $anh-do-rog$ $je-han$''],
        [ascii ''Command expiry'', ko ''$o-rae-doen$ $myeong-ryeong$ $sil-haeng$ $geum-ji$''],
        [ascii ''Manual override'', ko ''$hyeon-jang$ $su-dong$ $je-eo$ $u-seon$''],
        [ascii ''Interlock'', ko ''$sen-seo$ $jo-geon$ $wi-ban$ $si$ $je-eo$ $cha-dan$''],
        [ascii ''Watchdog'', ko ''$peu-ro-se-seu$ / OS $jang-ae$ $gam-ji$''],
        [ascii ''Output feedback'', ko ''$sil-je$ $ril-re-i$ $sang-tae$ $pi-deu-baeg$''],
        [ascii ''Emergency stop'', ko ''$mul-ri-jeog$ $bi-sang$ $jeong-ji$'']]
       (Some [25, 75]),
     CallNote (ko ''Safety MCU$neun$ Phase 4-7$e$ $jeom-jin$ $do-ib$. Phase 1-3$neun$ CM4 $dan-dog$.''),
     CallBlank]\<close>

definition chapter_10 :: "call list" where
  \<open>chapter_10 =
    [CallChapter ([8553] @ ascii ''. '' @ ko ''API $seol-gye$ ($yo-yag$)''),
     CallSection (ascii ''1.'') (ascii ''Gateway API''),
     CallCode (join_lines
       [ascii ''POST   /api/gateways'',
        ascii ''GET    /api/gateways'',
        ascii ''GET    /api/gateways/{id}'',
        ascii ''PATCH  /api/gateways/{id}'',
        ascii ''DELETE /api/gateways/{id}'',
        ascii ''GET    /api/gateways/{id}/state'',
        ascii ''GET    /api/gateways/{id}/telemetry'',
        ascii ''GET    /api/gateways/{id}/latest'',
        ascii ''GET    /api/gateways/{id}/events'']),
     CallBlank,
     CallSection (ascii ''2.'') (ascii ''Sensor API''),
     CallCode (join_lines
       [ascii ''POST   /api/sensor-profiles'',
        ascii ''GET    /api/sensor-profiles'',
        ascii ''PATCH  /api/sensor-profiles/{id}'',
        ascii ''POST   /api/gateways/{id}/sensor-channels'',
        ascii ''GET    /api/gateways/{id}/sensor-channels'',
        ascii ''PATCH  /api/sensor-channels/{id}'',
        ascii ''DELETE /api/sensor-channels/{id}'']),
     CallBlank,
     CallSection (ascii ''3.'') (ascii ''Actuator + Command API''),
     CallCode (join_lines
       [ascii ''POST   /api/actuator-profiles'',
        ascii ''GET    /api/actuator-profiles'',
        ascii ''POST   /api/gateways/{id}/actuator-channels'',
        ascii ''GET    /api/gateways/{id}/actuator-channels'',
        ascii ''PATCH  /api/actuator-channels/{id}'',
        ascii ''POST   /api/gateways/{id}/commands'',
        ascii ''GET    /api/commands/{cmd_id}'']),
     CallBlank,
     CallSection (ascii ''4.'') (ascii ''Config + Admin API''),
     CallCode (join_lines
       [ascii ''POST   /api/gateways/{id}/configs/generate'',
        ascii ''GET    /api/gateways/{id}/configs'',
        ascii ''GET    /api/gateways/{id}/configs/latest'',
        ascii ''POST   /api/gateways/{id}/configs/{ver}/deploy'',
        ascii ''POST   /api/gateways/{id}/configs/{ver}/rollback'',
        ascii ''POST   /api/companies   /api/sites'',
        ascii ''POST   /api/users/{id}/gateway-permissions'',
        ascii ''GET    /api/audit-logs   /api/bulk-jobs'']),
     CallBlank]\<close>

definition chapter_11 :: "call list" where
  \<open>chapter_11 =
    [CallChapter ([8554] @ ascii ''. '' @ ko ''$bo-an$ $seol-gye$''),
     CallSection (ascii ''1.'') (ko ''$jang-bi$ (Gateway) $bo-an$''),
     CallTable [ko ''$hang-mog$'', ko ''$jeong-chaeg$'']
       [[ascii ''MQTT'', ko ''TLS $pil-su$ (Phase 7)''],
        [ko ''Gateway $in-jeung$'', ko ''Phase 1: ID/Password ^b7^ Phase 7: X.509 $in-jeung-seo$''],
        [ascii ''Topic ACL'', ko ''Gateway$neun$ $ja-gi$ topic$man$ $jeob-geun$ $ga-neung$''],
        [ascii ''Private Key'', ko ''TPM / Secure Element $gwon-jang$''],
        [ascii ''SSH'', ko ''$gi-bon$ $bi-hwal-seong-hwa$''],
        [ascii ''OTA'', ko ''$seo-myeong$ $geom-jeung$ $pil-su$''],
        [ascii ''Local Config'', ko ''config_hash $geom-jeung$''],
        [ko ''$ro-geu$'', ko ''$je-eo$ $myeong-ryeong$^b7^$seol-jeong$ $byeon-gyeong$^b7^$o-ryu$ $i-ryeog$ $bo-gwan$'']]
       (Some [25, 75]),
     CallBlank,
     CallSection (ascii ''2.'') (ko ''$seo-beo$ $bo-an$''),
     CallTable [ko ''$hang-mog$'', ko ''$jeong-chaeg$'']
       [[ko ''$in-jeung$'', ascii ''Keycloak OIDC / OAuth2''],
        [ascii ''API'', ko ''JWT $geom-jeung$ (Backend)''],
        [ko ''$gwon-han$'', ascii ''RBAC + ABAC''],
        [ko ''DB $pil-teo$'', ko ''company_id ^b7^ site_id ^b7^ gateway_id $gi-ban$''],
        [ascii ''RLS'', ko ''$ju-yo$ $te-i-beul-e$ PostgreSQL Row Level Security $jeog-yong$ $geom-to$''],
        [ascii ''TLS'', ko ''Web ^b7^ API ^b7^ MQTT $jeon$ $gu-gan$''],
        [ascii ''Audit'', ko ''$sa-yong-ja$ $myeong-ryeong$ ^b7^ $seol-jeong$ $byeon-gyeong$ ^b7^ $gwan-ri-ja$ $jag-eob$ $gi-rog$''],
        [ascii ''Backup'', ko ''$jeong-gi$ $baeg-eob$ + $bog-gu$ $te-seu-teu$'']]
       (Some [25, 75]),
     CallBlank,
     CallSection (ascii ''3.'') (ko ''PostgreSQL Row Level Security $geom-to$''),
     CallL1 (ko ''$jeog-yong$ $dae-sang$ $te-i-beul$ (7$jong$)''),
     CallL2 (ascii ''gateways, sensor_channels, actuator_channels''),
     CallL2 (ascii ''telemetry, telemetry_latest''),
     CallL2 (ascii ''commands, audit_logs''),
     CallL1 (ko ''$jeong-chaeg$ $ye-si$''),
     CallCode (join_lines
       [ascii ''ALTER TABLE gateways ENABLE ROW LEVEL SECURITY;'',
        ascii '''',
        ascii ''CREATE POLICY gateway_access_policy ON gateways'',
        ascii ''USING ('',
        ascii ''    id IN ('',
        ascii ''        SELECT gateway_id'',
        ascii ''          FROM user_gateway_permissions'',
        ko ''         WHERE user_id = current_setting(^27^app.current_user_id^27^)::uuid'',
        ascii ''    )'',
        ascii '');'']),
     CallL1 (ko ''$do-ib$ $si$ $go-ryeo-sa-hang$''),
     CallL2 (ko ''Backend connection pool$e-seo$ SET app.current_user_id $ho-chul$''),
     CallL2 (ko ''service role $u-hoe$ $jeong-chaeg$ $jeong-ui$ $pil-yo$ (worker, scheduler)''),
     CallL2 (ko ''$gwan-ri-ja$ $gwon-han-eun$ BYPASSRLS $byeol-do$ role''),
     CallL2 (ko ''batch / migration $jag-eob$ $si$ $il-si$ $bi-hwal-seong-hwa$ $go-ryeo$''),
     CallL1 (ko ''$gyeol-ron$''),
     CallL2 (ko ''Phase 1-5 $dong-an-eun$ application $re-i-eo-e-seo$ $gwon-han$ enforce''),
     CallL2 (ko ''DB row-level $gyeog-ri-neun$ $da-jung$ $te-neon-teu-ga$ $bon-gyeog-hwa-doe-neun$ Phase 6+$e$ $do-ib$''),
     CallBlank]\<close>

definition chapter_12 :: "call list" where
  \<open>chapter_12 =
    [CallChapter ([8555] @ ascii ''. '' @ ko ''$un-yeong$ $gwan-ri$''),
     CallSection (ascii ''1.'') (ko ''$baeg-eob$ $jeong-chaeg$''),
     CallTable [ko ''$dae-sang$'', ko ''$ju-gi$'', ko ''$bang-sig$'']
       [[ascii ''PostgreSQL'', ko ''$mae-il$'', ascii ''pg_dump / pg_basebackup''],
        [ascii ''Gateway Config'', ko ''$mae-il$'', ko ''$pa-il$ / DB $baeg-eob$''],
        [ko ''$peom-we-eo$'', ko ''$byeon-gyeong$ $si$'', ascii ''rsync''],
        [ko ''$ro-geu$'', ko ''$jeong-chaeg$ $gi-ban$'', ko ''$ab-chug$ / $bo-gwan$''],
        [ascii ''Keycloak realm'', ko ''$byeon-gyeong$ $si$'', ascii ''kc.sh export'']]
       (Some [25, 20, 55]),
     CallBlank,
     CallSection (ascii ''2.'') (ko ''$mo-ni-teo-ring$ $ji-pyo$''),
     CallTable [ko ''$dae-sang$'', ko ''$ji-pyo$'']
       [[ascii ''Gateway'', ko ''online ^b7^ heartbeat ^b7^ CPU ^b7^ mem ^b7^ disk ^b7^ temperature''],
        [ascii ''VerneMQ'', ko ''connected clients ^b7^ message rate ^b7^ dropped''],
        [ascii ''Backend'', ko ''API latency ^b7^ error rate''],
        [ascii ''DB'', ko ''connections ^b7^ slow query ^b7^ disk usage''],
        [ascii ''Command'', ko ''success ^b7^ timeout ^b7^ rejected rate''],
        [ascii ''Config'', ko ''pending ^b7^ applied ^b7^ failed''],
        [ascii ''OTA'', ko ''success ^b7^ failed ^b7^ rollback'']]
       (Some [20, 80]),
     CallBlank,
     CallSection (ascii ''3.'') (ko ''$jang-ae$ $dae-eung$''),
     CallTable [ko ''$jang-ae$'', ko ''$dae-eung$'']
       [[ascii ''Gateway offline'', ko ''$al-ram$ $bal-saeng$ + $ma-ji-mag$ $sang-tae$ $pyo-si$''],
        [ko ''$sen-seo$ $mi-su-sin$'', ko ''sensor_channel $sang-tae$ = degraded''],
        [ko ''$myeong-ryeong$ timeout'', ko ''command failed $cheo-ri$''],
        [ko ''config $jeog-yong$ $sil-pae$'', ko ''$i-jeon$ config $yu-ji$ + $gwan-ri-ja$ $al-rim$''],
        [ko ''DB $yong-ryang$ $jeung-ga$'', ko ''partition retention $jeog-yong$''],
        [ko ''$seo-beo$ $jang-ae$'', ko ''$baeg-eob$ $bog-gu$ $jeol-cha$ $sil-haeng$'']]
       (Some [30, 70]),
     CallBlank]\<close>

definition chapter_13 :: "call list" where
  \<open>chapter_13 =
    [CallChapter ([8553, 8546] @ ascii ''. '' @ ko ''$gae-bal$ $ro-deu-maeb$''),
     CallSection (ascii ''1.'') (ko ''7$dan-gye$ $ro-deu-maeb$''),
     CallTable [ko ''$dan-gye$'', ko ''$i-reum$'', ko ''$gi-gan$'', ko ''$haeg-sim$ $san-chul-mul$'']
       [[ascii ''Phase 1'', ko ''$seo-beo$ $gi-bon$ $gu-chug$'', ko ''1$ju$'', ko ''systemd 5$jong$ ^b7^ Keycloak realm ^b7^ $ko-deu$ 0$jul$''],
        [ascii ''Phase 2'', ko ''$da-jung$ Gateway $gwon-han$ $mo-del$'', ascii ''TBD'', ko ''companies/sites/users/gateways ^b7^ Backend skeleton''],
        [ascii ''Phase 3'', ascii ''Sensor Profile / Channel'', ascii ''TBD'', ko ''Sensor Wizard ^b7^ Telemetry ^b7^ $dong-jeog$ Dashboard''],
        [ascii ''Phase 4'', ko ''Actuator + $won-gyeog$ $je-eo$'', ascii ''TBD'', ko ''command $heu-reum$ ^b7^ $an-jeon$ $jo-geon$ ^b7^ $gwon-han$ $bun-ri$''],
        [ascii ''Phase 5'', ascii ''Gateway Config Versioning'', ascii ''TBD'', ko ''desired/reported ^b7^ rollback''],
        [ascii ''Phase 6'', ko ''$gwan-ri$ $pyeon-ui-seong$ (Template/Bulk/Alarm)'', ascii ''TBD'', ko ''Template ^b7^ Bulk ^b7^ Alarm Rule''],
        [ascii ''Phase 7'', ko ''$je-pum-hwa$'', ascii ''TBD'', ko ''X.509 ^b7^ ACL ^b7^ OTA ^b7^ Backup ^b7^ Safety MCU ^b7^ OSS Notice'']]
       (Some [10, 24, 8, 58]),
     CallBlank,
     CallSection (ascii ''2.'') (ko ''Phase 1 $sang-se$ spec (1$ju$ sprint, $ko-deu$ 0$jul$)''),
     CallL1 (ko ''$hwan-gyeong$''),
     CallL2 (ascii ''OS : Ubuntu Server 24.04 LTS''),
     CallL2 (ko ''$ho-seu-ting$ : $sa-nae$ $mul-ri$ $meo-sin$''),
     CallL2 (ko ''$do-me-in$ / SSL : $bal-geub$ $ga-neung$ $sang-tae$''),
     CallL2 (ko ''$pae-ki-ji$ $jeong-chaeg$ : Ubuntu apt $gi-bon$ (PostgreSQL 16) + $gong-sig$ $ril-ri-seu$ (Keycloak, VerneMQ)''),
     CallL2 (ko ''$tim$ : Solo + Claude Code AI Pair''),
     CallL2 (ko ''$gi-gan$ : 1$ju$ single sprint''),
     CallL2 (ko ''Verification : $che-keu-ri-seu-teu$ + scripts/phase1_smoke.sh''),
     CallL1 (ko ''Scope ($po-ham$)''),
     CallL2 (ko ''OS ^b7^ $bo-an$ hardening (ufw ^b7^ ssh ^b7^ iot $sa-yong-ja$)''),
     CallL2 (ko ''PostgreSQL 16 (apt) ^b7^ iot_platform DB ^b7^ keycloak DB ^b7^ iot_user role''),
     CallL2 (ko ''VerneMQ $gong-sig$ .deb ^b7^ systemd ^b7^ password file $in-jeung$ ^b7^ 1883 plain''),
     CallL2 (ko ''Keycloak $gong-sig$ release ^b7^ systemd ^b7^ Postgres backend''),
     CallL3 (ko ''realm: iot-platform ^b7^ 7 roles ^b7^ test user 1$myeong$''),
     CallL2 (ko ''Nginx + certbot Let^27^s Encrypt ^2192^ HTTPS reverse proxy''),
     CallL3 (ko ''/auth ^2192^ Keycloak (placeholder /api ^b7^ /)''),
     CallL2 (ko ''/etc/iot-platform/ ^b7^ .env $tem-peul-ris$''),
     CallL2 (ko ''$un-yeong$ $jeol-cha-seo$ (markdown)''),
     CallL2 (ko ''scripts/phase1_smoke.sh ($ja-dong$ $jeom-geom$)''),
     CallL1 (ko ''Non-goals (Phase 2+ $i-yeon$)''),
     CallL2 (ko ''$mo-deun$ application $ko-deu$ (FastAPI ^b7^ React ^b7^ Worker ^b7^ Scheduler)''),
     CallL2 (ko ''$bi-jeu-ni-seu$ DB schema (companies ^b7^ sites ^b7^ users ^b7^ gateways ^b7^ ^2026^)''),
     CallL2 (ko ''Gateway $yeon-gyeol$ ^b7^ telemetry ^b7^ MQTT TLS ^b7^ X.509''),
     CallL2 (ko ''OTA ^b7^ Safety MCU ^b7^ Backup automation ^b7^ Alarm ^b7^ Bulk''),
     CallL1 (ascii ''Definition of Done''),
     CallL2 (ko ''systemctl is-active ^2192^ 4$gae$ $seo-bi-seu$ active''),
     CallL2 (ko ''https://<$do-me-in$>/auth/realms/iot-platform/.well-known/openid-configuration ^2192^ 200''),
     CallL2 (ko ''Keycloak admin $ro-geu-in$ $seong-gong$ (test user)''),
     CallL2 (ko ''mosquitto_pub/sub ^2192^ password $in-jeung$ $hu$ 1883 publish/subscribe $seong-gong$''),
     CallL2 (ko ''psql -U iot_user -d iot_platform -c "SELECT 1" ^2192^ $seong-gong$''),
     CallL2 (ko ''scripts/phase1_smoke.sh ^2192^ $jeon-che$ PASS''),
     CallBlank,
     CallSection (ascii ''3.'') (ko ''Phase 1 $il-jeong$ $bun-hae$ (Day 1-7)''),
     CallL1 (ko ''Day 1 ^2014^ OS $be-i-seu$ + $bo-an$''),
     CallL2 (ko ''Ubuntu 24.04 LTS $keul-rin$ $seol-chi$''),
     CallL2 (ko ''iot $si-seu-tem$ $sa-yong-ja$ $saeng-seong$ ^b7^ sudo $jeong-chaeg$''),
     CallL2 (ko ''ufw $po-teu$ $jeong-chaeg$ (22 ^b7^ 80 ^b7^ 443 ^b7^ 1883)''),
     CallL2 (ko ''ssh hardening (key only ^b7^ port forward $cha-dan$)''),
     CallL2 (ko ''/opt/iot-platform ^b7^ /etc/iot-platform ^b7^ /var/lib/iot-platform $di-reg-teo-ri$''),
     CallL1 (ko ''Day 2 ^2014^ PostgreSQL + VerneMQ''),
     CallL2 (ko ''PostgreSQL 16 apt $seol-chi$ ^b7^ $gwon-han$ $seol-jeong$''),
     CallL2 (ko ''iot_platform DB + keycloak DB $saeng-seong$''),
     CallL2 (ko ''iot_user role + $gwon-han$ grant''),
     CallL2 (ko ''VerneMQ .deb $seol-chi$ ^b7^ systemd''),
     CallL2 (ko ''vmq_passwd$ro$ gateway/admin $gye-jeong$ $saeng-seong$''),
     CallL1 (ko ''Day 3 ^2014^ Keycloak $seol-chi$ + realm''),
     CallL2 (ko ''Keycloak release $da-un-ro-deu$ ^2192^ /opt/iot-platform/keycloak''),
     CallL2 (ko ''Postgres datasource $seol-jeong$ (KEYCLOAK_DATABASE_*)''),
     CallL2 (ko ''keycloak.service systemd unit $deung-rog$''),
     CallL2 (ko ''iot-platform realm $saeng-seong$''),
     CallL2 (ko ''7 role + test user 1$myeong$ $saeng-seong$''),
     CallL1 (ko ''Day 4 ^2014^ Nginx + HTTPS''),
     CallL2 (ko ''Nginx $seol-chi$ ^b7^ iot-platform.conf $jag-seong$''),
     CallL2 (ko ''/auth ^2192^ 8080 reverse proxy''),
     CallL2 (ko ''/api ^b7^ / placeholder location $jeong-ui$''),
     CallL2 (ko ''certbot --nginx $eu-ro$ Let^27^s Encrypt $bal-geub$''),
     CallL2 (ko ''systemd timer$ro$ $in-jeung-seo$ $ja-dong$ $gaeng-sin$ $hwag-in$''),
     CallL1 (ko ''Day 5 ^2014^ $hwan-gyeong$ $bun-ri$ + $jeol-cha-seo$''),
     CallL2 (ko ''/etc/iot-platform/{backend,worker,scheduler,mqtt,db,keycloak}.env $tem-peul-ris$''),
     CallL2 (ko ''$un-yeong$ $jeol-cha-seo$ (PHASE1_OPS.md) $jag-seong$ ^2014^ $seol-chi$ $myeong-ryeong$ $dan-gye-byeol$''),
     CallL2 (ko ''$jang-ae$ $dae-eung$ $jeol-cha$ ($seo-bi-seu$ $jae-si-jag$ ^b7^ $ro-geu$ $wi-chi$)''),
     CallL1 (ko ''Day 6 ^2014^ smoke test $ja-dong-hwa$''),
     CallL2 (ko ''scripts/phase1_smoke.sh $jag-seong$''),
     CallL3 (ko ''systemctl is-active 4$gae$ $hwag-in$''),
     CallL3 (ascii ''curl /auth/.well-known/openid-configuration''),
     CallL3 (ascii ''psql SELECT 1''),
     CallL3 (ko ''mosquitto_pub/sub $in-jeung$ $te-seu-teu$''),
     CallL1 (ko ''Day 7 ^2014^ $geom-jeung$ + $mun-seo$ $jeong-ri$''),
     CallL2 (ko ''smoke test $jeon-che$ $sil-haeng$ ^2192^ PASS $hwag-in$''),
     CallL2 (ko ''$che-keu-ri-seu-teu$ $ma-keu-da-un$ $gyeol-gwa$ commit''),
     CallL2 (ko ''Phase 2 $in-teo-byu$ $jun-bi$ ($nam-eun$ $teu-raeg$: Gateway OS ^b7^ scale ^b7^ PoC $san-eob$ $deung$)''),
     CallBlank]\<close>

definition chapter_14 :: "call list" where
  \<open>chapter_14 =
    [CallChapter ([8553, 8547] @ ascii ''. '' @ ko ''$ra-i-seon-seu$ $mich$ $u-seon-sun-wi$''),
     CallSection (ascii ''1.'') (ko ''$gwon-jang$ OSS $keom-po-neon-teu$''),
     CallTable [ko ''$keom-po-neon-teu$'', ko ''$ra-i-seon-seu$'', ko ''$pan-dan$'']
       [[ascii ''VerneMQ'', ascii ''Apache 2.0'', ko ''$gwon-jang$''],
        [ascii ''PostgreSQL'', ascii ''PostgreSQL License'', ko ''$gwon-jang$''],
        [ascii ''Keycloak'', ascii ''Apache 2.0'', ko ''$gwon-jang$''],
        [ascii ''Apache ECharts'', ascii ''Apache 2.0'', ko ''$gwon-jang$''],
        [ascii ''Nginx'', ascii ''BSD-like'', ko ''$gwon-jang$''],
        [ascii ''FastAPI'', ascii ''MIT'', ko ''$gwon-jang$''],
        [ascii ''React + Vite'', ascii ''MIT'', ko ''$gwon-jang$''],
        [ascii ''Prometheus'', ascii ''Apache 2.0'', ko ''$seon-taeg$ $sa-yong$ $ga-neung$''],
        [ascii ''OpenSearch'', ascii ''Apache 2.0'', ko ''$seon-taeg$ $sa-yong$ $ga-neung$'']]
       (Some [35, 35, 30]),
     CallBlank,
     CallSection (ascii ''2.'') (ko ''$pi-ha-geo-na$ $ju-ui-hal$ $keom-po-neon-teu$''),
     CallTable [ko ''$keom-po-neon-teu$'', ko ''$sa-yu$'']
       [[ko ''EMQX $choe-sin$ $beo-jeon$'', ko ''BSL $gye-yeol$ $i-syu$ $ga-neung$''],
        [ascii ''MinIO'', ascii ''AGPLv3''],
        [ko ''Grafana $go-gaeg-yong$ $no-chul$'', ascii ''AGPLv3''],
        [ascii ''Loki'', ascii ''AGPL''],
        [ascii ''SWUpdate'', ascii ''GPLv2''],
        [ko ''TimescaleDB Community $il-bu$'', ko ''Timescale License $hon-jae$ $ga-neung$''],
        [ascii ''Docker Desktop'', ko ''$jo-jig$ $gyu-mo$/$yong-do-e$ $tta-ra$ $gu-dog$ $i-syu$'']]
       (Some [35, 65]),
     CallBlank,
     CallSection (ascii ''3.'') (ko ''$je-pum$ $chul-si$ $jeon$ $jun-bi-mul$''),
     CallL1 (ko ''OSS Notice ^2014^ $sa-yong-han$ $o-peun-so-seu$ $mog-rog$ + $ra-i-seon-seu$ $jeon-mun$''),
     CallL1 (ko ''SBOM ^2014^ $so-peu-teu-we-eo$ $ja-jae-myeong-se-seo$''),
     CallL1 (ko ''GPL/LGPL $gu-seong-yo-so$ $so-seu$ $je-gong$ $jeol-cha$''),
     CallL1 (ko ''Gateway $i-mi-ji$ $pae-ki-ji$ $mog-rog$''),
     CallL1 (ko ''$su-jeong-han$ $o-peun-so-seu$ $ko-deu$ $gong-gae$ $yeo-bu$ $hwag-in$''),
     CallBlank,
     CallSection (ascii ''4.'') (ko ''$choe-jong$ $gu-hyeon$ $u-seon-sun-wi$''),
     CallL1 (ko ''$choe-u-seon$ (Phase 1-5 $haeg-sim$)''),
     CallL2 (ko ''$sa-yong-ja-byeol$ $da-jung$ Gateway $gwon-han$ $mo-del$''),
     CallL2 (ko ''Gateway$byeol$ Sensor Profile / Channel $gu-jo$''),
     CallL2 (ko ''MQTT topic + Gateway $in-jeung$ $gu-jo$''),
     CallL2 (ko ''Telemetry $jeo-jang$ + latest $jo-hoe$''),
     CallL2 (ascii ''Gateway Config Versioning''),
     CallL2 (ko ''Command Request / Response $gu-jo$''),
     CallL1 (ko ''$jung-gan$ $u-seon-sun-wi$ (Phase 5-6)''),
     CallL2 (ko ''Sensor $chu-ga$ Wizard''),
     CallL2 (ascii ''Dynamic Dashboard''),
     CallL2 (ascii ''Alarm Rule''),
     CallL2 (ascii ''Actuator Channel''),
     CallL2 (ascii ''Config Rollback''),
     CallL2 (ascii ''Audit Log''),
     CallL1 (ko ''$je-pum-hwa$ $u-seon-sun-wi$ (Phase 7)''),
     CallL2 (ko ''Gateway$byeol$ X.509 $in-jeung-seo$''),
     CallL2 (ascii ''VerneMQ ACL''),
     CallL2 (ascii ''OTA''),
     CallL2 (ko ''Backup / Restore $ja-dong-hwa$''),
     CallL2 (ko ''Safety MCU $yeon-dong$''),
     CallL2 (ascii ''OSS Notice / SBOM''),
     CallBlank]\<close>

definition chapter_15 :: "call list" where
  \<open>chapter_15 =
    [CallChapter ([8553, 8548] @ ascii ''. '' @ ko ''$gyeol-ron$ $mich$ Next Steps''),
     CallSection (ascii ''1.'') (ko ''$choe-jong$ $gyeol-ron$''),
     CallL1 (ko ''Docker$reul$ $sa-yong-ha-ji$ $anh-deo-ra-do$ $ja-che$ $ho-seu-ting$ IoT Gateway $peul-raes-pom$ $gu-chug-e-neun$ $mun-je-ga$ $eobs-da$.''),
     CallL1 (ko ''$san-eob-yong$ $seo-beo$ $un-yeong$ $hwan-gyeong-e-seo-neun$ systemd $gi-ban-eu-ro$ $seo-bi-seu$ $dan-wi-reul$ $myeong-hwag-hi$ $gwan-ri-ha-neun$ $bang-sig-i$ $o-hi-ryeo$ $an-jeong-jeog-i-da$.''),
     CallL1 (ko ''$dan$, $da-eum$ 7$ga-ji$ $jo-geon-eul$ $ban-deu-si$ $seol-gye-e$ $ban-yeong-hae-ya$ $han-da$.''),
     CallL2 (ko ''$han$ $sa-yong-ja-ga$ $yeo-reo$ IoT Gateway$reul$ $ga-jil$ $su$ $iss-eum$''),
     CallL2 (ko ''Gateway$ma-da$ $yeon-gyeol-doen$ $sen-seo$ $jong-ryu-ga$ $da-reul$ $su$ $iss-eum$''),
     CallL2 (ko ''Gateway$ma-da$ $ril-re-i$^b7^$bael-beu$^b7^$peom-peu$ $deung$ $je-eo$ $gu-seong-i$ $da-reul$ $su$ $iss-eum$''),
     CallL2 (ko ''$gwan-ri-hoe-sa-neun$ $jeon-che$ Gateway$reul$ $tong-hab$ $gwan-ri-hae-ya$ $ham$''),
     CallL2 (ko ''$il-ban$ $sa-yong-ja-neun$ $bon-in-e-ge$ $hal-dang-doen$ Gateway$man$ $jeob-geun$''),
     CallL2 (ko ''$sen-seo$ $jong-ryu$ $chu-ga$ $si$ $ko-deu$ $su-jeong$ $choe-so-hwa$''),
     CallL2 (ko ''Gateway $seol-jeong-eun$ $seo-beo-e-seo$ $jung-ang$ $gwan-ri-ha-go$ $beo-jeon$ $gwan-ri-doe-eo-ya$ $ham$''),
     CallBlank,
     CallSection (ascii ''2.'') (ko ''$gwon-jang$ $choe-jong$ $gu-jo$''),
     CallL1 (ascii ''VerneMQ + PostgreSQL + Keycloak + FastAPI Backend + React (Vite) Web Portal''),
     CallL1 (ko ''systemd $gi-ban$ $seo-bi-seu$ $un-yeong$''),
     CallL1 (ascii ''Gateway Profile + Sensor Profile + Sensor Channel Mapping''),
     CallL1 (ascii ''Actuator Channel Mapping + Gateway Config Versioning''),
     CallL1 (ko ''Dynamic Dashboard + RBAC / ABAC $gwon-han$ $mo-del$''),
     CallL1 (ko ''CM4 Linux + Safety MCU $i-jung$ $gu-jo$ (Phase 4-7 $do-ib$)''),
     CallBlank,
     CallSection (ascii ''3.'') (ko ''$jeug-si$ $si-jag$ $ga-neung-han$ 4$ga-ji$ (Next Steps)''),
     CallL1 (ko ''01. Phase 1 sprint $si-jag$''),
     CallL2 (ko ''$bon$ $ja-ryo-ui$ Day 1-7 $il-jeong-dae-ro$ $seo-beo$ $in-peu-ra$ 1$ju$ $gu-chug$. $ko-deu$ 0$jul$.''),
     CallL1 (ko ''02. Phase 1 $san-chul-mul$ commit''),
     CallL2 (ko ''$un-yeong$ $jeol-cha-seo$(PHASE1_OPS.md) + scripts/phase1_smoke.sh$reul$ git repo$ro$ $hyeong-sang$ $gwan-ri$.''),
     CallL1 (ko ''03. Phase 2 $in-teo-byu$ $jun-bi$''),
     CallL2 (ko ''$nam-eun$ $mi-gyeol-jeong$ $teu-raeg$ $gyeol-jeong$ : Gateway OS ^b7^ v1 $un-yeong$ $gyu-mo$ ^b7^ $cheos$ PoC $san-eob$ ^b7^ Safety MCU $si-jeom$.''),
     CallL1 (ko ''04. Hardware lab $gu-seong$''),
     CallL2 (ko ''$bo-yu$ CM4 Gateway + RS-485 $on-seub-do$ $sen-seo$ 1$gae-ro$ Phase 3 telemetry $heu-reum$ $sil-cheug$ $ga-neung$.''),
     CallBlank,
     CallSection (ascii ''4.'') (ko ''$cham-go$ $chul-cheo$''),
     CallL1 (ascii ''VerneMQ : https://github.com/vernemq/vernemq''),
     CallL1 (ascii ''PostgreSQL License : https://www.postgresql.org/about/licence/''),
     CallL1 (ascii ''PostgreSQL Row Level Security : https://www.postgresql.org/docs/current/ddl-rowsecurity.html''),
     CallL1 (ascii ''Keycloak Documentation : https://www.keycloak.org/documentation''),
     CallL1 (ascii ''Apache ECharts : https://echarts.apache.org/''),
     CallL1 (ascii ''FastAPI : https://fastapi.tiangolo.com/''),
     CallBlank,
     CallP (ko ''^2014^ $mun-seo$ $kkeut$ ^2014^'') PARA_CENTER CHAR_SMALL]\<close>

definition plan :: "call list" where
  "plan =
     cover @ chapter_1 @ chapter_2 @ chapter_3 @ chapter_4 @ chapter_5a @ chapter_5b @ chapter_6 @ chapter_7 @ chapter_8 @ chapter_9 @ chapter_10 @ chapter_11 @ chapter_12 @ chapter_13 @ chapter_14 @ chapter_15"

section \<open>The outline\<close>

text \<open>The number of a chapter: one character up to twelve, then ten and the rest.\<close>

definition roman :: "nat \<Rightarrow> utext" where
  "roman k = (if k \<le> 12 then [8543 + k] else [8553, 8533 + k])"

definition table_call_ok :: "utext list \<Rightarrow> utext list list \<Rightarrow> int list option \<Rightarrow> bool" where
  "table_call_ok hs rs pct =
     (hs \<noteq> [] \<and> list_all (\<lambda>r. length r = length hs) rs \<and>
      (case pct of None \<Rightarrow> True | Some ws \<Rightarrow> length ws = length hs \<and> sum_list ws = 100 \<and> list_all (\<lambda>w. 0 < w) ws))"

text \<open>
  Chapter, section and item level reached: chapters and sections count up by one, an item is at most
  one level below the item before it, a table is rectangular with widths that add up to 100.
\<close>

type_synonym place = "nat \<times> nat \<times> nat"

fun advance :: "call \<Rightarrow> place \<Rightarrow> place option" where
  "advance (CallChapter t) (c, s, l) =
     (if take (length (roman (Suc c)) + 2) t = roman (Suc c) @ [46, 32] then Some (Suc c, 0, 0) else None)"
| "advance (CallSection n t) (c, s, l) = (if n = num (Suc s) @ [46] then Some (c, Suc s, 0) else None)"
| "advance (CallL1 t) (c, s, l) = (if s = 0 then None else Some (c, s, 1))"
| "advance (CallL2 t) (c, s, l) = (if l = 0 then None else Some (c, s, 2))"
| "advance (CallL3 t) (c, s, l) = (if l < 2 then None else Some (c, s, 3))"
| "advance (CallTable hs rs pct) (c, s, l) = (if table_call_ok hs rs pct then Some (c, s, 0) else None)"
| "advance (CallKv k v n) p = None"
| "advance _ (c, s, l) = Some (c, s, 0)"

fun outline :: "call list \<Rightarrow> place \<Rightarrow> place option" where
  "outline [] p = Some p"
| "outline (x # xs) p = (case advance x p of None \<Rightarrow> None | Some q \<Rightarrow> outline xs q)"

text \<open>The rest of the calls is left alone until its turn.\<close>

lemma outline_cong: "p = q \<Longrightarrow> outline xs p = outline xs q"
  by simp

lemma outline_append: "outline (xs @ ys) p = (case outline xs p of None \<Rightarrow> None | Some q \<Rightarrow> outline ys q)"
  by (induction xs arbitrary: p) (auto split: option.splits)


text \<open>The numbers in ASCII.\<close>

lemma numbers:
  "num (Suc 0) @ [46] = ascii ''1.''"
  "num (Suc (Suc 0)) @ [46] = ascii ''2.''"
  "num (Suc (Suc (Suc 0))) @ [46] = ascii ''3.''"
  "num (Suc (Suc (Suc (Suc 0)))) @ [46] = ascii ''4.''"
  "num (Suc (Suc (Suc (Suc (Suc 0))))) @ [46] = ascii ''5.''"
  "num 4 @ [46] = ascii ''4.''" "num 5 @ [46] = ascii ''5.''" "ascii ''. '' = [46, 32]"
  by code_simp+

lemmas outline_simps = roman_def table_call_ok_def numbers

lemma outline_cover: "outline cover (0, 0, 0) = Some (0, 0, 0)"
  unfolding cover_def by (simp add: outline_simps cong: outline_cong)

lemma outline_chapter_1: "outline chapter_1 (0, 0, 0) = Some (1, 2, 0)"
  unfolding chapter_1_def by (simp add: outline_simps cong: outline_cong)

lemma outline_chapter_2: "outline chapter_2 (1, 2, 0) = Some (2, 3, 0)"
  unfolding chapter_2_def by (simp add: outline_simps cong: outline_cong)

lemma outline_chapter_3: "outline chapter_3 (2, 3, 0) = Some (3, 5, 0)"
  unfolding chapter_3_def by (simp add: outline_simps cong: outline_cong)

lemma outline_chapter_4: "outline chapter_4 (3, 5, 0) = Some (4, 4, 0)"
  unfolding chapter_4_def by (simp add: outline_simps cong: outline_cong)

lemma outline_chapter_5a: "outline chapter_5a (4, 4, 0) = Some (5, 3, 0)"
  unfolding chapter_5a_def by (simp add: outline_simps cong: outline_cong)

lemma outline_chapter_5b: "outline chapter_5b (5, 3, 0) = Some (5, 5, 0)"
  unfolding chapter_5b_def by (simp add: outline_simps cong: outline_cong)

lemma outline_chapter_6: "outline chapter_6 (5, 5, 0) = Some (6, 4, 0)"
  unfolding chapter_6_def by (simp add: outline_simps cong: outline_cong)

lemma outline_chapter_7: "outline chapter_7 (6, 4, 0) = Some (7, 3, 0)"
  unfolding chapter_7_def by (simp add: outline_simps cong: outline_cong)

lemma outline_chapter_8: "outline chapter_8 (7, 3, 0) = Some (8, 4, 0)"
  unfolding chapter_8_def by (simp add: outline_simps cong: outline_cong)

lemma outline_chapter_9: "outline chapter_9 (8, 4, 0) = Some (9, 4, 0)"
  unfolding chapter_9_def by (simp add: outline_simps cong: outline_cong)

lemma outline_chapter_10: "outline chapter_10 (9, 4, 0) = Some (10, 4, 0)"
  unfolding chapter_10_def by (simp add: outline_simps cong: outline_cong)

lemma outline_chapter_11: "outline chapter_11 (10, 4, 0) = Some (11, 3, 0)"
  unfolding chapter_11_def by (simp add: outline_simps cong: outline_cong)

lemma outline_chapter_12: "outline chapter_12 (11, 3, 0) = Some (12, 3, 0)"
  unfolding chapter_12_def by (simp add: outline_simps cong: outline_cong)

lemma outline_chapter_13: "outline chapter_13 (12, 3, 0) = Some (13, 3, 0)"
  unfolding chapter_13_def by (simp add: outline_simps cong: outline_cong)

lemma outline_chapter_14: "outline chapter_14 (13, 3, 0) = Some (14, 4, 0)"
  unfolding chapter_14_def by (simp add: outline_simps cong: outline_cong)

lemma outline_chapter_15: "outline chapter_15 (14, 4, 0) = Some (15, 4, 0)"
  unfolding chapter_15_def by (simp add: outline_simps cong: outline_cong)

lemma outline_plan: "outline plan (0, 0, 0) = Some (15, 4, 0)"
  by (simp only: plan_def outline_append outline_cover outline_chapter_1 outline_chapter_2 outline_chapter_3
      outline_chapter_4 outline_chapter_5a outline_chapter_5b outline_chapter_6 outline_chapter_7 outline_chapter_8
      outline_chapter_9 outline_chapter_10 outline_chapter_11 outline_chapter_12 outline_chapter_13 outline_chapter_14
      outline_chapter_15 option.case)

section \<open>An outline that holds is built\<close>

lemma build_cells_total: "col + length ts \<le> length ws \<Longrightarrow> \<exists>cs b'. build_cells ws row hdr col ts b = Inr (cs, b')"
proof (induction ts arbitrary: col b)
  case (Cons t ts)
  obtain i b1 where n: "next_pid b = (i, b1)" by fastforce
  from Cons.IH [of "Suc col" b1] Cons.prems
  obtain cs b' where "build_cells ws row hdr (Suc col) ts b1 = Inr (cs, b')" by auto
  with Cons.prems n show ?case by simp
qed simp

lemma build_rows_total:
  "list_all (\<lambda>r. length r \<le> length ws) rs \<Longrightarrow> \<exists>css b'. build_rows ws row rs b = Inr (css, b')"
proof (induction rs arbitrary: row b)
  case (Cons r rs)
  then obtain cs b1 where "build_cells ws row (row = 0) 0 r b = Inr (cs, b1)"
    using build_cells_total [of 0 r ws row "row = 0" b] by auto
  moreover obtain css b2 where "build_rows ws (Suc row) rs b1 = Inr (css, b2)" using Cons by fastforce
  ultimately show ?case by simp
qed simp

lemma add_table_total:
  assumes "table_call_ok hs rs pct"
  shows "\<exists>b'. add_table share hs rs pct b = Inr b'"
proof -
  have "raw_widths share (length hs) pct \<noteq> []"
    using assms by (auto simp: table_call_ok_def raw_widths_def split: option.splits)
  then obtain ws where w: "col_widths share (length hs) pct = Inr ws" by (auto simp: col_widths_def Let_def)
  have "length ws = length hs"
    using col_widths_sum [OF w] assms by (auto simp: table_call_ok_def split: option.splits)
  then have "list_all (\<lambda>r. length r \<le> length ws) (hs # rs)"
    using assms by (auto simp: table_call_ok_def list_all_iff)
  then obtain css b3 where "build_rows ws 0 (hs # rs) (b\<lparr>bu_pid := Suc (bu_pid b), bu_tid := Suc (bu_tid b)\<rparr>) = Inr (css, b3)"
    using build_rows_total by blast
  with w show ?thesis by (simp add: add_table_def next_pid_def next_tid_def del: build_rows.simps)
qed

lemma outline_built: "outline cs p = Some q \<Longrightarrow> (\<exists>b'. document share cs b = Inr b') \<and> list_all call_ok cs"
proof (induction cs arbitrary: p b)
  case (Cons c cs)
  then obtain r where a: "advance c p = Some r" "outline cs r = Some q" by (auto split: option.splits)
  have "(\<exists>b1. do_call share c b = Inr b1) \<and> call_ok c"
  proof (cases c)
    case (CallTable hs rs pct)
    then have t: "table_call_ok hs rs pct" using a(1) by (cases p) (auto split: if_splits)
    then have "call_ok c" by (auto simp: CallTable table_call_ok_def split: option.splits)
    with add_table_total [OF t] show ?thesis by (simp add: do_call_def CallTable)
  next
    case (CallKv k v n)
    then show ?thesis using a(1) by (cases p) simp
  qed (simp_all add: do_call_def)
  with Cons.IH [OF a(2)] show ?case by auto
qed simp

end
