(* ===== verification/PlanPptx.thy ===== *)
theory PlanPptx
  imports Hangul
begin

text \<open>
  The slide builder of \<open>build_plan_pptx.py\<close>: the shape helpers, the header, the thirty-eight
  \<open>slide_*\<close> functions and the order the file calls them in. A slide is the list of the shapes the
  function adds to it, in z order, each with its frame, fill, outline and paragraphs. Lengths are
  thousandths of an inch, the precision the code writes them in; \<open>Inches\<close>, which turns them into the
  library's unit, belongs to \<open>python-pptx\<close>. Font sizes are half points, outline widths and line
  spacings hundredths. A text is the list of its lines.
\<close>

section \<open>Design tokens\<close>

datatype rgb = RGBColor int int int

definition NAVY :: rgb where "NAVY = RGBColor 0x1C 0x2E 0x4A"
definition DARK :: rgb where "DARK = RGBColor 0x0F 0x1A 0x2A"
definition SLATE :: rgb where "SLATE = RGBColor 0x2E 0x40 0x53"
definition STEEL :: rgb where "STEEL = RGBColor 0x34 0x49 0x5E"
definition AMBER :: rgb where "AMBER = RGBColor 0xE6 0x7E 0x22"
definition GOLD :: rgb where "GOLD = RGBColor 0xF3 0x9C 0x12"
definition TEAL :: rgb where "TEAL = RGBColor 0x16 0xA0 0x85"
definition GREEN :: rgb where "GREEN = RGBColor 0x27 0xAE 0x60"
definition RED :: rgb where "RED = RGBColor 0xC0 0x39 0x2B"
definition LIGHT_BG :: rgb where "LIGHT_BG = RGBColor 0xF4 0xF6 0xF8"
definition SURFACE :: rgb where "SURFACE = RGBColor 0xFF 0xFF 0xFF"
definition LINE :: rgb where "LINE = RGBColor 0xBD 0xC3 0xC7"
definition MUTED :: rgb where "MUTED = RGBColor 0x7B 0x8A 0x8B"
definition TEXT_DARK :: rgb where "TEXT_DARK = RGBColor 0x1C 0x28 0x33"
definition TEXT_LIGHT :: rgb where "TEXT_LIGHT = RGBColor 0xFF 0xFF 0xFF"
definition SUBTLE :: rgb where "SUBTLE = RGBColor 0xEC 0xF0 0xF1"

definition FONT_KO :: string where "FONT_KO = ''Malgun Gothic''"
definition FONT_EN :: string where "FONT_EN = ''Arial''"
definition FONT_MONO :: string where "FONT_MONO = ''Consolas''"

definition SLIDE_W :: int where "SLIDE_W = 13333"
definition SLIDE_H :: int where "SLIDE_H = 7500"
definition TOTAL :: int where "TOTAL = 38"

section \<open>Texts\<close>

type_synonym text_lines = "utext list"

definition tx :: "string \<Rightarrow> text_lines" where
  "tx s = [ko s]"

definition txs :: "string list \<Rightarrow> text_lines" where
  "txs ss = map ko ss"

text \<open>\<open>sep.join(parts)\<close> on single-line texts, \<open>t.startswith(p)\<close>, \<open>p + t\<close>, and numbers as \<open>:02d\<close> or plain.\<close>

fun joined :: "string \<Rightarrow> text_lines list \<Rightarrow> text_lines" where
  "joined sep [] = [[]]"
| "joined sep [p] = p"
| "joined sep (p # q # ps) = [concat p @ ko sep @ concat (joined sep (q # ps))]"

definition starts_with :: "text_lines \<Rightarrow> string \<Rightarrow> bool" where
  "starts_with t p = (case t of [] \<Rightarrow> False | l # _ \<Rightarrow> take (length (ko p)) l = ko p)"

definition prepend :: "utext \<Rightarrow> text_lines \<Rightarrow> text_lines" where
  "prepend p t = (case t of [] \<Rightarrow> [p] | l # ls \<Rightarrow> (p @ l) # ls)"

definition two_digits :: "int \<Rightarrow> utext" where
  "two_digits n = ascii ((if n < 10 then ''0'' else []) @ str_of_int n)"

definition number :: "int \<Rightarrow> utext" where
  "number n = ascii (str_of_int n)"

section \<open>Shapes\<close>

datatype outline = RECTANGLE | ROUNDED_RECTANGLE | RIGHT_TRIANGLE | OVAL | TEXTBOX

datatype align = LEFT | CENTER | RIGHT

datatype anchor = TOP | MIDDLE | BOTTOM

record text_run =
  rn_text :: text_lines
  rn_font :: string
  rn_size :: int
  rn_bold :: bool
  rn_italic :: bool
  rn_color :: rgb

record text_para =
  pa_align :: "align option"
  pa_spacing :: "int option"
  pa_after :: "int option"
  pa_level :: int
  pa_runs :: "text_run list"

record text_frame =
  fr_margins :: "(int \<times> int) option"
  fr_wrap :: bool
  fr_anchor :: "anchor option"
  fr_paras :: "text_para list"

record autoshape =
  bx_kind :: outline
  bx_x :: int
  bx_y :: int
  bx_w :: int
  bx_h :: int
  bx_fill :: "rgb option"
  bx_line :: "(rgb \<times> int) option"
  bx_adjust :: "int option"
  bx_frame :: text_frame

record connector_style =
  cn_color :: rgb
  cn_width :: int
  cn_arrow :: bool
  cn_dashed :: bool

datatype shape = Shape autoshape | Connector int int int int connector_style

definition empty_para :: text_para where
  "empty_para = \<lparr>pa_align = None, pa_spacing = None, pa_after = None, pa_level = 0, pa_runs = []\<rparr>"

definition new_frame :: text_frame where
  "new_frame = \<lparr>fr_margins = None, fr_wrap = False, fr_anchor = None, fr_paras = [empty_para]\<rparr>"

section \<open>Shape helpers\<close>

text \<open>
  The keyword arguments are a record with the function's defaults, updated where a call gives them.
  An outline is its colour and width, \<open>None\<close> the background's; every shape's shadow is switched off.
\<close>

definition add_shape :: "outline \<Rightarrow> int \<Rightarrow> int \<Rightarrow> int \<Rightarrow> int \<Rightarrow> rgb \<Rightarrow> shape" where
  "add_shape k x y w h fill =
     Shape \<lparr>bx_kind = k, bx_x = x, bx_y = y, bx_w = w, bx_h = h, bx_fill = Some fill, bx_line = None,
       bx_adjust = None, bx_frame = new_frame\<rparr>"

definition add_rect :: "int \<Rightarrow> int \<Rightarrow> int \<Rightarrow> int \<Rightarrow> rgb \<Rightarrow> (rgb \<times> int) option \<Rightarrow> shape" where
  "add_rect x y w h fill line =
     Shape \<lparr>bx_kind = RECTANGLE, bx_x = x, bx_y = y, bx_w = w, bx_h = h, bx_fill = Some fill, bx_line = line,
       bx_adjust = None, bx_frame = new_frame\<rparr>"

definition add_round_rect :: "int \<Rightarrow> int \<Rightarrow> int \<Rightarrow> int \<Rightarrow> rgb \<Rightarrow> (rgb \<times> int) option \<Rightarrow> shape" where
  "add_round_rect x y w h fill line =
     Shape \<lparr>bx_kind = ROUNDED_RECTANGLE, bx_x = x, bx_y = y, bx_w = w, bx_h = h, bx_fill = Some fill, bx_line = line,
       bx_adjust = Some 80, bx_frame = new_frame\<rparr>"

definition new_textbox :: "int \<Rightarrow> int \<Rightarrow> int \<Rightarrow> int \<Rightarrow> text_frame \<Rightarrow> shape" where
  "new_textbox x y w h fr =
     Shape \<lparr>bx_kind = TEXTBOX, bx_x = x, bx_y = y, bx_w = w, bx_h = h, bx_fill = None, bx_line = None,
       bx_adjust = None, bx_frame = fr\<rparr>"

record text_style =
  ts_size :: int
  ts_bold :: bool
  ts_color :: rgb
  ts_align :: align
  ts_font :: string
  ts_anchor :: anchor
  ts_italic :: bool

definition plain :: text_style where
  "plain = \<lparr>ts_size = 28, ts_bold = False, ts_color = TEXT_DARK, ts_align = LEFT, ts_font = FONT_KO,
     ts_anchor = MIDDLE, ts_italic = False\<rparr>"

definition textbox :: text_style where
  "textbox = plain\<lparr>ts_anchor := TOP\<rparr>"

text \<open>\<open>set_text\<close> fills the frame's first paragraph: one run, whatever was there is replaced.\<close>

definition set_frame :: "text_lines \<Rightarrow> text_style \<Rightarrow> text_frame \<Rightarrow> text_frame" where
  "set_frame t st fr =
     fr\<lparr>fr_margins := Some (80, 40), fr_wrap := True, fr_anchor := Some (ts_anchor st),
       fr_paras := (hd (fr_paras fr))\<lparr>pa_align := Some (ts_align st),
         pa_runs := [\<lparr>rn_text = t, rn_font = ts_font st, rn_size = ts_size st, rn_bold = ts_bold st,
           rn_italic = ts_italic st, rn_color = ts_color st\<rparr>]\<rparr> # tl (fr_paras fr)\<rparr>"

fun set_text :: "shape \<Rightarrow> text_lines \<Rightarrow> text_style \<Rightarrow> shape" where
  "set_text (Shape b) t st = Shape (b\<lparr>bx_frame := set_frame t st (bx_frame b)\<rparr>)"
| "set_text (Connector x1 y1 x2 y2 c) t st = Connector x1 y1 x2 y2 c"

definition add_textbox :: "int \<Rightarrow> int \<Rightarrow> int \<Rightarrow> int \<Rightarrow> text_lines \<Rightarrow> text_style \<Rightarrow> shape" where
  "add_textbox x y w h t st = set_text (new_textbox x y w h new_frame) t st"

text \<open>The dictionary of a line; a line without one has \<open>no_opts\<close>.\<close>

record line_opts =
  lo_align :: align
  lo_space_after :: int
  lo_indent :: int
  lo_nobullet :: bool
  lo_prefix :: utext
  lo_mono :: bool
  lo_size :: "int option"
  lo_bold :: bool
  lo_italic :: bool
  lo_color :: "rgb option"

definition no_opts :: line_opts where
  "no_opts = \<lparr>lo_align = LEFT, lo_space_after = 4, lo_indent = 0, lo_nobullet = False, lo_prefix = [], lo_mono = False,
     lo_size = None, lo_bold = False, lo_italic = False, lo_color = None\<rparr>"

record lines_style =
  ls_size :: int
  ls_color :: rgb
  ls_font :: string
  ls_bullet :: bool
  ls_spacing :: int

definition multi :: lines_style where
  "multi = \<lparr>ls_size = 24, ls_color = TEXT_DARK, ls_font = FONT_KO, ls_bullet = False, ls_spacing = 125\<rparr>"

definition or_else :: "'a option \<Rightarrow> 'a \<Rightarrow> 'a" where
  "or_else x d = (case x of None \<Rightarrow> d | Some v \<Rightarrow> v)"

definition line_para :: "lines_style \<Rightarrow> text_lines \<times> line_opts \<Rightarrow> text_para" where
  "line_para st entry =
     (case entry of (t, opts) \<Rightarrow>
        \<lparr>pa_align = Some (lo_align opts), pa_spacing = Some (ls_spacing st), pa_after = Some (lo_space_after opts),
          pa_level = lo_indent opts,
          pa_runs = [\<lparr>rn_text = prepend (if ls_bullet st \<and> \<not> lo_nobullet opts then ko ''^2022^ '' else lo_prefix opts) t,
            rn_font = (if lo_mono opts then FONT_MONO else ls_font st), rn_size = or_else (lo_size opts) (ls_size st),
            rn_bold = lo_bold opts, rn_italic = lo_italic opts, rn_color = or_else (lo_color opts) (ls_color st)\<rparr>]\<rparr>)"

definition add_multiline :: "int \<Rightarrow> int \<Rightarrow> int \<Rightarrow> int \<Rightarrow> (text_lines \<times> line_opts) list \<Rightarrow> lines_style \<Rightarrow> shape" where
  "add_multiline x y w h ls st =
     new_textbox x y w h
       \<lparr>fr_margins = Some (50, 40), fr_wrap = True, fr_anchor = Some TOP,
         fr_paras = (if ls = [] then [empty_para] else map (line_para st) ls)\<rparr>"

definition arrow :: connector_style where
  "arrow = \<lparr>cn_color = STEEL, cn_width = 125, cn_arrow = True, cn_dashed = False\<rparr>"

definition add_connector :: "int \<Rightarrow> int \<Rightarrow> int \<Rightarrow> int \<Rightarrow> connector_style \<Rightarrow> shape" where
  "add_connector x1 y1 x2 y2 st = Connector x1 y1 x2 y2 st"

text \<open>
  The loops: \<open>for_step y dy xs body\<close> is \<open>for i, v in enumerate(xs): body; y += dy\<close>, and
  \<open>for_each\<close> the same loop without the running coordinate.
\<close>

fun for_from :: "int \<Rightarrow> int \<Rightarrow> int \<Rightarrow> 'a list \<Rightarrow> (int \<Rightarrow> int \<Rightarrow> 'a \<Rightarrow> shape list) \<Rightarrow> shape list" where
  "for_from i y dy [] body = []"
| "for_from i y dy (v # vs) body = body i y v @ for_from (i + 1) (y + dy) dy vs body"

definition for_step :: "int \<Rightarrow> int \<Rightarrow> 'a list \<Rightarrow> (int \<Rightarrow> int \<Rightarrow> 'a \<Rightarrow> shape list) \<Rightarrow> shape list" where
  "for_step y dy xs body = for_from 0 y dy xs body"

definition for_each :: "'a list \<Rightarrow> (int \<Rightarrow> 'a \<Rightarrow> shape list) \<Rightarrow> shape list" where
  "for_each xs body = for_from 0 0 0 xs (\<lambda>i _. body i)"

section \<open>The header\<close>

definition page_label :: "int \<Rightarrow> int \<Rightarrow> text_lines" where
  "page_label p n = [two_digits p @ ko '' / '' @ two_digits n]"

definition add_header :: "text_lines \<Rightarrow> text_lines option \<Rightarrow> int option \<Rightarrow> int option \<Rightarrow> shape list" where
  \<open>add_header title subtitle page_no pages =
     [add_rect 0 0 SLIDE_W 850 NAVY None,
      add_rect 0 850 SLIDE_W 50 AMBER None,
      add_textbox 450 120 11000 450 title (textbox\<lparr>ts_size := 44, ts_bold := True, ts_color := TEXT_LIGHT\<rparr>)] @
     (case subtitle of
        None \<Rightarrow> []
      | Some t \<Rightarrow>
          if t = [[]] then []
          else [add_textbox 450 480 11000 320 t (textbox\<lparr>ts_size := 22, ts_color := RGBColor 0xCC 0xD4 0xDB\<rparr>)]) @
     (case (page_no, pages) of
        (Some p, Some n) \<Rightarrow>
          [add_textbox 12300 320 900 400 (page_label p n)
             (textbox\<lparr>ts_size := 22, ts_color := RGBColor 0xCC 0xD4 0xDB, ts_align := RIGHT, ts_anchor := MIDDLE\<rparr>)]
      | _ \<Rightarrow> []) @
     [add_rect 0 7300 SLIDE_W 200 DARK None,
      add_textbox 450 7320 11000 160 (tx ''CM4 IoT Gateway $ja-che$ $ho-seu-ting$ $peul-raes-pom$ ^2014^ $sang-se$ $gu-hyeon$ $gye-hoeg-seo$ (2026-05-02)'')
        (textbox\<lparr>ts_size := 16, ts_color := RGBColor 0x99 0xA3 0xA8\<rparr>)]\<close>

section \<open>The slides\<close>

definition slide_title :: "shape list" where
  \<open>slide_title =
     [add_rect 0 0 SLIDE_W SLIDE_H NAVY None,
      add_shape RIGHT_TRIANGLE 9500 0 3830 7500 DARK,
      add_rect 600 2600 800 100 AMBER None,
      add_textbox 600 2800 11000 600 (tx ''CM4 IoT Gateway $ja-che$ $ho-seu-ting$ $peul-raes-pom$'')
          (textbox\<lparr>ts_size := 72, ts_bold := True, ts_color := TEXT_LIGHT\<rparr>),
      add_textbox 600 3500 11000 700 (tx ''Industrial CM4 $gi-ban$ Self-hosted IoT Fleet Management Platform'')
          (textbox\<lparr>ts_size := 36, ts_color := RGBColor 0xCC 0xD4 0xDB\<rparr>),
      add_textbox 600 4400 11000 500 (tx ''$sang-se$ $gu-hyeon$ $gye-hoeg-seo$ (Detailed Implementation Plan)'')
          (textbox\<lparr>ts_size := 40, ts_bold := True, ts_color := AMBER\<rparr>),
      add_rect 600 5500 8000 1400 DARK (Some (AMBER, 75)),
      add_multiline 850 5600 7700 1300
          [(tx ''$jag-seong-il$      2026-05-02'', no_opts\<lparr>lo_color := Some TEXT_LIGHT, lo_size := Some 24\<rparr>),
           (tx ''$gu-chug$ $bang-sig$   Docker $mi-sa-yong$ ^b7^ systemd $gi-ban$ $ja-che$ $ho-seu-ting$'', no_opts\<lparr>lo_color := Some TEXT_LIGHT, lo_size := Some 24\<rparr>),
           (tx ''$haeg-sim$ $gu-seong$   VerneMQ + PostgreSQL + Keycloak + FastAPI + React (Vite)'', no_opts\<lparr>lo_color := Some TEXT_LIGHT, lo_size := Some 24\<rparr>),
           (tx ''$gwan-ri$ $mo-del$   $sa-yong-ja-byeol$ $da-jung$ Gateway ^b7^ Sensor Profile $gi-ban$ $dong-jeog$ $gwan-ri$'', no_opts\<lparr>lo_color := Some TEXT_LIGHT, lo_size := Some 24\<rparr>)] (multi\<lparr>ls_font := FONT_KO\<rparr>),
      add_textbox 600 7000 11000 300 (tx ''v1.0  ^b7^  Owner: Solo + Claude Code AI pair'')
          (textbox\<lparr>ts_size := 20, ts_color := MUTED\<rparr>)]\<close>

definition slide_agenda :: "shape list" where
  \<open>slide_agenda =
     add_header (tx ''$mog-cha$ (Agenda)'') (Some (tx ''$jeon-che$ 41-section $gye-hoeg-seo-reul$ 38 $seul-ra-i-deu-ro$ $ab-chug$'')) (Some 2) (Some TOTAL) @
     (let items = [(tx ''Part 1.  $bae-gyeong$ $mich$ $seol-gye$ $won-chig$'',
                    [tx ''$peu-ro-jeg-teu$ $gae-yo$ / $haeg-sim$ $yo-gu-sa-hang$ / $sa-eob$^b7^$gi-sul$ $jeon-je$'',
                     tx ''$haeg-sim$ $seol-gye$ $cheol-hag$ 4$ga-ji$'']),
                   (tx ''Part 2.  $si-seu-tem$ $a-ki-teg-cheo$'',
                    [tx ''$jeon-che$ $si-seu-tem$ $gae-nyeom-do$'',
                     tx ''$sang-se$ $si-seu-tem$ $gu-seong-do$ ($seo-beo$ + Gateway $nae-bu$)'',
                     tx ''$seo-beo$ $gu-seong-yo-so$ / systemd $seo-bi-seu$ / $di-reg-teo-ri$ $gu-jo$'']),
                   (tx ''Part 3.  $de-i-teo$ $mo-del$ $mich$ $tong-sin$'',
                    [tx ''$gwon-han$ $mo-del$ / Keycloak / PostgreSQL ERD'',
                     tx ''Sensor Profile ^b7^ Channel $bun-ri$ / Telemetry / Config $beo-jeon$ $gwan-ri$'',
                     tx ''MQTT Topic & Payload / $won-gyeog$ $je-eo$ $heu-reum$ / Alarm Rule'']),
                   (tx ''Part 4.  Web Portal ^b7^ Gateway Agent ^b7^ $bo-an$'',
                    [tx ''Web Portal $hwa-myeon$ / Sensor Wizard / Dashboard / Bulk'',
                     tx ''Gateway Agent $gu-hyeon$ / Safety MCU $seol-gye$ / API $yo-yag$'',
                     tx ''$bo-an$ $seol-gye$ / RLS / $un-yeong$ $gwan-ri$'']),
                   (tx ''Part 5.  $sil-haeng$ $gye-hoeg$'',
                    [tx ''$gae-bal$ $ro-deu-maeb$ 7$dan-gye$'',
                     tx ''Phase 1 $sang-se$ spec (1$ju$ sprint, $ko-deu$ 0$jul$)'',
                     tx ''$ra-i-seon-seu$ $geom-to$ / $u-seon-sun-wi$ / $gyeol-ron$''])] in
     (let y = 1100 in
     for_step y 1200 items (\<lambda>_ y (ttl, subs).
       [add_rect 450 y 80 1050 AMBER None,
        add_textbox 700 (y + 20) 11500 350 ttl
            (textbox\<lparr>ts_size := 28, ts_bold := True, ts_color := NAVY\<rparr>)] @
       (let sub_text = joined ''   ^b7^   '' subs in
       [add_textbox 700 (y + 400) 11500 650 sub_text
            (textbox\<lparr>ts_size := 21, ts_color := SLATE\<rparr>)]))))\<close>

definition slide_overview :: "shape list" where
  \<open>slide_overview =
     add_header (tx ''$peu-ro-jeg-teu$ $gae-yo$'') (Some (tx ''Industrial CM4 IoT Gateway Fleet Management Platform'')) (Some 3) (Some TOTAL) @
     [add_textbox 500 1100 12300 500 (tx ''$san-eob-yong$ Raspberry Pi CM4 $gi-ban$ IoT Gateway $je-pum-eul$ $ja-che$ $ho-seu-ting$ $seo-beo-wa$ $yeon-dong-ha-yeo$ $sang-yong-hwa-han-da$.'')
          (textbox\<lparr>ts_size := 28, ts_bold := True, ts_color := NAVY\<rparr>),
      add_textbox 500 1550 12300 400 (tx ''$yeo-reo$ $sa-yong-ja-ga$ $gag-ja$ $ha-na$ $i-sang-ui$ Gateway$reul$ $bo-yu-ha-myeo$, Gateway$ma-da$ $seo-ro$ $da-reun$ $sen-seo$^b7^$je-eo$ $jang-chi-reul$ $yeon-gyeol-han-da$.'')
          (textbox\<lparr>ts_size := 24, ts_color := SLATE\<rparr>),
      add_textbox 500 2150 12000 350 (tx ''10$ga-ji$ $haeg-sim$ $yo-gu-sa-hang$'')
          (textbox\<lparr>ts_size := 28, ts_bold := True, ts_color := AMBER\<rparr>)] @
     (let reqs = [tx ''$sa-yong-ja-byeol$ $yeo-reo$ Gateway $gwan-ri$'',
                  tx ''Gateway$byeol$ $seo-ro$ $da-reun$ $sen-seo$ $gu-seong$ $gwan-ri$'',
                  tx ''$ril-re-i$^b7^$bael-beu$^b7^$peom-peu$ $deung$ $je-eo$ $chae-neol$ $gwan-ri$'',
                  tx ''$sen-seo$ $jong-ryu$ $chu-ga$ $si$ $ko-deu$ $su-jeong$ $choe-so-hwa$'',
                  tx ''Gateway $seol-jeong$ $jung-ang$ $gwan-ri$ $mich$ $won-gyeog$ $ban-yeong$'',
                  tx ''$sa-yong-ja$^b7^$go-gaeg-sa$^b7^$hyeon-jang$^b7^$jang-bi$ $dan-wi$ $gwon-han$'',
                  tx ''$won-gyeog$ $je-eo$ $myeong-ryeong-ui$ $an-jeon-seong$ $hwag-bo$'',
                  tx ''$jang-bi$ $sang-tae$^b7^$sen-seo$^b7^$al-ram$^b7^$i-ryeog$ $tong-hab$ $gwan-ri$'',
                  tx ''Docker $eobs-i$ systemd $gi-ban$ $un-yeong$'',
                  tx ''$mu-ryo$ OSS $gi-ban$ $sang-yong-hwa$ $ga-neung$ $gu-jo$''] in
     (let cols = 2 in
     (let rs = (5 :: int) in
     (let cw = 6100 in
     (let ch = 850 in
     (let x0 = 500 in
     (let y0 = 2550 in
     for_each reqs (\<lambda>i r.
       (let cl = i mod cols in
       (let rw = i div cols in
       (let x = x0 + cl * (cw + 100) in
       (let y = y0 + rw * (ch + 80) in
       [add_round_rect x y cw ch SURFACE (Some (LINE, 50)),
        set_text (add_shape OVAL (x + 120) (y + 160) 550 550 NAVY) [two_digits (i + 1)]
            (plain\<lparr>ts_size := 24, ts_bold := True, ts_color := TEXT_LIGHT, ts_align := CENTER\<rparr>),
        add_textbox (x + 800) (y + 170) (cw - 900) 550 r
            (textbox\<lparr>ts_size := 24, ts_bold := True, ts_color := TEXT_DARK, ts_anchor := MIDDLE\<rparr>)]))))))))))))\<close>

definition slide_premises :: "shape list" where
  \<open>slide_premises =
     add_header (tx ''$jeon-je$ $jo-geon$'') (Some (tx ''$sa-eob$^b7^$un-yeong$ $jeon-je$ / $gi-sul$ $seu-taeg$ ($in-teo-byu$ $gyeol-gwa$ $ban-yeong$)'')) (Some 4) (Some TOTAL) @
     [add_round_rect 500 1100 6100 5900 SURFACE (Some (LINE, 50)),
      add_rect 500 1100 6100 500 NAVY None,
      add_textbox 700 1130 5500 450 (tx ''$sa-eob$ ^b7^ $un-yeong$ $jeon-je$'')
          (textbox\<lparr>ts_size := 28, ts_bold := True, ts_color := TEXT_LIGHT\<rparr>)] @
     (let biz = [(tx ''$seo-bi-seu$ $un-yeong$'', tx ''$ja-che$ $seo-beo$ $un-yeong$ ($peo-beul-rig$ IoT $peul-raes-pom$ $mi-sa-yong$)''),
                 (tx ''$keon-te-i-neo$'', tx ''Docker $mi-sa-yong$''),
                 (tx ''$seo-beo$ OS'', tx ''Ubuntu Server 24.04 LTS ^b7^ $sa-nae$ $mul-ri$ $meo-sin$''),
                 (tx ''$sa-yong-ja$ $gu-jo$'', tx ''$han$ $sa-yong-ja-ga$ $yeo-reo$ Gateway $bo-yu$ $ga-neung$''),
                 (tx ''$sen-seo$ $gu-seong$'', tx ''Gateway$ma-da$ $jong-ryu$^b7^$su-ryang$ $sang-i$''),
                 (tx ''$je-eo$ $gu-seong$'', tx ''Gateway$ma-da$ $ril-re-i$^b7^$bael-beu$^b7^$peom-peu$ $gu-seong$ $sang-i$''),
                 (tx ''$gwan-ri-hoe-sa$'', tx ''$jeon-che$ $sa-yong-ja$^b7^Gateway $tong-hab$ $gwan-ri$''),
                 (tx ''$il-ban$ $sa-yong-ja$'', tx ''$bon-in-e-ge$ $hal-dang-doen$ Gateway$man$ $jeob-geun$''),
                 (tx ''$ra-i-seon-seu$'', tx ''$mu-ryo$ OSS $jung-sim$ (AGPL/BSL/GPL $ri-seu-keu$ $choe-so-hwa$)'')] in
     (let y = 1750 in
     for_step y 550 biz (\<lambda>_ y (k, v).
       [add_textbox 700 y 1600 320 k
            (textbox\<lparr>ts_size := 21, ts_bold := True, ts_color := AMBER\<rparr>),
        add_textbox 2300 y 4200 320 v
            (textbox\<lparr>ts_size := 21, ts_color := TEXT_DARK\<rparr>)]) @
     [add_round_rect 6800 1100 6100 5900 SURFACE (Some (LINE, 50)),
      add_rect 6800 1100 6100 500 STEEL None,
      add_textbox 7000 1130 5500 450 (tx ''$gi-sul$ $seu-taeg$ ($hwag-jeong$)'')
          (textbox\<lparr>ts_size := 28, ts_bold := True, ts_color := TEXT_LIGHT\<rparr>)] @
     (let tech = [(tx ''MQTT Broker'', tx ''VerneMQ (Apache 2.0)''),
                  (tx ''DB'', tx ''PostgreSQL 16 (apt)''),
                  (tx ''$in-jeung$'', tx ''Keycloak ^2014^ Postgres backend''),
                  (tx ''Backend'', tx ''FastAPI (Python 3.12)''),
                  (tx ''Frontend'', tx ''React + Vite (SPA)''),
                  (tx ''Chart'', tx ''Apache ECharts''),
                  (tx ''Reverse Proxy'', tx ''Nginx + certbot''),
                  (tx ''$seo-bi-seu$ $gwan-ri$'', tx ''systemd''),
                  (tx ''Gateway OS'', tx ''Pi OS Lite / Ubuntu ARM64 (Phase 2 $gyeol-jeong$)''),
                  (tx ''Gateway $tong-sin$'', tx ''MQTT (Phase 1: plain ^b7^ Phase 7: TLS)''),
                  (tx ''Gateway $seol-jeong$'', tx ''$seo-beo$ desired/reported $gu-jo$'')] in
     (let y = 1750 in
     for_step y 480 tech (\<lambda>_ y (k, v).
       [add_textbox 7000 y 1700 300 k
            (textbox\<lparr>ts_size := 21, ts_bold := True, ts_color := AMBER\<rparr>),
        add_textbox 8700 y 4100 300 v
            (textbox\<lparr>ts_size := 21, ts_color := TEXT_DARK\<rparr>)])))))\<close>

definition slide_philosophy :: "shape list" where
  \<open>slide_philosophy =
     add_header (tx ''$haeg-sim$ $seol-gye$ $cheol-hag$'') (Some (tx ''$i$ 4$ga-ji$ $won-chig-i$ $mo-deun$ $de-i-teo$ $mo-del$^b7^$ko-deu$ $gu-jo-reul$ $gyeol-jeong-han-da$'')) (Some 5) (Some TOTAL) @
     (let items = [(tx ''01'', tx ''Gateway $jung-sim$ $en-ti-ti$'', tx ''$sa-yong-ja-byeol$ $yeo-reo$ Gateway, Gateway$byeol$ $hoe-sa$^b7^$hyeon-jang$ $bae-jeong$. User-Company-Site-Gateway 4$chug-eu-ro$ $gwon-han$ $pan-dan$.''),
                   (tx ''02'', tx ''Sensor $jong-ryu-neun$ $ko-deu-ga$ $a-nin$ Profile'', tx ''$sen-seo$ $chu-ga$ $si$ schema/Gateway $ko-deu$ $su-jeong$ $eobs-eum$. Sensor Profile ($mo-del$ $jeong-ui$) + Sensor Channel ($sil$ $in-seu-teon-seu$) $bun-ri$.''),
                   (tx ''03'', tx ''Gateway Config $jung-ang$ $beo-jeon$ $gwan-ri$'', tx ''$seo-beo-ga$ Gateway$byeol$ $seol-jeong-eul$ desired_config$ro$ $bal-haeng$ ^2192^ Gateway$ga$ reported_config$ro$ $bo-go$. config_version + config_hash $chu-jeog$.''),
                   (tx ''04'', tx ''systemd $gi-ban$ $seo-bi-seu$ $un-yeong$'', tx ''Docker $mi-sa-yong$. nginx ^b7^ vernemq ^b7^ postgresql ^b7^ keycloak ^b7^ iot-backend ^b7^ iot-worker ^b7^ iot-scheduler$reul$ OS $seo-bi-seu-ro$ $myeong-hwag$ $gwan-ri$.'')] in
     (let cw = 6050 in
     (let ch = 2900 in
     (let coords = [(500, 1100),
                    (6780, 1100),
                    (500, 4150),
                    (6780, 4150)] in
     for_each (zip items coords) (\<lambda>_ ((no, ttl, ds), (x, y)).
       [add_round_rect x y cw ch SURFACE (Some (LINE, 50)),
        add_rect x y 150 ch AMBER None,
        add_textbox (x + 400) (y + 150) 1000 500 no
            (textbox\<lparr>ts_size := 56, ts_bold := True, ts_color := AMBER\<rparr>),
        add_textbox (x + 1400) (y + 250) (cw - 1600) 500 ttl
            (textbox\<lparr>ts_size := 30, ts_bold := True, ts_color := NAVY\<rparr>),
        add_textbox (x + 400) (y + 1000) (cw - 700) (ch - 1100) ds
            (textbox\<lparr>ts_size := 24, ts_color := TEXT_DARK\<rparr>)])))))\<close>

definition slide_concept_diagram :: "shape list" where
  \<open>slide_concept_diagram =
     add_header (tx ''$jeon-che$ $si-seu-tem$ $gae-nyeom-do$'') (Some (tx ''Concept Architecture ^2014^ $sa-yong-ja$, $seo-beo$, Gateway, $hyeon-jang$ $jang-bi-ui$ $gwan-gye$'')) (Some 6) (Some TOTAL) @
     [add_rect 500 1100 12300 1000 SUBTLE (Some (LINE, 50)),
      add_textbox 600 1150 2000 300 (tx ''USER LAYER'')
          (textbox\<lparr>ts_size := 20, ts_bold := True, ts_color := MUTED\<rparr>)] @
     (let user_types = [(tx ''$il-ban$ $sa-yong-ja$'', tx ''$bon-in$ Gateway $jo-hoe$^b7^$je-eo$''),
                        (tx ''$go-gaeg-sa$ $gwan-ri-ja$'', tx ''$hoe-sa$ $nae$ $sa-yong-ja$^b7^$hyeon-jang$ $gwan-ri$''),
                        (tx ''$gwan-ri-hoe-sa$ $gwan-ri-ja$'', tx ''$jeon-che$ $tong-hab$ $gwan-ri$'')] in
     for_each user_types (\<lambda>i (n, d).
       (let x = 1000 + i * 4000 in
       [set_text (add_round_rect x 1450 3500 600 NAVY None) n
            (plain\<lparr>ts_size := 24, ts_bold := True, ts_color := TEXT_LIGHT, ts_align := CENTER\<rparr>),
        add_textbox x 2050 3500 200 d
            (textbox\<lparr>ts_size := 17, ts_color := MUTED, ts_align := CENTER, ts_anchor := TOP\<rparr>)])) @
     [set_text (add_round_rect 4500 2500 4300 650 STEEL None) (tx ''Web Portal  (React + Vite SPA ^b7^ ECharts)'')
          (plain\<lparr>ts_size := 24, ts_bold := True, ts_color := TEXT_LIGHT, ts_align := CENTER\<rparr>),
      add_round_rect 500 3400 8500 2700 SURFACE (Some (NAVY, 150)),
      add_textbox 700 3450 7000 300 (tx ''SELF-HOSTED SERVER  (Ubuntu 24.04 LTS ^b7^ systemd)'')
          (textbox\<lparr>ts_size := 20, ts_bold := True, ts_color := NAVY\<rparr>)] @
     (let services = [(tx ''Nginx'', tx ''443/80'', AMBER),
                      (tx ''Keycloak'', tx ''OIDC'', TEAL),
                      (tx ''Backend API'', tx ''FastAPI'', NAVY),
                      (tx ''Worker'', tx ''MQTT $cheo-ri$'', SLATE),
                      (tx ''Scheduler'', tx ''$ju-gi$ $jag-eob$'', SLATE),
                      (tx ''PostgreSQL'', tx ''16'', GREEN),
                      (tx ''VerneMQ'', tx ''1883/8883'', AMBER)] in
     (let sx = 700 in
     (let sy = 3850 in
     for_each services (\<lambda>i (nm, sub, cl).
       (let col_n = i mod 4 in
       (let row_n = i div 4 in
       (let x = sx + col_n * 2050 in
       (let y = sy + row_n * 1050 in
       [add_round_rect x y 1950 900 cl None,
        add_textbox x (y + 80) 1950 400 nm
            (textbox\<lparr>ts_size := 24, ts_bold := True, ts_color := TEXT_LIGHT, ts_align := CENTER\<rparr>),
        add_textbox x (y + 450) 1950 400 sub
            (textbox\<lparr>ts_size := 20, ts_color := RGBColor 0xEC 0xF0 0xF1, ts_align := CENTER\<rparr>)]))))) @
     [add_round_rect 9200 3400 3600 2700 DARK (Some (AMBER, 100)),
      add_textbox 9350 3450 3400 300 (tx ''STORAGE / ASSETS'')
          (textbox\<lparr>ts_size := 20, ts_bold := True, ts_color := AMBER\<rparr>)] @
     (let storage_items = [(tx ''$peom-we-eo$ $jeo-jang-so$'', tx ''/var/lib/.../firmware''),
                           (tx ''Gateway Configs'', tx ''/var/lib/.../gateway-configs''),
                           (tx ''$baeg-eob$'', tx ''/var/lib/.../backups''),
                           (tx ''$ro-geu$ $beon-deul$'', tx ''/var/lib/.../log-bundles'')] in
     (let sy2 = 3850 in
     for_step sy2 550 storage_items (\<lambda>_ sy2 (n, p).
       [add_textbox 9350 sy2 3300 250 n
            (textbox\<lparr>ts_size := 22, ts_bold := True, ts_color := TEXT_LIGHT\<rparr>),
        add_textbox 9350 (sy2 + 250) 3300 220 p
            (textbox\<lparr>ts_size := 18, ts_color := RGBColor 0xCC 0xD4 0xDB, ts_font := FONT_MONO\<rparr>)]) @
     [add_rect 500 6300 12300 850 SUBTLE (Some (LINE, 50)),
      add_textbox 600 6340 3000 300 (tx ''GATEWAY LAYER  (CM4 + Safety MCU)'')
          (textbox\<lparr>ts_size := 20, ts_bold := True, ts_color := MUTED\<rparr>)] @
     for_each (replicate 4 ()) (\<lambda>i _.
       (let x = 1500 + i * 2850 in
       [set_text (add_round_rect x 6620 2550 450 AMBER None) [ko ''CM4 Gateway #'' @ two_digits (i + 1)]
            (plain\<lparr>ts_size := 20, ts_bold := True, ts_color := DARK, ts_align := CENTER\<rparr>)])) @
     [add_connector 2750 2100 6650 2500 (arrow\<lparr>cn_color := MUTED, cn_width := 100\<rparr>),
      add_connector 6750 2100 6650 2500 (arrow\<lparr>cn_color := MUTED, cn_width := 100\<rparr>),
      add_connector 10750 2100 6650 2500 (arrow\<lparr>cn_color := MUTED, cn_width := 100\<rparr>),
      add_connector 6650 3150 4750 3400 (arrow\<lparr>cn_color := NAVY, cn_width := 150\<rparr>)] @
     for_each (replicate 4 ()) (\<lambda>i _.
       (let x = 2500 + i * 2850 + 300 in
       [add_connector 8000 6100 x 6620 (arrow\<lparr>cn_color := AMBER, cn_width := 125, cn_dashed := True\<rparr>)])) @
     [add_textbox 500 7050 12300 200 (tx ''^2500^^2500^ HTTPS (Web/API)     ^2504^^2504^ MQTT (Telemetry ^b7^ Command ^b7^ Config)'')
          (textbox\<lparr>ts_size := 18, ts_color := MUTED, ts_font := FONT_MONO\<rparr>)]))))))\<close>

definition slide_detailed_arch :: "shape list" where
  \<open>slide_detailed_arch =
     add_header (tx ''$sang-se$ $si-seu-tem$ $gu-seong-do$'') (Some (tx ''Detailed Architecture ^2014^ $seo-beo$ $nae-bu$ $mo-dyul$, $po-teu$, $de-i-teo$ $heu-reum$, Gateway $nae-bu$ $gu-jo$'')) (Some 7) (Some TOTAL) @
     [add_round_rect 400 1050 7600 6100 SURFACE (Some (NAVY, 150)),
      add_rect 400 1050 7600 400 NAVY None,
      add_textbox 550 1070 7000 360 (tx ''$seo-beo$ (Ubuntu 24.04 ^b7^ systemd)'')
          (textbox\<lparr>ts_size := 24, ts_bold := True, ts_color := TEXT_LIGHT\<rparr>),
      set_text (add_round_rect 700 1650 7000 550 AMBER None) (tx ''Nginx  ^b7^  443/80  ^b7^  HTTPS reverse proxy + $jeong-jeog$ $pa-il$'')
          (plain\<lparr>ts_size := 22, ts_bold := True, ts_color := DARK, ts_align := CENTER\<rparr>),
      add_textbox 700 2250 7000 250 (tx ''/ ^2192^ frontend     /api/ ^2192^ 8000     /auth/ ^2192^ 8080'')
          (textbox\<lparr>ts_size := 18, ts_color := MUTED, ts_font := FONT_MONO, ts_align := CENTER\<rparr>)] @
     (let apps = [(tx ''iot-backend.service'', txs
                    [''FastAPI ^b7^ :8000'',
                     ''^2022^ REST API'',
                     ''^2022^ $gwon-han$ $geom-sa$'',
                     ''^2022^ Command publish'',
                     ''^2022^ Config $saeng-seong$'']),
                  (tx ''iot-worker.service'', txs
                    [''Python ^b7^ MQTT'',
                     ''^2022^ telemetry $su-sin$'',
                     ''^2022^ telemetry_latest'',
                     ''^2022^ alarm eval'',
                     ''^2022^ response $cheo-ri$'']),
                  (tx ''iot-scheduler.service'', txs
                    [''Python ^b7^ $ju-gi$'',
                     ''^2022^ offline $pan-jeong$'',
                     ''^2022^ cmd timeout'',
                     ''^2022^ partition $jeong-ri$'',
                     ''^2022^ report $saeng-seong$''])] in
     for_each apps (\<lambda>i (nm, bdy).
       (let x = 700 + i * 2420 in
       [add_round_rect x 2600 2320 1550 STEEL None,
        add_textbox x 2650 2320 320 nm
            (textbox\<lparr>ts_size := 20, ts_bold := True, ts_color := TEXT_LIGHT, ts_align := CENTER, ts_font := FONT_MONO\<rparr>),
        add_textbox (x + 100) 2970 2120 1180 bdy
            (textbox\<lparr>ts_size := 17, ts_color := RGBColor 0xEC 0xF0 0xF1\<rparr>)])) @
     (let infra = [(tx ''Keycloak'', tx '':8080'', tx ''OIDC/OAuth2 ^b7^ realm: iot-platform ^b7^ roles 7'', TEAL),
                   (tx ''PostgreSQL'', tx '':5432'', tx ''iot_platform ^b7^ keycloak  ^b7^  RLS $geom-to$'', GREEN),
                   (tx ''VerneMQ'', tx '':1883/:8883'', tx ''MQTT broker  ^b7^  password^2192^X.509 (Phase 7)'', AMBER)] in
     for_each infra (\<lambda>i (n, port, ds, cl).
       (let x = 700 + i * 2420 in
       [add_round_rect x 4300 2320 1400 cl None,
        add_textbox x 4350 2320 320 n
            (textbox\<lparr>ts_size := 22, ts_bold := True, ts_color := TEXT_LIGHT, ts_align := CENTER\<rparr>),
        add_textbox x 4650 2320 250 port
            (textbox\<lparr>ts_size := 18, ts_color := RGBColor 0xEC 0xF0 0xF1, ts_align := CENTER, ts_font := FONT_MONO\<rparr>),
        add_textbox (x + 100) 4950 2120 700 ds
            (textbox\<lparr>ts_size := 17, ts_color := RGBColor 0xEC 0xF0 0xF1, ts_align := CENTER\<rparr>)])) @
     [add_round_rect 700 5850 7000 1200 DARK (Some (AMBER, 50)),
      add_textbox 850 5900 6700 300 (tx ''/var/lib/iot-platform/  ^b7^  /etc/iot-platform/  ^b7^  /var/log/iot-platform/'')
          (textbox\<lparr>ts_size := 20, ts_bold := True, ts_color := AMBER, ts_font := FONT_MONO\<rparr>)] @
     (let storage = [(tx ''firmware/'', tx ''OTA $i-mi-ji$''),
                     (tx ''gateway-configs/'', tx ''config $baeg-eob$''),
                     (tx ''backups/'', tx ''pg_dump''),
                     (tx ''log-bundles/'', tx ''$jang-bi$ $ro-geu$ $su-jib$'')] in
     for_each storage (\<lambda>i (k, v).
       (let x = 850 + (i mod 4) * 1700 in
       [add_textbox x 6200 1600 250 k
            (textbox\<lparr>ts_size := 18, ts_bold := True, ts_color := TEXT_LIGHT, ts_font := FONT_MONO\<rparr>),
        add_textbox x 6450 1600 500 v
            (textbox\<lparr>ts_size := 17, ts_color := RGBColor 0xCC 0xD4 0xDB\<rparr>)])) @
     [add_round_rect 8200 1050 4800 6100 SURFACE (Some (AMBER, 150)),
      add_rect 8200 1050 4800 400 AMBER None,
      add_textbox 8350 1070 4500 360 (tx ''Gateway (CM4 Linux + Safety MCU)'')
          (textbox\<lparr>ts_size := 24, ts_bold := True, ts_color := DARK\<rparr>),
      add_round_rect 8400 1600 4400 3400 STEEL None,
      add_textbox 8500 1650 4200 300 (tx ''/opt/iot-gateway/   (Linux user space)'')
          (textbox\<lparr>ts_size := 20, ts_bold := True, ts_color := TEXT_LIGHT, ts_font := FONT_MONO\<rparr>)] @
     (let gw_mods = [(tx ''gateway-agent'', tx ''MQTT $yeon-gyeol$ ^b7^ $bu-ting$ $heu-reum$''),
                     (tx ''sensor-service'', tx ''Modbus/AI/DI polling''),
                     (tx ''actuator-service'', tx ''GPIO/Relay $je-eo$''),
                     (tx ''rule-engine'', tx ''Local Rule ($o-peu-ra-in$ $ga-yong$)''),
                     (tx ''mqtt-client'', tx ''Telemetry/Command/Config''),
                     (tx ''local-db (SQLite)'', tx ''telemetry queue ^b7^ cmd log''),
                     (tx ''ota-agent'', tx ''$i-mi-ji$ $geom-jeung$^b7^$jeog-yong$''),
                     (tx ''health-agent'', tx ''CPU/MEM/Net heartbeat'')] in
     for_each gw_mods (\<lambda>i (n, d).
       (let cl = i mod 2 in
       (let rw = i div 2 in
       (let x = 8500 + cl * 2150 in
       (let y = 2000 + rw * 700 in
       [add_round_rect x y 2050 600 DARK None,
        add_textbox (x + 50) (y + 40) 2000 280 n
            (textbox\<lparr>ts_size := 18, ts_bold := True, ts_color := AMBER, ts_font := FONT_MONO\<rparr>),
        add_textbox (x + 50) (y + 320) 2000 280 d
            (textbox\<lparr>ts_size := 17, ts_color := TEXT_LIGHT\<rparr>)]))))) @
     [add_round_rect 8400 5100 4400 850 RED None,
      add_textbox 8500 5150 4200 300 (tx ''STM32 / NXP Safety MCU'')
          (textbox\<lparr>ts_size := 22, ts_bold := True, ts_color := TEXT_LIGHT\<rparr>),
      add_textbox 8500 5450 4200 450 (tx ''$ril-re-i$ $jig-jeob$ $je-eo$ ^b7^ Watchdog ^b7^ Fail-safe ^b7^ Interlock ^b7^ $bi-sang$ $jeong-ji$'')
          (textbox\<lparr>ts_size := 18, ts_color := TEXT_LIGHT\<rparr>),
      add_round_rect 8400 6050 4400 1000 SUBTLE (Some (LINE, 50)),
      add_textbox 8500 6100 4200 300 (tx ''Field I/O'')
          (textbox\<lparr>ts_size := 20, ts_bold := True, ts_color := NAVY\<rparr>),
      add_textbox 8500 6400 4200 600 (tx ''RS-485 (Modbus RTU)  ^b7^  GPIO Relay  ^b7^  Analog 0-10V/4-20mA  ^b7^  GPS  ^b7^  Digital Input'')
          (textbox\<lparr>ts_size := 18, ts_color := TEXT_DARK\<rparr>),
      add_connector 7700 4850 8500 2500 (arrow\<lparr>cn_color := AMBER, cn_width := 200, cn_dashed := True\<rparr>),
      add_textbox 7650 3500 550 400 (tx ''MQTT'')
          (textbox\<lparr>ts_size := 18, ts_bold := True, ts_color := AMBER, ts_align := CENTER\<rparr>)]))))\<close>

text \<open>The rows are distinct, so \<open>rows.index(row)\<close> is the loop index \<open>i\<close>.\<close>

definition slide_systemd :: "shape list" where
  \<open>slide_systemd =
     add_header (tx ''$seo-beo$ $gu-seong$ ^2014^ systemd $seo-bi-seu$ 6+$jong$'') (Some (tx ''Docker $mi-sa-yong$. OS $seo-bi-seu$ $dan-wi-ro$ $myeong-hwag$ $bun-ri$'')) (Some 8) (Some TOTAL) @
     (let rs = [(tx ''nginx.service'', tx ''$pil-su$'', tx ''HTTPS reverse proxy ^b7^ $jeong-jeog$ $pa-il$ $je-gong$''),
                (tx ''vernemq.service'', tx ''$pil-su$'', tx ''MQTT Broker (1883 plain ^b7^ $chu-hu$ 8883 TLS)''),
                (tx ''postgresql.service'', tx ''$pil-su$'', tx ''$gwan-gye-hyeong$ DB ^b7^ $sen-seo$ $de-i-teo$ $jeo-jang$ ^b7^ keycloak DB $gong-yu$''),
                (tx ''keycloak.service'', tx ''$pil-su$'', tx ''$sa-yong-ja$ $in-jeung$ ^b7^ OIDC/OAuth2 $to-keun$ $bal-geub$''),
                (tx ''iot-backend.service'', tx ''$pil-su$'', tx ''REST API ^b7^ $gwon-han$ $geom-sa$ ^b7^ Gateway $gwan-ri$ ^b7^ $myeong-ryeong$ $bal-haeng$''),
                (tx ''iot-worker.service'', tx ''$pil-su$'', tx ''MQTT subscribe ^b7^ telemetry ingestion ^b7^ alarm eval''),
                (tx ''iot-scheduler.service'', tx ''$pil-su$'', tx ''offline $pan-dan$ ^b7^ timeout $cheo-ri$ ^b7^ $baeg-eob$ ^b7^ OTA $sang-tae$''),
                (tx ''prometheus.service'', tx ''$seon-taeg$'', tx ''$nae-bu$ metric $su-jib$ (Phase 7+)''),
                (tx ''opensearch.service'', tx ''$seon-taeg$'', tx ''$ro-geu$ $geom-saeg$ ($pil-yo$ $si$)'')] in
     (let x0 = 500 in
     (let y0 = 1150 in
     (let w = 12300 in
     [add_rect x0 y0 w 450 NAVY None,
      add_textbox (x0 + 150) (y0 + 60) 3000 320 (tx ''$seo-bi-seu$ $i-reum$'')
          (textbox\<lparr>ts_size := 22, ts_bold := True, ts_color := TEXT_LIGHT\<rparr>),
      add_textbox (x0 + 3500) (y0 + 60) 1000 320 (tx ''$bun-ryu$'')
          (textbox\<lparr>ts_size := 22, ts_bold := True, ts_color := TEXT_LIGHT\<rparr>),
      add_textbox (x0 + 4700) (y0 + 60) 7500 320 (tx ''$yeog-hal$'')
          (textbox\<lparr>ts_size := 22, ts_bold := True, ts_color := TEXT_LIGHT\<rparr>)] @
     (let y = y0 + 450 in
     for_step y 500 rs (\<lambda>i y (nm, kind, ds).
       (let bg = (if i mod 2 = 0 then SURFACE else SUBTLE) in
       [add_rect x0 y w 500 bg (Some (LINE, 25)),
        add_textbox (x0 + 150) (y + 80) 3300 340 nm
            (textbox\<lparr>ts_size := 22, ts_bold := True, ts_color := NAVY, ts_font := FONT_MONO\<rparr>)] @
       (let cl = (if kind = tx ''$pil-su$'' then AMBER else MUTED) in
       [add_textbox (x0 + 3500) (y + 80) 1000 340 kind
            (textbox\<lparr>ts_size := 20, ts_bold := True, ts_color := cl\<rparr>),
        add_textbox (x0 + 4700) (y + 80) 7500 340 ds
            (textbox\<lparr>ts_size := 21, ts_color := TEXT_DARK\<rparr>)]))) @
     [add_textbox 500 6850 12300 400 (tx ''^203b^ $mo-deun$ $seo-bi-seu-neun$ EnvironmentFile=/etc/iot-platform/{name}.env $ro$ $hwan-gyeong$ $byeon-su$ $bun-ri$. Restart=always ^b7^ After=network.target.'')
          (textbox\<lparr>ts_size := 19, ts_italic := True, ts_color := MUTED\<rparr>)])))))\<close>

definition slide_directory :: "shape list" where
  \<open>slide_directory =
     add_header (tx ''$gwon-jang$ $seo-beo$ $di-reg-teo-ri$ $gu-jo$'') (Some (tx ''FHS $chin-hwa$ ^b7^ $hwan-gyeong$ $byeon-su$ $bun-ri$ ^b7^ $ril-ri-seu$ $seul-ros$ + symlink'')) (Some 9) (Some TOTAL) @
     (let blocks = [(tx ''/opt/iot-platform/'', NAVY,
                     [tx ''backend/   app/  venv/  migrations/  scripts/'',
                      tx ''worker/    app/  venv/'',
                      tx ''scheduler/ app/  venv/'',
                      tx ''frontend/  current/  releases/'',
                      tx ''releases/  backend-1.0.0/  backend-1.0.1/  ...'',
                      tx ''current -> releases/backend-1.0.x   (atomic switch)'']),
                    (tx ''/etc/iot-platform/'', AMBER,
                     [tx ''backend.env       (DATABASE_URL, KC_ISSUER, ...)'',
                      tx ''worker.env        (MQTT_HOST, MQTT_USER, ...)'',
                      tx ''scheduler.env'',
                      tx ''mqtt.env / db.env / keycloak.env'']),
                    (tx ''/var/lib/iot-platform/'', TEAL,
                     [tx ''firmware/         (OTA $i-mi-ji$)'',
                      tx ''gateway-configs/  (desired/reported snapshots)'',
                      tx ''reports/          ($jeong-gi$ $tong-gye$)'',
                      tx ''log-bundles/      (Gateway $jin-dan$ $ro-geu$)'',
                      tx ''backups/          (pg_dump ^b7^ realm export)'']),
                    (tx ''/var/log/iot-platform/'', STEEL,
                     [tx ''backend.log / worker.log / scheduler.log'',
                      tx ''mqtt-ingestion.log''])] in
     (let cw = 6100 in
     (let ch = 2850 in
     (let coords = [(500, 1100),
                    (6780, 1100),
                    (500, 4100),
                    (6780, 4100)] in
     for_each (zip blocks coords) (\<lambda>_ ((lb, fc, ls), (x, y)).
       [add_round_rect x y cw ch SURFACE (Some (LINE, 50)),
        add_rect x y cw 400 fc None,
        add_textbox (x + 150) (y + 50) (cw - 200) 320 lb
            (textbox\<lparr>ts_size := 24, ts_bold := True, ts_color := TEXT_LIGHT, ts_font := FONT_MONO\<rparr>)] @
       (let items = map (\<lambda>l. (l, no_opts\<lparr>lo_mono := True, lo_size := Some 20, lo_color := Some TEXT_DARK\<rparr>)) ls in
       [add_multiline (x + 200) (y + 500) (cw - 400) (ch - 550)
            items (multi\<lparr>ls_spacing := 130\<rparr>)]))))))\<close>

definition slide_roles :: "shape list" where
  \<open>slide_roles =
     add_header (tx ''Backend / Worker / Scheduler $yeog-hal$ $bun-dam$'') (Some (tx ''$gwan-sim-sa$ $bun-ri$ ^2014^ $gag$ $peu-ro-se-seu-ga$ $da-reun$ $ra-i-peu-sa-i-keul-eul$ $ga-jim$'')) (Some 10) (Some TOTAL) @
     (let cards = [(tx ''Backend API'', NAVY, tx ''REST ^b7^ $dong-gi$ $yo-cheong$ $cheo-ri$'',
                    [tx ''$sa-yong-ja$ $in-jeung$ $yeon-dong$ (Keycloak JWT $geom-jeung$)'',
                     tx ''User ^b7^ Company ^b7^ Site ^b7^ Gateway $gwon-han$ $geom-sa$'',
                     tx ''Gateway $deung-rog$ / Profile / Channel $gwan-ri$'',
                     tx ''Gateway Config $saeng-seong$ ^b7^ $beo-jeon$ $gwan-ri$'',
                     tx ''MQTT command publish (request $bal-haeng$)'',
                     tx ''Telemetry $jo-hoe$ API ^b7^ latest $jo-hoe$'',
                     tx ''Alarm Rule $gwan-ri$ ^b7^ Audit Log'']),
                   (tx ''Worker'', STEEL, tx ''MQTT subscribe ^b7^ $bi-dong-gi$'',
                    [tx ''MQTT subscribe (gw/+/telemetry, state, ...)'',
                     tx ''Telemetry message $geom-jeung$ (schema ^b7^ ts)'',
                     tx ''Telemetry $jeo-jang$ (partition table)'',
                     tx ''telemetry_latest upsert'',
                     tx ''Heartbeat / state $cheo-ri$'',
                     tx ''Command response $cheo-ri$'',
                     tx ''Reported_config $cheo-ri$ ^b7^ Alarm evaluation'']),
                   (tx ''Scheduler'', AMBER, tx ''$ju-gi$ $jag-eob$ ^b7^ cron $dae-che$'',
                    [tx ''Gateway offline $pan-dan$ (heartbeat timeout)'',
                     tx ''$mi-eung-dab$ command timeout $cheo-ri$'',
                     tx ''$o-rae-doen$ telemetry partition drop'',
                     tx ''$baeg-eob$ $sil-haeng$ (pg_dump ^b7^ realm export)'',
                     tx ''OTA job $sang-tae$ $hwag-in$ ^b7^ $jae-si-do$'',
                     tx ''$al-ram$ $jae-jeon-song$'',
                     tx ''$tong-gye$ / $ri-po-teu$ $saeng-seong$''])] in
     (let cw = 4150 in
     (let ch = 5950 in
     for_each cards (\<lambda>i (nm, fc, ds, items).
       (let x = 500 + i * 4270 in
       (let y = 1100 in
       [add_round_rect x y cw ch SURFACE (Some (LINE, 50)),
        add_rect x y cw 700 fc None,
        add_textbox (x + 200) (y + 70) cw 360 nm
            (textbox\<lparr>ts_size := 30, ts_bold := True, ts_color := TEXT_LIGHT\<rparr>),
        add_textbox (x + 200) (y + 420) cw 260 ds
            (textbox\<lparr>ts_size := 20, ts_color := RGBColor 0xEC 0xF0 0xF1\<rparr>)] @
       (let bullets = map (\<lambda>t. (t, no_opts\<lparr>lo_size := Some 21\<rparr>)) items in
       [add_multiline (x + 250) (y + 850) (cw - 400) (ch - 950)
            bullets (multi\<lparr>ls_bullet := True, ls_spacing := 130\<rparr>)])))))))\<close>

definition slide_rbac_hierarchy :: "shape list" where
  \<open>slide_rbac_hierarchy =
     add_header (tx ''$sa-yong-ja$ ^b7^ $gwon-han$ $mo-del$'') (Some (tx ''Keycloak ($in-jeung$) + Backend DB ($sil-gwon-han$) ^2014^ RBAC ^d7^ ABAC'')) (Some 11) (Some TOTAL) @
     [add_round_rect 500 1100 6000 5950 SURFACE (Some (LINE, 50)),
      add_textbox 700 1200 5700 400 (tx ''$gwon-han$ $gye-cheung$ (Top-Down)'')
          (textbox\<lparr>ts_size := 26, ts_bold := True, ts_color := NAVY\<rparr>)] @
     (let levels = [(tx ''System Admin'', tx ''$si-seu-tem$ $jeon-che$ $seol-jeong$ ^b7^ $mo-deun$ $hoe-sa$^b7^Gateway''),
                    (tx ''Management Company Admin'', tx ''$mo-deun$ $go-gaeg-sa$^b7^$jeon-che$ Gateway $gwan-je$^b7^$yu-ji-bo-su$''),
                    (tx ''Customer Company Admin'', tx ''$bon-in$ $hoe-sa$ $sa-yong-ja$^b7^$hyeon-jang$^b7^Gateway $gwan-ri$''),
                    (tx ''Site Manager'', tx ''$teug-jeong$ $hyeon-jang$ Gateway $gwan-ri$''),
                    (tx ''Operator'', tx ''$heo-yong-doen$ Gateway $je-eo$ $chae-neol$ $jo-jag$''),
                    (tx ''Viewer'', tx ''$sen-seo$ $de-i-teo$^b7^$sang-tae$ $jo-hoe-man$ $ga-neung$''),
                    (tx ''Maintenance Engineer'', tx ''$jin-dan$^b7^$ro-geu$ $su-jib$^b7^OTA^b7^$jae-bu-ting$ ($byeol-do$ $chug$)'')] in
     (let y = 1650 in
     for_step y 700 levels (\<lambda>i y (nm, ds).
       (let indent = 0 + min i 5 * 300 in
       (let is_aux = nm = tx ''Maintenance Engineer'' in
       (let cl = (if is_aux then TEAL else (if i = 0 then NAVY else STEEL)) in
       [add_round_rect (700 + indent) y (5000 - indent) 600 cl None,
        add_textbox (850 + indent) (y + 80) 2600 200 nm
            (textbox\<lparr>ts_size := 22, ts_bold := True, ts_color := TEXT_LIGHT\<rparr>),
        add_textbox (850 + indent) (y + 320) (4700 - indent) 250 ds
            (textbox\<lparr>ts_size := 18, ts_color := RGBColor 0xEC 0xF0 0xF1\<rparr>)])))) @
     [add_round_rect 6780 1100 6050 2800 SURFACE (Some (LINE, 50)),
      add_textbox 6950 1200 5700 400 (tx ''$gwon-han$ $te-i-beul$ (3$chug$)'')
          (textbox\<lparr>ts_size := 26, ts_bold := True, ts_color := NAVY\<rparr>)] @
     (let perm_tables = [(tx ''user_company_roles'', tx ''user ^d7^ company ^d7^ role''),
                         (tx ''user_site_permissions'', tx ''user ^d7^ site ^d7^ permission''),
                         (tx ''user_gateway_permissions'', tx ''user ^d7^ gateway ^d7^ permission'')] in
     (let yy = 1700 in
     for_step yy 550 perm_tables (\<lambda>_ yy (n, d).
       [add_textbox 6950 yy 3200 300 n
            (textbox\<lparr>ts_size := 22, ts_bold := True, ts_color := AMBER, ts_font := FONT_MONO\<rparr>),
        add_textbox 10200 yy 2500 300 d
            (textbox\<lparr>ts_size := 20, ts_color := TEXT_DARK\<rparr>)]) @
     [add_textbox 6950 3400 5700 400 (tx ''$gwon-han$ $jong-ryu$ (permission)'')
          (textbox\<lparr>ts_size := 22, ts_bold := True, ts_color := NAVY\<rparr>),
      add_textbox 6950 3650 5700 300 (tx ''view  ^b7^  control  ^b7^  configure  ^b7^  maintain  ^b7^  admin'')
          (textbox\<lparr>ts_size := 22, ts_color := TEXT_DARK, ts_font := FONT_MONO\<rparr>),
      add_round_rect 6780 4000 6050 3050 SURFACE (Some (LINE, 50)),
      add_textbox 6950 4100 5700 400 (tx ''Keycloak ^2194^ Backend $chaeg-im$ $bun-ri$'')
          (textbox\<lparr>ts_size := 26, ts_bold := True, ts_color := NAVY\<rparr>),
      add_round_rect 6950 4550 2800 2400 TEAL None,
      add_textbox 7050 4600 2600 320 (tx ''Keycloak'')
          (textbox\<lparr>ts_size := 24, ts_bold := True, ts_color := TEXT_LIGHT\<rparr>),
      add_textbox 7050 4950 2600 1950 (txs
          [''$sa-yong-ja$ $in-jeung$'',
           ''OIDC / OAuth2 $to-keun$ $bal-geub$'',
           ''role claim $je-gong$'',
           ''$sa-yong-ja$ $ga-ib$^b7^$bi-beon$ reset''])
          (textbox\<lparr>ts_size := 20, ts_color := TEXT_LIGHT\<rparr>),
      add_round_rect 9950 4550 2850 2400 NAVY None,
      add_textbox 10050 4600 2600 320 (tx ''Backend DB'')
          (textbox\<lparr>ts_size := 24, ts_bold := True, ts_color := TEXT_LIGHT\<rparr>),
      add_textbox 10050 4950 2700 1950 (txs
          [''company_id ^b7^ site_id ^b7^ gateway_id $gi-ban$ $sil-gwon-han$ $pan-dan$'',
           ''$sa-yong-ja$ ^2194^ $ja-san$ $mae-ping$'',
           ''$myeong-ryeong$ $gwon-han$ $geom-jeung$'',
           ''Audit Log''])
          (textbox\<lparr>ts_size := 20, ts_color := TEXT_LIGHT\<rparr>)]))))\<close>

definition slide_keycloak :: "shape list" where
  \<open>slide_keycloak =
     add_header (tx ''Keycloak $gu-seong$'') (Some (tx ''Realm: iot-platform ^b7^ 7 roles ^b7^ group $gi-ban$ $hoe-sa$ $gu-bun$'')) (Some 12) (Some TOTAL) @
     [add_round_rect 500 1100 12300 700 TEAL None,
      add_textbox 700 1180 12000 500 (tx ''Realm:  iot-platform        ^b7^        DB Backend: PostgreSQL ($gong-yu$ $in-seu-teon-seu$, db=keycloak)'')
          (textbox\<lparr>ts_size := 28, ts_bold := True, ts_color := TEXT_LIGHT\<rparr>),
      add_round_rect 500 1950 6050 2550 SURFACE (Some (LINE, 50)),
      add_textbox 700 2050 5500 400 (tx ''Groups (Company $mae-ping$)'')
          (textbox\<lparr>ts_size := 26, ts_bold := True, ts_color := NAVY\<rparr>)] @
     (let groups = [tx ''management-company'',
                    tx ''customer-company-a'',
                    tx ''customer-company-b'',
                    tx ''customer-company-c''] in
     (let yy = 2500 in
     for_step yy 480 groups (\<lambda>_ yy g.
       [add_round_rect 700 yy 5700 400 SUBTLE (Some (LINE, 50)),
        add_textbox 850 (yy + 50) 5400 320 g
            (textbox\<lparr>ts_size := 22, ts_bold := True, ts_color := NAVY, ts_font := FONT_MONO\<rparr>)]) @
     [add_round_rect 6780 1950 6050 2550 SURFACE (Some (LINE, 50)),
      add_textbox 6950 2050 5500 400 (tx ''Roles (7$jong$, Phase 1$e-seo$ $mo-du$ $saeng-seong$)'')
          (textbox\<lparr>ts_size := 26, ts_bold := True, ts_color := NAVY\<rparr>)] @
     (let roles = [tx ''system_admin'',
                   tx ''management_admin'',
                   tx ''company_admin'',
                   tx ''site_manager'',
                   tx ''operator'',
                   tx ''viewer'',
                   tx ''maintenance_engineer''] in
     (let cols = 2 in
     for_each roles (\<lambda>i r.
       (let c = i mod cols in
       (let rr = i div cols in
       (let x = 6950 + c * 2850 in
       (let y = 2500 + rr * 480 in
       [add_round_rect x y 2700 400 AMBER None,
        add_textbox (x + 100) (y + 50) 2500 320 r
            (textbox\<lparr>ts_size := 21, ts_bold := True, ts_color := DARK, ts_font := FONT_MONO\<rparr>)]))))) @
     [add_round_rect 500 4650 12300 2400 DARK (Some (AMBER, 50)),
      add_textbox 700 4750 12000 400 (tx ''$seol-gye$ $won-chig$'')
          (textbox\<lparr>ts_size := 26, ts_bold := True, ts_color := AMBER\<rparr>),
      add_multiline 800 5150 12000 1850
          [(tx ''Keycloak $chaeg-im$'', no_opts\<lparr>lo_bold := True, lo_color := Some TEXT_LIGHT, lo_size := Some 22\<rparr>),
           (tx ''$sa-yong-ja$ $in-jeung$ ^b7^ $bi-mil-beon-ho$ $jeong-chaeg$ ^b7^ OTP/2FA ^b7^ $bi-mil-beon-ho$ reset ^b7^ $to-keun$ $bal-geub$ ^b7^ role claim $je-gong$'', no_opts\<lparr>lo_color := Some (RGBColor 0xCC 0xD4 0xDB), lo_size := Some 22\<rparr>),
           (tx ''Backend $chaeg-im$'', no_opts\<lparr>lo_bold := True, lo_color := Some TEXT_LIGHT, lo_size := Some 22, lo_space_after := 8\<rparr>),
           (tx ''company_id ^b7^ site_id ^b7^ gateway_id $gi-ban$ $sil$ $jeob-geun$ $gwon-han$ $pan-dan$ (Keycloak claim$man$ $sin-roe-ha-ji$ $anh-eum$)'', no_opts\<lparr>lo_color := Some (RGBColor 0xCC 0xD4 0xDB), lo_size := Some 22\<rparr>),
           (tx ''$to-keun$ $geom-jeung$ $heu-reum$'', no_opts\<lparr>lo_bold := True, lo_color := Some TEXT_LIGHT, lo_size := Some 22, lo_space_after := 8\<rparr>),
           (tx ''React ^2192^ Keycloak OIDC $ro-geu-in$ ^2192^ Bearer token ^2192^ /api/* $yo-cheong$ ^2192^ Backend$ga$ JWT $geom-jeung$ + DB $gwon-han$ $mae-ping$ ^2192^ $eung-dab$'', no_opts\<lparr>lo_color := Some (RGBColor 0xCC 0xD4 0xDB), lo_size := Some 22\<rparr>)] (multi\<lparr>ls_spacing := 135\<rparr>)]))))\<close>

definition erd_boxes :: "(string \<times> int \<times> int \<times> rgb) list" where
  "erd_boxes =
     [(''companies'', 700, 1300, AMBER),
      (''sites'', 700, 2400, AMBER),
      (''users'', 700, 3600, TEAL),
      (''user_company_roles'', 700, 4600, TEAL),
      (''user_gateway_perm'', 700, 5600, TEAL),
      (''gateway_profiles'', 4500, 1200, STEEL),
      (''gateways'', 4500, 2400, NAVY),
      (''sensor_profiles'', 4500, 3700, STEEL),
      (''sensor_channels'', 4500, 4850, NAVY),
      (''actuator_profiles'', 4500, 6000, STEEL),
      (''actuator_channels'', 8500, 6000, NAVY),
      (''gateway_configs'', 8500, 1200, GOLD),
      (''telemetry'', 8500, 2400, GREEN),
      (''telemetry_latest'', 8500, 3500, GREEN),
      (''alarm_rules'', 8500, 4600, RED),
      (''commands'', 11000, 2400, AMBER),
      (''audit_logs'', 11000, 3500, STEEL),
      (''bulk_jobs'', 11000, 4600, STEEL)]"

text \<open>\<open>coords\<close>: the corners of each box. The midpoints below are exact: all sides are even.\<close>

definition erd_coords :: "(string \<times> int \<times> int \<times> int \<times> int) list" where
  "erd_coords = map (\<lambda>(nm, x, y, _). (nm, x, y, x + 2300, y + 550)) erd_boxes"

definition conn :: "string \<Rightarrow> string \<Rightarrow> string \<Rightarrow> string \<Rightarrow> bool \<Rightarrow> exn + shape" where
  "conn a b side_a side_b dashed =
     (case map_of erd_coords a of
        None \<Rightarrow> Inl KeyError
      | Some (ax1, ay1, ax2, ay2) \<Rightarrow>
          (case map_of erd_coords b of
             None \<Rightarrow> Inl KeyError
           | Some (bx1, by1, bx2, by2) \<Rightarrow>
               (let (sx, sy) =
                  (if side_a = ''right'' then (ax2, (ay1 + ay2) div 2)
                   else if side_a = ''left'' then (ax1, (ay1 + ay2) div 2)
                   else if side_a = ''bottom'' then ((ax1 + ax2) div 2, ay2)
                   else ((ax1 + ax2) div 2, ay1)) in
               (let (ex, ey) =
                  (if side_b = ''left'' then (bx1, (by1 + by2) div 2)
                   else if side_b = ''right'' then (bx2, (by1 + by2) div 2)
                   else if side_b = ''top'' then ((bx1 + bx2) div 2, by1)
                   else ((bx1 + bx2) div 2, by2)) in
                Inr (add_connector sx sy ex ey
                  (arrow\<lparr>cn_color := MUTED, cn_width := 75, cn_arrow := False, cn_dashed := dashed\<rparr>))))))"

fun conns :: "(string \<times> string \<times> string \<times> string \<times> bool) list \<Rightarrow> exn + shape list" where
  "conns [] = Inr []"
| "conns ((a, b, side_a, side_b, dashed) # cs) =
     (case conn a b side_a side_b dashed of
        Inl e \<Rightarrow> Inl e
      | Inr c \<Rightarrow> (case conns cs of Inl e \<Rightarrow> Inl e | Inr ls \<Rightarrow> Inr (c # ls)))"

definition erd_conns :: "(string \<times> string \<times> string \<times> string \<times> bool) list" where
  "erd_conns =
     [(''companies'', ''sites'', ''bottom'', ''top'', False),
      (''sites'', ''gateways'', ''right'', ''left'', False),
      (''gateway_profiles'', ''gateways'', ''bottom'', ''top'', False),
      (''gateways'', ''sensor_channels'', ''bottom'', ''top'', False),
      (''sensor_profiles'', ''sensor_channels'', ''bottom'', ''top'', False),
      (''gateways'', ''actuator_channels'', ''right'', ''left'', False),
      (''actuator_profiles'', ''actuator_channels'', ''right'', ''left'', False),
      (''gateways'', ''telemetry'', ''right'', ''left'', False),
      (''gateways'', ''telemetry_latest'', ''right'', ''left'', False),
      (''gateways'', ''gateway_configs'', ''right'', ''left'', False),
      (''gateways'', ''commands'', ''right'', ''left'', False),
      (''gateways'', ''alarm_rules'', ''right'', ''left'', False),
      (''users'', ''user_company_roles'', ''bottom'', ''top'', False),
      (''users'', ''user_gateway_perm'', ''bottom'', ''top'', False),
      (''user_gateway_perm'', ''gateways'', ''right'', ''left'', True)]"

definition slide_erd :: "exn + shape list" where
  \<open>slide_erd =
     (case conns erd_conns of
        Inl e \<Rightarrow> Inl e
      | Inr ls \<Rightarrow>
          Inr (add_header (tx ''PostgreSQL ^2014^ $haeg-sim$ ERD'') (Some (tx ''Gateway $jung-sim$. Profile-Channel $bun-ri$. Telemetry partition'')) (Some 13) (Some TOTAL) @
               map (\<lambda>(nm, x, y, fc).
                 set_text (add_round_rect x y 2300 550 fc None) (tx nm)
                   (plain\<lparr>ts_size := 21, ts_bold := True, ts_color := TEXT_LIGHT, ts_align := CENTER,
                      ts_font := FONT_MONO\<rparr>)) erd_boxes @
               ls @
               [add_textbox 500 7000 12300 250 (tx ''^25a0^ Identity/Auth   ^25a0^ Asset(Gateway)   ^25a0^ Profile   ^25a0^ Telemetry   ^25a0^ Config/Command   ^25a0^ Alarm/Audit'')
                  (textbox\<lparr>ts_size := 18, ts_color := MUTED, ts_align := CENTER\<rparr>)]))\<close>

definition slide_core_tables :: "shape list" where
  \<open>slide_core_tables =
     add_header (tx ''$haeg-sim$ $te-i-beul$ (Phase 2 $u-seon$)'') (Some (tx ''companies ^b7^ sites ^b7^ users ^b7^ gateways  ^2500^ DDL $bal-chwe$'')) (Some 14) (Some TOTAL) @
     (let sql_left = txs
                       [''CREATE TABLE companies ('',
                        ''    id UUID PRIMARY KEY,'',
                        ''    name TEXT NOT NULL,'',
                        ''    company_type TEXT NOT NULL,'',
                        ''        -- ^27^management^27^ | ^27^customer^27^'',
                        ''    status TEXT NOT NULL DEFAULT ^27^active^27^,'',
                        ''    created_at TIMESTAMPTZ DEFAULT now(),'',
                        ''    updated_at TIMESTAMPTZ DEFAULT now()'',
                        '');'',
                        '''',
                        ''CREATE TABLE sites ('',
                        ''    id UUID PRIMARY KEY,'',
                        ''    company_id UUID NOT NULL'',
                        ''        REFERENCES companies(id),'',
                        ''    name TEXT NOT NULL,'',
                        ''    address TEXT,'',
                        ''    latitude  DOUBLE PRECISION,'',
                        ''    longitude DOUBLE PRECISION,'',
                        ''    created_at TIMESTAMPTZ DEFAULT now()'',
                        '');'',
                        '''',
                        ''CREATE TABLE users ('',
                        ''    id UUID PRIMARY KEY,'',
                        ''    keycloak_user_id TEXT UNIQUE NOT NULL,'',
                        ''    email TEXT UNIQUE NOT NULL,'',
                        ''    name TEXT NOT NULL,'',
                        ''    status TEXT NOT NULL DEFAULT ^27^active^27^,'',
                        ''    created_at TIMESTAMPTZ DEFAULT now()'',
                        '');''] in
     (let sql_right = txs
                        [''CREATE TABLE gateways ('',
                         ''    id UUID PRIMARY KEY,'',
                         ''    serial_number TEXT UNIQUE NOT NULL,'',
                         ''    name TEXT NOT NULL,'',
                         ''    company_id UUID NOT NULL'',
                         ''        REFERENCES companies(id),'',
                         ''    site_id UUID REFERENCES sites(id),'',
                         ''    gateway_profile_id UUID'',
                         ''        REFERENCES gateway_profiles(id),'',
                         ''    status TEXT NOT NULL DEFAULT ^27^offline^27^,'',
                         ''    firmware_version TEXT,'',
                         ''    app_version TEXT,'',
                         ''    config_version INTEGER DEFAULT 0,'',
                         ''    last_seen_at TIMESTAMPTZ,'',
                         ''    registered_at TIMESTAMPTZ DEFAULT now()'',
                         '');'',
                         '''',
                         ''CREATE TABLE user_gateway_permissions ('',
                         ''    id UUID PRIMARY KEY,'',
                         ''    user_id UUID NOT NULL REFERENCES users(id),'',
                         ''    gateway_id UUID NOT NULL,'',
                         ''    permission TEXT NOT NULL,'',
                         ''        -- view | control | configure | maintain | admin'',
                         ''    UNIQUE(user_id, gateway_id, permission)'',
                         '');''] in
     [add_round_rect 500 1100 6100 5950 DARK (Some (AMBER, 50)),
      add_textbox 650 1180 5800 300 (tx ''companies ^b7^ sites ^b7^ users'')
          (textbox\<lparr>ts_size := 22, ts_bold := True, ts_color := AMBER, ts_font := FONT_MONO\<rparr>),
      add_textbox 650 1550 5800 5400 sql_left
          (textbox\<lparr>ts_size := 20, ts_color := TEXT_LIGHT, ts_font := FONT_MONO, ts_anchor := TOP\<rparr>),
      add_round_rect 6780 1100 6050 5950 DARK (Some (AMBER, 50)),
      add_textbox 6930 1180 5700 300 (tx ''gateways ^b7^ user_gateway_permissions'')
          (textbox\<lparr>ts_size := 22, ts_bold := True, ts_color := AMBER, ts_font := FONT_MONO\<rparr>),
      add_textbox 6930 1550 5800 5400 sql_right
          (textbox\<lparr>ts_size := 20, ts_color := TEXT_LIGHT, ts_font := FONT_MONO, ts_anchor := TOP\<rparr>)]))\<close>

definition slide_sensor_profile :: "shape list" where
  \<open>slide_sensor_profile =
     add_header (tx ''Sensor Profile / Sensor Channel $bun-ri$'') (Some (tx ''$sen-seo$ $jong-ryu-neun$ $ko-deu-ga$ $a-ni-ra$ $de-i-teo-ro$ ^2014^ $sae$ $sen-seo$ $chu-ga$ $si$ $ko-deu$ $su-jeong$ 0'')) (Some 15) (Some TOTAL) @
     [add_round_rect 500 1100 6100 5950 SURFACE (Some (LINE, 50)),
      add_rect 500 1100 6100 500 STEEL None,
      add_textbox 700 1130 5500 420 (tx ''sensor_profiles  ($mo-del$ $jeong-ui$)'')
          (textbox\<lparr>ts_size := 26, ts_bold := True, ts_color := TEXT_LIGHT\<rparr>),
      add_multiline 700 1700 5700 2000
          [(tx ''$ben-deo$ / $mo-del$ / $tong-sin$ $peu-ro-to-kol$'', no_opts\<lparr>lo_size := Some 22\<rparr>),
           (tx ''$cheug-jeong$ $hang-mog$ (key, display_name, unit, data_type)'', no_opts\<lparr>lo_size := Some 22\<rparr>),
           (tx ''scale / offset / min / max / quality'', no_opts\<lparr>lo_size := Some 22\<rparr>),
           (tx ''register map (Modbus function_code, register, length)'', no_opts\<lparr>lo_size := Some 22\<rparr>),
           (tx ''default_polling_interval_sec'', no_opts\<lparr>lo_size := Some 22\<rparr>),
           (tx ''visualization (line_chart / gauge / map)'', no_opts\<lparr>lo_size := Some 22\<rparr>)] (multi\<lparr>ls_bullet := True, ls_spacing := 140\<rparr>),
      add_textbox 700 3850 5700 300 (tx ''$ye$: TH-RS485-01 (Modbus RTU $on-seub-do$)'')
          (textbox\<lparr>ts_size := 22, ts_bold := True, ts_color := AMBER\<rparr>)] @
     (let code1 = txs
                    [''{'',
                     ''  "name": "RS485 Temperature Humidity Sensor",'',
                     ''  "vendor": "Generic", "model": "TH-RS485-01",'',
                     ''  "protocol": "modbus_rtu", "interface_type": "rs485",'',
                     ''  "default_polling_interval_sec": 10,'',
                     ''  "measurements": ['',
                     ''    {"key": "temperature", "unit": "degC",'',
                     ''     "modbus": {"function_code": 3, "register": 0, "length": 1},'',
                     ''     "scale": 0.1, "visualization": "line_chart"},'',
                     ''    {"key": "humidity", "unit": "%",'',
                     ''     "modbus": {"function_code": 3, "register": 1, "length": 1},'',
                     ''     "scale": 0.1, "visualization": "line_chart"}'',
                     ''  ]'',
                     ''}''] in
     [add_round_rect 700 4200 5700 2700 DARK None,
      add_textbox 850 4300 5500 2550 code1
          (textbox\<lparr>ts_size := 17, ts_color := TEXT_LIGHT, ts_font := FONT_MONO, ts_anchor := TOP\<rparr>),
      add_round_rect 6780 1100 6050 5950 SURFACE (Some (LINE, 50)),
      add_rect 6780 1100 6050 500 NAVY None,
      add_textbox 6950 1130 5700 420 (tx ''sensor_channels  (Gateway$e$ $sil-je$ $yeon-gyeol-doen$ $in-seu-teon-seu$)'')
          (textbox\<lparr>ts_size := 26, ts_bold := True, ts_color := TEXT_LIGHT\<rparr>),
      add_multiline 6950 1700 5700 2000
          [(tx ''$eo-tteon$ Gateway$e$ (gateway_id)'', no_opts\<lparr>lo_size := Some 22\<rparr>),
           (tx ''$eo-tteon$ Sensor Profile$eul$ (sensor_profile_id)'', no_opts\<lparr>lo_size := Some 22\<rparr>),
           (tx ''$eo-tteon$ $in-teo-pe-i-seu$/$po-teu-ro$ (interface_name)'', no_opts\<lparr>lo_size := Some 22\<rparr>),
           (tx ''Modbus slave_id / address'', no_opts\<lparr>lo_size := Some 22\<rparr>),
           (tx ''polling_interval_sec / enabled / display_name'', no_opts\<lparr>lo_size := Some 22\<rparr>),
           (tx ''override $ga-neung-han$ config JSONB'', no_opts\<lparr>lo_size := Some 22\<rparr>)] (multi\<lparr>ls_bullet := True, ls_spacing := 140\<rparr>),
      add_textbox 6950 3850 5700 300 (tx ''$ye$: GW-000001$ui$ 1$beon$ RS-485$e$ $seul-re-i-beu$ 1$ro$ $yeon-gyeol$'')
          (textbox\<lparr>ts_size := 22, ts_bold := True, ts_color := AMBER\<rparr>)] @
     (let code2 = txs
                    [''{'',
                     ''  "gateway_id":         "GW-000001",'',
                     ''  "sensor_channel_id":  "sensor-01",'',
                     ''  "sensor_profile_id":  "profile-rs485-temp-humi-001",'',
                     ''  "display_name":       "1$beon$ $on-seub-do$ $sen-seo$",'',
                     ''  "interface":          "rs485_1",'',
                     ''  "protocol":           "modbus_rtu",'',
                     ''  "slave_id":           1,'',
                     ''  "polling_interval_sec": 10,'',
                     ''  "enabled":            true'',
                     ''}''] in
     [add_round_rect 6950 4200 5700 2700 DARK None,
      add_textbox 7100 4300 5500 2550 code2
          (textbox\<lparr>ts_size := 17, ts_color := TEXT_LIGHT, ts_font := FONT_MONO, ts_anchor := TOP\<rparr>)]))\<close>

definition slide_telemetry :: "shape list" where
  \<open>slide_telemetry =
     add_header (tx ''Telemetry $jeo-jang$ $mo-del$'') (Some (tx ''$wol-byeol$ partition + telemetry_latest upsert ($dae-si-bo-deu-yong$)'')) (Some 16) (Some TOTAL) @
     (let sql = txs
                  [''CREATE TABLE telemetry ('',
                   ''    id BIGSERIAL,'',
                   ''    company_id UUID NOT NULL,'',
                   ''    site_id UUID,'',
                   ''    gateway_id UUID NOT NULL REFERENCES gateways(id),'',
                   ''    sensor_channel_id UUID NOT NULL REFERENCES sensor_channels(id),'',
                   ''    measurement_key TEXT NOT NULL,'',
                   ''    ts TIMESTAMPTZ NOT NULL,'',
                   ''    value_double DOUBLE PRECISION,'',
                   ''    value_text TEXT, value_bool BOOLEAN, value_json JSONB,'',
                   ''    unit TEXT, quality TEXT, raw JSONB,'',
                   ''    PRIMARY KEY (id, ts)'',
                   '') PARTITION BY RANGE (ts);'',
                   '''',
                   ''CREATE TABLE telemetry_2026_05 PARTITION OF telemetry'',
                   ''    FOR VALUES FROM (^27^2026-05-01^27^) TO (^27^2026-06-01^27^);'',
                   '''',
                   ''CREATE TABLE telemetry_latest ('',
                   ''    gateway_id UUID, sensor_channel_id UUID,'',
                   ''    measurement_key TEXT, ts TIMESTAMPTZ,'',
                   ''    value_double DOUBLE PRECISION,'',
                   ''    value_text TEXT, value_bool BOOLEAN, value_json JSONB,'',
                   ''    unit TEXT, quality TEXT,'',
                   ''    PRIMARY KEY (gateway_id, sensor_channel_id, measurement_key)'',
                   '');''] in
     [add_round_rect 500 1100 7500 5950 DARK (Some (AMBER, 50)),
      add_textbox 650 1150 7200 300 (tx ''DDL ^2014^ telemetry ^b7^ telemetry_latest'')
          (textbox\<lparr>ts_size := 22, ts_bold := True, ts_color := AMBER, ts_font := FONT_MONO\<rparr>),
      add_textbox 650 1500 7200 5500 sql
          (textbox\<lparr>ts_size := 20, ts_color := TEXT_LIGHT, ts_font := FONT_MONO, ts_anchor := TOP\<rparr>),
      add_round_rect 8200 1100 4650 5950 SURFACE (Some (LINE, 50)),
      add_textbox 8400 1200 4300 400 (tx ''$seol-gye$ $ui-do$'')
          (textbox\<lparr>ts_size := 26, ts_bold := True, ts_color := NAVY\<rparr>),
      add_multiline 8400 1600 4300 5400
          [(tx ''$sen-seo-ma-da$ $keol-reom-i$ $da-reu-meu-ro$ measurement_key + value_* $da-jung$ $keol-reom$ $pae-teon$'', no_opts\<lparr>lo_size := Some 21\<rparr>),
           (tx ''$wol-byeol$ partition$eu-ro$ retention $jeong-chaeg$ (drop partition)'', no_opts\<lparr>lo_size := Some 21\<rparr>),
           (tx ''$dae-si-bo-deu-neun$ telemetry_latest $dan-il$ $te-i-beul$ ^2192^ O(1) $jo-hoe$'', no_opts\<lparr>lo_size := Some 21\<rparr>),
           (tx ''Worker$e-seo$ INSERT + UPSERT $dong-si$ $su-haeng$'', no_opts\<lparr>lo_size := Some 21\<rparr>),
           (tx ''raw JSONB$neun$ $di-beo-ging-yong$ $won-bon$ $me-si-ji$ $bo-jon$ ($ob-syeon$)'', no_opts\<lparr>lo_size := Some 21\<rparr>),
           (tx ''$hyang-hu$ TimescaleDB Community $gi-neung$ $geom-to$ $ga-neung$ (License $ju-ui$)'', no_opts\<lparr>lo_size := Some 20, lo_color := Some MUTED, lo_italic := True\<rparr>)] (multi\<lparr>ls_bullet := True, ls_spacing := 140\<rparr>),
      add_textbox 8400 5700 4300 300 (tx ''$ye-si$ $de-i-teo$'')
          (textbox\<lparr>ts_size := 22, ts_bold := True, ts_color := AMBER\<rparr>)] @
     (let sample = txs
                     [''| GW-001 | sensor-01 | temperature | 24.7 | degC |'',
                      ''| GW-001 | sensor-01 | humidity    | 61.2 | %    |'',
                      ''| GW-002 | sensor-02 | tilt_x      |  3.2 | deg  |''] in
     [add_textbox 8400 6000 4300 1000 sample
          (textbox\<lparr>ts_size := 18, ts_color := TEXT_DARK, ts_font := FONT_MONO\<rparr>)]))\<close>

definition slide_gw_config :: "shape list" where
  \<open>slide_gw_config =
     add_header (tx ''Gateway Config $beo-jeon$ $gwan-ri$'') (Some (tx ''desired_config ($seo-beo$) ^2194^ reported_config (Gateway) ^2014^ $yang-bang-hyang$ $chu-jeog$'')) (Some 17) (Some TOTAL) @
     (let steps = [(tx ''Web Portal'', tx ''$gwan-ri-ja$ $byeon-gyeong$'', AMBER),
                   (tx ''Backend DB'', tx ''config $jeo-jang$'', NAVY),
                   (tx ''Config Gen'', tx ''version + hash'', STEEL),
                   (tx ''MQTT publish'', tx ''gw/{id}/config/desired'', TEAL),
                   (tx ''Gateway'', tx ''$seol-jeong$ $jeog-yong$'', AMBER),
                   (tx ''MQTT report'', tx ''gw/{id}/config/reported'', TEAL)] in
     (let sx = 500 in
     (let sy = 1150 in
     (let bw = 2000 in
     (let bh = 850 in
     (let gap = 70 in
     for_each steps (\<lambda>i (n, d, c).
       (let x = sx + i * (bw + gap) in
       [add_round_rect x sy bw bh c None,
        add_textbox x (sy + 130) bw 320 n
            (textbox\<lparr>ts_size := 22, ts_bold := True, ts_color := TEXT_LIGHT, ts_align := CENTER\<rparr>),
        add_textbox x (sy + 450) bw 350 d
            (textbox\<lparr>ts_size := 18, ts_color := RGBColor 0xEC 0xF0 0xF1, ts_align := CENTER\<rparr>)] @
       (if i < int (length steps) - 1 then [add_connector (x + bw) (sy + 400) (x + bw + gap) (sy + 400) (arrow\<lparr>cn_color := MUTED, cn_width := 125\<rparr>)] else []))) @
     (let sql = txs
                  [''CREATE TABLE gateway_configs ('',
                   ''    id UUID PRIMARY KEY,'',
                   ''    gateway_id UUID NOT NULL REFERENCES gateways(id),'',
                   ''    config_version INTEGER NOT NULL,'',
                   ''    config_hash TEXT NOT NULL,'',
                   ''    desired_config JSONB NOT NULL,'',
                   ''    status TEXT NOT NULL DEFAULT ^27^pending^27^,'',
                   ''    created_by UUID REFERENCES users(id),'',
                   ''    created_at TIMESTAMPTZ DEFAULT now(),'',
                   ''    applied_at TIMESTAMPTZ,'',
                   ''    UNIQUE(gateway_id, config_version)'',
                   '');'',
                   '''',
                   ''CREATE TABLE gateway_config_history ('',
                   ''    id UUID PRIMARY KEY,'',
                   ''    gateway_id UUID NOT NULL REFERENCES gateways(id),'',
                   ''    config_version INTEGER NOT NULL,'',
                   ''    config_snapshot JSONB NOT NULL,'',
                   ''    change_reason TEXT,'',
                   ''    changed_by UUID REFERENCES users(id),'',
                   ''    changed_at TIMESTAMPTZ DEFAULT now()'',
                   '');''] in
     [add_round_rect 500 2250 6300 4800 DARK (Some (AMBER, 50)),
      add_textbox 650 2300 6000 300 (tx ''DDL ^2014^ gateway_configs ^b7^ history'')
          (textbox\<lparr>ts_size := 21, ts_bold := True, ts_color := AMBER, ts_font := FONT_MONO\<rparr>),
      add_textbox 650 2650 6000 4300 sql
          (textbox\<lparr>ts_size := 19, ts_color := TEXT_LIGHT, ts_font := FONT_MONO, ts_anchor := TOP\<rparr>)] @
     (let desired = txs
                      [''// desired ($seo-beo$)'',
                       ''{'',
                       ''  "gateway_id": "GW-000001",'',
                       ''  "config_version": 12,'',
                       ''  "config_hash": "a83f2e9d",'',
                       ''  "interfaces": [...],'',
                       ''  "sensors":    [...],'',
                       ''  "actuators":  [...],'',
                       ''  "rules":      [...]'',
                       ''}'',
                       '''',
                       ''// reported (Gateway)'',
                       ''{'',
                       ''  "gateway_id": "GW-000001",'',
                       ''  "applied_config_version": 12,'',
                       ''  "config_hash": "a83f2e9d",'',
                       ''  "status": "applied",'',
                       ''  "applied_at": "2026-05-02T12:00:00Z",'',
                       ''  "errors": []'',
                       ''}''] in
     [add_round_rect 7000 2250 5850 4800 DARK (Some (AMBER, 50)),
      add_textbox 7150 2300 5600 300 (tx ''JSON ^2014^ desired vs reported'')
          (textbox\<lparr>ts_size := 21, ts_bold := True, ts_color := AMBER, ts_font := FONT_MONO\<rparr>),
      add_textbox 7150 2650 5600 4300 desired
          (textbox\<lparr>ts_size := 19, ts_color := TEXT_LIGHT, ts_font := FONT_MONO, ts_anchor := TOP\<rparr>)]))))))))\<close>

definition slide_mqtt_topic :: "shape list" where
  \<open>slide_mqtt_topic =
     add_header (tx ''MQTT Topic $seol-gye$'') (Some (tx ''$sa-yong-ja$ $gi-jun$ ^274c^  ^b7^  Gateway $gi-jun$ ^2705^  ($sa-yong-ja$-Gateway $gwan-gye-neun$ Backend DB$e-seo$)'')) (Some 18) (Some TOTAL) @
     [add_round_rect 500 1100 6100 1400 SURFACE (Some (RED, 50)),
      add_textbox 700 1180 5700 300 (tx ''^274c^ $bi-gwon-jang$'')
          (textbox\<lparr>ts_size := 22, ts_bold := True, ts_color := RED\<rparr>),
      add_textbox 700 1500 5700 400 (tx ''user/{userId}/gateway/{gatewayId}/telemetry'')
          (textbox\<lparr>ts_size := 28, ts_color := TEXT_DARK, ts_font := FONT_MONO\<rparr>),
      add_textbox 700 1950 5700 500 (tx ''$sa-yong-ja$ $byeon-gyeong$/$i-jeon$ $si$ topic $jae-gu-seong$ $pil-yo$. ACL $bog-jab$.'')
          (textbox\<lparr>ts_size := 20, ts_color := MUTED\<rparr>),
      add_round_rect 6780 1100 6050 1400 SURFACE (Some (GREEN, 50)),
      add_textbox 6950 1180 5700 300 (tx ''^2705^ $gwon-jang$'')
          (textbox\<lparr>ts_size := 22, ts_bold := True, ts_color := GREEN\<rparr>),
      add_textbox 6950 1500 5700 400 (tx ''gw/{gatewayId}/telemetry'')
          (textbox\<lparr>ts_size := 28, ts_color := TEXT_DARK, ts_font := FONT_MONO\<rparr>),
      add_textbox 6950 1950 5700 500 (tx ''Gateway $dan-il$ $sig-byeol-ja$ $gi-jun$. ACL $dan-sun$. $sa-yong-ja$ $mae-ping-eun$ DB.'')
          (textbox\<lparr>ts_size := 20, ts_color := MUTED\<rparr>),
      add_round_rect 500 2650 6100 4400 SURFACE (Some (LINE, 50)),
      add_rect 500 2650 6100 450 NAVY None,
      add_textbox 700 2700 5500 400 (tx ''Gateway ^2192^ Server (publish)'')
          (textbox\<lparr>ts_size := 24, ts_bold := True, ts_color := TEXT_LIGHT\<rparr>)] @
     (let pub_topics = [(tx ''gw/{id}/telemetry'', tx ''$sen-seo$ $cheug-jeong-gabs$''),
                        (tx ''gw/{id}/state'', tx ''$jeon-che$ $sang-tae$ (cpu^b7^mem^b7^net)''),
                        (tx ''gw/{id}/heartbeat'', tx ''$ju-gi$ alive $sin-ho$''),
                        (tx ''gw/{id}/event'', tx ''$e-reo$^b7^$gyeong-bo$^b7^$i-ben-teu$''),
                        (tx ''gw/{id}/config/reported'', tx ''$hyeon-jae$ $jeog-yong-doen$ config''),
                        (tx ''gw/{id}/command/response'', tx ''$myeong-ryeong$ $sil-haeng$ $gyeol-gwa$''),
                        (tx ''gw/{id}/ota/status'', tx ''OTA $jin-haeng$ $sang-hwang$'')] in
     (let yy = 3180 in
     for_step yy 500 pub_topics (\<lambda>_ yy (t, d).
       [add_textbox 700 yy 3100 300 t
            (textbox\<lparr>ts_size := 20, ts_color := AMBER, ts_font := FONT_MONO, ts_bold := True\<rparr>),
        add_textbox 3850 yy 2700 300 d
            (textbox\<lparr>ts_size := 20, ts_color := TEXT_DARK\<rparr>)]) @
     [add_round_rect 6780 2650 6050 4400 SURFACE (Some (LINE, 50)),
      add_rect 6780 2650 6050 450 STEEL None,
      add_textbox 6950 2700 5500 400 (tx ''Server ^2192^ Gateway (subscribe)'')
          (textbox\<lparr>ts_size := 24, ts_bold := True, ts_color := TEXT_LIGHT\<rparr>)] @
     (let sub_topics = [(tx ''gw/{id}/config/desired'', tx ''$seo-beo-ga$ $bal-haeng-ha-neun$ $seol-jeong$''),
                        (tx ''gw/{id}/command/request'', tx ''$won-gyeog$ $je-eo$ $myeong-ryeong$''),
                        (tx ''gw/{id}/ota/request'', tx ''OTA $jag-eob$ $ji-si$'')] in
     (let yy = 3200 in
     for_step yy 500 sub_topics (\<lambda>_ yy (t, d).
       [add_textbox 6950 yy 3100 300 t
            (textbox\<lparr>ts_size := 20, ts_color := AMBER, ts_font := FONT_MONO, ts_bold := True\<rparr>),
        add_textbox 10000 yy 2700 300 d
            (textbox\<lparr>ts_size := 20, ts_color := TEXT_DARK\<rparr>)]) @
     [add_round_rect 6950 5000 5700 2000 DARK (Some (AMBER, 50)),
      add_textbox 7100 5050 5400 300 (tx ''VerneMQ ACL $jeong-chaeg$ (Phase 7)'')
          (textbox\<lparr>ts_size := 22, ts_bold := True, ts_color := AMBER\<rparr>),
      add_multiline 7100 5400 5400 1500
          [(tx ''Gateway $gye-jeong-eun$ $ja-gi$ gw/{own_id}/* $man$ publish/subscribe $ga-neung$'', no_opts\<lparr>lo_size := Some 20, lo_color := Some TEXT_LIGHT\<rparr>),
           (tx ''Backend $gye-jeong-eun$ $mo-deun$ topic publish/subscribe $ga-neung$'', no_opts\<lparr>lo_size := Some 20, lo_color := Some TEXT_LIGHT\<rparr>),
           (tx ''Phase 1: password file (gateway/admin 1$gae-ssig$)'', no_opts\<lparr>lo_size := Some 20, lo_color := Some TEXT_LIGHT\<rparr>),
           (tx ''Phase 7: X.509 client cert + serial ^2192^ topic ACL $mae-ping$'', no_opts\<lparr>lo_size := Some 20, lo_color := Some TEXT_LIGHT\<rparr>)] (multi\<lparr>ls_bullet := True, ls_spacing := 135\<rparr>)]))))\<close>

definition slide_mqtt_payload :: "shape list" where
  \<open>slide_mqtt_payload =
     add_header (tx ''MQTT Payload $ye-si$'') (Some (tx ''telemetry ^b7^ gateway state ^2014^ $il-gwan-doen$ envelope (timestamp ^b7^ message_id)'')) (Some 19) (Some TOTAL) @
     (let tel = txs
                  [''{'',
                   ''  "message_id": "msg-20260502-000001",'',
                   ''  "gateway_id": "GW-000001",'',
                   ''  "timestamp":  "2026-05-02T12:00:00Z",'',
                   ''  "values": ['',
                   ''    {'',
                   ''      "sensor_channel_id": "sensor-01",'',
                   ''      "measurement_key": "temperature",'',
                   ''      "value": 24.7, "unit": "degC", "quality": "good"'',
                   ''    },'',
                   ''    {'',
                   ''      "sensor_channel_id": "sensor-01",'',
                   ''      "measurement_key": "humidity",'',
                   ''      "value": 61.2, "unit": "%", "quality": "good"'',
                   ''    }'',
                   ''  ]'',
                   ''}''] in
     (let state = txs
                    [''{'',
                     ''  "gateway_id": "GW-000001",'',
                     ''  "timestamp":  "2026-05-02T12:00:00Z",'',
                     ''  "status":     "online",'',
                     ''  "app_version":      "1.0.3",'',
                     ''  "firmware_version": "2026.05.02",'',
                     ''  "config_version":   12,'',
                     ''  "uptime_sec":       82344,'',
                     ''  "cpu_temp":         51.3,'',
                     ''  "memory_usage_percent": 38.7,'',
                     ''  "disk_usage_percent":   42.1,'',
                     ''  "network": {'',
                     ''    "ethernet": true,'',
                     ''    "ip":       "192.168.0.25",'',
                     ''    "rtt_ms":   34'',
                     ''  }'',
                     ''}''] in
     [add_textbox 500 1050 6100 320 (tx ''Telemetry Payload  ^2192^  gw/{id}/telemetry'')
          (textbox\<lparr>ts_size := 24, ts_bold := True, ts_color := AMBER, ts_font := FONT_MONO\<rparr>),
      add_round_rect 500 1400 6100 5500 DARK (Some (AMBER, 50)),
      add_textbox 650 1500 5850 5300 tel
          (textbox\<lparr>ts_size := 22, ts_color := TEXT_LIGHT, ts_font := FONT_MONO, ts_anchor := TOP\<rparr>),
      add_textbox 6780 1050 6050 320 (tx ''Gateway State  ^2192^  gw/{id}/state'')
          (textbox\<lparr>ts_size := 24, ts_bold := True, ts_color := AMBER, ts_font := FONT_MONO\<rparr>),
      add_round_rect 6780 1400 6050 5500 DARK (Some (AMBER, 50)),
      add_textbox 6930 1500 5850 5300 state
          (textbox\<lparr>ts_size := 22, ts_color := TEXT_LIGHT, ts_font := FONT_MONO, ts_anchor := TOP\<rparr>),
      add_textbox 500 7000 12300 250 (tx ''$gong-tong$ envelope: message_id (idempotency) + gateway_id + timestamp(UTC ISO8601). $mo-deun$ $me-si-ji$ QoS 1 $gwon-jang$.'')
          (textbox\<lparr>ts_size := 18, ts_color := MUTED, ts_italic := True, ts_align := CENTER\<rparr>)]))\<close>

definition band_x :: int where "band_x = 500"
definition col_w :: int where "col_w = 12300 div 6"

text \<open>The divisions of the code are exact here: 12300 by six actors, and 1750 by two.\<close>

definition col_x :: "int \<Rightarrow> int" where
  "col_x idx =
     (let x = band_x + idx * col_w + 150 in
     (let bw = col_w - 300 in
      x + bw div 2))"

definition slide_command_flow :: "shape list" where
  \<open>slide_command_flow =
     add_header (tx ''$won-gyeog$ $je-eo$ $myeong-ryeong$ $heu-reum$'') (Some (tx ''User ^2192^ Backend ^2192^ MQTT ^2192^ Gateway ^2192^ Local Safety ^2192^ Actuator ($yang-bang-hyang$ ACK)'')) (Some 20) (Some TOTAL) @
     (let actors = [(txs
                     [''User'',
                      ''Web Portal''], AMBER),
                   (txs
                     [''Backend'',
                      ''API''], NAVY),
                   (tx ''PostgreSQL'', GREEN),
                   (tx ''VerneMQ'', TEAL),
                   (txs
                     [''CM4'',
                      ''Gateway''], STEEL),
                   (txs
                     [''Relay'',
                      ''/Valve''], RED)] in
     (let band_top = 1050 in
     for_each actors (\<lambda>i (lb, fc).
       (let x = band_x + i * col_w + 150 in
       (let bw = col_w - 300 in
       [add_round_rect x band_top bw 700 fc None,
        add_textbox x (band_top + 50) bw 600 lb
          (textbox\<lparr>ts_size := 22, ts_bold := True, ts_color := TEXT_LIGHT, ts_align := CENTER, ts_anchor := MIDDLE\<rparr>)] @
       (let cx = x + bw div 2 in
       [add_connector cx (band_top + 700) cx 7000
          (arrow\<lparr>cn_color := LINE, cn_width := 75, cn_arrow := False, cn_dashed := True\<rparr>)])))))) @
     (let msgs = [(0, 1, tx ''1) $ril-re-i$ ON $yo-cheong$ (POST /api/.../commands)''),
                 (1, 1, tx ''2) $gwon-han$ $geom-sa$ (User ^d7^ Gateway)''),
                 (1, 2, tx ''3) command $saeng-seong$ (status=pending)''),
                 (1, 3, tx ''4) MQTT publish  gw/{id}/command/request''),
                 (3, 4, tx ''5) $myeong-ryeong$ $jeon-dal$''),
                 (4, 4, tx ''6) Local Safety Rule (interlock ^b7^ max_on)''),
                 (4, 5, tx ''7) GPIO $je-eo$''),
                 (5, 4, tx ''8) $sil-haeng$ $gyeol-gwa$''),
                 (4, 3, tx ''9) MQTT publish  gw/{id}/command/response''),
                 (3, 1, tx ''10) Worker$ga$ $su-sin$ ^2192^ status $eob-de-i-teu$''),
                 (1, 0, tx ''11) $eung-dab$ $pyo-si$ (executed / failed / timeout)'')] in
     (let y = 2000 in
     for_step y 450 msgs (\<lambda>_ y (src, dst, lb).
       (let x1 = col_x src in
       (let x2 = col_x dst in
       (if src = dst
        then [set_text (add_round_rect (x1 - 600) (y - 50) 1200 300 AMBER None) (tx ''self'')
                (plain\<lparr>ts_size := 16, ts_color := DARK, ts_align := CENTER\<rparr>)]
        else [add_connector x1 y x2 y (arrow\<lparr>cn_color := NAVY, cn_width := 125\<rparr>)]) @
       (let lx = min x1 x2 + 50 in
       (let lw = \<bar>x2 - x1\<bar> + 2000 in
       [add_textbox lx (y - 300) lw 280 lb
          (textbox\<lparr>ts_size := 19, ts_color := TEXT_DARK, ts_anchor := BOTTOM\<rparr>)])))))))\<close>

definition slide_command_safety :: "shape list" where
  \<open>slide_command_safety =
     add_header (tx ''$myeong-ryeong$ $an-jeon$ $jo-geon$ + Alarm/$ja-dong$ $je-eo$ Rule'') (Some (tx ''$won-gyeog$ $je-eo-ga$ $sa-go-ro$ $i-eo-ji-ji$ $anh-do-rog$ ^2014^ 8$ga-ji$ $bo-ho-jang-chi$'')) (Some 21) (Some TOTAL) @
     [add_round_rect 500 1100 6100 5950 SURFACE (Some (LINE, 50)),
      add_rect 500 1100 6100 500 RED None,
      add_textbox 700 1130 5700 420 (tx ''$myeong-ryeong$ $an-jeon$ $jo-geon$ (8)'')
          (textbox\<lparr>ts_size := 26, ts_bold := True, ts_color := TEXT_LIGHT\<rparr>)] @
     (let safeties = [(tx ''command_id'', tx ''$jung-bog$ $sil-haeng$ $bang-ji$ (idempotency key)''),
                      (tx ''expires_at'', tx ''$o-rae-doen$ $myeong-ryeong$ $ja-dong$ $pye-gi$''),
                      (tx ''timeout_ms'', tx ''$ji-yeon$ $myeong-ryeong$ $sil-pae$ $cheo-ri$''),
                      (tx ''require_ack'', tx ''$sil-haeng$ $gyeol-gwa$ $pil-su$ $hwag-in$''),
                      (tx ''local_safety_check'', tx ''$hyeon-jang$ $jo-geon$ $wi-ban$ $si$ $geo-bu$''),
                      (tx ''audit_log'', tx ''$sa-yong-ja$^b7^$si-gan$^b7^$dae-sang$^b7^$gyeol-gwa$ $bo-gwan$''),
                      (tx ''fail_safe'', tx ''$jang-ae$ $si$ $an-jeon$ $sang-tae-ro$ $jeon-hwan$''),
                      (tx ''manual_override'', tx ''$hyeon-jang$ $su-dong$ $je-eo$ $u-seon$'')] in
     (let yy = 1700 in
     for_step yy 650 safeties (\<lambda>_ yy (k, v).
       [add_round_rect 700 yy 5700 600 SUBTLE (Some (LINE, 50)),
        add_textbox 850 (yy + 70) 2200 450 k
            (textbox\<lparr>ts_size := 21, ts_bold := True, ts_color := NAVY, ts_font := FONT_MONO\<rparr>),
        add_textbox 3100 (yy + 70) 3300 450 v
            (textbox\<lparr>ts_size := 20, ts_color := TEXT_DARK\<rparr>)]) @
     [add_round_rect 6780 1100 6050 2850 SURFACE (Some (LINE, 50)),
      add_rect 6780 1100 6050 500 AMBER None,
      add_textbox 6950 1130 5700 420 (tx ''Alarm Rule'')
          (textbox\<lparr>ts_size := 26, ts_bold := True, ts_color := DARK\<rparr>)] @
     (let alarm = txs
                    [''{'',
                     ''  "gateway_id":  "GW-000001",'',
                     ''  "sensor_channel_id": "sensor-01",'',
                     ''  "measurement_key": "temperature",'',
                     ''  "condition": ">", "threshold": 35.0,'',
                     ''  "duration_sec": 60,'',
                     ''  "severity": "warning",'',
                     ''  "action": "notify"'',
                     ''}''] in
     [add_textbox 6950 1700 5700 2200 alarm
          (textbox\<lparr>ts_size := 20, ts_color := TEXT_DARK, ts_font := FONT_MONO, ts_anchor := TOP\<rparr>),
      add_round_rect 6780 4100 6050 2950 SURFACE (Some (LINE, 50)),
      add_rect 6780 4100 6050 500 TEAL None,
      add_textbox 6950 4130 5700 420 (tx ''$ja-dong$ $je-eo$ Rule ($seo-beo$ + Gateway $yang-jjog$ $bae-po$)'')
          (textbox\<lparr>ts_size := 26, ts_bold := True, ts_color := TEXT_LIGHT\<rparr>)] @
     (let ctrl = txs
                   [''{'',
                    ''  "rule_id": "control-rule-001",'',
                    ''  "if": {'',
                    ''    "sensor_channel_id": "sensor-02",'',
                    ''    "measurement_key": "water_level",'',
                    ''    "condition": "<", "threshold": 20'',
                    ''  },'',
                    ''  "then": {'',
                    ''    "actuator_channel_id": "relay-01",'',
                    ''    "action": "ON"'',
                    ''  },'',
                    ''  "safety": { "max_on_duration_sec": 300 }'',
                    ''}''] in
     [add_textbox 6950 4700 5700 2300 ctrl
          (textbox\<lparr>ts_size := 20, ts_color := TEXT_DARK, ts_font := FONT_MONO, ts_anchor := TOP\<rparr>)]))))\<close>

definition slide_web_portal :: "shape list" where
  \<open>slide_web_portal =
     add_header (tx ''Web Portal $hwa-myeon$ $gu-seong$'') (Some (tx ''$il-ban$ $sa-yong-ja$ ^b7^ Gateway $sang-se$ ^b7^ $gwan-ri-ja$ ^2014^ $gwon-han-byeol$ $da-reun$ $me-nyu$'')) (Some 22) (Some TOTAL) @
     (let cols = [(tx ''$il-ban$ $sa-yong-ja$'', AMBER,
                   [tx ''$nae$ Gateway $mog-rog$'',
                    tx ''  ^2500^ $i-reum$^b7^$wi-chi$^b7^$on-o-peu-ra-in$'',
                    tx ''  ^2500^ $al-ram$ $sang-tae$'',
                    tx ''  ^2500^ $ju-yo$ $sen-seo$ $choe-sin-gabs$'',
                    tx ''  ^2500^ $je-eo$ $ga-neung$ $aeg-chu-e-i-teo$'',
                    tx ''  ^2500^ $choe-geun$ $i-ben-teu$'']),
                  (tx ''Gateway $sang-se$'', NAVY,
                   [tx ''$gi-bon$ $jeong-bo$ / $ne-teu-wo-keu$ $sang-tae$'',
                    tx ''$sen-seo$ $chae-neol$ $mog-rog$'',
                    tx ''$choe-sin$ $sen-seo-gabs$ (telemetry_latest)'',
                    tx ''$si-gye-yeol$ $geu-rae-peu$ (ECharts)'',
                    tx ''$je-eo$ $chae-neol$ (Toggle/Slider)'',
                    tx ''$al-ram$ $i-ryeog$ / $myeong-ryeong$ $i-ryeog$'',
                    tx ''$seol-jeong$ $beo-jeon$ / $yu-ji-bo-su$ $ro-geu$'']),
                  (tx ''$gwan-ri-ja$'', STEEL,
                   [tx ''$sa-yong-ja$^b7^$go-gaeg-sa$^b7^$hyeon-jang$ $gwan-ri$'',
                    tx ''Gateway $deung-rog$ / $so-yu-gwon$ $hal-dang$'',
                    tx ''Gateway Profile $gwan-ri$'',
                    tx ''Sensor Profile $gwan-ri$'',
                    tx ''Sensor/Actuator Channel $seol-jeong$'',
                    tx ''Gateway Template $gwan-ri$'',
                    tx ''Bulk Operation / OTA'',
                    tx ''Audit Log $jo-hoe$''])] in
     (let cw = 4150 in
     (let ch = 5950 in
     for_each cols (\<lambda>i (nm, fc, items).
       (let x = 500 + i * 4270 in
       (let y = 1100 in
       [add_round_rect x y cw ch SURFACE (Some (LINE, 50)),
        add_rect x y cw 600 fc None,
        add_textbox (x + 200) (y + 100) cw 400 nm
            (textbox\<lparr>ts_size := 28, ts_bold := True, ts_color := TEXT_LIGHT\<rparr>)] @
       (let bullets = map (\<lambda>t. (t, no_opts\<lparr>lo_size := Some 22, lo_mono := False, lo_nobullet := starts_with t ''  ^2500^''\<rparr>)) items in
       [add_multiline (x + 250) (y + 750) (cw - 400) (ch - 850)
            bullets (multi\<lparr>ls_bullet := True, ls_spacing := 140\<rparr>)])))))))\<close>

definition slide_sensor_wizard :: "shape list" where
  \<open>slide_sensor_wizard =
     add_header (tx ''Sensor $chu-ga$ Wizard'') (Some (tx ''Gateway$byeol$ $sen-seo-ga$ $da-yang$ ^2192^ $gwan-ri-ja$ UI$reul$ 8$dan-gye$ $ma-beob-sa-ro$'')) (Some 23) (Some TOTAL) @
     (let steps = [(tx ''1'', tx ''Gateway $seon-taeg$'', tx ''$eo-tteon$ $jang-bi-e$ $chu-ga-ha-na$''),
                   (tx ''2'', tx ''$in-teo-pe-i-seu$ $seon-taeg$'', tx ''RS-485 #1/2 ^b7^ AI ^b7^ DI ^b7^ I2C ^b7^ UART''),
                   (tx ''3'', tx ''Sensor Profile $seon-taeg$'', tx ''$on-seub-do$ ^b7^ $mi-se-meon-ji$ ^b7^ $gi-ul-gi$ ^b7^ $su-wi$ ^b7^ pH ...''),
                   (tx ''4'', tx ''$tong-sin$ $seol-jeong$'', tx ''Modbus slave_id ^b7^ baudrate ^b7^ parity''),
                   (tx ''5'', tx ''$cheug-jeong$ $ju-gi$'', tx ''polling_interval_sec''),
                   (tx ''6'', tx ''$pyo-si$ $i-reum$'', tx ''$sa-yong-ja-e-ge$ $bo-yeo-jul$ $i-reum$''),
                   (tx ''7'', tx ''$jeo-jang$'', tx ''sensor_channels $te-i-beul-e$ INSERT''),
                   (tx ''8'', tx ''Config $bae-po$'', tx ''config_version + 1, MQTT desired publish'')] in
     (let y = 1150 in
     (let cw = 12300 in
     (let ch = 650 in
     for_step y 720 steps (\<lambda>_ y (n, t, d).
       [add_round_rect 500 y cw ch SURFACE (Some (LINE, 50)),
        add_round_rect 550 (y + 70) 500 500 AMBER None,
        add_textbox 550 (y + 80) 500 500 n
            (textbox\<lparr>ts_size := 28, ts_bold := True, ts_color := DARK, ts_align := CENTER, ts_anchor := MIDDLE\<rparr>),
        add_textbox 1200 (y + 50) 3500 550 t
            (textbox\<lparr>ts_size := 25, ts_bold := True, ts_color := NAVY, ts_anchor := MIDDLE\<rparr>),
        add_textbox 4700 (y + 50) 8000 550 d
            (textbox\<lparr>ts_size := 22, ts_color := TEXT_DARK, ts_anchor := MIDDLE\<rparr>)])))))\<close>

definition slide_dynamic_dashboard :: "shape list" where
  \<open>slide_dynamic_dashboard =
     add_header (tx ''$dong-jeog$ Dashboard $ja-dong$ $saeng-seong$'') (Some (tx ''Sensor Profile$ui$ visualization hint ^2192^ Widget $mae-ping$'')) (Some 24) (Some TOTAL) @
     [add_round_rect 500 1100 7500 5950 SURFACE (Some (LINE, 50)),
      add_rect 500 1100 7500 500 NAVY None,
      add_textbox 700 1130 7000 420 (tx ''measurement_key  ^2192^  Widget $mae-ping$'')
          (textbox\<lparr>ts_size := 26, ts_bold := True, ts_color := TEXT_LIGHT\<rparr>)] @
     (let rs = [(tx ''temperature'', tx ''Line Chart + Current Value Card''),
                (tx ''humidity'', tx ''Line Chart + Gauge''),
                (tx ''pressure'', tx ''Line Chart''),
                (tx ''pm2_5'', tx ''Gauge + Line Chart''),
                (tx ''tilt_x, tilt_y'', tx ''2-axis Tilt View + Line''),
                (tx ''water_level'', tx ''Gauge''),
                (tx ''relay_state'', tx ''Toggle + Status Card''),
                (tx ''valve_state'', tx ''Toggle + Status Card''),
                (tx ''gps'', tx ''Map'')] in
     (let y = 1700 in
     for_step y 450 rs (\<lambda>i y (k, w).
       (let bg = (if i mod 2 = 0 then SURFACE else SUBTLE) in
       [add_rect 500 y 7500 450 bg (Some (LINE, 25)),
        add_textbox 700 (y + 60) 2600 320 k
            (textbox\<lparr>ts_size := 22, ts_color := AMBER, ts_font := FONT_MONO, ts_bold := True\<rparr>),
        add_textbox 3400 (y + 60) 4500 320 w
            (textbox\<lparr>ts_size := 21, ts_color := TEXT_DARK\<rparr>)])) @
     [add_round_rect 8200 1100 4650 5950 DARK (Some (AMBER, 50)),
      add_textbox 8350 1180 4400 300 (tx ''Sensor Profile $ye$'')
          (textbox\<lparr>ts_size := 22, ts_bold := True, ts_color := AMBER, ts_font := FONT_MONO\<rparr>)] @
     (let code = txs
                   [''{'',
                    ''  "key": "temperature",'',
                    ''  "display_name": "Temperature",'',
                    ''  "unit": "degC",'',
                    ''  "visualization": "line_chart",'',
                    ''  "display_group": "environment",'',
                    ''  "order": 1'',
                    ''}''] in
     [add_textbox 8350 1500 4400 2200 code
          (textbox\<lparr>ts_size := 20, ts_color := TEXT_LIGHT, ts_font := FONT_MONO, ts_anchor := TOP\<rparr>),
      add_textbox 8350 3850 4400 400 (tx ''$gyeol-gwa$: Frontend$ga$ $ja-dong-eu-ro$ Line Chart$reul$ environment $geu-rub-e$ 1$beon-jjae-ro$ $bae-chi$'')
          (textbox\<lparr>ts_size := 20, ts_color := RGBColor 0xCC 0xD4 0xDB, ts_italic := True\<rparr>),
      add_textbox 8350 4500 4400 2400 (txs
          [''$jang-jeom$'',
           ''^2022^ $sae$ $sen-seo$ $chu-ga$ $si$ frontend $su-jeong$ 0'',
           ''^2022^ Gateway$byeol$ $da-reun$ $dae-si-bo-deu$ $ja-dong$ $saeng-seong$'',
           ''^2022^ $sa-yong-ja-byeol$ widget $sun-seo$ $keo-seu-teom$ $ga-neung$''])
          (textbox\<lparr>ts_size := 22, ts_color := TEXT_LIGHT\<rparr>)])))\<close>

definition slide_bulk_ops :: "shape list" where
  \<open>slide_bulk_ops =
     add_header (tx ''Bulk Operation'') (Some (tx ''Gateway $su-ga$ $neul-myeon$ $il-gwal$ $jag-eob-i$ $pil-su$ ^2014^ 8$ga-ji$ $jag-eob$ $ta-ib$'')) (Some 25) (Some TOTAL) @
     (let ops = [(tx ''Gateway $hyeon-jang$ $il-gwal$ $bae-jeong$'', tx ''company/site $mae-ping$ $byeon-gyeong$''),
                 (tx ''$sa-yong-ja$ $gwon-han$ $il-gwal$ $bu-yeo$'', tx ''$teug-jeong$ group ^2192^ $da-su$ Gateway''),
                 (tx ''$sen-seo$ polling $il-gwal$ $byeon-gyeong$'', tx ''sensor_channels.polling_interval_sec''),
                 (tx ''$al-ram$ $gi-jun$ $il-gwal$ $byeon-gyeong$'', tx ''alarm_rules.threshold''),
                 (tx ''OTA $il-gwal$ $eob-de-i-teu$'', tx ''$ta-ges$ $pil-teo$ + $jeom-jin$ $bae-po$''),
                 (tx ''Gateway $il-gwal$ $jae-si-jag$'', tx ''command publish (reboot)''),
                 (tx ''$seol-jeong$ $il-gwal$ $bae-po$'', tx ''Template $gi-ban$ desired_config $bal-haeng$''),
                 (tx ''$ro-geu$ $il-gwal$ $su-jib$'', tx ''log/upload topic $teu-ri-geo$'')] in
     (let cw = 6050 in
     (let ch = 650 in
     for_each ops (\<lambda>i (n, d).
       (let cl = i mod 2 in
       (let rw = i div 2 in
       (let x = 500 + cl * 6270 in
       (let y = 1150 + rw * 750 in
       [add_round_rect x y cw ch SURFACE (Some (LINE, 50)),
        set_text (add_round_rect (x + 100) (y + 100) 450 450 AMBER None) [number (i + 1)]
            (plain\<lparr>ts_size := 24, ts_bold := True, ts_color := DARK, ts_align := CENTER\<rparr>),
        add_textbox (x + 700) (y + 50) 2800 550 n
            (textbox\<lparr>ts_size := 24, ts_bold := True, ts_color := NAVY, ts_anchor := MIDDLE\<rparr>),
        add_textbox (x + 3500) (y + 50) 2500 550 d
            (textbox\<lparr>ts_size := 21, ts_color := TEXT_DARK, ts_anchor := MIDDLE\<rparr>)]))))) @
     [add_round_rect 500 4500 12300 2500 DARK (Some (AMBER, 50)),
      add_textbox 700 4550 12000 300 (tx ''DDL ^2014^ bulk_jobs'')
          (textbox\<lparr>ts_size := 22, ts_bold := True, ts_color := AMBER, ts_font := FONT_MONO\<rparr>)] @
     (let sql = txs
                  [''CREATE TABLE bulk_jobs ('',
                   ''    id UUID PRIMARY KEY,'',
                   ''    job_type TEXT NOT NULL,'',
                   ''    target_filter JSONB NOT NULL,    -- {"company_id": "...", "site_id": "...", "tags": [...]}'',
                   ''    payload JSONB NOT NULL,          -- $jag-eob-byeol$ $pa-ra-mi-teo$'',
                   ''    status TEXT NOT NULL DEFAULT ^27^pending^27^,'',
                   ''    created_by UUID REFERENCES users(id),'',
                   ''    created_at TIMESTAMPTZ DEFAULT now(),'',
                   ''    completed_at TIMESTAMPTZ'',
                   '');''] in
     [add_textbox 700 4900 12000 2000 sql
          (textbox\<lparr>ts_size := 21, ts_color := TEXT_LIGHT, ts_font := FONT_MONO, ts_anchor := TOP\<rparr>)]))))\<close>

definition slide_gateway_agent :: "shape list" where
  \<open>slide_gateway_agent =
     add_header (tx ''Gateway Agent $gu-hyeon$ $gye-hoeg$'') (Some (tx ''/opt/iot-gateway/ $mo-dyul$ $gu-seong$ + $bu-ting$ $heu-reum$ + Local Buffer'')) (Some 26) (Some TOTAL) @
     [add_round_rect 500 1100 4100 5950 DARK (Some (AMBER, 50)),
      add_textbox 650 1180 3800 300 (tx ''/opt/iot-gateway/'')
          (textbox\<lparr>ts_size := 22, ts_bold := True, ts_color := AMBER, ts_font := FONT_MONO\<rparr>)] @
     (let tree = txs
                   [''gateway-agent/      Main loop'',
                    ''sensor-service/     Modbus poll'',
                    ''actuator-service/   GPIO/Relay'',
                    ''rule-engine/        Local Rule'',
                    ''mqtt-client/        TLS pub/sub'',
                    ''local-db/           SQLite'',
                    ''ota-agent/          $i-mi-ji$ $geom-jeung$'',
                    ''health-agent/       heartbeat'',
                    ''config/             $seol-jeong$ $pa-il$'',
                    ''logs/               $hoe-jeon$ $ro-geu$''] in
     [add_textbox 650 1550 3800 5400 tree
          (textbox\<lparr>ts_size := 22, ts_color := TEXT_LIGHT, ts_font := FONT_MONO, ts_anchor := TOP\<rparr>),
      add_round_rect 4780 1100 4100 5950 SURFACE (Some (LINE, 50)),
      add_rect 4780 1100 4100 500 NAVY None,
      add_textbox 4950 1130 3800 420 (tx ''$bu-ting$ $heu-reum$ (14 $dan-gye$)'')
          (textbox\<lparr>ts_size := 26, ts_bold := True, ts_color := TEXT_LIGHT\<rparr>)] @
     (let boot = [tx ''Gateway ID $hwag-in$'',
                  tx ''$in-jeung-seo$^b7^$seol-jeong$ $pa-il$ $hwag-in$'',
                  tx ''$ne-teu-wo-keu$ $hwag-in$'',
                  tx ''MQTT Broker $yeon-gyeol$'',
                  tx ''$hyeon-jae$ config_version $bo-go$'',
                  tx ''$seo-beo$ desired_config $hwag-in$'',
                  tx ''$beo-jeon$ $da-reu-myeon$ $da-un-ro-deu$'',
                  tx ''$seol-jeong$ $yu-hyo-seong$ $geom-sa$'',
                  tx ''Sensor driver $gu-seong$'',
                  tx ''Actuator driver $gu-seong$'',
                  tx ''Rule engine $gu-seong$'',
                  tx ''reported_config $jeon-song$'',
                  tx ''$sen-seo$ polling $si-jag$'',
                  tx ''$ju-gi$ heartbeat $jeon-song$''] in
     (let yy = 1700 in
     for_step yy 360 boot (\<lambda>i yy b.
       [add_textbox 4950 yy 300 320 [two_digits (i + 1)]
            (textbox\<lparr>ts_size := 20, ts_color := AMBER, ts_bold := True, ts_font := FONT_MONO\<rparr>),
        add_textbox 5300 yy 3400 320 b
            (textbox\<lparr>ts_size := 21, ts_color := TEXT_DARK\<rparr>)]) @
     [add_round_rect 9050 1100 3800 5950 SURFACE (Some (LINE, 50)),
      add_rect 9050 1100 3800 500 STEEL None,
      add_textbox 9200 1130 3500 420 (tx ''Local Buffer $jeong-chaeg$ (SQLite)'')
          (textbox\<lparr>ts_size := 24, ts_bold := True, ts_color := TEXT_LIGHT\<rparr>)] @
     (let items = [(tx ''$jeo-jang$ $dae-sang$'', tx ''telemetry ^b7^ event ^b7^ cmd response''),
                   (tx ''$jae-jeon-song$ $sun-seo$'', tx ''timestamp $o-reum-cha-sun$''),
                   (tx ''$jung-bog$ $bang-ji$'', tx ''message_id $gi-ban$''),
                   (tx ''$bo-jon$ $gi-gan$'', tx ''7~30$il$ ($jeong-chaeg$ $ga-neung$)''),
                   (tx ''$cho-gwa$ $si$'', tx ''$o-rae-doen$ telemetry$bu-teo$ $sag-je$''),
                   (tx ''$u-seon-sun-wi$'', tx ''event > cmd_resp > telemetry'')] in
     (let yy = 1700 in
     for_step yy 780 items (\<lambda>_ yy (k, v).
       [add_textbox 9200 yy 3500 250 k
            (textbox\<lparr>ts_size := 20, ts_bold := True, ts_color := AMBER\<rparr>),
        add_textbox 9200 (yy + 250) 3500 450 v
            (textbox\<lparr>ts_size := 19, ts_color := TEXT_DARK\<rparr>)]))))))\<close>

definition slide_safety :: "shape list" where
  \<open>slide_safety =
     add_header (tx ''Gateway Safety $seol-gye$'') (Some (tx ''CM4 Linux + STM32/NXP Safety MCU $i-jung$ $gu-jo$ (Phase 4-7 $do-ib$)'')) (Some 27) (Some TOTAL) @
     [add_round_rect 500 1150 6000 2400 STEEL None,
      add_textbox 700 1250 5700 400 (tx ''CM4 Linux Gateway'')
          (textbox\<lparr>ts_size := 28, ts_bold := True, ts_color := TEXT_LIGHT\<rparr>),
      add_multiline 700 1700 5600 1800
          [(tx ''$keul-ra-u-deu$ $tong-sin$ (MQTT TLS)'', no_opts\<lparr>lo_size := Some 22, lo_color := Some TEXT_LIGHT\<rparr>),
           (tx ''$de-i-teo$ $jeo-jang$ (SQLite local buffer)'', no_opts\<lparr>lo_size := Some 22, lo_color := Some TEXT_LIGHT\<rparr>),
           (tx ''$go-su-jun$ $myeong-ryeong$ $cheo-ri$ / Rule engine'', no_opts\<lparr>lo_size := Some 22, lo_color := Some TEXT_LIGHT\<rparr>),
           (tx ''OTA / $jin-dan$ / $ro-geu$ $su-jib$'', no_opts\<lparr>lo_size := Some 22, lo_color := Some TEXT_LIGHT\<rparr>)] (multi\<lparr>ls_bullet := True\<rparr>),
      add_connector 3500 3600 3500 4000 (arrow\<lparr>cn_color := NAVY, cn_width := 250\<rparr>),
      add_round_rect 500 4050 6000 3000 RED None,
      add_textbox 700 4150 5700 400 (tx ''STM32 / NXP Safety MCU'')
          (textbox\<lparr>ts_size := 28, ts_bold := True, ts_color := TEXT_LIGHT\<rparr>),
      add_multiline 700 4600 5600 2400
          [(tx ''$ril-re-i$/$bael-beu$ $jig-jeob$ $je-eo$ (low-level)'', no_opts\<lparr>lo_size := Some 22, lo_color := Some TEXT_LIGHT\<rparr>),
           (tx ''Local Interlock ($sen-seo$ $jo-geon$ $wi-ban$ $si$ $cha-dan$)'', no_opts\<lparr>lo_size := Some 22, lo_color := Some TEXT_LIGHT\<rparr>),
           (tx ''Watchdog (Linux $haeng$ $si$ $ja-dong$ fail-safe)'', no_opts\<lparr>lo_size := Some 22, lo_color := Some TEXT_LIGHT\<rparr>),
           (tx ''Fail-safe state $gang-je$ $jeon-hwan$'', no_opts\<lparr>lo_size := Some 22, lo_color := Some TEXT_LIGHT\<rparr>),
           (tx ''$mul-ri-jeog$ $bi-sang$ $jeong-ji$ $ib-ryeog$ $cheo-ri$'', no_opts\<lparr>lo_size := Some 22, lo_color := Some TEXT_LIGHT\<rparr>)] (multi\<lparr>ls_bullet := True\<rparr>),
      add_round_rect 6780 1150 6050 5900 SURFACE (Some (LINE, 50)),
      add_textbox 6950 1250 5700 400 (tx ''$pil-su$ $an-jeon$ $gi-neung$ (8)'')
          (textbox\<lparr>ts_size := 28, ts_bold := True, ts_color := NAVY\<rparr>)] @
     (let feats = [(tx ''Fail-safe state'', tx ''$jang-ae$ $si$ $ril-re-i$/$bael-beu$ $gi-bon$ $an-jeon$ $sang-tae$''),
                   (tx ''Max ON duration'', tx ''$ril-re-i-ga$ $neo-mu$ $o-rae$ $kyeo-ji-ji$ $anh-do-rog$''),
                   (tx ''Command expiry'', tx ''$o-rae-doen$ $myeong-ryeong$ $sil-haeng$ $geum-ji$''),
                   (tx ''Manual override'', tx ''$hyeon-jang$ $su-dong$ $je-eo$ $u-seon$''),
                   (tx ''Interlock'', tx ''$sen-seo$ $jo-geon$ $wi-ban$ $si$ $je-eo$ $cha-dan$''),
                   (tx ''Watchdog'', tx ''$peu-ro-se-seu$/OS $jang-ae$ $gam-ji$''),
                   (tx ''Output feedback'', tx ''$sil-je$ $ril-re-i$ $sang-tae$ $pi-deu-baeg$''),
                   (tx ''Emergency stop'', tx ''$mul-ri-jeog$ $bi-sang$ $jeong-ji$'')] in
     (let yy = 1750 in
     for_step yy 650 feats (\<lambda>_ yy (k, v).
       [add_round_rect 6950 yy 5700 600 SUBTLE (Some (LINE, 50)),
        add_textbox 7100 (yy + 70) 2000 450 k
            (textbox\<lparr>ts_size := 22, ts_bold := True, ts_color := RED\<rparr>),
        add_textbox 9200 (yy + 70) 3500 450 v
            (textbox\<lparr>ts_size := 20, ts_color := TEXT_DARK\<rparr>)])))\<close>

definition slide_api_design :: "shape list" where
  \<open>slide_api_design =
     add_header (tx ''API $seol-gye$ $yo-yag$'') (Some (tx ''Gateway ^b7^ Sensor ^b7^ Actuator ^b7^ Config ^b7^ Admin ^2014^ REST $pae-teon$'')) (Some 28) (Some TOTAL) @
     (let groups = [(tx ''Gateway'', AMBER,
                     [tx ''POST   /api/gateways'',
                      tx ''GET    /api/gateways'',
                      tx ''GET    /api/gateways/{id}'',
                      tx ''PATCH  /api/gateways/{id}'',
                      tx ''DELETE /api/gateways/{id}'',
                      tx ''GET    /api/gateways/{id}/state'',
                      tx ''GET    /api/gateways/{id}/telemetry'',
                      tx ''GET    /api/gateways/{id}/latest'',
                      tx ''GET    /api/gateways/{id}/events'']),
                    (tx ''Sensor'', NAVY,
                     [tx ''POST   /api/sensor-profiles'',
                      tx ''GET    /api/sensor-profiles'',
                      tx ''PATCH  /api/sensor-profiles/{id}'',
                      tx ''POST   /api/gateways/{id}/sensor-channels'',
                      tx ''GET    /api/gateways/{id}/sensor-channels'',
                      tx ''PATCH  /api/sensor-channels/{id}'',
                      tx ''DELETE /api/sensor-channels/{id}'']),
                    (tx ''Actuator + Command'', STEEL,
                     [tx ''POST   /api/actuator-profiles'',
                      tx ''GET    /api/actuator-profiles'',
                      tx ''POST   /api/gateways/{id}/actuator-channels'',
                      tx ''GET    /api/gateways/{id}/actuator-channels'',
                      tx ''PATCH  /api/actuator-channels/{id}'',
                      tx ''POST   /api/gateways/{id}/commands'',
                      tx ''GET    /api/commands/{cmd_id}'']),
                    (tx ''Config + Admin'', TEAL,
                     [tx ''POST   /api/gateways/{id}/configs/generate'',
                      tx ''GET    /api/gateways/{id}/configs'',
                      tx ''GET    /api/gateways/{id}/configs/latest'',
                      tx ''POST   /api/gateways/{id}/configs/{ver}/deploy'',
                      tx ''POST   /api/gateways/{id}/configs/{ver}/rollback'',
                      tx ''POST   /api/companies   /api/sites'',
                      tx ''POST   /api/users/{id}/gateway-permissions'',
                      tx ''GET    /api/audit-logs   /api/bulk-jobs''])] in
     (let cw = 6100 in
     (let ch = 2950 in
     (let coords = [(500, 1100),
                    (6780, 1100),
                    (500, 4100),
                    (6780, 4100)] in
     for_each (zip groups coords) (\<lambda>_ ((nm, fc, items), (x, y)).
       [add_round_rect x y cw ch SURFACE (Some (LINE, 50)),
        add_rect x y cw 450 fc None,
        add_textbox (x + 150) (y + 50) cw 350 nm
            (textbox\<lparr>ts_size := 24, ts_bold := True, ts_color := TEXT_LIGHT\<rparr>),
        add_multiline (x + 200) (y + 550) (cw - 400) (ch - 650)
            (map (\<lambda>t. (t, no_opts\<lparr>lo_mono := True, lo_size := Some 19, lo_color := Some TEXT_DARK\<rparr>)) items) (multi\<lparr>ls_spacing := 125\<rparr>)])))))\<close>

definition slide_security :: "shape list" where
  \<open>slide_security =
     add_header (tx ''$bo-an$ $seol-gye$'') (Some (tx ''$jang-bi$ $bo-an$ + $seo-beo$ $bo-an$ ^2014^ TLS ^b7^ JWT ^b7^ ACL ^b7^ Audit $da-jung$ $bang-eo-seon$'')) (Some 29) (Some TOTAL) @
     (let dev = [(tx ''MQTT'', tx ''TLS $pil-su$ (Phase 7)''),
                 (tx ''Gateway $in-jeung$'', tx ''Phase 1 ID/PW ^b7^ Phase 7 X.509''),
                 (tx ''Topic ACL'', tx ''$ja-gi$ topic$man$''),
                 (tx ''Private Key'', tx ''TPM/Secure Element $gwon-jang$''),
                 (tx ''SSH'', tx ''$gi-bon$ $bi-hwal-seong-hwa$''),
                 (tx ''OTA'', tx ''$seo-myeong$ $geom-jeung$ $pil-su$''),
                 (tx ''Local Config'', tx ''config_hash $geom-jeung$''),
                 (tx ''$ro-geu$'', tx ''$je-eo$^b7^$seol-jeong$ $byeon-gyeong$ $bo-gwan$'')] in
     (let srv = [(tx ''$in-jeung$'', tx ''Keycloak OIDC/OAuth2''),
                 (tx ''API'', tx ''JWT $geom-jeung$ (Backend)''),
                 (tx ''$gwon-han$'', tx ''RBAC + ABAC''),
                 (tx ''DB $pil-teo$'', tx ''company/site/gateway_id''),
                 (tx ''RLS'', tx ''$ju-yo$ $te-i-beul$ $jeog-yong$ $geom-to$''),
                 (tx ''TLS'', tx ''Web ^b7^ API ^b7^ MQTT $mo-du$''),
                 (tx ''Audit'', tx ''$sa-yong-ja$ $myeong-ryeong$^b7^$seol-jeong$ $byeon-gyeong$''),
                 (tx ''Backup'', tx ''$jeong-gi$ + $bog-gu$ $te-seu-teu$'')] in
     [add_round_rect 500 1100 6100 5950 SURFACE (Some (LINE, 50)),
      add_rect 500 1100 6100 500 STEEL None,
      add_textbox 700 1130 5700 420 (tx ''$jang-bi$ (Gateway) $bo-an$'')
          (textbox\<lparr>ts_size := 26, ts_bold := True, ts_color := TEXT_LIGHT\<rparr>)] @
     (let yy = 1750 in
     for_step yy 620 dev (\<lambda>_ yy (k, v).
       [add_round_rect 700 yy 5700 550 SUBTLE (Some (LINE, 50)),
        add_textbox 850 (yy + 50) 2000 450 k
            (textbox\<lparr>ts_size := 22, ts_bold := True, ts_color := NAVY\<rparr>),
        add_textbox 2900 (yy + 50) 3500 450 v
            (textbox\<lparr>ts_size := 20, ts_color := TEXT_DARK\<rparr>)]) @
     [add_round_rect 6780 1100 6050 5950 SURFACE (Some (LINE, 50)),
      add_rect 6780 1100 6050 500 NAVY None,
      add_textbox 6950 1130 5700 420 (tx ''$seo-beo$ $bo-an$'')
          (textbox\<lparr>ts_size := 26, ts_bold := True, ts_color := TEXT_LIGHT\<rparr>)] @
     (let yy = 1750 in
     for_step yy 620 srv (\<lambda>_ yy (k, v).
       [add_round_rect 6950 yy 5700 550 SUBTLE (Some (LINE, 50)),
        add_textbox 7100 (yy + 50) 2000 450 k
            (textbox\<lparr>ts_size := 22, ts_bold := True, ts_color := NAVY\<rparr>),
        add_textbox 9150 (yy + 50) 3500 450 v
            (textbox\<lparr>ts_size := 20, ts_color := TEXT_DARK\<rparr>)])))))\<close>

definition slide_rls :: "shape list" where
  \<open>slide_rls =
     add_header (tx ''PostgreSQL Row Level Security $geom-to$'') (Some (tx ''$sa-yong-ja-byeol$ Gateway $jeob-geun$ $gyeog-ri$ ^2014^ Phase 6+ $jeog-yong$ $gwon-jang$'')) (Some 30) (Some TOTAL) @
     [add_textbox 500 1100 12300 400 (tx ''$jeog-yong$ $dae-sang$ $te-i-beul$'')
          (textbox\<lparr>ts_size := 24, ts_bold := True, ts_color := AMBER\<rparr>)] @
     (let targets = [tx ''gateways'',
                     tx ''sensor_channels'',
                     tx ''actuator_channels'',
                     tx ''telemetry'',
                     tx ''telemetry_latest'',
                     tx ''commands'',
                     tx ''audit_logs''] in
     (let x = 500 in
     for_step x 1780 targets (\<lambda>_ x t.
       [set_text (add_round_rect x 1500 1650 450 SURFACE (Some (NAVY, 50))) t
            (plain\<lparr>ts_size := 22, ts_bold := True, ts_color := NAVY, ts_align := CENTER, ts_font := FONT_MONO\<rparr>)]) @
     (let sql = txs
                  [''ALTER TABLE gateways ENABLE ROW LEVEL SECURITY;'',
                   '''',
                   ''CREATE POLICY gateway_access_policy ON gateways'',
                   ''USING ('',
                   ''    id IN ('',
                   ''        SELECT gateway_id'',
                   ''          FROM user_gateway_permissions'',
                   ''         WHERE user_id = current_setting(^27^app.current_user_id^27^)::uuid'',
                   ''    )'',
                   '');''] in
     [add_round_rect 500 2200 7500 3200 DARK (Some (AMBER, 50)),
      add_textbox 650 2250 7200 300 (tx ''$ye-si$ $jeong-chaeg$ (PoC)'')
          (textbox\<lparr>ts_size := 22, ts_bold := True, ts_color := AMBER, ts_font := FONT_MONO\<rparr>),
      add_textbox 650 2600 7200 2700 sql
          (textbox\<lparr>ts_size := 22, ts_color := TEXT_LIGHT, ts_font := FONT_MONO, ts_anchor := TOP\<rparr>),
      add_round_rect 8200 2200 4650 3200 SURFACE (Some (LINE, 50)),
      add_textbox 8400 2300 4300 400 (tx ''$do-ib$ $si$ $go-ryeo-sa-hang$'')
          (textbox\<lparr>ts_size := 24, ts_bold := True, ts_color := NAVY\<rparr>),
      add_multiline 8400 2700 4300 2700
          [(tx ''Backend connection pool$e-seo$ SET app.current_user_id $ho-chul$'', no_opts\<lparr>lo_size := Some 20\<rparr>),
           (tx ''service role $u-hoe$ $jeong-chaeg$ $jeong-ui$ $pil-yo$ (worker, scheduler)'', no_opts\<lparr>lo_size := Some 20\<rparr>),
           (tx ''$gwan-ri-ja$ $gwon-han$ BYPASSRLS $byeol-do$ role'', no_opts\<lparr>lo_size := Some 20\<rparr>),
           (tx ''batch/migration $jag-eob$ $si$ $il-si$ $bi-hwal-seong-hwa$ $go-ryeo$'', no_opts\<lparr>lo_size := Some 20\<rparr>),
           (tx ''Phase 6+ $jeog-yong$ $gwon-jang$ ^2014^ $cho-gi-e-neun$ application $dan$ $gwon-han-eu-ro$'', no_opts\<lparr>lo_size := Some 20, lo_color := Some AMBER, lo_italic := True\<rparr>)] (multi\<lparr>ls_bullet := True, ls_spacing := 140\<rparr>),
      add_round_rect 500 5600 12300 1450 SUBTLE (Some (LINE, 50)),
      add_textbox 700 5650 12000 350 (tx ''$gyeol-ron$'')
          (textbox\<lparr>ts_size := 24, ts_bold := True, ts_color := NAVY\<rparr>),
      add_textbox 700 6000 12000 1000 (tx ''Phase 1-5 $dong-an-eun$ application $re-i-eo-e-seo$ $gwon-han$ enforce. DB row-level $gyeog-ri-neun$ $da-jung$ $te-neon-teu-ga$ $bon-gyeog-hwa-doe-neun$ Phase 6+$e$ $do-ib$.'')
          (textbox\<lparr>ts_size := 22, ts_color := TEXT_DARK\<rparr>)])))\<close>

definition slide_operations :: "shape list" where
  \<open>slide_operations =
     add_header (tx ''$un-yeong$ $gwan-ri$ ^2014^ $baeg-eob$ ^b7^ $mo-ni-teo-ring$ ^b7^ $jang-ae$ $dae-eung$'') (Some (tx ''Phase 7 $je-pum-hwa$ $dan-gye-ui$ $haeg-sim$ ^2014^ $ja-che$ $ho-seu-ting-i-meu-ro$ $mo-du$ $jig-jeob$ $chaeg-im$'')) (Some 31) (Some TOTAL) @
     [add_round_rect 500 1100 4100 5950 SURFACE (Some (LINE, 50)),
      add_rect 500 1100 4100 500 TEAL None,
      add_textbox 700 1130 3700 420 (tx ''$baeg-eob$'')
          (textbox\<lparr>ts_size := 26, ts_bold := True, ts_color := TEXT_LIGHT\<rparr>)] @
     (let backups = [(tx ''PostgreSQL'', tx ''$mae-il$'', tx ''pg_dump / pg_basebackup''),
                     (tx ''Gateway Config'', tx ''$mae-il$'', tx ''$pa-il$/DB $baeg-eob$''),
                     (tx ''$peom-we-eo$'', tx ''$byeon-gyeong$ $si$'', tx ''rsync''),
                     (tx ''$ro-geu$'', tx ''$jeong-chaeg$'', tx ''$ab-chug$/$bo-gwan$''),
                     (tx ''Keycloak realm'', tx ''$byeon-gyeong$ $si$'', tx ''kc.sh export'')] in
     (let yy = 1750 in
     for_step yy 700 backups (\<lambda>_ yy (k, freq, how).
       [add_textbox 700 yy 3700 250 k
            (textbox\<lparr>ts_size := 22, ts_bold := True, ts_color := AMBER\<rparr>),
        add_textbox 700 (yy + 250) 1300 250 freq
            (textbox\<lparr>ts_size := 20, ts_color := NAVY, ts_italic := True\<rparr>),
        add_textbox 2000 (yy + 250) 2500 250 how
            (textbox\<lparr>ts_size := 20, ts_color := TEXT_DARK, ts_font := FONT_MONO\<rparr>)]) @
     [add_round_rect 4780 1100 4000 5950 SURFACE (Some (LINE, 50)),
      add_rect 4780 1100 4000 500 NAVY None,
      add_textbox 4950 1130 3700 420 (tx ''$mo-ni-teo-ring$ $ji-pyo$'')
          (textbox\<lparr>ts_size := 26, ts_bold := True, ts_color := TEXT_LIGHT\<rparr>)] @
     (let metrics = [(tx ''Gateway'', tx ''online ^b7^ heartbeat ^b7^ CPU ^b7^ mem ^b7^ disk ^b7^ temp''),
                     (tx ''VerneMQ'', tx ''connected ^b7^ message rate ^b7^ dropped''),
                     (tx ''Backend'', tx ''API latency ^b7^ error rate''),
                     (tx ''DB'', tx ''connections ^b7^ slow query ^b7^ disk''),
                     (tx ''Command'', tx ''success ^b7^ timeout ^b7^ rejected rate''),
                     (tx ''Config'', tx ''pending ^b7^ applied ^b7^ failed''),
                     (tx ''OTA'', tx ''success ^b7^ failed ^b7^ rollback'')] in
     (let yy = 1750 in
     for_step yy 700 metrics (\<lambda>_ yy (k, v).
       [add_textbox 4950 yy 1400 700 k
            (textbox\<lparr>ts_size := 22, ts_bold := True, ts_color := AMBER\<rparr>),
        add_textbox 6400 yy 2300 700 v
            (textbox\<lparr>ts_size := 19, ts_color := TEXT_DARK\<rparr>)]) @
     [add_round_rect 8950 1100 3900 5950 SURFACE (Some (LINE, 50)),
      add_rect 8950 1100 3900 500 RED None,
      add_textbox 9120 1130 3700 420 (tx ''$jang-ae$ $dae-eung$'')
          (textbox\<lparr>ts_size := 26, ts_bold := True, ts_color := TEXT_LIGHT\<rparr>)] @
     (let failures = [(tx ''Gateway offline'', tx ''$al-ram$ + $ma-ji-mag$ $sang-tae$ $pyo-si$''),
                      (tx ''$sen-seo$ $mi-su-sin$'', tx ''channel = degraded''),
                      (tx ''$myeong-ryeong$ timeout'', tx ''command failed''),
                      (tx ''config $jeog-yong$ $sil-pae$'', tx ''$i-jeon$ config $yu-ji$ + $al-rim$''),
                      (tx ''DB $yong-ryang$ $jeung-ga$'', tx ''partition retention''),
                      (tx ''$seo-beo$ $jang-ae$'', tx ''$baeg-eob$ $bog-gu$ $jeol-cha$'')] in
     (let yy = 1750 in
     for_step yy 850 failures (\<lambda>_ yy (k, v).
       [add_textbox 9120 yy 3600 250 k
            (textbox\<lparr>ts_size := 22, ts_bold := True, ts_color := AMBER\<rparr>),
        add_textbox 9120 (yy + 250) 3600 500 v
            (textbox\<lparr>ts_size := 20, ts_color := TEXT_DARK\<rparr>)])))))))\<close>

definition slide_roadmap :: "shape list" where
  \<open>slide_roadmap =
     add_header (tx ''$gae-bal$ $ro-deu-maeb$ ^2014^ 7$dan-gye$'') (Some (tx ''Phase 1$man$ $u-seon$ 1$ju$ sprint$ro$ $hwag-jeong$. $na-meo-ji-neun$ $gyeol-gwa$ $bo-go$ $gyeol-jeong$'')) (Some 32) (Some TOTAL) @
     (let phases = [(tx ''Phase 1'', tx ''$seo-beo$ $gi-bon$ $gu-chug$'', tx ''1$ju$'', tx ''systemd 5$jong$ ^b7^ Keycloak realm ^b7^ $ko-deu$ 0'', AMBER),
                    (tx ''Phase 2'', tx ''$da-jung$ Gateway $gwon-han$ $mo-del$'', tx ''TBD'', tx ''companies/sites/users/gateways ^b7^ Backend skeleton'', NAVY),
                    (tx ''Phase 3'', tx ''Sensor Profile/Channel'', tx ''TBD'', tx ''Sensor Wizard ^b7^ Telemetry ^b7^ $dong-jeog$ Dashboard'', STEEL),
                    (tx ''Phase 4'', tx ''Actuator + $won-gyeog$ $je-eo$'', tx ''TBD'', tx ''command $heu-reum$ ^b7^ $an-jeon$ $jo-geon$ ^b7^ $gwon-han$ $bun-ri$'', TEAL),
                    (tx ''Phase 5'', tx ''Gateway Config Versioning'', tx ''TBD'', tx ''desired/reported ^b7^ rollback'', GOLD),
                    (tx ''Phase 6'', tx ''$gwan-ri$ $pyeon-ui-seong$ (Template/Bulk/Alarm)'', tx ''TBD'', tx ''Template ^b7^ Bulk ^b7^ Alarm Rule'', STEEL),
                    (tx ''Phase 7'', tx ''$je-pum-hwa$'', tx ''TBD'', tx ''X.509 ^b7^ ACL ^b7^ OTA ^b7^ Backup ^b7^ Safety MCU ^b7^ OSS Notice'', RED)] in
     (let y = 1100 in
     for_step y 850 phases (\<lambda>_ y (ph, nm, dur, items, fc).
       [add_round_rect 500 y 12300 780 SURFACE (Some (LINE, 50)),
        add_rect 500 y 180 780 fc None,
        add_textbox 850 (y + 70) 1500 320 ph
            (textbox\<lparr>ts_size := 26, ts_bold := True, ts_color := NAVY\<rparr>),
        add_textbox 2400 (y + 70) 4500 320 nm
            (textbox\<lparr>ts_size := 24, ts_bold := True, ts_color := TEXT_DARK\<rparr>),
        add_textbox 850 (y + 420) 1500 320 dur
            (textbox\<lparr>ts_size := 20, ts_color := AMBER, ts_bold := True\<rparr>),
        add_textbox 2400 (y + 420) 10000 320 items
            (textbox\<lparr>ts_size := 21, ts_color := TEXT_DARK\<rparr>)])))\<close>

definition slide_phase1_spec :: "shape list" where
  \<open>slide_phase1_spec =
     add_header (tx ''Phase 1 ^2014^ $seo-beo$ $in-peu-ra$ 1$ju$ sprint ($hwag-jeong$ spec)'') (Some (tx ''$in-teo-byu$ $gyeol-gwa$ ^b7^ $ko-deu$ 0$jul$ ^b7^ Solo + Claude Code AI pair'')) (Some 33) (Some TOTAL) @
     (let metas = [(tx ''$hwan-gyeong$'', tx ''Ubuntu 24.04 ^b7^ $sa-nae$ $mul-ri$''),
                   (tx ''$gi-gan$'', tx ''1$ju$ single sprint''),
                   (tx ''$ko-deu$'', tx ''0$jul$ ($sun-su$ $in-peu-ra$)''),
                   (tx ''$tim$'', tx ''Solo + AI pair''),
                   (tx ''Verification'', tx ''$che-keu-ri-seu-teu$ + smoke.sh'')] in
     (let x = 500 in
     for_step x (2400 + 50) metas (\<lambda>_ x (k, v).
       (let bw = 2400 in
       [add_round_rect x 1100 bw 700 DARK (Some (AMBER, 50)),
        add_textbox (x + 100) 1150 bw 300 k
            (textbox\<lparr>ts_size := 20, ts_color := AMBER, ts_bold := True\<rparr>),
        add_textbox (x + 100) 1420 (bw - 100) 350 v
            (textbox\<lparr>ts_size := 21, ts_color := TEXT_LIGHT\<rparr>)])) @
     [add_round_rect 500 1950 6100 5100 SURFACE (Some (GREEN, 100)),
      add_rect 500 1950 6100 450 GREEN None,
      add_textbox 700 1990 5700 400 (tx ''^2705^ Scope (Phase 1 $po-ham$)'')
          (textbox\<lparr>ts_size := 24, ts_bold := True, ts_color := TEXT_LIGHT\<rparr>)] @
     (let scope = [tx ''OS ^b7^ $bo-an$ hardening (ufw ^b7^ ssh ^b7^ iot $sa-yong-ja$)'',
                   tx ''PostgreSQL 16 (apt) ^b7^ iot_platform DB ^b7^ keycloak DB ^b7^ iot_user role'',
                   tx ''VerneMQ (.deb) ^b7^ systemd ^b7^ password file $in-jeung$ ^b7^ 1883 plain'',
                   tx ''Keycloak (release) ^b7^ systemd ^b7^ Postgres backend'',
                   tx ''    ^2514^ realm: iot-platform ^b7^ 7 roles ^b7^ test user 1$myeong$'',
                   tx ''Nginx + certbot Let^27^s Encrypt ^2192^ HTTPS reverse proxy'',
                   tx ''    ^2514^ /auth ^2192^ keycloak (placeholder /api ^b7^ /)'',
                   tx ''/etc/iot-platform/ ^b7^ .env $tem-peul-ris$'',
                   tx ''$un-yeong$ $jeol-cha-seo$ (markdown)'',
                   tx ''scripts/phase1_smoke.sh ($ja-dong$ $jeom-geom$)''] in
     [add_multiline 700 2500 5700 4500
          (map (\<lambda>t. (t, no_opts\<lparr>lo_size := Some 21, lo_nobullet := starts_with t ''    ^2514^''\<rparr>)) scope) (multi\<lparr>ls_bullet := True, ls_spacing := 140\<rparr>),
      add_round_rect 6780 1950 6050 2450 SURFACE (Some (RED, 100)),
      add_rect 6780 1950 6050 450 RED None,
      add_textbox 6950 1990 5700 400 (tx ''^274c^ Non-goals (Phase 2+ $i-yeon$)'')
          (textbox\<lparr>ts_size := 24, ts_bold := True, ts_color := TEXT_LIGHT\<rparr>)] @
     (let non = [tx ''$mo-deun$ application $ko-deu$ (FastAPI ^b7^ React ^b7^ Worker ^b7^ Scheduler)'',
                 tx ''$bi-jeu-ni-seu$ DB schema (companies ^b7^ sites ^b7^ users ^b7^ gateways ^b7^ ...)'',
                 tx ''Gateway $yeon-gyeol$ ^b7^ telemetry ^b7^ MQTT TLS ^b7^ X.509'',
                 tx ''OTA ^b7^ Safety MCU ^b7^ Backup automation ^b7^ Alarm ^b7^ Bulk''] in
     [add_multiline 6950 2500 5700 1850
          (map (\<lambda>t. (t, no_opts\<lparr>lo_size := Some 21\<rparr>)) non) (multi\<lparr>ls_bullet := True, ls_spacing := 140\<rparr>),
      add_round_rect 6780 4500 6050 2550 SURFACE (Some (NAVY, 100)),
      add_rect 6780 4500 6050 450 NAVY None,
      add_textbox 6950 4550 5700 400 (tx ''^1f3af^ Definition of Done'')
          (textbox\<lparr>ts_size := 24, ts_bold := True, ts_color := TEXT_LIGHT\<rparr>)] @
     (let dod = [tx ''systemctl is-active ^2192^ 4$gae$ $seo-bi-seu$ active'',
                 tx ''https://<$do-me-in$>/auth/realms/iot-platform/.well-known/openid-configuration ^2192^ 200'',
                 tx ''Keycloak admin $ro-geu-in$ $seong-gong$ (test user)'',
                 tx ''mosquitto_pub/sub ^2192^ password $in-jeung$ $hu$ 1883 publish/subscribe $seong-gong$'',
                 tx ''psql -U iot_user -d iot_platform -c "SELECT 1" ^2192^ $seong-gong$'',
                 tx ''scripts/phase1_smoke.sh ^2192^ $jeon-che$ PASS''] in
     [add_multiline 6950 5050 5700 2000
          (map (\<lambda>t. (t, no_opts\<lparr>lo_size := Some 20, lo_mono := True\<rparr>)) dod) (multi\<lparr>ls_bullet := True, ls_spacing := 140\<rparr>)])))))\<close>

definition slide_phase1_schedule :: "shape list" where
  \<open>slide_phase1_schedule =
     add_header (tx ''Phase 1 $il-jeong$ $bun-hae$ (1$ju$ sprint $je-an$)'') (Some (tx ''Day 1-7 task breakdown ^2014^ $in-teo-byu$ $hab-ui$ spec $gi-jun$'')) (Some 34) (Some TOTAL) @
     (let days = [(tx ''Day 1'', tx ''OS $be-i-seu$ + $bo-an$'',
                  [tx ''Ubuntu 24.04 LTS $keul-rin$ $seol-chi$'',
                   tx ''iot $si-seu-tem$ $sa-yong-ja$ $saeng-seong$ ^b7^ sudo $jeong-chaeg$'',
                   tx ''ufw $po-teu$ $jeong-chaeg$ (22 ^b7^ 80 ^b7^ 443 ^b7^ 1883)'',
                   tx ''ssh hardening (key only ^b7^ port forward $cha-dan$)'',
                   tx ''/opt/iot-platform ^b7^ /etc/iot-platform ^b7^ /var/lib/iot-platform $di-reg-teo-ri$'']),
                 (tx ''Day 2'', tx ''PostgreSQL + VerneMQ'',
                  [tx ''PostgreSQL 16 apt $seol-chi$ ^b7^ $gwon-han$ $seol-jeong$'',
                   tx ''iot_platform DB + keycloak DB $saeng-seong$'',
                   tx ''iot_user role + $gwon-han$ grant'',
                   tx ''VerneMQ .deb $seol-chi$ ^b7^ systemd'',
                   tx ''vmq_passwd$ro$ gateway/admin $gye-jeong$ $saeng-seong$'']),
                 (tx ''Day 3'', tx ''Keycloak $seol-chi$ + realm'',
                  [tx ''Keycloak release $da-un-ro-deu$ ^2192^ /opt/iot-platform/keycloak'',
                   tx ''Postgres datasource $seol-jeong$ (KEYCLOAK_DATABASE_*)'',
                   tx ''keycloak.service systemd unit'',
                   tx ''iot-platform realm $saeng-seong$'',
                   tx ''7 role + test user 1$myeong$ $saeng-seong$'']),
                 (tx ''Day 4'', tx ''Nginx + HTTPS'',
                  [tx ''Nginx $seol-chi$ ^b7^ iot-platform.conf $jag-seong$'',
                   tx ''/auth ^2192^ 8080 reverse proxy'',
                   tx ''/api ^b7^ / placeholder location'',
                   tx ''certbot --nginx $eu-ro$ Let^27^s Encrypt $bal-geub$'',
                   tx ''systemd timer$ro$ $in-jeung-seo$ $ja-dong$ $gaeng-sin$ $hwag-in$'']),
                 (tx ''Day 5'', tx ''$hwan-gyeong$ $bun-ri$ + $jeol-cha-seo$'',
                  [tx ''/etc/iot-platform/{backend,worker,scheduler,mqtt,db,keycloak}.env $tem-peul-ris$'',
                   tx ''$un-yeong$ $jeol-cha-seo$ (PHASE1_OPS.md) $jag-seong$ ^2014^ $seol-chi$ $myeong-ryeong$ $dan-gye-byeol$'',
                   tx ''$jang-ae$ $dae-eung$ $jeol-cha$ ($seo-bi-seu$ $jae-si-jag$ ^b7^ $ro-geu$ $wi-chi$)'']),
                 (tx ''Day 6'', tx ''smoke test $ja-dong-hwa$'',
                  [tx ''scripts/phase1_smoke.sh $jag-seong$'',
                   tx ''  systemctl is-active 4$gae$'',
                   tx ''  curl /auth/.well-known/openid-configuration'',
                   tx ''  psql SELECT 1'',
                   tx ''  mosquitto_pub/sub $in-jeung$ $te-seu-teu$'']),
                 (tx ''Day 7'', tx ''$geom-jeung$ + $mun-seo$ $jeong-ri$'',
                  [tx ''smoke test $jeon-che$ $sil-haeng$ ^2192^ PASS $hwag-in$'',
                   tx ''$che-keu-ri-seu-teu$ $ma-keu-da-un$ $gyeol-gwa$ commit'',
                   tx ''Phase 2 $in-teo-byu$ $jun-bi$ ($nam-eun$ $teu-raeg$: Gateway OS ^b7^ scale ^b7^ PoC $san-eob$ $deung$)''])] in
     (let cw = 6100 in
     (let ch = 2000 in
     for_each days (\<lambda>i (d, t, items).
       (let cl = i mod 2 in
       (let rw = i div 2 in
       (let (x, y, w) =
          (if i = 6 then (500, 1100 + rw * 2050, 12300)
           else (500 + cl * 6270, 1100 + rw * 2050, cw)) in
       [add_round_rect x y w ch SURFACE (Some (LINE, 50)),
        add_rect x y 900 ch NAVY None,
        add_textbox (x + 100) (y + 50) 850 400 d
          (textbox\<lparr>ts_size := 24, ts_bold := True, ts_color := AMBER, ts_align := CENTER\<rparr>),
        add_textbox (x + 100) (y + 500) 850 1400 t
          (textbox\<lparr>ts_size := 20, ts_color := TEXT_LIGHT, ts_align := CENTER, ts_anchor := TOP\<rparr>),
        add_multiline (x + 1050) (y + 100) (w - 1150) (ch - 200)
          (map (\<lambda>it. (it, no_opts\<lparr>lo_size := Some 19\<rparr>)) items) (multi\<lparr>ls_bullet := True, ls_spacing := 130\<rparr>)])))))))\<close>

definition slide_license :: "shape list" where
  \<open>slide_license =
     add_header (tx ''$ra-i-seon-seu$ $geom-to$'') (Some (tx ''$gwon-jang$ vs $ju-ui$ ^2014^ $sang-yong-hwa$ $si$ OSS Notice / SBOM $pil-su$'')) (Some 35) (Some TOTAL) @
     (let rec = [(tx ''VerneMQ'', tx ''Apache 2.0'', tx ''$gwon-jang$''),
                 (tx ''PostgreSQL'', tx ''PostgreSQL License'', tx ''$gwon-jang$''),
                 (tx ''Keycloak'', tx ''Apache 2.0'', tx ''$gwon-jang$''),
                 (tx ''Apache ECharts'', tx ''Apache 2.0'', tx ''$gwon-jang$''),
                 (tx ''Nginx'', tx ''BSD-like'', tx ''$gwon-jang$''),
                 (tx ''FastAPI'', tx ''MIT'', tx ''$gwon-jang$''),
                 (tx ''React + Vite'', tx ''MIT'', tx ''$gwon-jang$''),
                 (tx ''Prometheus'', tx ''Apache 2.0'', tx ''$seon-taeg$'')] in
     (let avoid = [(tx ''EMQX $choe-sin$'', tx ''BSL $gye-yeol$ $i-syu$ $ga-neung$''),
                   (tx ''MinIO'', tx ''AGPLv3''),
                   (tx ''Grafana $go-gaeg-yong$ $no-chul$'', tx ''AGPLv3''),
                   (tx ''Loki'', tx ''AGPL''),
                   (tx ''SWUpdate'', tx ''GPLv2''),
                   (tx ''TimescaleDB Community $il-bu$'', tx ''Timescale License $hon-jae$''),
                   (tx ''Docker Desktop'', tx ''$jo-jig$ $gyu-mo$ $gu-dog$ $i-syu$'')] in
     [add_round_rect 500 1100 7500 5950 SURFACE (Some (LINE, 50)),
      add_rect 500 1100 7500 500 GREEN None,
      add_textbox 700 1130 7000 420 (tx ''$gwon-jang$ $keom-po-neon-teu$'')
          (textbox\<lparr>ts_size := 26, ts_bold := True, ts_color := TEXT_LIGHT\<rparr>)] @
     (let yy = 1750 in
     for_step yy 620 rec (\<lambda>_ yy (n, lic, judge).
       [add_round_rect 700 yy 7100 550 SUBTLE (Some (LINE, 50)),
        add_textbox 850 (yy + 50) 2500 450 n
            (textbox\<lparr>ts_size := 22, ts_bold := True, ts_color := NAVY\<rparr>),
        add_textbox 3400 (yy + 50) 3000 450 lic
            (textbox\<lparr>ts_size := 20, ts_color := TEXT_DARK, ts_font := FONT_MONO\<rparr>)] @
       (let cl = (if judge = tx ''$gwon-jang$'' then GREEN else MUTED) in
       [add_textbox 6500 (yy + 50) 1200 450 judge
            (textbox\<lparr>ts_size := 20, ts_bold := True, ts_color := cl\<rparr>)])) @
     [add_round_rect 8200 1100 4650 5950 SURFACE (Some (LINE, 50)),
      add_rect 8200 1100 4650 500 RED None,
      add_textbox 8400 1130 4300 420 (tx ''$pi-ha-geo-na$ $ju-ui$'')
          (textbox\<lparr>ts_size := 26, ts_bold := True, ts_color := TEXT_LIGHT\<rparr>)] @
     (let yy = 1750 in
     for_step yy 780 avoid (\<lambda>_ yy (n, why).
       [add_round_rect 8400 yy 4300 700 SUBTLE (Some (LINE, 50)),
        add_textbox 8550 (yy + 50) 4000 300 n
            (textbox\<lparr>ts_size := 22, ts_bold := True, ts_color := RED\<rparr>),
        add_textbox 8550 (yy + 320) 4000 350 why
            (textbox\<lparr>ts_size := 19, ts_color := TEXT_DARK\<rparr>)])))))\<close>

definition slide_priority :: "shape list" where
  \<open>slide_priority =
     add_header (tx ''$choe-jong$ $gu-hyeon$ $u-seon-sun-wi$'') (Some (tx ''$choe-u-seon$ ^2192^ $jung-gan$ ^2192^ $je-pum-hwa$ ^2014^ $ja-won$ $je-han$ $si$ $wi-e-seo$ $a-rae-ro$'')) (Some 36) (Some TOTAL) @
     (let cols = [(tx ''$choe-u-seon$'', AMBER,
                   [tx ''$sa-yong-ja-byeol$ $da-jung$ Gateway $gwon-han$ $mo-del$'',
                    tx ''Gateway$byeol$ Sensor Profile / Channel'',
                    tx ''MQTT topic + Gateway $in-jeung$'',
                    tx ''Telemetry $jeo-jang$ + latest $jo-hoe$'',
                    tx ''Gateway Config Versioning'',
                    tx ''Command Request/Response'']),
                  (tx ''$jung-gan$'', NAVY,
                   [tx ''Sensor $chu-ga$ Wizard'',
                    tx ''Dynamic Dashboard'',
                    tx ''Alarm Rule'',
                    tx ''Actuator Channel'',
                    tx ''Config Rollback'',
                    tx ''Audit Log'']),
                  (tx ''$je-pum-hwa$'', RED,
                   [tx ''Gateway$byeol$ X.509 $in-jeung-seo$'',
                    tx ''VerneMQ ACL'',
                    tx ''OTA'',
                    tx ''Backup / Restore'',
                    tx ''Safety MCU $yeon-dong$'',
                    tx ''OSS Notice / SBOM''])] in
     (let cw = 4150 in
     (let ch = 5950 in
     for_each cols (\<lambda>i (n, c, items).
       (let x = 500 + i * 4270 in
       (let y = 1100 in
       [add_round_rect x y cw ch SURFACE (Some (LINE, 50)),
        add_rect x y cw 650 c None,
        add_textbox (x + 200) (y + 100) cw 450 n
            (textbox\<lparr>ts_size := 30, ts_bold := True, ts_color := TEXT_LIGHT\<rparr>),
        add_multiline (x + 300) (y + 850) (cw - 500) (ch - 950)
            (map (\<lambda>t. (t, no_opts\<lparr>lo_size := Some 24, lo_space_after := 16\<rparr>)) items) (multi\<lparr>ls_bullet := True, ls_spacing := 150\<rparr>)]))))))\<close>

definition slide_conclusion :: "shape list" where
  \<open>slide_conclusion =
     add_header (tx ''$choe-jong$ $gyeol-ron$'') (Some (tx ''Docker $eobs-i-do$ $ja-che$ $ho-seu-ting$ IoT Gateway $peul-raes-pom-eun$ $ga-neung-ha-da$'')) (Some 37) (Some TOTAL) @
     [add_textbox 500 1100 12300 500 (tx ''$san-eob-yong$ $seo-beo$ $un-yeong-e-seo-neun$ systemd $gi-ban$ $seo-bi-seu$ $dan-wi$ $gwan-ri-ga$ $o-hi-ryeo$ $an-jeong-jeog-i-da$.'')
          (textbox\<lparr>ts_size := 28, ts_color := NAVY, ts_bold := True\<rparr>),
      add_textbox 500 1650 12300 400 (tx ''$dan$, $da-eum$ 7$ga-ji$ $jo-geon-eun$ $ban-deu-si$ $seol-gye-e$ $ban-yeong-hae-ya$ $han-da$.'')
          (textbox\<lparr>ts_size := 22, ts_color := TEXT_DARK, ts_italic := True\<rparr>)] @
     (let musts = [tx ''$han$ $sa-yong-ja-ga$ $yeo-reo$ IoT Gateway$reul$ $ga-jil$ $su$ $iss-eum$'',
                   tx ''Gateway$ma-da$ $yeon-gyeol-doen$ $sen-seo$ $jong-ryu-ga$ $da-reul$ $su$ $iss-eum$'',
                   tx ''Gateway$ma-da$ $ril-re-i$^b7^$bael-beu$^b7^$peom-peu$ $gu-seong-i$ $da-reul$ $su$ $iss-eum$'',
                   tx ''$gwan-ri-hoe-sa-neun$ $jeon-che$ Gateway$reul$ $tong-hab$ $gwan-ri-hae-ya$ $ham$'',
                   tx ''$il-ban$ $sa-yong-ja-neun$ $bon-in-e-ge$ $hal-dang-doen$ Gateway$man$ $jeob-geun$'',
                   tx ''$sen-seo$ $jong-ryu$ $chu-ga$ $si$ $ko-deu$ $su-jeong$ $choe-so-hwa$'',
                   tx ''Gateway $seol-jeong-eun$ $seo-beo-e-seo$ $jung-ang$ $gwan-ri$^b7^$beo-jeon$ $gwan-ri$''] in
     for_each musts (\<lambda>i m.
       (let cl = i mod 2 in
       (let rw = i div 2 in
       (let x = 500 + cl * 6300 in
       (let y = 2150 + rw * 500 in
       [add_round_rect x y 450 400 AMBER None,
        add_textbox x (y + 40) 450 320 [number (i + 1)]
            (textbox\<lparr>ts_size := 22, ts_bold := True, ts_color := DARK, ts_align := CENTER\<rparr>),
        add_textbox (x + 550) (y + 50) 5700 320 m
            (textbox\<lparr>ts_size := 22, ts_color := TEXT_DARK, ts_anchor := MIDDLE\<rparr>)]))))) @
     [add_round_rect 500 4450 12300 2600 DARK (Some (AMBER, 150)),
      add_textbox 700 4550 12000 400 (tx ''$gwon-jang$ $choe-jong$ $gu-jo$'')
          (textbox\<lparr>ts_size := 26, ts_bold := True, ts_color := AMBER\<rparr>)] @
     (let final = txs
                    [''VerneMQ  +  PostgreSQL  +  Keycloak  +  FastAPI Backend  +  React (Vite) Web Portal'',
                     ''+  systemd $gi-ban$ $seo-bi-seu$ $un-yeong$  +  Gateway Profile  +  Sensor Profile  +  Sensor Channel Mapping'',
                     ''+  Actuator Channel Mapping  +  Gateway Config Versioning  +  Dynamic Dashboard'',
                     ''+  RBAC / ABAC $gwon-han$ $mo-del$  +  CM4 Linux + Safety MCU $i-jung$ $gu-jo$''] in
     [add_textbox 700 5000 12000 2000 final
          (textbox\<lparr>ts_size := 25, ts_color := TEXT_LIGHT, ts_anchor := TOP\<rparr>)]))\<close>

definition slide_next_steps :: "shape list" where
  \<open>slide_next_steps =
     [add_rect 0 0 SLIDE_W SLIDE_H NAVY None,
      add_shape RIGHT_TRIANGLE 0 0 4000 7500 DARK,
      add_rect 11930 0 100 SLIDE_W AMBER None,
      add_rect 4500 1000 800 100 AMBER None,
      add_textbox 4500 1200 8500 700 (tx ''Next Steps'')
          (textbox\<lparr>ts_size := 72, ts_bold := True, ts_color := TEXT_LIGHT\<rparr>),
      add_textbox 4500 1950 8500 500 (tx ''$ji-geum$ $dang-jang$ $si-jag$ $ga-neung-han$ 4$ga-ji$'')
          (textbox\<lparr>ts_size := 28, ts_color := GOLD\<rparr>)] @
     (let nexts = [(tx ''01'', tx ''Phase 1 sprint $si-jag$'', tx ''$bon$ $ja-ryo-ui$ Day 1-7 $il-jeong-dae-ro$ $seo-beo$ $in-peu-ra$ 1$ju$ $gu-chug$. $ko-deu$ 0$jul$.''),
                   (tx ''02'', tx ''Phase 1 $san-chul-mul$ commit'', tx ''$un-yeong$ $jeol-cha-seo$(PHASE1_OPS.md) + scripts/phase1_smoke.sh$reul$ git repo$ro$ $hyeong-sang$ $gwan-ri$.''),
                   (tx ''03'', tx ''Phase 2 $in-teo-byu$ $jun-bi$'', tx ''$nam-eun$ $mi-gyeol-jeong$: Gateway OS ^b7^ v1 $un-yeong$ $gyu-mo$ ^b7^ $cheos$ PoC $san-eob$ ^b7^ Safety MCU $si-jeom$.''),
                   (tx ''04'', tx ''Hardware lab $gu-seong$'', tx ''$bo-yu$ CM4 Gateway + RS-485 $on-seub-do$ $sen-seo$ 1$gae-ro$ Phase 3 telemetry $heu-reum$ $sil-cheug$.'')] in
     (let y = 2700 in
     for_step y 1050 nexts (\<lambda>_ y (no, t, d).
       [add_round_rect 4500 y 8300 950 DARK (Some (AMBER, 50)),
        add_textbox 4650 (y + 100) 800 700 no
            (textbox\<lparr>ts_size := 44, ts_bold := True, ts_color := AMBER, ts_align := CENTER, ts_anchor := MIDDLE\<rparr>),
        add_textbox 5600 (y + 70) 7000 320 t
            (textbox\<lparr>ts_size := 28, ts_bold := True, ts_color := TEXT_LIGHT\<rparr>),
        add_textbox 5600 (y + 420) 7000 500 d
            (textbox\<lparr>ts_size := 21, ts_color := RGBColor 0xCC 0xD4 0xDB\<rparr>)]) @
     [add_textbox 4500 7000 8500 300 (tx ''v1.0 ^b7^ $jag-seong$: 2026-05-02 ^b7^ Owner: Solo + Claude Code AI pair ^b7^ CM4 IoT Gateway $ja-che$ $ho-seu-ting$ $peul-raes-pom$'')
          (textbox\<lparr>ts_size := 18, ts_color := MUTED, ts_align := LEFT\<rparr>)]))\<close>

section \<open>The deck\<close>

definition deck :: "exn + shape list list" where
  "deck =
     (case slide_erd of
        Inl e \<Rightarrow> Inl e
      | Inr erd \<Rightarrow>
          Inr [slide_title, slide_agenda, slide_overview, slide_premises, slide_philosophy,
               slide_concept_diagram, slide_detailed_arch, slide_systemd, slide_directory,
               slide_roles, slide_rbac_hierarchy, slide_keycloak, erd, slide_core_tables,
               slide_sensor_profile, slide_telemetry, slide_gw_config, slide_mqtt_topic,
               slide_mqtt_payload, slide_command_flow, slide_command_safety, slide_web_portal,
               slide_sensor_wizard, slide_dynamic_dashboard, slide_bulk_ops, slide_gateway_agent,
               slide_safety, slide_api_design, slide_security, slide_rls, slide_operations,
               slide_roadmap, slide_phase1_spec, slide_phase1_schedule, slide_license,
               slide_priority, slide_conclusion, slide_next_steps])"

end
