(* ===== verification/PlanDeck.thy ===== *)
theory PlanDeck
  imports PlanPptx
begin

text \<open>
  The layout of the deck: one walk over every slide that remarks the page label, texts too high for
  their frame, unreadable runs and shapes off the slide. The texts themselves stay unread: the
  congruence rules \<open>tx_cong\<close> and \<open>txs_cong\<close> keep the simplifier out of them.
\<close>

section \<open>Geometry\<close>

text \<open>Whether a shape lies on the slide.\<close>

fun on_slide :: "shape \<Rightarrow> bool" where
  "on_slide (Shape b) =
     (0 \<le> bx_x b \<and> 0 \<le> bx_y b \<and> 0 \<le> bx_w b \<and> 0 \<le> bx_h b \<and> bx_x b + bx_w b \<le> SLIDE_W \<and> bx_y b + bx_h b \<le> SLIDE_H)"
| "on_slide (Connector x1 y1 x2 y2 _) =
     (0 \<le> min x1 x2 \<and> max x1 x2 \<le> SLIDE_W \<and> 0 \<le> min y1 y2 \<and> max y1 y2 \<le> SLIDE_H)"

fun position_of :: "shape \<Rightarrow> outline option \<times> int \<times> int \<times> int \<times> int" where
  "position_of (Shape b) = (Some (bx_kind b), bx_x b, bx_y b, bx_w b, bx_h b)"
| "position_of (Connector x1 y1 x2 y2 _) = (None, x1, y1, x2, y2)"

definition runs_of :: "text_frame \<Rightarrow> text_run list" where
  "runs_of fr = concat (map pa_runs (fr_paras fr))"

text \<open>What stands in the header's place for the page label.\<close>

fun labels :: "shape \<Rightarrow> text_lines list" where
  "labels (Shape b) = (if (bx_x b, bx_y b, bx_w b) = (12300, 320, 900) then map rn_text (runs_of (bx_frame b)) else [])"
| "labels (Connector _ _ _ _ _) = []"

text \<open>
  A lower bound of the height a frame needs, in 72000ths of an inch: the font sizes of its lines
  (a line is at least as high as its font), margins and wrapping left out.
\<close>

definition needs :: "text_frame \<Rightarrow> int" where
  "needs fr = (\<Sum>r \<leftarrow> runs_of fr. rn_size r * 500 * int (length (rn_text r)))"

fun holds_text :: "shape \<Rightarrow> bool" where
  "holds_text (Shape b) = (needs (bx_frame b) \<le> 72 * bx_h b)"
| "holds_text (Connector _ _ _ _ _) = True"

text \<open>No run is smaller than eight points or has the colour its own shape is filled with.\<close>

fun readable :: "shape \<Rightarrow> bool" where
  "readable (Shape b) = list_all (\<lambda>r. 16 \<le> rn_size r \<and> bx_fill b \<noteq> Some (rn_color r)) (runs_of (bx_frame b))"
| "readable (Connector _ _ _ _ _) = True"

definition numbered :: "shape list list \<Rightarrow> (int \<times> shape list) list" where
  "numbered ss = zip [1 .. int (length ss)] ss"

definition misfits :: "(shape \<Rightarrow> bool) \<Rightarrow> shape list list \<Rightarrow> (int \<times> shape) list" where
  "misfits ok ss = concat (map (\<lambda>(k, s). map (Pair k) (filter (\<lambda>sh. \<not> ok sh) s)) (numbered ss))"

section \<open>Walking over a slide once\<close>

datatype remark =
    Label text_lines
  | Tight "outline option \<times> int \<times> int \<times> int \<times> int"
  | Unreadable "outline option \<times> int \<times> int \<times> int \<times> int"
  | OffSlide "outline option \<times> int \<times> int \<times> int \<times> int"

definition remarks :: "shape \<Rightarrow> remark list" where
  "remarks sh =
     map Label (labels sh) @
     (if holds_text sh then [] else [Tight (position_of sh)]) @
     (if readable sh then [] else [Unreadable (position_of sh)]) @
     (if on_slide sh then [] else [OffSlide (position_of sh)])"

definition audit :: "shape list \<Rightarrow> remark list" where
  "audit s = concat (map remarks s)"

lemma audit_simps [simp]:
  "audit [] = []" "audit (sh # s) = remarks sh @ audit s" "audit (s @ s') = audit s @ audit s'"
  by (simp_all add: audit_def)

lemma length_texts [simp]: "length (tx s) = 1" "length (txs ss) = length ss"
  by (simp_all add: tx_def txs_def)

lemma texts_nonempty [simp]: "tx s \<noteq> []" "ss \<noteq> [] \<Longrightarrow> txs ss \<noteq> []"
  by (simp_all add: tx_def txs_def)

lemma length_prepend [simp]: "t \<noteq> [] \<Longrightarrow> length (prepend p t) = length t"
  by (simp add: prepend_def split: list.split)

definition box_remarks :: "outline \<Rightarrow> int \<Rightarrow> int \<Rightarrow> int \<Rightarrow> int \<Rightarrow> text_lines list \<Rightarrow> int \<Rightarrow> bool \<Rightarrow> remark list" where
  "box_remarks k x y w h ts need ok =
     (if x = 12300 \<and> y = 320 \<and> w = 900 then map Label ts else []) @
     (if need \<le> 72 * h then [] else [Tight (Some k, x, y, w, h)]) @
     (if ok then [] else [Unreadable (Some k, x, y, w, h)]) @
     (if 0 \<le> x \<and> 0 \<le> y \<and> 0 \<le> w \<and> 0 \<le> h \<and> x + w \<le> SLIDE_W \<and> y + h \<le> SLIDE_H then []
      else [OffSlide (Some k, x, y, w, h)])"

lemma remarks_box:
  "remarks (Shape b) =
     box_remarks (bx_kind b) (bx_x b) (bx_y b) (bx_w b) (bx_h b) (map rn_text (runs_of (bx_frame b))) (needs (bx_frame b))
       (readable (Shape b))"
  unfolding remarks_def box_remarks_def labels.simps holds_text.simps on_slide.simps position_of.simps prod.inject
  by (simp only: conj_assoc if_distrib [of "map Label"] list.map(1))

lemma remarks_plain [simp]:
  "remarks (add_shape k x y w h fill) = box_remarks k x y w h [] 0 True"
  "remarks (add_rect x y w h fill ln) = box_remarks RECTANGLE x y w h [] 0 True"
  "remarks (add_round_rect x y w h fill ln) = box_remarks ROUNDED_RECTANGLE x y w h [] 0 True"
  by (simp_all add: add_shape_def add_rect_def add_round_rect_def remarks_box new_frame_def empty_para_def runs_of_def
      needs_def)

lemma remarks_text [simp]:
  "remarks (set_text (add_shape k x y w h fill) t st) =
     box_remarks k x y w h [t] (ts_size st * 500 * int (length t)) (16 \<le> ts_size st \<and> fill \<noteq> ts_color st)"
  "remarks (set_text (add_round_rect x y w h fill ln) t st) =
     box_remarks ROUNDED_RECTANGLE x y w h [t] (ts_size st * 500 * int (length t)) (16 \<le> ts_size st \<and> fill \<noteq> ts_color st)"
  "remarks (add_textbox x y w h t st) =
     box_remarks TEXTBOX x y w h [t] (ts_size st * 500 * int (length t)) (16 \<le> ts_size st)"
  by (simp_all add: add_shape_def add_round_rect_def add_textbox_def new_textbox_def set_frame_def remarks_box
      new_frame_def empty_para_def runs_of_def needs_def)

definition line_need :: "lines_style \<Rightarrow> text_lines \<times> line_opts \<Rightarrow> int" where
  "line_need st entry = (case entry of (t, opts) \<Rightarrow> or_else (lo_size opts) (ls_size st) * 500 * int (max 1 (length t)))"

definition line_ok :: "lines_style \<Rightarrow> text_lines \<times> line_opts \<Rightarrow> bool" where
  "line_ok st entry = (case entry of (t, opts) \<Rightarrow> 16 \<le> or_else (lo_size opts) (ls_size st))"

lemma line_need_simps [simp]:
  "line_need st (tx s, no_opts) = ls_size st * 500"
  "line_need st (tx s, no_opts\<lparr>lo_size := Some k\<rparr>) = k * 500"
  by (simp_all add: line_need_def or_else_def no_opts_def)

lemma remarks_multiline [simp]:
  "\<not> (x = 12300 \<and> y = 320 \<and> w = 900) \<Longrightarrow> remarks (add_multiline x y w h ls st) =
     box_remarks TEXTBOX x y w h [] (\<Sum>e \<leftarrow> ls. line_need st e) (list_all (line_ok st) ls)"
proof -
  have l: "int (length (prepend p t)) = int (max 1 (length t))" for p t by (simp add: prepend_def split: list.split)
  have r: "(\<Sum>r \<leftarrow> concat (map pa_runs (map (line_para st) ls)). rn_size r * 500 * int (length (rn_text r))) =
      (\<Sum>e \<leftarrow> ls. line_need st e)"
    by (induction ls) (auto simp: line_para_def line_need_def l split: prod.split)
  have o: "list_all (\<lambda>r. 16 \<le> rn_size r) (concat (map pa_runs (map (line_para st) ls))) = list_all (line_ok st) ls"
    by (induction ls) (auto simp: line_para_def line_ok_def split: prod.split)
  assume n: "\<not> (x = 12300 \<and> y = 320 \<and> w = 900)"
  show ?thesis
  proof (cases ls)
    case Nil
    then show ?thesis using n by (simp add: add_multiline_def new_textbox_def remarks_box runs_of_def needs_def empty_para_def box_remarks_def)
  next
    case (Cons e es)
    then show ?thesis unfolding add_multiline_def new_textbox_def remarks_box
      using n r o by (simp only: list.distinct if_False runs_of_def needs_def box_remarks_def simp_thms
          autoshape.simps text_frame.simps readable.simps option.distinct)
  qed
qed

lemma remarks_connector [simp]:
  "remarks (add_connector x1 y1 x2 y2 st) =
     (if 0 \<le> min x1 x2 \<and> max x1 x2 \<le> SLIDE_W \<and> 0 \<le> min y1 y2 \<and> max y1 y2 \<le> SLIDE_H then []
      else [OffSlide (None, x1, y1, x2, y2)])"
  by (simp add: add_connector_def remarks_def)

lemma style_simps [simp]:
  "ts_size plain = 28" "ts_color plain = TEXT_DARK" "ts_size textbox = 28" "ls_size multi = 24"
  "lo_size no_opts = None"
  by (simp_all add: plain_def textbox_def multi_def no_opts_def)

lemma colours_differ [simp]:
  "AMBER \<noteq> DARK" "AMBER \<noteq> TEXT_LIGHT" "NAVY \<noteq> TEXT_LIGHT" "STEEL \<noteq> TEXT_LIGHT" "TEAL \<noteq> TEXT_LIGHT" "GREEN \<noteq> TEXT_LIGHT"
  "GOLD \<noteq> TEXT_LIGHT" "RED \<noteq> TEXT_LIGHT" "SURFACE \<noteq> NAVY" "DARK \<noteq> TEXT_LIGHT" "SLATE \<noteq> TEXT_LIGHT"
  by (simp_all add: AMBER_def DARK_def TEXT_LIGHT_def NAVY_def STEEL_def TEAL_def GREEN_def GOLD_def RED_def SURFACE_def SLATE_def)

text \<open>The header leaves the page label and nothing to remark.\<close>

lemma length_page_label [simp]: "length (page_label p n) = 1" by (simp add: page_label_def)

lemma audit_header [simp]:
  "length t = 1 \<Longrightarrow> length u = 1 \<Longrightarrow> audit (add_header t (Some u) (Some p) (Some n)) = [Label (page_label p n)]"
  by (simp add: add_header_def box_remarks_def SLIDE_W_def SLIDE_H_def)

lemma replicate_4 [simp]: "replicate 4 x = [x, x, x, x]"
  by (simp add: numeral_eq_Suc)

lemma tx_cong: "tx s = tx s" ..
lemma txs_cong: "txs s = txs s" ..
lemmas slide_simps = box_remarks_def SLIDE_W_def SLIDE_H_def Let_def for_each_def for_step_def line_need_def line_ok_def or_else_def no_opts_def
  col_x_def band_x_def col_w_def

lemma audit_title: "audit slide_title = []"
  by (simp add: slide_title_def slide_simps cong: tx_cong txs_cong)

lemma audit_agenda: "audit slide_agenda = [Label (page_label 2 TOTAL)]"
  by (simp add: slide_agenda_def slide_simps cong: tx_cong txs_cong)

lemma audit_overview: "audit slide_overview = [Label (page_label 3 TOTAL)]"
  by (simp add: slide_overview_def slide_simps cong: tx_cong txs_cong)

lemma audit_premises: "audit slide_premises = [Label (page_label 4 TOTAL)]"
  by (simp add: slide_premises_def slide_simps cong: tx_cong txs_cong)

lemma audit_philosophy: "audit slide_philosophy = [Label (page_label 5 TOTAL)]"
  by (simp add: slide_philosophy_def slide_simps cong: tx_cong txs_cong)

lemma audit_concept_diagram: "audit slide_concept_diagram = [Label (page_label 6 TOTAL)]"
  by (simp add: slide_concept_diagram_def slide_simps cong: tx_cong txs_cong)

lemma audit_detailed_arch: "audit slide_detailed_arch = [Label (page_label 7 TOTAL)]"
  by (simp add: slide_detailed_arch_def slide_simps cong: tx_cong txs_cong)

lemma audit_systemd: "audit slide_systemd = [Label (page_label 8 TOTAL)]"
  by (simp add: slide_systemd_def slide_simps cong: tx_cong txs_cong)

lemma audit_directory: "audit slide_directory = [Label (page_label 9 TOTAL)]"
  by (simp add: slide_directory_def slide_simps cong: tx_cong txs_cong)

lemma audit_roles: "audit slide_roles =
    [Label (page_label 10 TOTAL),
     OffSlide (Some TEXTBOX, 9240, 1170, 4150, 360),
     OffSlide (Some TEXTBOX, 9240, 1520, 4150, 260)]"
  by (simp add: slide_roles_def slide_simps cong: tx_cong txs_cong)

lemma audit_rbac_hierarchy: "audit slide_rbac_hierarchy = [Label (page_label 11 TOTAL)]"
  by (simp add: slide_rbac_hierarchy_def slide_simps cong: tx_cong txs_cong)

lemma audit_keycloak: "audit slide_keycloak = [Label (page_label 12 TOTAL)]"
  by (simp add: slide_keycloak_def slide_simps cong: tx_cong txs_cong)

lemma audit_core_tables: "audit slide_core_tables = [Label (page_label 14 TOTAL)]"
  by (simp add: slide_core_tables_def slide_simps cong: tx_cong txs_cong)

lemma audit_sensor_profile: "audit slide_sensor_profile = [Label (page_label 15 TOTAL)]"
  by (simp add: slide_sensor_profile_def slide_simps cong: tx_cong txs_cong)

lemma audit_telemetry: "audit slide_telemetry = [Label (page_label 16 TOTAL)]"
  by (simp add: slide_telemetry_def slide_simps cong: tx_cong txs_cong)

lemma audit_gw_config: "audit slide_gw_config = [Label (page_label 17 TOTAL)]"
  by (simp add: slide_gw_config_def slide_simps cong: tx_cong txs_cong)

lemma audit_mqtt_topic: "audit slide_mqtt_topic = [Label (page_label 18 TOTAL)]"
  by (simp add: slide_mqtt_topic_def slide_simps cong: tx_cong txs_cong)

lemma audit_mqtt_payload: "audit slide_mqtt_payload = [Label (page_label 19 TOTAL)]"
  by (simp add: slide_mqtt_payload_def slide_simps cong: tx_cong txs_cong)

lemma audit_command_flow: "audit slide_command_flow =
    [Label (page_label 20 TOTAL),
     OffSlide (Some TEXTBOX, 9775, 4400, 4050, 280),
     OffSlide (Some TEXTBOX, 9775, 4850, 4050, 280)]"
  by (simp add: slide_command_flow_def slide_simps cong: tx_cong txs_cong)

lemma audit_command_safety: "audit slide_command_safety = [Label (page_label 21 TOTAL)]"
  by (simp add: slide_command_safety_def slide_simps cong: tx_cong txs_cong)

lemma audit_web_portal: "audit slide_web_portal =
    [Label (page_label 22 TOTAL),
     OffSlide (Some TEXTBOX, 9240, 1200, 4150, 400)]"
  by (simp add: slide_web_portal_def slide_simps cong: tx_cong txs_cong)

lemma audit_sensor_wizard: "audit slide_sensor_wizard = [Label (page_label 23 TOTAL)]"
  by (simp add: slide_sensor_wizard_def slide_simps cong: tx_cong txs_cong)

lemma audit_dynamic_dashboard: "audit slide_dynamic_dashboard = [Label (page_label 24 TOTAL)]"
  by (simp add: slide_dynamic_dashboard_def slide_simps cong: tx_cong txs_cong)

lemma audit_bulk_ops: "audit slide_bulk_ops = [Label (page_label 25 TOTAL)]"
  by (simp add: slide_bulk_ops_def slide_simps cong: tx_cong txs_cong)

lemma audit_gateway_agent: "audit slide_gateway_agent = [Label (page_label 26 TOTAL)]"
  by (simp add: slide_gateway_agent_def slide_simps cong: tx_cong txs_cong)

lemma audit_safety: "audit slide_safety = [Label (page_label 27 TOTAL)]"
  by (simp add: slide_safety_def slide_simps cong: tx_cong txs_cong)

lemma audit_api_design: "audit slide_api_design = [Label (page_label 28 TOTAL)]"
  by (simp add: slide_api_design_def slide_simps cong: tx_cong txs_cong)

lemma audit_security: "audit slide_security = [Label (page_label 29 TOTAL)]"
  by (simp add: slide_security_def slide_simps cong: tx_cong txs_cong)

lemma audit_rls: "audit slide_rls = [Label (page_label 30 TOTAL)]"
  by (simp add: slide_rls_def slide_simps cong: tx_cong txs_cong)

lemma audit_operations: "audit slide_operations = [Label (page_label 31 TOTAL)]"
  by (simp add: slide_operations_def slide_simps cong: tx_cong txs_cong)

lemma audit_roadmap: "audit slide_roadmap = [Label (page_label 32 TOTAL)]"
  by (simp add: slide_roadmap_def slide_simps cong: tx_cong txs_cong)

lemma audit_phase1_spec: "audit slide_phase1_spec = [Label (page_label 33 TOTAL)]"
  by (simp add: slide_phase1_spec_def slide_simps cong: tx_cong txs_cong)

lemma audit_phase1_schedule: "audit slide_phase1_schedule =
    [Label (page_label 34 TOTAL),
     OffSlide (Some ROUNDED_RECTANGLE, 500, 7250, 12300, 2000),
     OffSlide (Some RECTANGLE, 500, 7250, 900, 2000),
     OffSlide (Some TEXTBOX, 600, 7300, 850, 400),
     OffSlide (Some TEXTBOX, 600, 7750, 850, 1400),
     OffSlide (Some TEXTBOX, 1550, 7350, 11150, 1800)]"
  by (simp add: slide_phase1_schedule_def slide_simps cong: tx_cong txs_cong)

lemma audit_license: "audit slide_license = [Label (page_label 35 TOTAL)]"
  by (simp add: slide_license_def slide_simps cong: tx_cong txs_cong)

lemma audit_priority: "audit slide_priority =
    [Label (page_label 36 TOTAL),
     OffSlide (Some TEXTBOX, 9240, 1200, 4150, 450)]"
  by (simp add: slide_priority_def slide_simps cong: tx_cong txs_cong)

lemma audit_conclusion: "audit slide_conclusion = [Label (page_label 37 TOTAL)]"
  by (simp add: slide_conclusion_def slide_simps cong: tx_cong txs_cong)

lemma audit_next_steps: "audit slide_next_steps =
    [OffSlide (Some RECTANGLE, 11930, 0, 100, 13333)]"
  by (simp add: slide_next_steps_def slide_simps cong: tx_cong txs_cong)

lemmas audit_slides = audit_title audit_agenda audit_overview audit_premises audit_philosophy audit_concept_diagram audit_detailed_arch audit_systemd audit_directory audit_roles audit_rbac_hierarchy audit_keycloak audit_core_tables audit_sensor_profile audit_telemetry audit_gw_config audit_mqtt_topic audit_mqtt_payload audit_command_flow audit_command_safety audit_web_portal audit_sensor_wizard audit_dynamic_dashboard audit_bulk_ops audit_gateway_agent audit_safety audit_api_design audit_security audit_rls audit_operations audit_roadmap audit_phase1_spec audit_phase1_schedule audit_license audit_priority audit_conclusion audit_next_steps

lemma erd_lines: "\<exists>ls. conns erd_conns = Inr ls \<and> audit ls = []"
  by (simp add: erd_conns_def conn_def erd_coords_def erd_boxes_def slide_simps)

lemma audit_erd: "\<exists>erd. slide_erd = Inr erd \<and> audit erd = [Label (page_label 13 TOTAL)]"
proof -
  obtain ls where "conns erd_conns = Inr ls" "audit ls = []" using erd_lines by blast
  then show ?thesis by (simp add: slide_erd_def erd_boxes_def slide_simps cong: tx_cong txs_cong)
qed

section \<open>Reading off the deck\<close>

definition labels_in :: "remark list \<Rightarrow> text_lines list" where
  "labels_in rs = concat (map (\<lambda>r. case r of Label t \<Rightarrow> [t] | _ \<Rightarrow> []) rs)"

definition tight_in :: "remark list \<Rightarrow> (outline option \<times> int \<times> int \<times> int \<times> int) list" where
  "tight_in rs = concat (map (\<lambda>r. case r of Tight p \<Rightarrow> [p] | _ \<Rightarrow> []) rs)"

definition unreadable_in :: "remark list \<Rightarrow> (outline option \<times> int \<times> int \<times> int \<times> int) list" where
  "unreadable_in rs = concat (map (\<lambda>r. case r of Unreadable p \<Rightarrow> [p] | _ \<Rightarrow> []) rs)"

definition off_in :: "remark list \<Rightarrow> (outline option \<times> int \<times> int \<times> int \<times> int) list" where
  "off_in rs = concat (map (\<lambda>r. case r of OffSlide p \<Rightarrow> [p] | _ \<Rightarrow> []) rs)"

lemmas in_defs = labels_in_def tight_in_def unreadable_in_def off_in_def

lemma audit_reads:
  "concat (map labels s) = labels_in (audit s)"
  "map position_of (filter (\<lambda>sh. \<not> holds_text sh) s) = tight_in (audit s)"
  "map position_of (filter (\<lambda>sh. \<not> readable sh) s) = unreadable_in (audit s)"
  "map position_of (filter (\<lambda>sh. \<not> on_slide sh) s) = off_in (audit s)"
proof -
  have [simp]: "concat (map (\<lambda>x. [x]) xs) = xs" "concat (map (\<lambda>x. []) xs) = []" for xs :: "text_lines list" by (induction xs) auto
  show "concat (map labels s) = labels_in (audit s)"
    "map position_of (filter (\<lambda>sh. \<not> holds_text sh) s) = tight_in (audit s)"
    "map position_of (filter (\<lambda>sh. \<not> readable sh) s) = unreadable_in (audit s)"
    "map position_of (filter (\<lambda>sh. \<not> on_slide sh) s) = off_in (audit s)"
    by (induction s) (simp_all add: remarks_def in_defs o_def)
qed

lemma misfits_positions:
  "map (\<lambda>(k, sh). (k, position_of sh)) (misfits ok ss) =
     concat (map (\<lambda>(k, s). map (Pair k) (map position_of (filter (\<lambda>sh. \<not> ok sh) s))) (numbered ss))"
  by (simp add: misfits_def map_concat o_def split_def)

lemma misfits_none: "misfits ok ss = [] \<longleftrightarrow> map (\<lambda>(k, sh). (k, position_of sh)) (misfits ok ss) = []"
  by simp

definition deck_remarks :: "remark list list" where
  "deck_remarks =
       [[]] @ map (\<lambda>k. [Label (page_label k TOTAL)]) [2 .. 9] @
       [[Label (page_label 10 TOTAL), OffSlide (Some TEXTBOX, 9240, 1170, 4150, 360), OffSlide (Some TEXTBOX, 9240, 1520, 4150, 260)]] @
       map (\<lambda>k. [Label (page_label k TOTAL)]) [11 .. 19] @
       [[Label (page_label 20 TOTAL), OffSlide (Some TEXTBOX, 9775, 4400, 4050, 280), OffSlide (Some TEXTBOX, 9775, 4850, 4050, 280)],
        [Label (page_label 21 TOTAL)],
        [Label (page_label 22 TOTAL), OffSlide (Some TEXTBOX, 9240, 1200, 4150, 400)]] @
       map (\<lambda>k. [Label (page_label k TOTAL)]) [23 .. 33] @
       [[Label (page_label 34 TOTAL), OffSlide (Some ROUNDED_RECTANGLE, 500, 7250, 12300, 2000),
         OffSlide (Some RECTANGLE, 500, 7250, 900, 2000), OffSlide (Some TEXTBOX, 600, 7300, 850, 400),
         OffSlide (Some TEXTBOX, 600, 7750, 850, 1400), OffSlide (Some TEXTBOX, 1550, 7350, 11150, 1800)],
        [Label (page_label 35 TOTAL)],
        [Label (page_label 36 TOTAL), OffSlide (Some TEXTBOX, 9240, 1200, 4150, 450)],
        [Label (page_label 37 TOTAL)],
        [OffSlide (Some RECTANGLE, 11930, 0, 100, 13333)]]"

lemma audit_deck:
  "\<exists>slides. deck = Inr slides \<and>
     map audit slides = deck_remarks"
proof -
  obtain erd where e: "slide_erd = Inr erd" "audit erd = [Label (page_label 13 TOTAL)]" using audit_erd by blast
  show ?thesis by (simp add: deck_def deck_remarks_def e audit_slides upto.simps)
qed

end
