(* ===== verification/Spec2Isabelle.thy ===== *)
theory Spec2Isabelle
  imports Examples JsonLoads AlembicEnv Simulator PlanText PlanDeck
begin

text \<open>
  The self-hosted IoT gateway server: a FastAPI back end, an MQTT worker and a scheduler that share
  one PostgreSQL database, with the scripts that migrate it, seed it and document it. Gateways
  publish telemetry, state, heartbeats and command responses under \<open>gw/{serial}/{kind}\<close>; the worker
  writes them to the database; users read them and issue commands through the API; the scheduler
  marks silent gateways offline, times out commands and makes the monthly telemetry partitions.

  \<^bold>\<open>Theories and code.\<close>
  \<^item> \<open>Prelude\<close>: tables as lists of rows (\<open>fetch\<close>, \<open>modify\<close>, \<open>erase\<close>, \<open>update_where\<close>) and the locale
    \<open>keyed_table\<close> of a table with a primary key; the collections \<open>table_simps\<close>, \<open>table_intros\<close>.
  \<^item> \<open>PyValues\<close>, \<open>PyTime\<close>, \<open>PyJson\<close>, \<open>JsonLoads\<close>: what the code uses of Python: exceptions, JSON values, floats as
    stored, string operations, UUIDs as 128-bit words; dates, \<open>isoformat\<close> and
    \<open>datetime.fromisoformat\<close> on instants counted in microseconds (\<open>server/app/utils/time.py\<close>);
    \<open>json.dumps\<close>, and the scanner of \<open>json.loads\<close> with their round trip and the interpreter's
    recursion limit as an argument.
  \<^item> \<open>Models\<close>, \<open>Store\<close>: \<open>server/app/models.py\<close>. One record per mapped class, the record \<open>db\<close> of all
    tables, the invariant \<open>wf_db\<close> (keys, references, formats) and one operation per statement the
    code issues, with its constraint checks. Every table is an interpretation of \<open>keyed_table\<close>.
  \<^item> \<open>Schemas\<close>, \<open>Settings\<close>: \<open>schemas.py\<close>, \<open>config.py\<close>.
  \<^item> \<open>Jwks\<close>, \<open>Auth\<close>: \<open>utils/jwks.py\<close>, \<open>auth.py\<close>; the record \<open>jose\<close> holds the functions of the JWT
    library, \<open>web\<close> the replies of the key server.
  \<^item> \<open>Gateways\<close>, \<open>Catalog\<close>, \<open>Channels\<close>, \<open>TelemetryApi\<close>, \<open>Commands\<close>: the routers. An endpoint maps its
    arguments, the user and the database to a result or exception and the committed database;
    \<open>guarded\<close> is the contract of an endpoint behind \<open>_check_perm\<close>, interpreted for every one of
    them. A command is issued in two transactions, \<open>issue_begin\<close> and \<open>issue_finish\<close>.
  \<^item> \<open>Api\<close>: the whole HTTP surface: the route table of \<open>app/main.py\<close> and the routers, one constructor
    of \<open>api_call\<close> per endpoint, \<open>serve\<close> from the Authorization header to the response model and its
    rendering as JSON, which has no NaN or Infinity, and the access policy \<open>demands\<close> against which it
    is checked.
  \<^item> \<open>Responses\<close>: what the tables hold of typed columns, that every writer keeps it, and so which
    errors an authenticated call can still end with.
  \<^item> \<open>Lookups\<close>, \<open>Handlers\<close>, \<open>Dispatch\<close>, \<open>LatestView\<close>: \<open>server/worker\<close>. The locale \<open>ttl_cache\<close> is the
    contract of the three caches, \<open>message_handler\<close> that of the four handlers; \<open>LatestView\<close> proves
    that the worker keeps \<open>telemetry_latest\<close> a view of the telemetry log.
  \<^item> \<open>Scheduler\<close>: \<open>server/scheduler\<close>; the locale \<open>periodic_job\<close> is the contract of a job.
  \<^item> \<open>CommandLife\<close>: the whole system as a step relation: a command request begins or finishes, any
    other request is served, a message is dispatched, a job runs; \<open>reachable\<close> is its closure. It also
    finds the steps that can open a closed command again.
  \<^item> \<open>Lifecycle\<close>: start and stop of the three processes (\<open>main.py\<close>, \<open>db.py\<close>, \<open>utils/sd.py\<close>,
    \<open>worker/main.py\<close>, \<open>scheduler/main.py\<close>) as the events systemd and the log see.
  \<^item> \<open>Migrations\<close>: the alembic revisions as operations on a schema, the data step of 0002, and where
    the schema they leave drifts from the mapped classes.
  \<^item> \<open>Seed\<close>: \<open>deploy/scripts/sim-seed.py\<close> and \<open>sim-fake-jwt.py\<close>.
  \<^item> \<open>AlembicEnv\<close>: \<open>alembic/env.py\<close>, a migration run as the events on its engine and connection;
    the rollback of a failed run is PostgreSQL's, and no property claims it.
  \<^item> \<open>Simulator\<close>: \<open>deploy/scripts/modbus_simulator.py\<close>, the registers each turn of its loop writes.
  \<^item> \<open>PlanHwpx\<close>, \<open>PlanXml\<close>, \<open>PlanText\<close>: \<open>build_plan_hwpx.py\<close>: the document builder; the XML it writes, read
    back by \<open>well_nested\<close>; the body of the document, chapter by chapter, with its texts.
  \<^item> \<open>PlanPptx\<close>, \<open>PlanDeck\<close>: the slides of \<open>build_plan_pptx.py\<close> as lists of shapes with their texts and
    styles; the layout of the deck, read off in one walk over every slide.
  \<^item> \<open>Hangul\<close>: the Korean texts of both documents, written in ASCII.
  \<^item> \<open>Examples\<close>: a small farm, the data of the witnesses.

  \<^bold>\<open>Conventions.\<close> An instant is an \<open>int\<close> of microseconds since the epoch; a clock reading, a fresh
  UUID and the reply of a service are arguments. A failed transaction leaves the database as it
  was. A text column refuses NUL and a text longer than its type; an \<open>INTEGER\<close> column refuses what
  does not fit 32 bits. The uncaught exception of an endpoint is its \<open>Inl\<close>, which \<open>http_status\<close>
  reads as 500. Lists without \<open>ORDER BY\<close> come in the order of the rows; \<open>ORDER BY\<close> text takes the
  collation's rank as an argument.

  \<^bold>\<open>Bounds.\<close> Only the JSON scanner uses fuel, twice the length of the text and two: it always suffices
  (\<open>json_decode_settled\<close>) and more changes nothing (\<open>json_decode_fuel\<close>). The recursion limit is not
  fuel: it is the program's, and running into it is the value \<open>RecursionError\<close> (\<open>json_loads\<close> is the
  reader without one). The loops of the code run
  over messages, rows, months or timer ticks, which are lists or numbers here. \<open>watchdog_loop\<close>
  counts the ticks until it is cancelled. Dates are the years 1 to 9999 of Python, with
  \<open>OverflowError\<close> outside.

  \<^bold>\<open>Not modelled.\<close> Framework glue (parsing of requests, the processors of the logs, uvicorn), the
  units and the file format of \<open>python-pptx\<close> and the Go and C parts of the repository. Two requests
  on the same rows interleave at transactions, not inside one.
\<close>

section \<open>The database\<close>

text \<open>
  C1. Whatever the interleaving of API requests, worker messages and scheduler jobs, the database
  keeps the schema's invariant, and every stored command keeps its request: identity, gateway,
  actuator, action, issuer, expiry, and a response once recorded.
\<close>

theorem reachable_invariant:
  assumes "reachable (d, fl) (d', fl')" "wf_db d"
  shows "wf_db d' \<and> keeps_requests d d'"
  using reachable_wf [OF assms(1)] reachable_keeps [OF assms(1)] assms(2) by simp

theorem reachable_invariant_witness:
  "wf_db (mark_published ''cmd-1'' farm) \<and> keeps_requests farm (mark_published ''cmd-1'' farm)"
proof (rule reachable_invariant [OF _ farm_wf])
  let ?st = "(farm_gateway, vent, old_command)"
  have "issue_finish good_world switch_on ada ?st farm =
    (Inr (old_command\<lparr>cm_status := ''published''\<rparr>), mark_published ''cmd-1'' farm,
     snd (snd (issue_finish good_world switch_on ada ?st farm)))"
    by (simp add: issue_finish_def publish_def good_world_def old_command_def)
  then have "step (farm, [(switch_on, ada, ?st)]) (mark_published ''cmd-1'' farm, remove1 (switch_on, ada, ?st) [(switch_on, ada, ?st)])"
    by (intro step.finishes) auto
  then show "reachable (farm, [(switch_on, ada, ?st)]) (mark_published ''cmd-1'' farm, remove1 (switch_on, ada, ?st) [(switch_on, ada, ?st)])"
    unfolding reachable_def by (rule r_into_rtranclp)
qed

text \<open>
  C2. The worker maintains \<open>telemetry_latest\<close> as a view of the telemetry log: after any sequence of
  messages, each key logged so far has a row, and each row is the newest logged value of its key.
\<close>

theorem latest_is_newest:
  assumes "latest_view d" "consume loads clk ms (d, c) = (d', c')"
  shows "(\<forall>r \<in> set (telemetry_latest d'). newest (telemetry d') r) \<and>
    te_key ` set (telemetry d') \<subseteq> latest_key ` set (telemetry_latest d')"
  using consume_inv [where P = latest_view, OF consume_one_view, of "(d, c)" loads clk ms] assms
  by (simp add: latest_view_def)

theorem latest_is_newest_witness:
  "\<exists>d' c'. consume (\<lambda>_. Inr reading) (\<lambda>_. 0) [\<lparr>in_now = 9, in_topic = ''gw/GW-1/telemetry'', in_payload = []\<rparr>]
       (farm, empty_cache) = (d', c') \<and>
     telemetry_latest d' \<noteq> [] \<and> (\<forall>r \<in> set (telemetry_latest d'). newest (telemetry d') r)"
proof -
  obtain d' c' where "dispatch (\<lambda>_. Inr reading) (\<lambda>_. 0) 9 ''gw/GW-1/telemetry'' [] farm empty_cache = (Inr d', c')"
    "map tl_measurement_key (telemetry_latest d') = [''ammonia'']"
    using reading_dispatched by (elim exE conjE) (rule that)
  then have c: "consume (\<lambda>_. Inr reading) (\<lambda>_. 0) [\<lparr>in_now = 9, in_topic = ''gw/GW-1/telemetry'', in_payload = []\<rparr>]
      (farm, empty_cache) = (d', c')" "telemetry_latest d' \<noteq> []"
    by (auto simp: consume_one_def)
  then show ?thesis using latest_is_newest [OF farm_view c(1)] by blast
qed

text \<open>
  C3. A message changes rows of the gateway its topic names and of no other: with nothing cached
  for the serial, a message for an unknown serial changes nothing, and one for a known serial
  touches that gateway only.
\<close>

theorem message_isolated:
  assumes "match_topic topic = Some (serial, kind)" "wc_gateways c serial = None" "wf_db d"
    and "dispatch loads clk now topic payload d c = (Inr d', c')"
  shows "case fetch gw_serial_number serial (gateways d) of
      None \<Rightarrow> d' = d
    | Some gw \<Rightarrow> touches_only (gw_id gw) d d'"
  using assms(4)
proof (cases rule: dispatch_Inr)
  case (handled serial' kind' g c1 body)
  have eq: "serial' = serial" "kind' = kind" using handled(1) assms(1) by simp_all
  have u: "unique_key gw_serial_number (gateways d)" using assms(3) by (simp add: wf_db_def keys_ok_def)
  from handled(2) have "select_gateway d serial = Inr (Some g)"
    by (auto simp: eq gateway_uuid_by_serial_def assms(2) cached_simps split: sum.splits)
  then have "map gw_id (filter (\<lambda>g. gw_serial_number g = serial) (gateways d)) = [g]"
    by (auto simp: select_gateway_def scalar_one_or_none_Some split: if_splits)
  then obtain gw where "fetch gw_serial_number serial (gateways d) = Some gw" "gw_id gw = g"
    using unique_key_filter_one [OF u, of serial] by (auto split: option.splits)
  then show ?thesis using any.effect [OF handled(4) assms(3)] by simp
qed (simp split: option.splits)

theorem message_isolated_witness:
  "\<exists>d' c'. dispatch (\<lambda>_. Inr (JObj [])) (\<lambda>_. 0) 9 ''gw/GW-1/heartbeat'' [] farm empty_cache = (Inr d', c') \<and>
     d' \<noteq> farm \<and> touches_only 10 farm d'"
proof -
  obtain d' c' where d: "dispatch (\<lambda>_. Inr (JObj [])) (\<lambda>_. 0) 9 ''gw/GW-1/heartbeat'' [] farm empty_cache = (Inr d', c')"
    and s: "gateways d' = [farm_gateway\<lparr>gw_last_seen_at := Some 9\<rparr>, spare_gateway]"
    by (simp add: send_simps farm_topics heartbeat_handle_def parse_iso8601_def utcnow_def)
  have "d' \<noteq> farm" using s by (auto simp: farm_defs)
  with d message_isolated [OF farm_topics(2) _ farm_wf d] show ?thesis
    by (simp add: empty_cache_def) (simp add: farm_defs)
qed

section \<open>Access control\<close>

text \<open>
  C4. Every outcome of the permission check in terms of what the user holds: 404 without the
  gateway, 403 without the permission or \<open>admin\<close>, the gateway with one of them, and an uncaught
  \<open>MultipleResultsFound\<close> for a user who holds both.
\<close>

theorem check_perm_exact:
  assumes "wf_db d"
  shows "check_perm u g required d =
    (case fetch gw_id g (gateways d) of
       None \<Rightarrow> Inl HTTP_404
     | Some gw \<Rightarrow>
         if \<not> holds u g required d \<and> \<not> holds u g ''admin'' d then Inl HTTP_403
         else if required \<noteq> ''admin'' \<and> holds u g required d \<and> holds u g ''admin'' d then Inl MultipleResultsFound
         else Inr gw)"
  using assms by (intro check_perm_cases) (simp add: wf_db_def keys_ok_def)

theorem check_perm_exact_witness:
  "check_perm ada 10 ''view'' farm = Inr farm_gateway \<and> check_perm bob 10 ''view'' farm = Inl HTTP_403 \<and>
   check_perm bob 10 ''control'' farm = Inr farm_gateway \<and> check_perm ada 99 ''view'' farm = Inl HTTP_404"
  unfolding check_perm_exact [OF farm_wf] by (simp add: holds_def farm_defs)

text \<open>
  C5. Complete mediation: an endpoint runs for a stored user whose token was accepted or not at all.
  Without one the request has no effect; with one, a call that concerns a gateway succeeds or
  changes something only if the user holds the demanded permission on it, or \<open>admin\<close>.
\<close>

theorem api_mediated:
  assumes "serve dp rq sv = (x, sv', ms)" "rq_target rq = Call c"
  shows "case fst (authenticate (dp_settings dp) (dp_jose dp) (rq_web rq) (rq_authorization rq) (sv_db sv) (sv_jwks sv)) of
      Inl e \<Rightarrow> x = Inl e \<and> sv_db sv' = sv_db sv \<and> ms = []
    | Inr u \<Rightarrow> u \<in> set (users (sv_db sv)) \<and>
        (\<forall>g p. demands c (sv_db sv) = Some (g, p) \<and> \<not> may u g p (sv_db sv) \<longrightarrow>
           (\<exists>e. x = Inl e \<and> http_status e \<in> {403, 404, 422}) \<and> sv_db sv' = sv_db sv \<and> ms = [])"
proof -
  obtain y cache where a: "authenticate (dp_settings dp) (dp_jose dp) (rq_web rq) (rq_authorization rq) (sv_db sv) (sv_jwks sv) = (y, cache)"
    by fastforce
  show ?thesis
  proof (cases y)
    case (Inl e)
    with assms a show ?thesis by (auto simp: serve_def)
  next
    case (Inr u)
    then have u: "u \<in> set (users (sv_db sv))"
      using a by (auto simp: authenticate_def split: prod.splits sum.splits elim: get_current_user_Inr)
    have "(\<exists>e. x = Inl e \<and> http_status e \<in> {403, 404, 422}) \<and> sv_db sv' = sv_db sv \<and> ms = []"
      if d: "demands c (sv_db sv) = Some (g, p)" "\<not> may u g p (sv_db sv)" for g p
      using assms a Inr endpoint_refuses [OF d, of dp rq "sv_schema sv"]
      by (auto simp: serve_def split: if_splits)
    with u a Inr show ?thesis by auto
  qed
qed

text \<open>
  C6. A gateway is confined to its permission holders: whatever requests are made, in any order and
  number, with credentials that belong to no user with a permission on an existing gateway, its row,
  permissions, channels, commands and telemetry stay as they are and nothing is published to it.
\<close>

theorem api_confined:
  assumes "list_all (outsider dp g (sv_db sv)) rqs" "wf_db (sv_db sv)" "fetch gw_id g (gateways (sv_db sv)) = Some gw"
    and "serve_all dp rqs sv = (rs, sv', ms)"
  shows "gateway_part g (sv_db sv') = gateway_part g (sv_db sv) \<and>
    (\<forall>m \<in> set ms. msg_topic m \<noteq> command_topic (gw_serial_number gw))"
  using serve_all_leaves [OF assms] by (simp add: leaves_def)

text \<open>The example server accepts a token whose text is the user's id at the identity provider.\<close>

definition demo_deployment :: deployment where
  "demo_deployment = \<lparr>dp_settings = default_settings\<lparr>kc_verify_signature := False\<rparr>,
     dp_jose = \<lparr>unverified_header = \<lambda>_. None, decode_unverified = \<lambda>t. Some (JObj [(''sub'', JStr t)]),
       decode_verified = \<lambda>_ _ _ _ _. None\<rparr>,
     dp_validator = \<lambda>_ _. True, dp_rank = \<lambda>_. 0, dp_frepr = \<lambda>_. [], dp_version = ''1''\<rparr>"

definition demo_request :: "string \<Rightarrow> api_call \<Rightarrow> request" where
  "demo_request t c = \<lparr>rq_authorization = Some (''Bearer '' @ t), rq_target = Call c,
     rq_web = \<lparr>web_reply = Unreachable, web_now = 0, web_now' = 0\<rparr>, rq_now = 0, rq_id = 90, rq_id' = 91,
     rq_client = True, rq_broker = None, rq_commit = None, rq_schema_file = None, rq_select_1 = Inr 1\<rparr>"

abbreviation demo_server :: server where
  "demo_server \<equiv> \<lparr>sv_db = farm, sv_jwks = None, sv_schema = None\<rparr>"

lemma demo_authenticate:
  "authenticate (dp_settings demo_deployment) (dp_jose demo_deployment) w (Some (''Bearer '' @ ''kc-bob'')) farm cache = (Inr bob, cache)"
  by (simp add: authenticate_def get_token_def decode_jwt_def demo_deployment_def startswith_def removeprefix_def strip_def is_space_def
      token_payload_of_def py_or_def get_current_user_def bind_text_def scalar_one_or_none_def farm_defs text_ok_def)

theorem api_mediated_witness:
  "\<exists>x sv' e. serve demo_deployment (demo_request ''kc-bob'' (DeleteGateway 11)) demo_server = (x, sv', []) \<and>
     x = Inl e \<and> http_status e \<in> {403, 404, 422} \<and> sv_db sv' = farm"
proof -
  obtain x sv' ms where s: "serve demo_deployment (demo_request ''kc-bob'' (DeleteGateway 11)) demo_server = (x, sv', ms)"
    by (metis prod_cases3)
  have n: "\<not> may bob 11 ''admin'' farm" by (simp add: may_def holds_def farm_defs)
  let ?rq = "demo_request ''kc-bob'' (DeleteGateway 11)"
  have c: "rq_target ?rq = Call (DeleteGateway 11)" "rq_authorization ?rq = Some (''Bearer '' @ ''kc-bob'')"
    by (simp_all add: demo_request_def)
  from api_mediated [OF s c(1)] have "(\<exists>e. x = Inl e \<and> http_status e \<in> {403, 404, 422}) \<and> sv_db sv' = farm \<and> ms = []"
    unfolding c(2) by (simp only: demo_authenticate fst_conv sum.case server.simps) (simp add: n)
  with s show ?thesis by blast
qed

theorem api_confined_witness:
  "case serve_all demo_deployment [demo_request ''kc-bob'' (DeleteGateway 11), demo_request ''kc-bob'' (IssueCommand 10 switch_on)] demo_server
   of (rs, sv', ms) \<Rightarrow> gateway_part 11 (sv_db sv') = gateway_part 11 farm \<and> (\<forall>m \<in> set ms. msg_topic m \<noteq> ''gw/GW-2/command/request'')"
proof -
  let ?rqs = "[demo_request ''kc-bob'' (DeleteGateway 11), demo_request ''kc-bob'' (IssueCommand 10 switch_on)]"
  obtain rs sv' ms where s: "serve_all demo_deployment ?rqs demo_server = (rs, sv', ms)"
    by (metis prod_cases3)
  have "\<not> permitted bob 11 farm" by (simp add: permitted_def farm_defs)
  then have o: "list_all (outsider demo_deployment 11 (sv_db demo_server)) ?rqs"
    using demo_authenticate by (simp add: outsider_def demo_request_def)
  have "fetch gw_id 11 (gateways (sv_db demo_server)) = Some spare_gateway" by (simp add: farm_defs)
  from api_confined [OF o _ this s] farm_wf s show ?thesis
    by (simp add: command_topic_def) (simp add: spare_gateway_def)
qed

text \<open>
  C7. The routes do not shadow each other: a method and path fit at most one of them, so the order
  of the routers does not matter, and the line a client sends for a call reaches that call's endpoint.
\<close>

theorem routes_exact:
  assumes "sendable t"
  shows "length (routes_for m path) \<le> 1 \<and>
    (\<exists>r. routes_for (fst (target_line t)) (snd (target_line t)) = [r] \<and> rt_endpoint r = endpoint_name t)"
proof
  show "length (routes_for m path) \<le> 1"
    unfolding routes_for_def by (rule apart_filter [OF app_routes_apart])
  show "\<exists>r. routes_for (fst (target_line t)) (snd (target_line t)) = [r] \<and> rt_endpoint r = endpoint_name t"
  proof (cases t)
    case (Probe p)
    then show ?thesis by (cases p) (simp_all add: routes_for_def route_tables)
  next
    case (Call c)
    then show ?thesis using assms by (cases c) (simp_all add: routes_for_def route_tables uuid_param)
  qed
qed

theorem routes_exact_witness:
  "\<exists>r. routes_for GET [''api'', ''commands'', ''cmd-1''] = [r] \<and> rt_endpoint r = ''get_command''"
  using routes_exact [of "Call (GetCommand ''cmd-1'')" GET "[]"] by simp

text \<open>
  C8. Response models accept every row the endpoints return, and all but sites render: in every state
  the system reaches from a well-formed database with typed columns, an authenticated call ends with
  an answer, with 403, 404, 422, 503 or one of the listed failures of the database, the expiry and
  the schema file, or with the \<open>ValueError\<close> of a number that JSON cannot express. The last happens
  exactly when a listed site has a coordinate that is not finite, and when a site is created with
  one, which stores it nevertheless.
\<close>

theorem responses_typed:
  assumes "reachable (d, fl) (sv_db sv, fl')" "wf_db d" "typed_rows d"
    and "serve dp rq sv = (r, sv', ms)" "rq_target rq = Call c"
    and "fst (authenticate (dp_settings dp) (dp_jose dp) (rq_web rq) (rq_authorization rq) (sv_db sv) (sv_jwks sv)) = Inr u"
  shows "(\<forall>e. r = Inl e \<longrightarrow> e \<in> {HTTPException 403, HTTPException 404, HTTPException 422, HTTPException 503, DBAPIError,
      IntegrityError, MultipleResultsFound, OverflowError, RuntimeError, ValueError}) \<and>
    (r = Inl ValueError \<longleftrightarrow>
      (case c of
         ListSites k \<Rightarrow> \<exists>s \<in> set (sites (sv_db sv)). (k = None \<or> k = Some (st_company_id s)) \<and>
           \<not> (opt_ok finite_float (st_latitude s) \<and> opt_ok finite_float (st_longitude s))
       | CreateSite b \<Rightarrow> length (sites (sv_db sv')) = Suc (length (sites (sv_db sv))) \<and>
           \<not> (opt_ok finite_float (sin_latitude b) \<and> opt_ok finite_float (sin_longitude b))
       | _ \<Rightarrow> False))"
proof -
  obtain cache where a: "authenticate (dp_settings dp) (dp_jose dp) (rq_web rq) (rq_authorization rq) (sv_db sv) (sv_jwks sv) = (Inr u, cache)"
    using assms(6) by (metis prod.collapse)
  have t: "wf_db (sv_db sv)" "typed_rows (sv_db sv)" using reachable_typed [OF assms(1)] assms(2,3) by simp_all
  have no: "ValueError \<notin> api_errors" by (simp add: api_errors_def)
  have listed: "insert ValueError api_errors = {HTTPException 403, HTTPException 404, HTTPException 422, HTTPException 503, DBAPIError,
      IntegrityError, MultipleResultsFound, OverflowError, RuntimeError, ValueError}" by (auto simp: api_errors_def)
  show ?thesis
  proof (cases "body_valid c")
    case False
    then have "r = Inl (HTTPException 422)" "\<nexists>b. c = CreateSite b" "\<nexists>k. c = ListSites k"
      using assms(4,5) a by (auto simp: serve_def body_valid_def)
    then show ?thesis by (cases c) simp_all
  next
    case True
    obtain x d' where e: "endpoint dp rq (sv_schema sv) u c (sv_db sv) = (x, d', ms)"
        and r: "r = render_reply x" "sv_db sv' = d'"
      using assms(4,5) a True by (auto simp: serve_def split: prod.splits)
    show ?thesis
    proof (cases "(\<exists>b. c = CreateSite b) \<or> (\<exists>k. c = ListSites k)")
      case False
      then have "good x" using endpoint_good [OF t True e] by blast
      then have "r = x" "r = Inl e \<Longrightarrow> e \<in> api_errors" for e using r(1) by (cases x; simp)+
      with False no listed show ?thesis by (cases c) auto
    next
      case True
      then show ?thesis
      proof (elim disjE exE)
        fix b assume c: "c = CreateSite b"
        note s = create_site_rendered [OF e [unfolded c], folded r(1)]
        have "fst (create_site (rq_id rq) (rq_now rq) b u (sv_db sv)) = Inl e \<Longrightarrow> e \<in> api_errors" for e
          by (rule call_errors(2))
        moreover have "is_ok (fst (create_site (rq_id rq) (rq_now rq) b u (sv_db sv))) \<longleftrightarrow> length (sites d') = Suc (length (sites (sv_db sv)))"
          using create_site_stored [OF e [unfolded c]] .
        ultimately show ?thesis unfolding c s r(2) listed [symmetric] using no by (auto simp: site_finite_def)
      next
        fix k assume c: "c = ListSites k"
        then have "x = Inr (SitesReply (map to_site_out (list_sites k (sv_db sv))))" using e by auto
        then have "r = Inl e \<longleftrightarrow> e = ValueError \<and> \<not> renderable (SitesReply (map to_site_out (list_sites k (sv_db sv))))" for e
          using r(1) by (auto simp: render_Inl)
        then show ?thesis unfolding c list_sites_rendered set_list_sites by (cases k) auto
      qed
    qed
  qed
qed

theorem responses_typed_witness:
  "\<exists>sv' ms. serve demo_deployment (demo_request ''kc-bob'' (ListSites None))
      (demo_server\<lparr>sv_db := farm\<lparr>sites := [\<lparr>st_id = 6, st_company_id = 5, st_name = ''Site'', st_address = None,
         st_latitude = Some NaN, st_longitude = None, st_created_at = 0\<rparr>]\<rparr>\<rparr>) = (Inl ValueError, sv', ms)"
proof -
  let ?s = "\<lparr>st_id = 6, st_company_id = 5, st_name = ''Site'', st_address = None, st_latitude = Some NaN, st_longitude = None, st_created_at = 0\<rparr>"
  let ?d = "farm\<lparr>sites := [?s]\<rparr>"
  let ?sv = "demo_server\<lparr>sv_db := ?d\<rparr>" and ?rq = "demo_request ''kc-bob'' (ListSites None)"
  obtain r sv' ms where s: "serve demo_deployment ?rq ?sv = (r, sv', ms)" by (metis prod_cases3)
  have w: "wf_db ?d" by (simp add: wf_db_def keys_ok_def refs_ok_def formats_ok_def farm_defs ref_ok_def opt_ok_def serial_check_def
      slug_pattern_def slug_char_def perm_key_def sc_wire_def ac_wire_def)
  have r: "reachable (?d, []) (sv_db ?sv, [])" by (simp add: reachable_def)
  have t: "typed_rows ?d" by (simp add: typed_rows_def farm_defs stored_object_def opt_ok_def)
  have c: "rq_target ?rq = Call (ListSites None)" "rq_authorization ?rq = Some (''Bearer '' @ ''kc-bob'')"
    by (simp_all add: demo_request_def)
  have a: "fst (authenticate (dp_settings demo_deployment) (dp_jose demo_deployment) (rq_web ?rq) (rq_authorization ?rq)
      (sv_db ?sv) (sv_jwks ?sv)) = Inr bob"
    unfolding c(2) by (simp add: authenticate_def get_token_def decode_jwt_def demo_deployment_def startswith_def removeprefix_def strip_def is_space_def
      token_payload_of_def py_or_def get_current_user_def bind_text_def scalar_one_or_none_def farm_defs text_ok_def)
  from responses_typed [OF r w t s c(1) a] s show ?thesis by (simp add: opt_ok_def)
qed

text \<open>
  C9. Registering a gateway makes it readable and its creator its administrator: every permission
  check of the creator on it succeeds, provided nobody holds a left-over permission on its id.
\<close>

theorem register_then_control:
  assumes "wf_db d" "register_gateway i k now b u d = (Inr gw, d')" "\<forall>q \<in> set (permissions d). pm_gateway_id q \<noteq> i"
  shows "check_perm u i required d' = Inr gw \<and> gw_serial_number gw = gin_serial_number b \<and> gw_status gw = ''offline''"
proof -
  have gw: "gw = new_gateway i now b" and ins: "\<exists>d1. insert_gateway gw d = Inr d1 \<and> insert_permission
      \<lparr>pm_id = k, pm_user_id = us_id u, pm_gateway_id = i, pm_permission = ''admin'', pm_created_at = now\<rparr> d1 = Inr d'"
    using assms(2) by (auto simp: register_gateway_def Let_def in_session_def split: sum.splits if_splits)
  then have d': "gateways d' = gateways d @ [gw]" "i \<notin> gw_id ` set (gateways d)" "permissions d' = permissions d @
      [\<lparr>pm_id = k, pm_user_id = us_id u, pm_gateway_id = i, pm_permission = ''admin'', pm_created_at = now\<rparr>]"
    by (auto simp: insert_gateway_def insert_permission_def new_gateway_def)
  have w: "wf_db d'" by (rule register_gateway_wf [OF assms(1,2)])
  have h: "holds u i q d' \<longleftrightarrow> q = ''admin''" for q
    using assms(3) by (auto simp: holds_def d'(3) list_ex_iff)
  have "fetch gw_id i (gateways d') = Some gw"
    using d'(1,2) by (simp add: fetch_append gw new_gateway_def fetch_None_iff [symmetric])
  moreover have "unique_key perm_key (permissions d')" using w by (simp add: wf_db_def keys_ok_def)
  ultimately show ?thesis by (simp add: check_perm_cases h) (simp add: gw new_gateway_def)
qed

theorem register_then_control_witness:
  "check_perm bob 12 ''configure'' (snd (register_gateway 12 50 3 \<lparr>gin_serial_number = ''GW-3'', gin_name = ''N'',
       gin_company_id = 5, gin_site_id = None, gin_gateway_profile_id = None\<rparr> bob farm)) =
   Inr (new_gateway 12 3 \<lparr>gin_serial_number = ''GW-3'', gin_name = ''N'', gin_company_id = 5, gin_site_id = None,
       gin_gateway_profile_id = None\<rparr>)"
proof -
  let ?b = "\<lparr>gin_serial_number = ''GW-3'', gin_name = ''N'', gin_company_id = 5, gin_site_id = None, gin_gateway_profile_id = None\<rparr>"
  obtain d' where d: "register_gateway 12 50 3 ?b bob farm = (Inr (new_gateway 12 3 ?b), d')"
    by (simp add: register_gateway_def Let_def gateway_in_valid_def slug_str_def slug_pattern_def slug_char_def new_gateway_def
        insert_gateway_def gateway_types_def gateway_refs_def serial_check_def insert_permission_def perm_key_def
        text_ok_def varchar_ok_def opt_ok_def int4_ok_def ref_ok_def flush_def farm_defs)
  have "\<forall>q \<in> set (permissions farm). pm_gateway_id q \<noteq> 12" by (simp add: farm_defs)
  from register_then_control [OF farm_wf d this] d show ?thesis by simp
qed

section \<open>Commands\<close>

text \<open>
  C10. A command request that succeeds was allowed, names an actuator of its gateway, is stored as
  \<open>published\<close> under a fresh id, and one message went out: on a topic that parses back to the
  gateway's serial and \<open>command/request\<close>.
\<close>

theorem issue_command_success:
  assumes "issue_command w now r b g u d = (Inr c, d', ms)" "wf_db d"
  shows "(holds u g ''control'' d \<or> holds u g ''admin'' d) \<and>
    (\<exists>gw a m. fetch gw_id g (gateways d) = Some gw \<and>
       fetch ac_id (cmin_actuator_channel_id b) (actuator_channels d) = Some a \<and> ac_gateway_id a = g \<and>
       ms = [m] \<and> match_topic (msg_topic m) = Some (gw_serial_number gw, ''command/request'') \<and> msg_qos m = 1) \<and>
    fetch cm_id (cm_id c) (commands d) = None \<and> fetch cm_id (cm_id c) (commands d') = Some c \<and>
    cm_status c = ''published'' \<and> cm_gateway_id c = g \<and> cm_issued_by c = Some (us_id u)"
proof -
  obtain gw a c0 d1 where i: "issue_begin (w_settings w) now r b g u d = (Inr (gw, a, c0), d1)"
    using assms(1) by (cases "issue_begin (w_settings w) now r b g u d")
      (auto simp: issue_command_def split: sum.splits prod.splits)
  note k = issue_begin_Inr [OF i]
  have n: "cm_id c0 \<notin> cm_id ` set (commands d)" using insert_command_Inr(2) [OF k(5)] .
  have st: "c = c0\<lparr>cm_status := ''published''\<rparr>" "commands d' = commands d @ [c]"
    "\<exists>m. ms = [m] \<and> msg_topic m = command_topic (gw_serial_number gw) \<and> msg_qos m = 1"
    using assms(1) unfolding issue_command_stored [OF i] by (auto split: if_splits)
  have "gw \<in> set (gateways d)" using k(1) by (rule fetch_Some_mem)
  then have "serial_check (gw_serial_number gw)"
    using assms(2) by (auto simp: wf_db_def formats_ok_def list_all_iff)
  from command_topic_safe(3) [OF this]
  have m: "\<exists>m. ms = [m] \<and> match_topic (msg_topic m) = Some (gw_serial_number gw, ''command/request'') \<and> msg_qos m = 1"
    using st(3) by auto
  have "holds u g ''control'' d \<or> holds u g ''admin'' d" using issue.success_authorized [OF i] by blast
  moreover have "fetch cm_id (cm_id c) (commands d) = None" using n st(1) by (simp add: fetch_None_iff)
  moreover from this have "fetch cm_id (cm_id c) (commands d') = Some c" by (simp add: st(2) fetch_append)
  moreover have "cm_gateway_id c = g" "cm_issued_by c = Some (us_id u)" "cm_status c = ''published''"
    using new_command_Inr [OF k(4)] st(1) by simp_all
  ultimately show ?thesis using k(1-3) m by blast
qed

text \<open>The example request: its stored command and the outcome.\<close>

definition switched :: command where
  "switched = \<lparr>cm_id = command_id 0 0, cm_gateway_id = 10, cm_actuator_channel_id = Some 30, cm_action = ''ON'',
     cm_issued_by = Some 2, cm_issued_at = 0, cm_expires_at = 5000000, cm_timeout_ms = 3000, cm_require_ack = True,
     cm_reason = None, cm_status = ''pending'', cm_response = None, cm_completed_at = None\<rparr>"

lemma farm_begins:
  "issue_begin default_settings 0 0 switch_on 10 bob farm = (Inr (farm_gateway, vent, switched), farm\<lparr>commands := [old_command, switched]\<rparr>)"
proof -
  have n: "command_id 0 0 \<noteq> ''cmd-1''" "CHR 0x00 \<notin> set (command_id 0 0)"
    using command_id_text [of 0 0] by (auto simp: text_ok_def dest: arg_cong [of _ _ length])
  have "check_perm bob 10 ''control'' farm = Inr farm_gateway"
    by (simp add: check_perm_def grants_def scalar_one_or_none_def farm_defs)
  then show ?thesis
    using n by (simp add: issue_begin_def new_command_def expiry_def switch_on_def insert_command_def command_types_def
        representable_def day_us_def int4_ok_def varchar_ok_def text_ok_def opt_ok_def ref_ok_def flush_def switched_def farm_defs)
qed

lemma farm_issued:
  "\<exists>m. issue_command good_world 0 0 switch_on 10 bob farm =
     (Inr (switched\<lparr>cm_status := ''published''\<rparr>), farm\<lparr>commands := [old_command, switched\<lparr>cm_status := ''published''\<rparr>]\<rparr>, [m])"
proof -
  have b: "issue_begin (w_settings good_world) 0 0 switch_on 10 bob farm =
      (Inr (farm_gateway, vent, switched), farm\<lparr>commands := [old_command, switched]\<rparr>)"
    using farm_begins by (simp add: good_world_def)
  have "commands farm = [old_command]" by (simp add: farm_def)
  then show ?thesis unfolding issue_command_stored [OF b] by (simp add: good_world_def)
qed

theorem issue_command_success_witness:
  "\<exists>c d' m. issue_command good_world 0 0 switch_on 10 bob farm = (Inr c, d', [m]) \<and>
     match_topic (msg_topic m) = Some (''GW-1'', ''command/request'')"
proof -
  obtain m where i: "issue_command good_world 0 0 switch_on 10 bob farm =
    (Inr (switched\<lparr>cm_status := ''published''\<rparr>), farm\<lparr>commands := [old_command, switched\<lparr>cm_status := ''published''\<rparr>]\<rparr>, [m])"
    using farm_issued by blast
  have "fetch gw_id 10 (gateways farm) = Some farm_gateway" "gw_serial_number farm_gateway = ''GW-1''"
    by (simp_all add: farm_defs)
  with issue_command_success [OF i farm_wf] i show ?thesis by auto
qed

text \<open>
  C11. A command request that fails leaves nothing behind and sends nothing, or it answers 503 and
  leaves its command stored as \<open>pending\<close>, with the message sent only when the second commit was
  what failed.
\<close>

theorem issue_command_failure:
  assumes "issue_command w now r b g u d = (Inl e, d', ms)"
  shows "(d' = d \<and> ms = []) \<or>
    (e = HTTP_503 \<and> (\<exists>c. d' = d\<lparr>commands := commands d @ [c]\<rparr> \<and> cm_status c = ''pending'' \<and> cm_id c = command_id now r) \<and>
     (ms \<noteq> [] \<longrightarrow> w_commit w \<noteq> None))"
proof (cases "issue_begin (w_settings w) now r b g u d")
  case (Pair x d1)
  show ?thesis
  proof (cases x)
    case (Inl e')
    from issue_command_refused [OF Pair [unfolded Inl]] assms show ?thesis by simp
  next
    case (Inr st)
    obtain gw a c where st: "st = (gw, a, c)" by (cases st)
    have b: "issue_begin (w_settings w) now r b g u d = (Inr (gw, a, c), d1)" using Pair Inr st by simp
    have "cm_status c = ''pending''" "cm_id c = command_id now r"
      using new_command_Inr [OF issue_begin_Inr(4) [OF b]] by simp_all
    with assms show ?thesis unfolding issue_command_stored [OF b] by (auto split: if_splits)
  qed
qed

theorem issue_command_failure_witness:
  "\<exists>d'. issue_command (good_world\<lparr>w_client := False\<rparr>) 0 0 switch_on 10 bob farm = (Inl HTTP_503, d', []) \<and>
     (\<exists>c. d' = farm\<lparr>commands := commands farm @ [c]\<rparr> \<and> cm_status c = ''pending'')"
proof -
  have b: "issue_begin (w_settings (good_world\<lparr>w_client := False\<rparr>)) 0 0 switch_on 10 bob farm =
      (Inr (farm_gateway, vent, switched), farm\<lparr>commands := [old_command, switched]\<rparr>)"
    using farm_begins by (simp add: good_world_def)
  have c: "commands farm = [old_command]" by (simp add: farm_def)
  have i: "issue_command (good_world\<lparr>w_client := False\<rparr>) 0 0 switch_on 10 bob farm =
      (Inl HTTP_503, farm\<lparr>commands := [old_command, switched]\<rparr>, [])"
    unfolding issue_command_stored [OF b] by (simp add: c)
  have "commands (farm\<lparr>commands := [old_command, switched]\<rparr>) \<noteq> commands farm" by (simp add: c)
  then have "farm\<lparr>commands := [old_command, switched]\<rparr> \<noteq> farm" by metis
  with issue_command_failure [OF i] i show ?thesis by blast
qed

text \<open>
  C12. The answer a command can lose: when the gateway's response is stored before the API's second
  commit, that commit resets the status to \<open>published\<close>, and the next timeout job after the expiry
  marks the executed command \<open>timeout\<close>, its response still recorded.
\<close>

theorem answered_command_times_out:
  assumes "issue_begin (w_settings w) now r b g u d = (Inr (gw, a, c), d1)"
    and "w_client w" "w_broker w = None" "w_commit w = None"
    and "save_command (answered body st ts c) d1 = Inr d2" "cm_expires_at c < later"
  shows "\<exists>x d3 ms d4. issue_finish w b u (gw, a, c) d2 = (Inr x, d3, ms) \<and> command_timeout_run later d3 = Inr d4 \<and>
    (\<exists>c'. fetch cm_id (cm_id c) (commands d4) = Some c' \<and> cm_status c' = ''timeout'' \<and> cm_response c' = Some body)"
  using answer_then_published_then_timeout [OF assms] by (fastforce simp: timed_out_def answered_def)

theorem answered_command_times_out_witness:
  "\<exists>d2 x d3 ms d4 c'. save_command (answered (JObj []) ''executed'' 1 switched) (farm\<lparr>commands := [old_command, switched]\<rparr>) = Inr d2 \<and>
     issue_finish good_world switch_on bob (farm_gateway, vent, switched) d2 = (Inr x, d3, ms) \<and>
     command_timeout_run 6000000 d3 = Inr d4 \<and>
     fetch cm_id (cm_id switched) (commands d4) = Some c' \<and> cm_status c' = ''timeout'' \<and> cm_response c' = Some (JObj [])"
proof -
  have b: "issue_begin (w_settings good_world) 0 0 switch_on 10 bob farm =
      (Inr (farm_gateway, vent, switched), farm\<lparr>commands := [old_command, switched]\<rparr>)"
    using farm_begins by (simp add: good_world_def)
  have "CHR 0x00 \<notin> set (command_id 0 0)" using command_id_text(1) [of 0 0] by (simp add: text_ok_def)
  then obtain d2 where s: "save_command (answered (JObj []) ''executed'' 1 switched) (farm\<lparr>commands := [old_command, switched]\<rparr>) = Inr d2"
    by (simp add: save_command_def command_types_def answered_def switched_def representable_def day_us_def int4_ok_def
        varchar_ok_def text_ok_def opt_ok_def flush_def)
  have "cm_expires_at switched < 6000000" by (simp add: switched_def)
  from answered_command_times_out [OF b _ _ _ s this] s show ?thesis by (simp add: good_world_def)
qed

text \<open>
  C13. The timeout job is exact: a command becomes \<open>timeout\<close>, completed now, when it is pending or
  published and past its expiry; every other command and every other table stays; a second run at
  the same time changes nothing.
\<close>

theorem command_timeout_exact:
  "\<exists>d'. command_timeout_run now d = Inr d' \<and>
    (\<forall>k. fetch cm_id k (commands d') =
       map_option (\<lambda>c. if cm_status c \<in> {''pending'', ''published''} \<and> cm_expires_at c < now
          then c\<lparr>cm_status := ''timeout'', cm_completed_at := Some now\<rparr> else c) (fetch cm_id k (commands d))) \<and>
    d' = d\<lparr>commands := commands d'\<rparr> \<and> command_timeout_run now d' = Inr d'"
proof -
  define d' where "d' = d\<lparr>commands := update_where (overdue now) (timed_out now) (commands d)\<rparr>"
  have r: "command_timeout_run now d = Inr d'" by (simp add: command_timeout_run_def d'_def)
  have "overdue now (timed_out now c) = False" for c by (simp add: overdue_def)
  then have "update_where (overdue now) (timed_out now) (commands d') = commands d'"
    by (simp add: d'_def update_where_def)
  then have "command_timeout_run now d' = Inr d'" by (simp add: command_timeout_run_def)
  moreover have "(\<lambda>c. if overdue now c then timed_out now c else c) =
      (\<lambda>c. if cm_status c \<in> {''pending'', ''published''} \<and> cm_expires_at c < now
          then c\<lparr>cm_status := ''timeout'', cm_completed_at := Some now\<rparr> else c)"
    by (auto simp: fun_eq_iff overdue_def timed_out_def)
  moreover have "d' = d\<lparr>commands := commands d'\<rparr>" by (simp add: d'_def)
  ultimately show ?thesis using r fetch_command_timeout [OF r] by metis
qed

text \<open>
  C14. No command stays open: whatever has happened since a command was stored, a run of the timeout
  job after its expiry leaves it neither \<open>pending\<close> nor \<open>published\<close>, and from then on, under any
  interleaving of requests, messages and jobs, it is open again only after one of two steps: the late
  second commit of its own request, one that was already under way when the job ran, or a response of
  its own gateway that itself says \<open>pending\<close> or \<open>published\<close>. The next run of the job closes it again,
  since no step moves its expiry.
\<close>

theorem command_never_stuck:
  assumes "reachable (d0, fl0) (d, fl)" "fetch cm_id k (commands d0) = Some c" "cm_expires_at c < now"
  defines "d1 \<equiv> tick_once command_timeout_run now d"
  shows "command_closed k d1 \<and>
    (\<forall>d2 fl2. reachable (d1, fl) (d2, fl2) \<longrightarrow>
       (\<forall>later. cm_expires_at c < later \<longrightarrow> command_closed k (tick_once command_timeout_run later d2)) \<and>
       (\<not> command_closed k d2 \<longrightarrow>
          (\<exists>t t'. reachable (d1, fl) t \<and> step t t' \<and> reachable t' (d2, fl2) \<and> command_closed k (fst t) \<and> \<not> command_closed k (fst t') \<and>
             (late_finish k t t' \<and> (\<exists>b u gw a cmd. (b, u, gw, a, cmd) \<in> set fl \<and> cm_id cmd = k) \<or> open_answer k t t'))))"
proof -
  note closes = tick_timeout_closes
  have keep: "keeps_requests d0 d" using reachable_keeps [OF assms(1)] by simp
  note one = closes [OF keep assms(2,3), folded d1_def]
  obtain c1 where c1: "fetch cm_id k (commands d1) = Some c1" using command_closed_stored [OF one(1)] by blast
  have "command_closed k (tick_once command_timeout_run later d2)"
    if "reachable (d1, fl) (d2, fl2)" "cm_expires_at c < later" for d2 fl2 later
    using closes [OF keeps_trans [OF one(2)] assms(2) that(2)] reachable_keeps [OF that(1)] by simp
  moreover have "\<exists>t t'. reachable (d1, fl) t \<and> step t t' \<and> reachable t' (d2, fl2) \<and> command_closed k (fst t) \<and> \<not> command_closed k (fst t') \<and>
      (late_finish k t t' \<and> (\<exists>b u gw a cmd. (b, u, gw, a, cmd) \<in> set fl \<and> cm_id cmd = k) \<or> open_answer k t t')"
    if r: "reachable (d1, fl) (d2, fl2)" and o: "\<not> command_closed k d2" for d2 fl2
  proof -
    obtain t t' where t: "reachable (d1, fl) t" "step t t'" "reachable t' (d2, fl2)" "command_closed k (fst t)" "\<not> command_closed k (fst t')"
      "late_finish k t t' \<or> open_answer k t t'"
      using reachable_opens [OF r, of k] one(1) o by auto
    moreover have "\<exists>b u gw a cmd. (b, u, gw, a, cmd) \<in> set fl \<and> cm_id cmd = k" if "late_finish k t t'"
      using that reachable_requests [OF t(1), of k c1] c1 by (fastforce simp: late_finish_def)
    ultimately show ?thesis by blast
  qed
  ultimately show ?thesis using one(1) by blast
qed

theorem command_never_stuck_witness:
  "\<exists>t t'. step t t' \<and> command_closed ''cmd-1'' (fst t) \<and> open_answer ''cmd-1'' t t'"
proof -
  let ?body = "JObj [(''command_id'', JStr ''cmd-1''), (''status'', JStr ''published''), (''executed_at'', JNull)]"
  let ?d1 = "tick_once command_timeout_run 6000000 farm"
  have r: "reachable (farm, []) (farm, [])" by (simp add: reachable_def)
  have c: "fetch cm_id ''cmd-1'' (commands farm) = Some old_command" "cm_expires_at old_command < 6000000"
    by (simp_all add: farm_defs)
  have d1: "?d1 = farm\<lparr>commands := [timed_out 6000000 old_command]\<rparr>"
    by (simp add: tick_once_def command_timeout_run_def update_where_def overdue_def farm_defs)
  obtain d2 c' where m: "dispatch (\<lambda>_. Inr ?body) (\<lambda>_. 0) 7000000 ''gw/GW-1/command/response'' [] ?d1 empty_cache = (Inr d2, c')"
    "fetch cm_id ''cmd-1'' (commands d2) = Some (answered ?body ''published'' 7000000 (timed_out 6000000 old_command))"
    unfolding d1
    by (simp add: send_simps farm_topics scalar_one_or_none_def handle_def kind_of_def command_response_handle_def
        get_command_row_def pk_ident_def parse_iso8601_def utcnow_def bind_text_def varchar_ok_def save_command_def
        command_types_def answered_def timed_out_def opt_ok_def representable_def day_us_def int4_ok_def farm_defs)
  have "step (?d1, []) (d2, [])" by (rule step.message [OF m(1)])
  then have "reachable (?d1, []) (d2, [])" by (simp add: reachable_def)
  moreover have "\<not> command_closed ''cmd-1'' d2" by (simp add: command_closed_def m(2) answered_def)
  ultimately have "\<exists>t t'. reachable (?d1, []) t \<and> step t t' \<and> reachable t' (d2, []) \<and> command_closed ''cmd-1'' (fst t) \<and> \<not> command_closed ''cmd-1'' (fst t') \<and>
      (late_finish ''cmd-1'' t t' \<and> (\<exists>b u gw a cmd. (b, u, gw, a, cmd) \<in> set ([] :: pending_request list) \<and> cm_id cmd = ''cmd-1'') \<or> open_answer ''cmd-1'' t t')"
    using command_never_stuck [OF r c] by blast
  then show ?thesis unfolding list.set empty_iff by blast
qed

section \<open>The worker\<close>

text \<open>
  C15. A reading a gateway sends is stored and visible, as long as the worker's cache does not
  contradict the database: with every entry for the serial and for the channel absent, expired or
  right, so with a cold cache and with one that learnt of them after their registration, one valid
  value for a known channel adds exactly its row to the log, puts the gateway online as of its
  timestamp, and every user the view check admits then reads a latest value at least as new; if it is
  the newest of its key, that value itself.
\<close>

definition reading_of :: "string \<Rightarrow> string \<Rightarrow> pyfloat \<Rightarrow> instant \<Rightarrow> json" where
  "reading_of slug key x t =
     JObj [(''timestamp'', JStr (isoformat t)),
       (''values'', JArr [JObj [(''sensor_channel_id'', JStr slug), (''measurement_key'', JStr key), (''value'', JFloat x)]])]"

theorem telemetry_visible:
  assumes wf: "wf_db d"
    and gw: "fetch gw_serial_number serial (gateways d) = Some gw" "gateway_types gw"
    and ch: "fetch sc_wire (gw_id gw, slug) (sensor_channels d) = Some ch"
    and key: "key \<noteq> []" "varchar_ok 64 key" and x: "x = Fin s m e" and t: "representable t"
    and loads: "loads payload = Inr (reading_of slug key x t)"
    and clk: "mono clk"
    and cache: "\<forall>v e. wc_gateways c serial = Some (v, e) \<longrightarrow> v = Some (gw_id gw) \<or> e < clk (wc_reads c)"
      "\<forall>v e. wc_sensors c (gw_id gw, slug) = Some (v, e) \<longrightarrow> v = Some (sc_id ch) \<or> e < clk (wc_reads c)"
  shows "\<exists>d' c' raw r. dispatch loads clk now (''gw/'' @ serial @ ''/telemetry'') payload d c = (Inr d', c') \<and>
    telemetry d' = telemetry d @ [telemetry_row_of gw (sc_id ch) key t (Some x) None (Some ''good'') raw] \<and>
    fetch gw_id (gw_id gw) (gateways d') = Some (seen_online t gw) \<and>
    latest_key r = (gw_id gw, sc_id ch, key) \<and> t \<le> tl_ts r \<and>
    ((\<forall>q \<in> set (telemetry_latest d). latest_key q = latest_key r \<longrightarrow> tl_ts q < t) \<longrightarrow> tl_ts r = t \<and> tl_value_double r = Some x) \<and>
    (\<forall>u rank. check_perm u (gw_id gw) ''view'' d = Inr gw \<longrightarrow>
       (\<exists>rs. get_latest rank (gw_id gw) u d' = (Inr rs, d') \<and> r \<in> set rs))"
proof -
  let ?raw = "JObj [(''sensor_channel_id'', JStr slug), (''measurement_key'', JStr key), (''value'', JFloat x)]"
  let ?row = "telemetry_row_of gw (sc_id ch) key t (Some x) None (Some ''good'') ?raw"
  have u: "unique_key gw_serial_number (gateways d)" "unique_key gw_id (gateways d)" "unique_key sc_wire (sensor_channels d)"
    using wf by (simp_all add: wf_db_def keys_ok_def)
  have mem: "gw \<in> set (gateways d)" "ch \<in> set (sensor_channels d)" using gw(1) ch by (simp_all add: fetch_Some_mem)
  have serial: "gw_serial_number gw = serial" "sc_slug ch = slug" "sc_gateway_id ch = gw_id gw"
    using fetch_Some_key [OF gw(1)] fetch_Some_key [OF ch] by (simp_all add: sc_wire_def)
  then have sl: "serial_check serial" "serial_check slug"
    using wf mem by (auto simp: wf_db_def formats_ok_def list_all_iff)
  then have ok: "text_ok serial" "text_ok slug" "slug \<noteq> []" "slug_pattern serial"
    using slug_text_ok by (auto simp: slug_str_serial_check serial_check_def slug_pattern_def)
  have refs: "gateway_refs gw d" using wf mem(1) by (auto simp: wf_db_def refs_ok_def list_all_iff gateway_refs_def)
  have topic: "match_topic (''gw/'' @ serial @ ''/telemetry'') = Some (serial, ''telemetry'')"
    using match_topic_round_trip [OF ok(4), of "''telemetry''"] by (simp add: kind_char_def)
  have g: "fetch gw_id (gw_id gw) (gateways d) = Some gw" by (rule fetch_unique [OF u(2) mem(1)])
  have sg: "select_gateway d serial = Inr (Some (gw_id gw))"
    using unique_key_filter_one [OF u(1), of serial] gw(1) ok(1) by (simp add: select_gateway_def scalar_one_or_none_def)
  have ss: "select_sensor d (gw_id gw, slug) = Inr (Some (sc_id ch))"
    using unique_key_filter_one [OF u(3), of "(gw_id gw, slug)"] ch ok(2) by (simp add: select_sensor_def scalar_one_or_none_def)
  obtain latest r where sv: "store_value gw t (sc_id ch) ?raw d =
      Inr (d\<lparr>telemetry := telemetry d @ [?row], telemetry_latest := latest\<rparr>)"
    and r: "fetch latest_key (gw_id gw, sc_id ch, key) latest = Some r" and newer: "t \<le> tl_ts r"
      "(\<forall>q \<in> set (telemetry_latest d). latest_key q = (gw_id gw, sc_id ch, key) \<longrightarrow> tl_ts q < t) \<longrightarrow>
       tl_ts r = t \<and> tl_value_double r = Some x"
    using store_reading [OF key x t ok(2), of gw "sc_id ch" d] by blast
  define d2 where "d2 = d\<lparr>telemetry := telemetry d @ [?row], telemetry_latest := latest\<rparr>"
  define d3 where "d3 = d2\<lparr>gateways := modify gw_id (gw_id gw) (\<lambda>_. seen_online t gw) (gateways d2)\<rparr>"
  have d2': "gateways d2 = gateways d" "companies d2 = companies d" "sites d2 = sites d" "gateway_profiles d2 = gateway_profiles d"
    "telemetry d2 = telemetry d @ [?row]" "permissions d2 = permissions d"
    by (simp_all add: d2_def)
  have save: "save_gateway (seen_online t gw) d2 = Inr d3"
    using gw(2) refs t d2' by (simp add: save_gateway_def d3_def gateway_types_def gateway_refs_def seen_online_def opt_ok_def varchar_ok_def text_ok_def)
  have ts: "parse_iso8601 now (JStr (isoformat t)) = Inr t" for now by (rule parse_iso8601_isoformat_aux(1) [OF t])
  obtain c1 where c1: "gateway_uuid_by_serial clk d serial c = (Inr (Some (gw_id gw)), c1)"
    using gateway_lookup.lookup_agrees [OF sg] cache(1) by metis
  have "wc_sensors c1 = wc_sensors c" "clk (wc_reads c) \<le> clk (wc_reads c1)"
    using gateway_lookup_sensors [OF c1] gateway_lookup.lookup_reads [OF c1] clk by (auto dest: monoD)
  then have "v = Some (sc_id ch) \<or> e < clk (wc_reads c1)" if "wc_sensors c1 (gw_id gw, slug) = Some (v, e)" for v e
    using cache(2) that by fastforce
  then obtain c2 where c2: "sensor_channel_uuid_by_slug clk d (gw_id gw, slug) c1 = (Inr (Some (sc_id ch)), c2)"
    using sensor_lookup.lookup_agrees [OF ss] by metis
  have disp: "\<exists>c'. dispatch loads clk now (''gw/'' @ serial @ ''/telemetry'') payload d c = (Inr d3, c')"
    using ok(3) topic by (simp add: dispatch_def c1 loads handle_def kind_of_def
        telemetry_handle_def reading_of_def py_or_def ts g telemetry_value_def c2 sv [folded d2_def] save)
  have rk: "latest_key r = (gw_id gw, sc_id ch, key)" "r \<in> set (telemetry_latest d3)"
    using fetch_Some_key [OF r] fetch_Some_mem [OF r] by (simp_all add: d3_def d2_def)
  have g3: "fetch gw_id (gw_id gw) (gateways d3) = Some (seen_online t gw)" using g by (simp add: d3_def d2' fetch_modify_const)
  have "\<exists>rs. get_latest rank (gw_id gw) u d3 = (Inr rs, d3) \<and> r \<in> set rs"
    if "check_perm u (gw_id gw) ''view'' d = Inr gw" for u rank
  proof -
    have "permissions d3 = permissions d" by (simp add: d3_def d2')
    then have "check_perm u (gw_id gw) ''view'' d3 = Inr (seen_online t gw)"
      using that g3 by (auto simp: check_perm_def g split: sum.splits option.splits)
    moreover have "tl_gateway_id r = gw_id gw" using rk(1) by (simp add: latest_key_def)
    ultimately show ?thesis using rk(2) by (simp add: get_latest_def)
  qed
  moreover have "telemetry d3 = telemetry d @ [?row]" by (simp add: d3_def d2')
  ultimately show ?thesis using disp g3 rk(1) newer by metis
qed

theorem telemetry_visible_witness:
  "\<exists>d' c' raw r. dispatch (\<lambda>_. Inr (reading_of ''env-1'' ''ammonia'' (Fin False 18 0) 9)) (\<lambda>_. 5) 7 ''gw/GW-1/telemetry'' [] farm
      (empty_cache\<lparr>wc_gateways := [''GW-1'' \<mapsto> (None, 4)], wc_sensors := [(10, ''env-1'') \<mapsto> (Some 20, 6)]\<rparr>) = (Inr d', c') \<and>
     telemetry d' = [telemetry_row_of farm_gateway 20 ''ammonia'' 9 (Some (Fin False 18 0)) None (Some ''good'') raw] \<and>
     (\<exists>rs. get_latest (\<lambda>_. 0) 10 ada d' = (Inr rs, d') \<and> r \<in> set rs \<and> tl_value_double r = Some (Fin False 18 0))"
proof -
  let ?c = "empty_cache\<lparr>wc_gateways := [''GW-1'' \<mapsto> (None, 4)], wc_sensors := [(10, ''env-1'') \<mapsto> (Some 20, 6)]\<rparr>"
  have i: "gw_id farm_gateway = 10" "sc_id env_sensor = 20" by (simp_all add: farm_defs)
  have p: "check_perm ada 10 ''view'' farm = Inr farm_gateway"
    by (simp add: check_perm_def grants_def scalar_one_or_none_def farm_defs)
  have e: "telemetry farm = []" "telemetry_latest farm = []" by (simp_all add: farm_defs)
  have gw: "fetch gw_serial_number ''GW-1'' (gateways farm) = Some farm_gateway" "gateway_types farm_gateway"
    by (simp_all add: farm_defs gateway_types_def text_ok_def varchar_ok_def opt_ok_def int4_ok_def representable_def day_us_def)
  have ch: "fetch sc_wire (gw_id farm_gateway, ''env-1'') (sensor_channels farm) = Some env_sensor"
    by (simp add: farm_defs sc_wire_def)
  have k: "''ammonia'' \<noteq> []" "varchar_ok 64 ''ammonia''" "representable 9"
    by (simp_all add: varchar_ok_def text_ok_def representable_def day_us_def)
  have m: "mono (\<lambda>_. 5 :: int)" by (simp add: mono_def)
  have c: "\<forall>v e. wc_gateways ?c ''GW-1'' = Some (v, e) \<longrightarrow> v = Some (gw_id farm_gateway) \<or> e < (5 :: int)"
    "\<forall>v e. wc_sensors ?c (gw_id farm_gateway, ''env-1'') = Some (v, e) \<longrightarrow> v = Some (sc_id env_sensor) \<or> e < (5 :: int)"
    by (simp_all add: i)
  note t = telemetry_visible [OF farm_wf gw ch k(1,2) refl k(3), where loads = "\<lambda>_. Inr (reading_of ''env-1'' ''ammonia'' (Fin False 18 0) 9)"
      and payload = "[]" and now = 7, where c = ?c, OF refl m c, unfolded i e]
  from t obtain d' c' raw r where d: "dispatch (\<lambda>_. Inr (reading_of ''env-1'' ''ammonia'' (Fin False 18 0) 9)) (\<lambda>_. 5) 7 (''gw/'' @ ''GW-1'' @ ''/telemetry'') [] farm
      (empty_cache\<lparr>wc_gateways := [''GW-1'' \<mapsto> (None, 4)], wc_sensors := [(10, ''env-1'') \<mapsto> (Some 20, 6)]\<rparr>) = (Inr d', c')"
    and r: "telemetry d' = [] @ [telemetry_row_of farm_gateway 20 ''ammonia'' 9 (Some (Fin False 18 0)) None (Some ''good'') raw]"
      "(\<forall>q \<in> set []. latest_key q = latest_key r \<longrightarrow> tl_ts q < 9) \<longrightarrow> tl_ts r = 9 \<and> tl_value_double r = Some (Fin False 18 0)"
      "\<forall>u rank. check_perm u 10 ''view'' farm = Inr farm_gateway \<longrightarrow> (\<exists>rs. get_latest rank 10 u d' = (Inr rs, d') \<and> r \<in> set rs)"
    by (elim exE conjE) (rule that)
  have "tl_value_double r = Some (Fin False 18 0)" "\<exists>rs. get_latest (\<lambda>_. 0) 10 ada d' = (Inr rs, d') \<and> r \<in> set rs" using r(2,3) p by simp_all
  with d r(1) show ?thesis by auto
qed

section \<open>The API\<close>

text \<open>
  C16. Who gets in, with signature verification on, from the start of the process and after any
  requests: the request carries a bearer token the JWT library verified for the configured
  algorithms, audience and issuer under a key that the identity provider offered for the token's
  \<open>kid\<close>, in its reply to this request or in its reply to an earlier one at most the TTL ago; and the
  user is the provisioned row of the token's \<open>sub\<close>. No other key ever gets into the cache.
\<close>

theorem authenticate_sound:
  assumes "kc_verify_signature s" "authenticate s j w authorization d (cache_of s j past None) = (Inr u, cache')"
  shows "\<exists>a token hdr kid key raw sub jwks. authorization = Some a \<and> startswith a ''Bearer '' \<and> token = strip (removeprefix a ''Bearer '') \<and>
    unverified_header j token = Some hdr \<and> jget hdr ''kid'' JNull = Inr kid \<and>
    decode_verified j token key (kc_allowed_algorithms s) (kc_audience s) (kc_issuer s) = Some raw \<and>
    jget raw ''sub'' (JStr []) = Inr (JStr sub) \<and> u \<in> set (users d) \<and> us_keycloak_user_id u = sub \<and> sub \<noteq> [] \<and>
    offered jwks kid key \<and>
    (web_reply w = Body jwks \<or>
     (\<exists>v a' d'. (v, a', d') \<in> set past \<and> web_reply v = Body jwks \<and> web_now w - web_now' v \<le> kc_jwks_cache_ttl_sec s * 1000000))"
proof -
  let ?cache = "cache_of s j past None"
  from assms(2) obtain t where t: "get_token s j w authorization ?cache = (Inr t, cache')" and u: "get_current_user t d = Inr u"
    by (auto simp: authenticate_def split: prod.splits sum.splits)
  from t obtain a raw where a: "authorization = Some a" "startswith a ''Bearer ''"
    and d: "decode_jwt s j w (strip (removeprefix a ''Bearer '')) ?cache = (Inr raw, cache')" and p: "token_payload_of raw = Inr t"
    by (auto simp: get_token_def split: option.splits if_splits prod.splits sum.splits)
  obtain hdr kid key c c' where k: "unverified_header j (strip (removeprefix a ''Bearer '')) = Some hdr" "jget hdr ''kid'' JNull = Inr kid"
    "c = get_cache ?cache (jwks_url s) (kc_jwks_cache_ttl_sec s) (kc_jwks_fetch_timeout_sec s)"
    "get_key (web_reply w) (web_now w) (web_now' w) kid c = (Inr (Some key), c')"
    "decode_verified j (strip (removeprefix a ''Bearer '')) key (kc_allowed_algorithms s) (kc_audience s) (kc_issuer s) = Some raw"
    using decode_jwt_verified [OF assms(1) d] by metis
  have "stocked_opt s ({} \<union> fst ` set past) ?cache" by (rule cache_of_stocked) (simp add: stocked_opt_def)
  then have "stocked s (fst ` set past) c" unfolding k(3) by (intro get_cache_stocked) simp
  from get_key_offered [OF this k(4)] obtain jwks where "offered jwks kid key"
    "web_reply w = Body jwks \<or> (\<exists>v a' d'. (v, a', d') \<in> set past \<and> web_reply v = Body jwks \<and>
       web_now w - web_now' v \<le> kc_jwks_cache_ttl_sec s * 1000000)"
    by (force simp: image_iff)
  moreover obtain sub where sub: "tp_sub t = JStr sub" "sub \<noteq> []" "u \<in> set (users d)" "us_keycloak_user_id u = sub"
    using get_current_user_Inr [OF u] by metis
  moreover have "jget raw ''sub'' (JStr []) = Inr (JStr sub)"
    using p sub(1) by (auto simp: token_payload_of_def split: sum.splits)
  ultimately show ?thesis using a k by blast
qed

definition demo_jose :: jose where
  "demo_jose = \<lparr>unverified_header = \<lambda>_. Some (JObj [(''kid'', JStr ''k1'')]), decode_unverified = \<lambda>_. None,
     decode_verified = \<lambda>_ _ _ _ _. Some (JObj [(''sub'', JStr ''kc-ada'')])\<rparr>"

definition demo_web :: web where
  "demo_web = \<lparr>web_reply = Body (JObj [(''keys'', JArr [JObj [(''kid'', JStr ''k1'')]])]), web_now = 4000000000, web_now' = 4000000001\<rparr>"

theorem authenticate_sound_witness:
  "\<exists>u c. authenticate default_settings demo_jose (demo_web\<lparr>web_reply := Unreachable\<rparr>) (Some ''Bearer x'') farm
      (cache_of default_settings demo_jose [(demo_web, Some ''Bearer y'', empty_db)] None) = (Inr u, c) \<and>
     us_keycloak_user_id u = ''kc-ada'' \<and> offered (JObj [(''keys'', JArr [JObj [(''kid'', JStr ''k1'')]])]) (JStr ''k1'') (JObj [(''kid'', JStr ''k1'')])"
proof -
  obtain c where a: "authenticate default_settings demo_jose (demo_web\<lparr>web_reply := Unreachable\<rparr>) (Some ''Bearer x'') farm
      (cache_of default_settings demo_jose [(demo_web, Some ''Bearer y'', empty_db)] None) = (Inr ada, c)"
    by (simp add: authenticate_def get_token_def startswith_def removeprefix_def decode_jwt_def default_settings_def demo_jose_def
        demo_web_def get_cache_def new_cache_def get_key_def is_stale_def fetch_jwks_def dict_set_def token_payload_of_def py_or_def
        get_current_user_def bind_text_def text_ok_def scalar_one_or_none_def farm_def ada_def bob_def empty_db_def Let_def)
  have v: "kc_verify_signature default_settings" by (simp add: default_settings_def)
  from authenticate_sound [OF v a(1)] obtain kid key jwks where "us_keycloak_user_id ada = ''kc-ada''"
    "kid = JStr ''k1''" "offered jwks kid key" "jwks = JObj [(''keys'', JArr [JObj [(''kid'', JStr ''k1'')]])]"
    by (auto simp: demo_jose_def demo_web_def)
  moreover from this have "key = JObj [(''kid'', JStr ''k1'')]" by (simp add: offered_def)
  ultimately show ?thesis using a by blast
qed

text \<open>
  C17. The gateway list is exact: the gateways on which the user holds any permission, each once,
  the newest registration first. A listed gateway need not be readable: the view check still
  refuses a user who holds only another permission.
\<close>

theorem list_gateways_exact:
  assumes "wf_db d"
  shows "set (list_gateways u d) = {g \<in> set (gateways d). \<exists>q. holds u (gw_id g) q d} \<and> distinct (list_gateways u d) \<and>
    sorted (map (\<lambda>g. - gw_registered_at g) (list_gateways u d)) \<and>
    (\<forall>g \<in> set (list_gateways u d). fst (get_gateway (gw_id g) u d) = Inl HTTP_403 \<longleftrightarrow>
       \<not> holds u (gw_id g) ''view'' d \<and> \<not> holds u (gw_id g) ''admin'' d)"
proof (intro conjI ballI)
  have h: "(\<exists>p \<in> set (permissions d). pm_gateway_id p = k \<and> pm_user_id p = us_id u) = (\<exists>q. holds u k q d)" for k
    by (auto simp: holds_def list_ex_iff)
  then show "set (list_gateways u d) = {g \<in> set (gateways d). \<exists>q. holds u (gw_id g) q d}"
    by (simp add: set_list_gateways)
  show "distinct (list_gateways u d)" by (simp add: list_gateways_def distinct_sort)
  show "sorted (map (\<lambda>g. - gw_registered_at g) (list_gateways u d))"
    by (simp only: list_gateways_def sorted_sort_key)
  fix g assume "g \<in> set (list_gateways u d)"
  then have "fetch gw_id (gw_id g) (gateways d) = Some g"
    using assms by (auto simp: set_list_gateways wf_db_def keys_ok_def fetch_unique)
  moreover have "unique_key perm_key (permissions d)" using assms by (simp add: wf_db_def keys_ok_def)
  ultimately show "fst (get_gateway (gw_id g) u d) = Inl HTTP_403 \<longleftrightarrow>
      \<not> holds u (gw_id g) ''view'' d \<and> \<not> holds u (gw_id g) ''admin'' d"
    by (simp add: get_gateway_def check_perm_cases HTTP_403_def)
qed

theorem list_gateways_exact_witness:
  "farm_gateway \<in> set (list_gateways bob farm) \<and> fst (get_gateway 10 bob farm) = Inl HTTP_403"
proof -
  have l: "farm_gateway \<in> set (list_gateways bob farm)" by (simp add: set_list_gateways farm_defs)
  have n: "gw_id farm_gateway = 10" "\<not> holds bob 10 ''view'' farm" "\<not> holds bob 10 ''admin'' farm"
    by (simp_all add: holds_def farm_defs)
  from list_gateways_exact [OF farm_wf, of bob] have "\<forall>g \<in> set (list_gateways bob farm). fst (get_gateway (gw_id g) bob farm) = Inl HTTP_403 \<longleftrightarrow>
       \<not> holds bob (gw_id g) ''view'' farm \<and> \<not> holds bob (gw_id g) ''admin'' farm" by blast
  from bspec [OF this l] l show ?thesis by (simp add: n)
qed

text \<open>
  C18. A PATCH changes the fields its body sets and nothing else: each of the six fields is the body's
  value where the body has one, null included, and the old one where it does not; every other field of
  the gateway, all other gateways and all other tables stay. A null name or status is refused, and a
  refused PATCH changes nothing at all.
\<close>

theorem patch_frame:
  assumes "wf_db d" "update_gateway g p u d = (res, d')"
  shows "(pat_name p = Some None \<or> pat_status p = Some None \<longrightarrow> (\<exists>e. res = Inl e)) \<and>
    (case res of
      Inl e \<Rightarrow> d' = d
    | Inr gw' \<Rightarrow> (\<exists>gw. fetch gw_id g (gateways d) = Some gw \<and> fetch gw_id g (gateways d') = Some gw' \<and>
        gw' = gw\<lparr>
          gw_name := (case pat_name p of Some (Some x) \<Rightarrow> x | _ \<Rightarrow> gw_name gw),
          gw_site_id := (case pat_site_id p of None \<Rightarrow> gw_site_id gw | Some x \<Rightarrow> x),
          gw_gateway_profile_id := (case pat_gateway_profile_id p of None \<Rightarrow> gw_gateway_profile_id gw | Some x \<Rightarrow> x),
          gw_status := (case pat_status p of Some (Some x) \<Rightarrow> x | _ \<Rightarrow> gw_status gw),
          gw_firmware_version := (case pat_firmware_version p of None \<Rightarrow> gw_firmware_version gw | Some x \<Rightarrow> x),
          gw_app_version := (case pat_app_version p of None \<Rightarrow> gw_app_version gw | Some x \<Rightarrow> x)\<rparr>) \<and>
      (\<forall>h. h \<noteq> g \<longrightarrow> fetch gw_id h (gateways d') = fetch gw_id h (gateways d)) \<and>
      d' = d\<lparr>gateways := gateways d'\<rparr>)"
proof (cases res)
  case (Inl e)
  with assms(2) show ?thesis by (auto simp: update_gateway_def in_session_def split: sum.splits)
next
  case (Inr gw')
  obtain gw where c: "check_perm u g ''configure'' d = Inr gw" and a: "apply_patch p gw = Inr gw'" and s: "save_gateway gw' d = Inr d'"
    using assms(2) Inr by (auto simp: update_gateway_def in_session_def split: sum.splits)
  have f: "fetch gw_id g (gateways d) = Some gw" using c by (rule check_perm_gateway)
  have i: "gw_id gw' = g" using apply_patch_frame(1) [OF a] fetch_Some_key [OF f] by simp
  have "d' = d\<lparr>gateways := modify gw_id g (\<lambda>_. gw') (gateways d)\<rparr>" using s i by (simp add: save_gateway_def)
  then have "fetch gw_id g (gateways d') = Some gw'" "\<forall>h. h \<noteq> g \<longrightarrow> fetch gw_id h (gateways d') = fetch gw_id h (gateways d)"
    "d' = d\<lparr>gateways := gateways d'\<rparr>"
    using f i by (simp_all add: fetch_modify_const)
  then show ?thesis using f apply_patch_exact [OF a] unfolding Inr sum.case by blast
qed

theorem patch_frame_witness:
  "\<exists>gw' d'. update_gateway 10 \<lparr>pat_name = Some (Some ''New''), pat_site_id = None, pat_gateway_profile_id = None, pat_status = None,
      pat_firmware_version = None, pat_app_version = Some None\<rparr> ada farm = (Inr gw', d') \<and> gw_name gw' = ''New'' \<and>
    gw_serial_number gw' = ''GW-1'' \<and> fetch gw_id 11 (gateways d') = Some spare_gateway"
proof -
  let ?p = "\<lparr>pat_name = Some (Some ''New''), pat_site_id = None, pat_gateway_profile_id = None, pat_status = None,
      pat_firmware_version = None, pat_app_version = Some None\<rparr>"
  have c: "check_perm ada 10 ''configure'' farm = Inr farm_gateway"
    by (simp add: check_perm_def grants_def scalar_one_or_none_def farm_defs)
  obtain gw' d' where u: "update_gateway 10 ?p ada farm = (Inr gw', d')" "gw_name gw' = ''New'' \<and> gw_serial_number gw' = ''GW-1''"
    unfolding update_gateway_def c
    by (simp add: apply_patch_def set_required_def set_field_def send_simps)
  have "fetch gw_id 11 (gateways farm) = Some spare_gateway" by (simp add: farm_defs)
  with patch_frame [OF farm_wf u(1)] u show ?thesis by auto
qed

text \<open>
  C19. Deleting a gateway, for an admitted user: with a command in its history, or one on one of its
  actuators, it fails with the constraint error and changes nothing; otherwise exactly the gateway's
  row and the rows of its sensor and actuator channels are gone: every other gateway, the channels of
  the other gateways and all other tables stay as they were, the permissions on the deleted gateway
  included.
\<close>

theorem delete_gateway_exact:
  assumes "wf_db d" "check_perm u g ''admin'' d = Inr gw"
  shows "delete_gateway g u d =
    (if \<exists>c \<in> set (commands d). cm_gateway_id c = g \<or>
          (\<exists>a \<in> set (actuator_channels d). ac_gateway_id a = g \<and> cm_actuator_channel_id c = Some (ac_id a))
     then (Inl IntegrityError, d)
     else (Inr (), d\<lparr>gateways := filter (\<lambda>h. gw_id h \<noteq> g) (gateways d),
       sensor_channels := filter (\<lambda>c. sc_gateway_id c \<noteq> g) (sensor_channels d),
       actuator_channels := filter (\<lambda>a. ac_gateway_id a \<noteq> g) (actuator_channels d)\<rparr>))"
proof -
  have "gw_id gw = g" using check_perm_gateway [OF assms(2)] by (rule fetch_Some_key)
  then show ?thesis
    using assms(2) by (auto simp: delete_gateway_def delete_gateway_row_def flush_def erase_def list_ex_iff)
qed

theorem delete_gateway_exact_witness:
  "delete_gateway 10 ada farm = (Inl IntegrityError, farm) \<and>
   fst (delete_gateway 10 ada (farm\<lparr>commands := []\<rparr>)) = Inr ()"
proof -
  have c: "check_perm ada 10 ''admin'' d = Inr farm_gateway" if "d = farm \<or> d = farm\<lparr>commands := []\<rparr>" for d
    using that by (auto simp: check_perm_def grants_def scalar_one_or_none_def farm_defs)
  have "\<exists>c \<in> set (commands farm). cm_gateway_id c = 10" by (simp add: farm_defs)
  moreover have "wf_db (farm\<lparr>commands := []\<rparr>)" using farm_wf by (simp add: wf_db_def keys_ok_def refs_ok_def formats_ok_def)
  ultimately show ?thesis
    using delete_gateway_exact [OF farm_wf c] delete_gateway_exact [OF _ c, of "farm\<lparr>commands := []\<rparr>"] by auto
qed

section \<open>Lookups and late answers\<close>

text \<open>
  C20. A cached lookup is at most a TTL old: after any sequence of lookups from the empty cache, an
  answer is what the database held at some time in the last 60 seconds. The database is \<open>hist t\<close>
  at clock time \<open>t\<close>; \<open>asked_at\<close> says that a lookup sees the database of its clock readings.
\<close>

fun lookups :: "(nat \<Rightarrow> int) \<Rightarrow> (db \<times> string) list \<Rightarrow> worker_cache \<Rightarrow> worker_cache" where
  "lookups clk [] c = c"
| "lookups clk ((d, k) # xs) c = lookups clk xs (snd (gateway_uuid_by_serial clk d k c))"

fun asked_at :: "(nat \<Rightarrow> int) \<Rightarrow> (int \<Rightarrow> db) \<Rightarrow> (db \<times> string) list \<Rightarrow> worker_cache \<Rightarrow> bool" where
  "asked_at clk hist [] c = True"
| "asked_at clk hist ((d, k) # xs) c =
     (let c' = snd (gateway_uuid_by_serial clk d k c)
      in list_all (\<lambda>n. hist (clk n) = d) [wc_reads c..<wc_reads c'] \<and> asked_at clk hist xs c')"

theorem lookup_bounded_staleness:
  assumes "mono clk" "asked_at clk hist (xs @ [(d, k)]) empty_cache"
    and "gateway_uuid_by_serial clk d k (lookups clk xs empty_cache) = (Inr v, c')"
  defines "now \<equiv> clk (Suc (wc_reads (lookups clk xs empty_cache)))"
  shows "\<exists>t. clk (wc_reads (lookups clk xs empty_cache)) - 60000000 \<le> t \<and> t \<le> now \<and> select_gateway (hist t) k = Inr v"
proof -
  have step: "hist (clk n) = d"
    if "asked_at clk hist ((d, k) # xs) c" "gateway_uuid_by_serial clk d k c = (r, c1)" "wc_reads c \<le> n" "n < wc_reads c1" for d k xs c r c1 n
    using that by (auto simp: Let_def list_all_iff)
  have good: "gateway_lookup.good clk hist (lookups clk xs c) \<and> asked_at clk hist [(d, k)] (lookups clk xs c)"
    if "gateway_lookup.good clk hist c" "asked_at clk hist (xs @ [(d, k)]) c" for c
    using that
  proof (induction xs arbitrary: c)
    case (Cons x xs)
    obtain d1 k1 where x: "x = (d1, k1)" by (cases x)
    obtain r c1 where l: "gateway_uuid_by_serial clk d1 k1 c = (r, c1)" by (cases "gateway_uuid_by_serial clk d1 k1 c")
    have a: "asked_at clk hist ((d1, k1) # (xs @ [(d, k)])) c" using Cons.prems(2) by (simp only: x append_Cons)
    have "gateway_lookup.good clk hist c1"
      by (rule gateway_lookup.good_lookup [OF Cons.prems(1) step [OF a l] l])
    moreover have "asked_at clk hist (xs @ [(d, k)]) c1" using a by (simp add: l Let_def)
    ultimately show ?case using Cons.IH [of c1] by (simp add: x l)
  qed simp
  have "gateway_lookup.good clk hist empty_cache" by (simp add: gateway_lookup.good_def empty_cache_def)
  from good [OF this assms(2)] have g: "gateway_lookup.good clk hist (lookups clk xs empty_cache)"
    "asked_at clk hist [(d, k)] (lookups clk xs empty_cache)"
    by simp_all
  from gateway_lookup.lookup_fresh [OF g(1) assms(1) step [OF g(2) assms(3)] assms(3)] show ?thesis
    by (simp add: now_def TTL_def)
qed

theorem lookup_bounded_staleness_witness:
  "\<exists>t. t \<le> (20::int) \<and> select_gateway (if t < 5 then empty_db else farm) ''GW-1'' = Inr None"
proof -
  let ?clk = "\<lambda>n. 10 * int n" and ?hist = "\<lambda>t. if t < 5 then empty_db else farm"
  define c where "c = lookups ?clk [(empty_db, ''GW-1'')] empty_cache"
  have c: "wc_gateways c ''GW-1'' = Some (None, 60000000)" "wc_reads c = 1"
    by (simp_all add: c_def gateway_uuid_by_serial_def empty_cache_def cached_simps select_gateway_def text_ok_def
        scalar_one_or_none_def TTL_def empty_db_def)
  have l: "gateway_uuid_by_serial ?clk farm ''GW-1'' c = (Inr None, c\<lparr>wc_reads := 2\<rparr>)"
    by (simp add: gateway_uuid_by_serial_def c cached_simps numeral_2_eq_2)
  have r: "snd (gateway_uuid_by_serial ?clk empty_db ''GW-1'' empty_cache) = c" "wc_reads empty_cache = 0"
    by (simp_all add: c_def) (simp add: empty_cache_def)
  have a: "asked_at ?clk ?hist ([(empty_db, ''GW-1'')] @ [(farm, ''GW-1'')]) empty_cache"
    unfolding append_Cons append_Nil asked_at.simps Let_def r l snd_conv c(2) by (simp add: upt_rec c)
  have m: "mono ?clk" by (simp add: mono_def)
  from lookup_bounded_staleness [OF m a l [unfolded c_def], folded c_def, unfolded c] show ?thesis
    by (auto simp: numeral_2_eq_2 split del: if_split)
qed

text \<open>
  C21. An unknown serial shadows its gateway: after a message for a serial the database does not
  know, every message for that serial is dropped for 60 seconds of the worker's clock, whatever
  messages for this and other serials come in between and whatever the database has become: also
  when the gateway has been registered meanwhile, and not only the first time.
\<close>

theorem unknown_serial_shadows:
  assumes "mono clk" "match_topic (in_topic m) = Some (serial, k)" "match_topic (in_topic m') = Some (serial, k')"
    and "wc_gateways c serial = None" "select_gateway d serial = Inr None"
    and "c' = cache_after loads clk ((d, m) # ms) c"
    and "clk (wc_reads c') \<le> clk (wc_reads c) + 60000000"
  shows "fst (dispatch loads clk (in_now m) (in_topic m) (in_payload m) d c) = Inr d \<and>
    fst (dispatch loads clk (in_now m') (in_topic m') (in_payload m') d' c') = Inr d'"
proof -
  obtain c1 where l: "gateway_uuid_by_serial clk d serial c = (Inr None, c1)"
    using gateway_lookup.lookup_agrees [OF assms(5)] assms(4) by (metis option.distinct(1))
  then have x: "dispatch loads clk (in_now m) (in_topic m) (in_payload m) d c = (Inr d, c1)"
    by (simp add: dispatch_def assms(2))
  have e: "wc_gateways c1 serial = Some (None, clk (wc_reads c) + 60000000)"
    using gateway_lookup.lookup_stored(1) [OF l assms(4)] by (simp add: TTL_def)
  have c': "c' = cache_after loads clk ms c1" by (simp add: assms(6) x)
  have "wc_gateways c' serial = Some (None, clk (wc_reads c) + 60000000)"
    using cache_after_keeps_entry [OF e assms(1)] assms(7) by (simp add: c')
  then obtain c2 where "gateway_uuid_by_serial clk d' serial c' = (Inr None, c2)"
    using gateway_lookup.lookup_hit assms(7) by metis
  with x show ?thesis by (simp add: dispatch_def assms(3))
qed

theorem unknown_serial_shadows_witness:
  "\<exists>c'. fst (dispatch (\<lambda>_. Inr reading) (\<lambda>n. int n) 9 ''gw/GW-1/telemetry'' [] farm c') = Inr farm \<and> wc_reads c' = 3"
proof -
  let ?m = "\<lambda>t. \<lparr>in_now = 8, in_topic = t, in_payload = []\<rparr>" and ?loads = "\<lambda>_. Inr reading" and ?clk = "\<lambda>n. int n"
  let ?c = "cache_after ?loads ?clk [(empty_db, ?m ''gw/GW-1/telemetry''), (farm, ?m ''gw/GW-2/event''), (farm, ?m ''gw/GW-1/telemetry'')] empty_cache"
  have s: "select_gateway empty_db ''GW-1'' = Inr None" "wc_gateways empty_cache ''GW-1'' = None"
    by (simp_all add: select_gateway_def text_ok_def scalar_one_or_none_def empty_db_def empty_cache_def)
  have m: "match_topic ''gw/GW-2/event'' = Some (''GW-2'', ''event'')" by code_simp
  have r: "wc_reads ?c = 3"
    by (simp add: farm_topics m send_simps scalar_one_or_none_def farm_defs TTL_def handle_def kind_of_def)
  have "mono ?clk" by (simp add: mono_def)
  from unknown_serial_shadows [where m = "?m ''gw/GW-1/telemetry''" and m' = "\<lparr>in_now = 9, in_topic = ''gw/GW-1/telemetry'', in_payload = []\<rparr>"
      and ms = "[(farm, ?m ''gw/GW-2/event''), (farm, ?m ''gw/GW-1/telemetry'')]" and clk = ?clk and loads = ?loads and d' = farm,
      OF this _ _ s(2,1) refl] farm_topics r
  show ?thesis by (intro exI [of _ ?c]) (simp add: empty_cache_def)
qed

text \<open>
  C22. A response always wins: whatever status a command has, \<open>timeout\<close> included, a response from
  its gateway replaces it by the string the gateway sent and records the response.
\<close>

theorem response_overwrites:
  assumes "fetch cm_id k (commands d) = Some c" "cm_gateway_id c = g" "command_types c"
    and "k \<noteq> []" "varchar_ok 32 s" "representable now"
  defines "body \<equiv> JObj [(''command_id'', JStr k), (''status'', JStr s)]"
  shows "\<exists>d'. command_response_handle now g body d = Inr d' \<and>
    fetch cm_id k (commands d') = Some (c\<lparr>cm_status := s, cm_response := Some body, cm_completed_at := Some now\<rparr>)"
proof -
  have k: "cm_id c = k" using assms(1) by (rule fetch_Some_key)
  have t: "text_ok k" using assms(3) by (simp add: command_types_def k)
  have ct: "command_types (answered body s now c)"
    using assms(3,5,6) t by (simp add: command_types_def answered_def body_def opt_ok_def text_ok_def varchar_ok_def)
  have "command_response_handle now g body d = save_command (answered body s now c) d"
    using assms(1,2,4,5) t
    by (simp add: command_response_handle_def body_def get_command_row_def pk_ident_def parse_iso8601_def utcnow_def bind_text_def varchar_ok_def)
  then show ?thesis
    using ct assms(1) k by (simp add: save_command_def flush_def answered_def fetch_modify_const)
qed

theorem response_overwrites_witness:
  "\<exists>d1 d' c'. command_timeout_run 6000000 farm = Inr d1 \<and>
     command_response_handle 7000000 10 (JObj [(''command_id'', JStr ''cmd-1''), (''status'', JStr ''executed'')]) d1 = Inr d' \<and>
     fetch cm_id ''cmd-1'' (commands d') = Some c' \<and> cm_status c' = ''executed''"
proof -
  obtain d1 where d1: "command_timeout_run 6000000 farm = Inr d1" "commands d1 = [timed_out 6000000 old_command]"
    by (simp add: command_timeout_run_def update_where_def overdue_def farm_defs)
  have c: "fetch cm_id ''cmd-1'' (commands d1) = Some (timed_out 6000000 old_command)"
    "cm_gateway_id (timed_out 6000000 old_command) = 10" "command_types (timed_out 6000000 old_command)"
    by (simp_all add: d1(2) old_command_def timed_out_def command_types_def text_ok_def varchar_ok_def opt_ok_def int4_ok_def
        representable_def day_us_def)
  have "''cmd-1'' \<noteq> []" "varchar_ok 32 ''executed''" "representable 7000000"
    by (simp_all add: varchar_ok_def text_ok_def representable_def day_us_def)
  from response_overwrites [OF c this] d1(1) show ?thesis by auto
qed

section \<open>Offline detection and partitions\<close>

text \<open>
  C23. The offline detector is exact: it marks the gateways that are \<open>online\<close> and were never seen or
  last seen before the threshold, changes nothing else, and a second run changes nothing. It fails
  only when the threshold instant is outside the calendar.
\<close>

theorem offline_detector_exact:
  "case offline_detector_run s now d of
     Inl e \<Rightarrow> e = OverflowError \<and> \<not> representable (now - offline_threshold_sec s * 1000000)
   | Inr d' \<Rightarrow> d' = d\<lparr>gateways := gateways d'\<rparr> \<and> offline_detector_run s now d' = Inr d' \<and>
       (\<forall>k. fetch gw_id k (gateways d') =
         map_option (\<lambda>g. if gw_status g = ''online'' \<and>
             (gw_last_seen_at g = None \<or> the (gw_last_seen_at g) < now - offline_threshold_sec s * 1000000)
           then g\<lparr>gw_status := ''offline''\<rparr> else g) (fetch gw_id k (gateways d)))"
proof -
  let ?t = "now - offline_threshold_sec s * 1000000"
  have "silent ?t (g\<lparr>gw_status := ''offline''\<rparr>) = False" for g by (simp add: silent_def)
  then have twice: "update_where (silent ?t) (\<lambda>g. g\<lparr>gw_status := ''offline''\<rparr>)
      (update_where (silent ?t) (\<lambda>g. g\<lparr>gw_status := ''offline''\<rparr>) (gateways d)) =
    update_where (silent ?t) (\<lambda>g. g\<lparr>gw_status := ''offline''\<rparr>) (gateways d)"
    by (simp add: update_where_def)
  have "silent ?t g \<longleftrightarrow> gw_status g = ''online'' \<and> (gw_last_seen_at g = None \<or> the (gw_last_seen_at g) < ?t)" for g
    by (auto simp: silent_def split: option.splits)
  with twice show ?thesis
    by (auto simp: offline_detector_run_def Let_def fetch_update_where split: sum.splits if_splits)
qed

text \<open>
  C24. The partition manager, run in UTC month \<open>ym\<close>: it succeeds exactly when no row of the DEFAULT
  partition lies in that month or the next three; then every instant of those four months has a
  partition and only the list of partitions changed. Otherwise it fails with the constraint error.
\<close>

theorem partition_manager_exact:
  "let ym = (dt_year (utc_datetime now), dt_month (utc_datetime now));
       blocked = (\<exists>k < 4. \<exists>r \<in> set (telemetry d). in_default d r \<and> in_partition ((next_month ^^ k) ym) (te_ts r))
   in case partition_manager_run now d of
        Inl e \<Rightarrow> blocked \<and> e = IntegrityError
      | Inr d' \<Rightarrow> \<not> blocked \<and> d' = d\<lparr>partitions := partitions d'\<rparr> \<and> set (partitions d) \<subseteq> set (partitions d') \<and>
          (\<forall>t. month_start ym \<le> t \<and> t < month_start ((next_month ^^ 4) ym) \<longrightarrow> (\<exists>q \<in> set (partitions d'). in_partition q t))"
proof -
  let ?ym = "(dt_year (utc_datetime now), dt_month (utc_datetime now))"
  have r: "partition_manager_run now d = ensure_partitions 4 ?ym d"
    by (simp add: partition_manager_run_def LOOKAHEAD_MONTHS_def Let_def)
  show ?thesis
  proof (cases "ensure_partitions 4 ?ym d")
    case (Inl e)
    then show ?thesis using ensure_partitions_cases [where n = 4 and ym = ?ym and d = d] by (simp add: r Let_def)
  next
    case (Inr d')
    obtain ps where ps: "d' = d\<lparr>partitions := ps\<rparr>" "set ps = set (partitions d) \<union> {(next_month ^^ k) ?ym |k. k < 4}"
      using ensure_partitions_Inr [OF Inr] by blast
    have "\<exists>q \<in> set (partitions d'). in_partition q t"
      if t: "month_start ?ym \<le> t" "t < month_start ((next_month ^^ 4) ?ym)" for t
      using covered_by_months [OF t] ps by auto
    with Inr ps ensure_partitions_cases [where n = 4 and ym = ?ym and d = d] show ?thesis by (auto simp: r Let_def)
  qed
qed

theorem partition_manager_exact_witness:
  "\<exists>d'. partition_manager_run 1777896000000000 farm = Inr d' \<and> (\<exists>q \<in> set (partitions d'). in_partition q (month_start (2026, 5) + 1))"
proof -
  have u: "(dt_year (utc_datetime 1777896000000000), dt_month (utc_datetime 1777896000000000)) = (2026, 5)" by code_simp
  have m: "month_start (2026, 5) + 1 < month_start ((next_month ^^ 4) (2026, 5))" by code_simp
  have n: "telemetry farm = []" by (simp add: farm_defs)
  from partition_manager_exact [of 1777896000000000 farm, unfolded u] m n show ?thesis
    by (auto simp: Let_def split: sum.splits)
qed

section \<open>Channels, queries and wire formats\<close>

text \<open>
  C25. A new sensor channel is what the worker's lookup finds under its gateway and slug from then
  on, other lookups are unaffected, and a second channel with the same slug on the gateway is
  refused without effect.
\<close>

theorem sensor_channel_round_trip:
  assumes "wf_db d" "add_sensor_channel i now b g u d = (Inr c, d')"
  shows "select_sensor d' (g, scin_slug b) = Inr (Some i) \<and>
    (\<forall>k. k \<noteq> (g, scin_slug b) \<longrightarrow> select_sensor d' k = select_sensor d k) \<and>
    (\<forall>i' now' b' u'. scin_slug b' = scin_slug b \<longrightarrow> (\<exists>e. add_sensor_channel i' now' b' g u' d' = (Inl e, d')))"
proof -
  have c: "sc_id c = i" "sc_wire c = (g, scin_slug b)" "insert_sensor_channel c d = Inr d'"
    using assms(2) by (auto simp: add_sensor_channel_def in_session_def Let_def sc_wire_def split: sum.splits)
  then have d': "sensor_channels d' = sensor_channels d @ [c]" "(g, scin_slug b) \<notin> sc_wire ` set (sensor_channels d)" "text_ok (scin_slug b)"
    by (auto simp: insert_sensor_channel_def varchar_ok_def sc_wire_def)
  then have none: "filter (\<lambda>c. sc_wire c = (g, scin_slug b)) (sensor_channels d) = []" by (auto simp: filter_empty_conv image_iff)
  have "select_sensor d' (g, scin_slug b) = Inr (Some i)"
    using none d'(3) by (simp add: select_sensor_def d'(1) c(1,2) scalar_one_or_none_def)
  moreover have "select_sensor d' k = select_sensor d k" if "k \<noteq> (g, scin_slug b)" for k
    using that by (simp add: select_sensor_def d'(1) c(2))
  moreover have "\<exists>e. add_sensor_channel i' now' b' g u' d' = (Inl e, d')" if "scin_slug b' = scin_slug b" for i' now' b' u'
  proof -
    have dup: "\<exists>e. insert_sensor_channel x d' = Inl e" if "sc_wire x = (g, scin_slug b)" for x
      using that c(2) by (auto simp: insert_sensor_channel_def flush_def d'(1))
    show ?thesis
    proof (cases "check_perm u' g ''configure'' d'")
      case (Inr gw)
      have "\<exists>x. add_sensor_channel i' now' b' g u' d' =
          in_session (case insert_sensor_channel x d' of Inl e \<Rightarrow> Inl e | Inr d1 \<Rightarrow> Inr (x, d1)) d' \<and> sc_wire x = (g, scin_slug b)"
        unfolding add_sensor_channel_def Inr sum.case Let_def by (intro exI conjI, rule refl) (simp add: sc_wire_def that)
      then obtain x where "add_sensor_channel i' now' b' g u' d' =
          in_session (case insert_sensor_channel x d' of Inl e \<Rightarrow> Inl e | Inr d1 \<Rightarrow> Inr (x, d1)) d'" "sc_wire x = (g, scin_slug b)" by blast
      with dup [of x] show ?thesis by auto
    qed (simp add: add_sensor_channel_def)
  qed
  ultimately show ?thesis by blast
qed

theorem sensor_channel_round_trip_witness:
  "\<exists>c d'. add_sensor_channel 21 5 \<lparr>scin_slug = ''env-2'', scin_sensor_profile_id = 7, scin_display_name = ''E'', scin_interface_name = ''rs485'',
      scin_protocol = ''modbus_rtu'', scin_address = None, scin_slave_id = Some 2, scin_polling_interval_sec = 10, scin_enabled = True,
      scin_config = None\<rparr> 10 ada farm = (Inr c, d') \<and> select_sensor d' (10, ''env-2'') = Inr (Some 21)"
proof -
  let ?b = "\<lparr>scin_slug = ''env-2'', scin_sensor_profile_id = 7, scin_display_name = ''E'', scin_interface_name = ''rs485'',
      scin_protocol = ''modbus_rtu'', scin_address = None, scin_slave_id = Some 2, scin_polling_interval_sec = 10, scin_enabled = True,
      scin_config = None\<rparr>"
  have p: "check_perm ada 10 ''configure'' farm = Inr farm_gateway"
    by (simp add: check_perm_def grants_def scalar_one_or_none_def farm_defs)
  obtain c d' where a: "add_sensor_channel 21 5 ?b 10 ada farm = (Inr c, d')"
    unfolding add_sensor_channel_def p
    by (simp add: insert_sensor_channel_def sc_wire_def serial_check_def slug_pattern_def slug_char_def Let_def send_simps)
  with sensor_channel_round_trip [OF farm_wf a] show ?thesis by auto
qed

text \<open>
  C26. The telemetry query returns the newest rows: of the gateway's rows in the window (and of the
  asked key) it gives \<open>limit\<close> or all of them, newest first, and none it leaves out is newer than one
  it returns.
\<close>

theorem telemetry_range_newest:
  assumes "get_telemetry_range now key hours limit g u d = (Inr vs, d')"
  defines "rows \<equiv> filter (\<lambda>r. te_gateway_id r = g \<and> now - hours * 3600000000 \<le> te_ts r \<and> (key = None \<or> key = Some (te_measurement_key r))) (telemetry d)"
  shows "d' = d \<and> (holds u g ''view'' d \<or> holds u g ''admin'' d) \<and>
    (\<exists>kept left. mset kept + mset left = mset rows \<and> vs = map to_view kept \<and> length kept = min (nat limit) (length rows) \<and>
       sorted (map (\<lambda>r. - te_ts r) kept) \<and> (\<forall>x \<in> set kept. \<forall>y \<in> set left. te_ts y \<le> te_ts x))"
proof -
  let ?s = "sort_key (\<lambda>r. - te_ts r) rows"
  have r: "range_rows now key hours g d = rows"
    by (cases key) (auto simp: range_rows_def rows_def intro!: filter_cong)
  note v = get_telemetry_range_Inr [OF assms(1), unfolded r]
  have "mset (take (nat limit) ?s) + mset (drop (nat limit) ?s) = mset rows"
    by (metis append_take_drop_id mset_append mset_sort)
  moreover have "sorted (map (\<lambda>r. - te_ts r) (take (nat limit) ?s))"
    by (simp add: take_map [symmetric] sorted_wrt_take del: take_map)
  moreover have "\<forall>x \<in> set (take (nat limit) ?s). \<forall>y \<in> set (drop (nat limit) ?s). te_ts y \<le> te_ts x"
    using take_sorted_newest [where f = "\<lambda>r. - te_ts r" and xs = rows] by fastforce
  moreover have "length (take (nat limit) ?s) = min (nat limit) (length rows)" by (simp add: min.commute)
  ultimately show ?thesis using v by blast
qed

theorem telemetry_range_newest_witness:
  "\<exists>vs. get_telemetry_range 10 None 24 1 10 ada (farm\<lparr>telemetry :=
      [telemetry_row_of farm_gateway 20 ''a'' 3 None None None JNull, telemetry_row_of farm_gateway 20 ''a'' 8 None None None JNull]\<rparr>) =
      (Inr vs, farm\<lparr>telemetry :=
      [telemetry_row_of farm_gateway 20 ''a'' 3 None None None JNull, telemetry_row_of farm_gateway 20 ''a'' 8 None None None JNull]\<rparr>) \<and>
    map tv_ts vs = [8] \<and> holds ada 10 ''admin'' farm"
proof -
  let ?r = "\<lambda>t. telemetry_row_of farm_gateway 20 ''a'' t None None None JNull"
  let ?d = "farm\<lparr>telemetry := [?r 3, ?r 8]\<rparr>"
  have p: "check_perm ada 10 ''view'' ?d = Inr farm_gateway" and n: "\<not> holds ada 10 ''view'' farm"
    by (simp_all add: check_perm_def grants_def scalar_one_or_none_def holds_def farm_defs)
  have h: "holds u g q ?d = holds u g q farm" for u g q by (simp add: holds_def)
  have r: "range_rows 10 None 24 10 ?d = [?r 3, ?r 8]"
    by (simp add: range_rows_def telemetry_row_of_def farm_gateway_def)
  have g: "get_telemetry_range 10 None 24 1 10 ada ?d = (Inr [to_view (?r 8)], ?d)"
    unfolding get_telemetry_range_def p r sum.case by (simp add: telemetry_row_of_def sort_key_def)
  from telemetry_range_newest [OF g] have "holds ada 10 ''admin'' farm" using n by (simp add: h)
  with g show ?thesis by (simp add: to_view_def telemetry_row_of_def)
qed

text \<open>
  C27. Nothing a command sends can break the wire format: the payload is printable ASCII on one line
  whatever reason the user typed, and the topic has no MQTT wildcard.
\<close>

theorem command_message_safe:
  assumes "wf_db d" "issue_command w now r b g u d = (x, d', ms)"
  shows "\<forall>m \<in> set ms. list_all printable (msg_payload m) \<and> CHR ''+'' \<notin> set (msg_topic m) \<and> CHR ''#'' \<notin> set (msg_topic m)"
proof (cases "issue_begin (w_settings w) now r b g u d")
  case (Pair y d1)
  show ?thesis
  proof (cases y)
    case (Inl e)
    from issue_command_refused [OF Pair [unfolded Inl]] assms(2) show ?thesis by simp
  next
    case (Inr st)
    obtain gw a c where st: "st = (gw, a, c)" by (cases st)
    have i: "issue_begin (w_settings w) now r b g u d = (Inr (gw, a, c), d1)" using Pair Inr st by simp
    have ms: "ms = [] \<or> (\<exists>m. ms = [m] \<and> msg_topic m = command_topic (gw_serial_number gw) \<and>
        msg_payload m = json_dumps (w_frepr w) (command_payload b u gw a c))"
      using assms(2) unfolding issue_command_stored [OF i] by (auto split: if_splits)
    have "json_dumps (w_frepr w) (command_payload b u gw a c) = json_dumps (\<lambda>_. []) (command_payload b u gw a c)"
      by (simp add: command_payload_def)
    then have p: "list_all printable (json_dumps (w_frepr w) (command_payload b u gw a c))"
      using json_dumps_printable [of "\<lambda>_. []"] by simp
    have "gw \<in> set (gateways d)" using issue_begin_Inr(1) [OF i] by (rule fetch_Some_mem)
    then have "serial_check (gw_serial_number gw)"
      using assms(1) by (auto simp: wf_db_def formats_ok_def list_all_iff)
    then show ?thesis using ms p command_topic_safe by auto
  qed
qed

theorem command_message_safe_witness:
  "\<exists>c d' m. issue_command good_world 0 0 switch_on 10 bob farm = (Inr c, d', [m]) \<and> list_all printable (msg_payload m)"
proof -
  obtain m where i: "issue_command good_world 0 0 switch_on 10 bob farm =
    (Inr (switched\<lparr>cm_status := ''published''\<rparr>), farm\<lparr>commands := [old_command, switched\<lparr>cm_status := ''published''\<rparr>]\<rparr>, [m])"
    using farm_issued by blast
  from command_message_safe [OF farm_wf i] i show ?thesis by auto
qed

lemma command_payload_loadable:
  assumes "int4_ok (cmin_timeout_ms b)"
  shows "loadable (command_payload b u gw a c)"
proof -
  have "nat \<bar>cmin_timeout_ms b\<bar> < 10 ^ Suc 9" using assms by (auto simp: int4_ok_def)
  from str_of_nat_length [OF this] show ?thesis by (simp add: command_payload_def max_str_digits_def)
qed

text \<open>
  C28. A gateway that parses a published command with \<open>json.loads\<close> gets the command back: the id of a
  row that the database now has, the slug of its actuator on this gateway, its action and timeout,
  and a time of expiry that \<open>datetime.fromisoformat\<close> reads as the stored one.
\<close>

theorem command_read_back:
  assumes "issue_command w now r b g u d = (x, d', ms)" "m \<in> set ms"
  shows "\<exists>body cid c. json_loads (msg_payload m) = Some (Inr body) \<and>
    jfield body ''command_id'' = Some (JStr cid) \<and> fetch cm_id cid (commands d') = Some c \<and>
    (\<exists>a \<in> set (actuator_channels d). ac_gateway_id a = g \<and> cm_actuator_channel_id c = Some (ac_id a) \<and>
       jfield body ''actuator_channel_id'' = Some (JStr (ac_slug a))) \<and>
    jfield body ''action'' = Some (JStr (cm_action c)) \<and> jfield body ''timeout_ms'' = Some (JInt (cm_timeout_ms c)) \<and>
    (\<exists>t. jfield body ''expires_at'' = Some t \<and> (\<forall>n. parse_iso8601 n t = Inr (cm_expires_at c)))"
proof (cases "issue_begin (w_settings w) now r b g u d")
  case (Pair y d1)
  show ?thesis
  proof (cases y)
    case (Inl e)
    from issue_command_refused [OF Pair [unfolded Inl]] assms show ?thesis by simp
  next
    case (Inr st)
    obtain gw a c where st: "st = (gw, a, c)" by (cases st)
    have i: "issue_begin (w_settings w) now r b g u d = (Inr (gw, a, c), d1)" using Pair Inr st by simp
    note b = issue_begin_Inr [OF i] note n = new_command_Inr [OF b(4)]
    have t: "int4_ok (cm_timeout_ms c)" "representable (cm_expires_at c)"
      using b(5) by (auto simp: insert_command_def flush_def command_types_def split: if_splits)
    have f: "cm_timeout_ms c = cmin_timeout_ms b" using b(4) by (auto simp: new_command_def split: sum.splits)
    have m: "msg_payload m = json_dumps (w_frepr w) (command_payload b u gw a c)"
      using assms unfolding issue_command_stored [OF i] by (auto split: if_splits)
    have a: "a \<in> set (actuator_channels d)" "ac_id a = cmin_actuator_channel_id b"
      using fetch_Some_mem [OF b(2)] fetch_Some_key [OF b(2)] by auto
    have "\<exists>c'. fetch cm_id (cm_id c) (commands d') = Some c' \<and> cm_action c' = cm_action c \<and>
        cm_timeout_ms c' = cm_timeout_ms c \<and> cm_expires_at c' = cm_expires_at c \<and> cm_actuator_channel_id c' = cm_actuator_channel_id c"
      using assms insert_command_Inr(2) [OF b(5), folded fetch_None_iff] unfolding issue_command_stored [OF i]
      by (auto simp: fetch_append split: if_splits)
    then obtain c' where c': "fetch cm_id (cm_id c) (commands d') = Some c'" "cm_action c' = cm_action c"
        "cm_timeout_ms c' = cm_timeout_ms c" "cm_expires_at c' = cm_expires_at c" "cm_actuator_channel_id c' = cm_actuator_channel_id c"
      by blast
    show ?thesis
      using json_round_trip [OF command_payload_loadable [OF t(1) [unfolded f]], of "w_frepr w" u gw a c]
        c' a b(3) n f parse_iso8601_isoformat_aux(1) [OF t(2)]
      by (intro exI [of _ "command_payload b u gw a c"] exI [of _ "cm_id c"] exI [of _ c'])
        (auto simp: m command_payload_def)
  qed
qed

theorem command_read_back_witness:
  "\<exists>x d' m body. issue_command good_world 0 0 switch_on 10 bob farm = (x, d', [m]) \<and>
     json_loads (msg_payload m) = Some (Inr body) \<and> jfield body ''action'' = Some (JStr ''ON'')"
proof -
  obtain m where i: "issue_command good_world 0 0 switch_on 10 bob farm =
    (Inr (switched\<lparr>cm_status := ''published''\<rparr>), farm\<lparr>commands := [old_command, switched\<lparr>cm_status := ''published''\<rparr>]\<rparr>, [m])"
    using farm_issued by blast
  from command_read_back [OF i, of m] obtain body cid c where
    b: "json_loads (msg_payload m) = Some (Inr body)" "jfield body ''action'' = Some (JStr (cm_action c))"
      "fetch cm_id cid [old_command, switched\<lparr>cm_status := ''published''\<rparr>] = Some c"
    by auto
  have "cm_action c = ''ON''" using b(3) by (auto simp: old_command_def switched_def split: if_splits)
  with i b show ?thesis by auto
qed



text \<open>
  C30. The start-up check and the token check do not agree: the check warns exactly when signatures
  are not verified outside \<open>dev\<close> or without \<open>localhost\<close> or \<open>127.0.0.1\<close> somewhere in the issuer, and
  with verification off every token the library can decode is accepted, warning or not. A foreign
  host whose name contains \<open>localhost\<close> passes the check.
\<close>

theorem security_check_exact:
  "(validate_security s = [] \<longleftrightarrow> kc_verify_signature s \<or>
      (app_env s = ''dev'' \<and> (contains (kc_issuer s) ''localhost'' \<or> contains (kc_issuer s) ''127.0.0.1''))) \<and>
   (kc_verify_signature s \<or> decode_jwt s j w token cache =
      (case decode_unverified j token of None \<Rightarrow> Inl HTTP_401 | Some raw \<Rightarrow> Inr raw, cache)) \<and>
   validate_security (s\<lparr>kc_verify_signature := False, app_env := ''dev'', kc_issuer := ''https://localhost.evil.com''\<rparr>) = []"
proof -
  have "contains ''https://localhost.evil.com'' ''localhost''" by code_simp
  then show ?thesis by (auto simp: validate_security_empty issuer_local_def decode_jwt_def)
qed

section \<open>Seed, migrations and the fake token\<close>

text \<open>
  C31. The seed can be run again: after a successful run, every later run succeeds and changes
  nothing, whatever fresh ids, names and password it is given.
\<close>

theorem seed_idempotent:
  assumes "seed_main pw u serial d = (Inr 0, d')" "pw' \<noteq> []"
  shows "seed_main pw' u' serial d' = (Inr 0, d')"
proof -
  obtain us gw where s: "seed_all u serial d = Inr ((us, gw), d')"
    using assms(1) by (auto simp: seed_main_def split: if_splits sum.splits)
  obtain co st pr where "found serial co st us gw pr d'" using seed_all_found [OF s] by blast
  from seed_all_again [OF this, of u'] assms(2) show ?thesis by (simp add: seed_main_def)
qed

text \<open>
  C32. Seed, fake token and API fit together: on a database without the seed's user, a successful
  seed keeps the schema's invariant; the token's middle segment decodes to the JSON of its payload,
  that payload names the seeded user, and the user passes the administrator check on the seeded
  gateway. A back end that does not verify signatures then lists the gateway to whoever sends the token.
\<close>

theorem seed_then_login:
  assumes "wf_db d" "seed_main pw u serial d = (Inr 0, d')" "pw \<noteq> []"
    and "\<forall>x \<in> set (users d). us_email x \<noteq> ''admin@sim.local''"
  shows "wf_db d' \<and>
    (\<exists>h p. fake_jwt now = h @ ''.'' @ p @ ''.'' \<and> list_all slug_char h \<and> list_all slug_char p \<and>
       b64_decode (map b64_val h) = map of_char (Seed.compact fake_header) \<and>
       b64_decode (map b64_val p) = map of_char (Seed.compact (fake_payload now))) \<and>
    (\<exists>t usr gw. token_payload_of (fake_payload now) = Inr t \<and> get_current_user t d' = Inr usr \<and>
    us_email usr = ''admin@sim.local'' \<and> gw_serial_number gw = serial \<and> check_perm usr (gw_id gw) ''admin'' d' = Inr gw \<and>
      (\<forall>dp rq cache loaded. \<not> kc_verify_signature (dp_settings dp) \<longrightarrow>
         decode_unverified (dp_jose dp) (fake_jwt now) = Some (fake_payload now) \<longrightarrow>
         rq_authorization rq = Some (''Bearer '' @ fake_jwt now) \<longrightarrow> rq_target rq = Call ListGateways \<longrightarrow>
         (\<exists>gs. serve dp rq \<lparr>sv_db = d', sv_jwks = cache, sv_schema = loaded\<rparr> =
              (Inr (GatewaysReply gs), \<lparr>sv_db = d', sv_jwks = cache, sv_schema = loaded\<rparr>, []) \<and> to_gateway_out gw \<in> set gs)))"
proof -
  obtain us g where s: "seed_all u serial d = Inr ((us, g), d')"
    using assms(2,3) by (auto simp: seed_main_def split: sum.splits)
  have wf: "wf_db d'" by (rule seed_all_wf [OF s assms(1)])
  then have uq: "unique_key us_keycloak_user_id (users d')" "unique_key gw_id (gateways d')" "unique_key perm_key (permissions d')"
    by (simp_all add: wf_db_def keys_ok_def)
  obtain co st pr where f: "found serial co st us g pr d'" using seed_all_found [OF s] by blast
  have "\<exists>usr. usr \<in> set (users d') \<and> us_keycloak_user_id usr = ''sim-admin'' \<and> us_email usr = ''admin@sim.local'' \<and> us_id usr = us"
    using s
  proof (rule seed_all_steps)
    fix co d1 st d2 d3 d4 d5 d6 pr d7 sc d8 v d9 sp
    assume a: "seed_company u d = Inr (co, d1)" "seed_site u co d1 = Inr (st, d2)" "seed_user u d2 = Inr (us, d3)"
      "seed_role u us co d3 = Inr d4" "seed_gateway u serial co st d4 = Inr (g, d5)" "seed_perm u us g d5 = Inr d6"
      "seed_profile u d6 = Inr (pr, d7)" "seed_sensor u g pr d7 = Inr (sc, d8)"
      "seed_actuator (su_vent u) (su_now u) g ''relay-vent'' (su_vent_name u) ''GPIO17'' 600 d8 = Inr (v, d9)"
      "seed_actuator (su_spray u) (su_now u) g ''relay-spray'' (su_spray_name u) ''GPIO27'' 60 d9 = Inr (sp, d')"
    have u2: "users d2 = users d"
      using a(1,2) by (auto simp: seed_company_def seed_site_def inserts elim!: find_or_insert_cases)
    have "users d' = users d3"
      using seed_role_Inr [OF a(4)] seed_gateway_Inr [OF a(5)] seed_perm_Inr [OF a(6)] seed_profile_Inr [OF a(7)]
        seed_sensor_Inr [OF a(8)] seed_actuator_Inr [OF a(9)] seed_actuator_Inr [OF a(10)] by simp
    moreover have "find_id us_id (\<lambda>x. us_email x = ''admin@sim.local'') (users d2) = None"
      using assms(4) by (auto simp: u2 find_id_def find_None_iff)
    ultimately show ?thesis
      using a(3) by (auto simp: seed_user_def inserts elim!: find_or_insert_cases)
  qed
  then obtain usr where usr: "usr \<in> set (users d')" "us_keycloak_user_id usr = ''sim-admin''" "us_email usr = ''admin@sim.local''" "us_id usr = us"
    by blast
  define t where "t = \<lparr>tp_raw = fake_payload now, tp_sub = JStr ''sim-admin'', tp_email = JStr ''admin@sim.local'',
      tp_preferred_username = JStr [], tp_realm_roles = JArr [JStr ''system_admin'', JStr ''company_admin'']\<rparr>"
  have t: "token_payload_of (fake_payload now) = Inr t"
    by (simp add: token_payload_of_def fake_payload_def py_or_def t_def)
  have "scalar_one_or_none (filter (\<lambda>x. us_keycloak_user_id x = ''sim-admin'') (users d')) = Inr (Some usr)"
    using scalar_unique [OF uq(1), of "''sim-admin''"] fetch_unique [OF uq(1) usr(1)] usr(2) by simp
  then have cu: "get_current_user t d' = Inr usr"
    by (simp add: get_current_user_def t_def bind_text_def text_ok_def)
  obtain gw where gw: "gw \<in> set (gateways d')" "gw_serial_number gw = serial" "gw_id gw = g"
    using find_id_Some [of gw_id "\<lambda>g. gw_serial_number g = serial" "gateways d'" g] f [unfolded found_def] by blast
  have "holds usr g ''admin'' d'" using f usr(4) by (simp add: holds_iff found_def)
  moreover have "fetch gw_id g (gateways d') = Some gw" using fetch_unique [OF uq(2) gw(1)] gw(3) by simp
  ultimately have "check_perm usr (gw_id gw) ''admin'' d' = Inr gw"
    using check_perm_cases [OF uq(3)] gw(3) by simp
  moreover have "gw \<in> set (list_gateways usr d')"
    using f usr(4) gw by (force simp: set_list_gateways found_def perm_key_def)
  moreover have "serve dp rq sv = (Inr (GatewaysReply (map to_gateway_out (list_gateways usr d'))), sv, [])"
    if "\<not> kc_verify_signature (dp_settings dp)" "decode_unverified (dp_jose dp) (fake_jwt now) = Some (fake_payload now)"
      "rq_authorization rq = Some (''Bearer '' @ fake_jwt now)" "rq_target rq = Call ListGateways" "sv_db sv = d'" for dp rq sv
    using listing_served [of dp rq sv usr] fake_jwt_authenticates [OF that(1,2) t cu] that(3-5) by simp
  ultimately show ?thesis using wf t cu usr(3) gw(2) fake_jwt_segments [of now] by fastforce
qed

definition demo_seed :: seed_input where
  "demo_seed = \<lparr>su_company = 1, su_site = 2, su_user = 3, su_role = 4, su_gateway = 5, su_perm = 6, su_profile = 7, su_sensor = 8,
     su_vent = 9, su_spray = 10, su_profile_json = JObj [], su_sensor_name = ''S'', su_vent_name = ''V'', su_spray_name = ''W'', su_now = 0\<rparr>"

lemma demo_seeded: "\<exists>d'. seed_main ''pw'' demo_seed ''GW-SIM'' empty_db = (Inr 0, d')"
  by (simp add: seed_main_def seed_all_def seed_company_def seed_site_def seed_user_def seed_role_def seed_gateway_def seed_perm_def
      seed_profile_def seed_sensor_def seed_actuator_def find_or_insert_def find_id_def demo_seed_def empty_db_def inserts flush_def
      gateway_types_def gateway_refs_def ref_ok_def opt_ok_def text_ok_def varchar_ok_def int4_ok_def serial_check_def slug_pattern_def
      slug_char_def role_key_def perm_key_def sc_wire_def ac_wire_def)

theorem seed_idempotent_witness:
  "\<exists>d'. seed_main ''pw'' demo_seed ''GW-SIM'' empty_db = (Inr 0, d') \<and>
     seed_main ''other'' (demo_seed\<lparr>su_company := 99\<rparr>) ''GW-SIM'' d' = (Inr 0, d')"
proof -
  obtain d' where s: "seed_main ''pw'' demo_seed ''GW-SIM'' empty_db = (Inr 0, d')" using demo_seeded by blast
  have "''other'' \<noteq> []" by simp
  from seed_idempotent [OF s this] s show ?thesis by blast
qed

theorem seed_then_login_witness:
  "\<exists>d' gw gs. seed_main ''pw'' demo_seed ''GW-SIM'' empty_db = (Inr 0, d') \<and> gw_serial_number gw = ''GW-SIM'' \<and>
     to_gateway_out gw \<in> set gs \<and>
     serve (demo_deployment\<lparr>dp_jose := (dp_jose demo_deployment)\<lparr>decode_unverified := \<lambda>t. Some (fake_payload 0)\<rparr>\<rparr>)
       (demo_request (fake_jwt 0) ListGateways) \<lparr>sv_db = d', sv_jwks = None, sv_schema = None\<rparr> =
       (Inr (GatewaysReply gs), \<lparr>sv_db = d', sv_jwks = None, sv_schema = None\<rparr>, [])"
proof -
  obtain d' where s: "seed_main ''pw'' demo_seed ''GW-SIM'' empty_db = (Inr 0, d')" using demo_seeded by blast
  have e: "wf_db empty_db" "\<forall>x \<in> set (users empty_db). us_email x \<noteq> ''admin@sim.local''"
    by (simp_all add: wf_db_def keys_ok_def refs_ok_def formats_ok_def empty_db_def)
  have pw: "''pw'' \<noteq> []" by simp
  let ?dp = "demo_deployment\<lparr>dp_jose := (dp_jose demo_deployment)\<lparr>decode_unverified := \<lambda>t. Some (fake_payload 0)\<rparr>\<rparr>"
  let ?rq = "demo_request (fake_jwt 0) ListGateways"
  have c: "\<not> kc_verify_signature (dp_settings ?dp)" "decode_unverified (dp_jose ?dp) (fake_jwt 0) = Some (fake_payload 0)"
    "rq_authorization ?rq = Some (''Bearer '' @ fake_jwt 0)" "rq_target ?rq = Call ListGateways"
    by (simp_all add: demo_deployment_def demo_request_def)
  from seed_then_login [OF e(1) s pw e(2), of 0] c s show ?thesis by blast
qed

text \<open>
  C33. The migrations work and can be taken back: from an empty schema 0001 succeeds at any time, with
  the DEFAULT partition and those of the current and the next three months; 0002 succeeds after it;
  each downgrade restores what its upgrade started from. With both applied every column is mapped and
  every mapped column exists, with the same keys, references and unique constraints, but the database
  and the ORM differ in the type of three columns (those of the telemetry log that 0001 created as
  TEXT), in nullability on nineteen, which the database lets be NULL and the classes do not, and in
  twelve whose default only the database has (the classes fill it in themselves).
\<close>

theorem migrations_round_trip:
  "\<exists>s s' t. run (upgrade_0001 now) [] = Inr s \<and> run upgrade_0002 s = Inr s' \<and>
     run downgrade_0002 s' = Inr s \<and> run downgrade_0001 s = Inr [] \<and> map_of s ''telemetry'' = Some t \<and>
     set (tb_parts t) = insert DefaultPart {MonthPart ((next_month ^^ k) (dt_year (utc_datetime now), dt_month (utc_datetime now))) |k. k < 4} \<and>
     drift cl_type s' = [(''telemetry'', ''measurement_key''), (''telemetry'', ''unit''), (''telemetry'', ''quality'')] \<and>
     drift cl_nullable s' =
       [(''companies'', ''created_at''), (''companies'', ''updated_at''), (''sites'', ''created_at''),
        (''users'', ''created_at''), (''user_company_roles'', ''created_at''),
        (''user_gateway_permissions'', ''created_at''), (''gateway_profiles'', ''created_at''),
        (''gateways'', ''config_version''), (''gateways'', ''registered_at''),
        (''sensor_profiles'', ''enabled''), (''sensor_profiles'', ''created_at''),
        (''sensor_channels'', ''polling_interval_sec''), (''sensor_channels'', ''enabled''),
        (''sensor_channels'', ''created_at''), (''actuator_channels'', ''enabled''),
        (''actuator_channels'', ''created_at''), (''commands'', ''timeout_ms''),
        (''commands'', ''require_ack''), (''audit_logs'', ''ts'')] \<and>
     drift cl_default s' =
       [(''companies'', ''status''), (''users'', ''status''), (''gateways'', ''status''),
        (''gateways'', ''config_version''), (''sensor_profiles'', ''enabled''),
        (''sensor_channels'', ''polling_interval_sec''), (''sensor_channels'', ''enabled''),
        (''actuator_channels'', ''default_state''), (''actuator_channels'', ''enabled''),
        (''commands'', ''timeout_ms''), (''commands'', ''require_ack''), (''commands'', ''status'')] \<and>
     drift (\<lambda>c. (cl_primary c, cl_unique c, cl_fk c)) s' = [] \<and> unmapped s' = [] \<and> same_uniques s'"
proof -
  obtain ps where ps: "run (upgrade_0001 now) [] = Inr (with_parts ps full_0001)"
    "set ps = insert DefaultPart {MonthPart ((next_month ^^ k) (dt_year (utc_datetime now), dt_month (utc_datetime now))) |k. k < 4}"
    using run_upgrade_0001 by blast
  obtain s' where s': "run upgrade_0002 (with_parts ps full_0001) = Inr s'"
    using run_up_0002 [of ps] by (auto split: sum.splits)
  obtain t where t: "map_of (with_parts ps full_0001) ''telemetry'' = Some (t\<lparr>tb_parts := ps\<rparr>)"
    using telemetry_found [of ps] by blast
  have down: "run downgrade_0002 s' = Inr (with_parts ps full_0001)"
    using run_up_down_0002 [of ps] s' by (simp add: run_append)
  from ps(1) s' t ps(2) show ?thesis using down run_down_0001 [of ps] drift_0002 [of ps]
    by (intro exI [of _ "with_parts ps full_0001"] exI [of _ s'] exI [of _ "t\<lparr>tb_parts := ps\<rparr>"]) simp
qed

text \<open>
  C34. The data step of 0002: every channel gets the first eight hexadecimal digits of its id, which
  fit the slug format; the step fails exactly when two channels of one gateway share them.
\<close>

theorem migrate_channels_exact:
  "migrate_channels rows =
    (if distinct (map (\<lambda>(i, g). (g, take 8 (uuid_hex i))) rows)
     then Inr (map (\<lambda>(i, g). (i, g, take 8 (uuid_hex i))) rows) else Inl IntegrityError) \<and>
   (\<forall>i. slug_pattern (take 8 (uuid_hex i)) \<and> serial_check (take 8 (uuid_hex i)))"
  using migrate_channels_iff backfill_slug_pattern by (simp add: backfill_slug_hex serial_check_def)

text \<open>
  C35. The simulated registers stay within the waves' range plus the noise, whatever the time and the
  random values: NH3 in 195 to 305, H2S in 47 to 153, CO2 in 790 to 1510, so they fit a register, but
  leave the ranges the comments give. The slave id changes nothing but the message at the start.
\<close>

theorem simulator_registers:
  assumes "float_like rnd sine" "list_all turn_ok us" "(f, r, vs) \<in> set (update_loop rnd sine us)"
  shows "f = 3 \<and> r = 0 \<and> (\<exists>nh3 h2s co2. vs = [nh3, h2s, co2] \<and> nh3 \<in> {195..305} \<and> h2s \<in> {47..153} \<and> co2 \<in> {790..1510}) \<and>
    fst (sim_main (a\<lparr>sa_slave_id := i\<rparr>)) = fst (sim_main a) \<and> tl (snd (sim_main (a\<lparr>sa_slave_id := i\<rparr>))) = tl (snd (sim_main a))"
proof -
  obtain u where u: "u \<in> set us" "f = 3" "r = 0" "vs = registers rnd sine u"
    using assms(3) by (auto simp: update_loop_map update_once_def)
  have n: "\<bar>tu_nh3 u\<bar> \<le> 5" "\<bar>tu_h2s u\<bar> \<le> 3" "\<bar>tu_co2 u\<bar> \<le> 10"
    using assms(2) u(1) by (auto simp: list_all_iff turn_ok_def)
  note w = wave_bounds [OF assms(1)]
  show ?thesis
    using u w [OF n(1), of 50 250 60 "tu_t u"] w [OF n(2), of 50 100 90 "tu_t u"] w [OF n(3), of 350 1150 120 "tu_t u"]
    by (simp add: registers_def sim_main_def)
qed

theorem simulator_registers_witness:
  "(3, 0, [305, 153, 1510]) \<in> set (update_loop id (\<lambda>_. 1) [\<lparr>tu_t = 0, tu_nh3 = 5, tu_h2s = 3, tu_co2 = 10\<rparr>]) \<and> (305 :: int) \<in> {195..305}"
proof -
  let ?us = "[\<lparr>tu_t = 0, tu_nh3 = 5, tu_h2s = 3, tu_co2 = 10\<rparr>]"
  have m: "(3, 0, [305, 153, 1510]) \<in> set (update_loop id (\<lambda>_. 1) ?us)"
    by (simp add: update_loop_map update_once_def registers_def wave_def int_of_float_def)
  have "float_like id (\<lambda>_. 1)" by (simp add: float_like_def monoI)
  from simulator_registers [OF this _ m] m show ?thesis by (simp add: turn_ok_def)
qed

section \<open>Documents and processes\<close>

text \<open>
  C36. The plan document is well formed whatever the script asks for: its tags are nested as XML
  demands, no paragraph id is used twice, the fixed first paragraph's included, every table has the
  announced rows, its cells are numbered by column, and the widths of a full row fill the text block
  exactly.
\<close>

theorem document_well_formed:
  assumes "document share calls start = Inr b" "list_all call_ok calls"
  shows "well_nested (section_file b) \<and> distinct (SEC_FIRST_ID # all_ids b) \<and>
    (\<forall>t. Table t \<in> set (bu_chunks b) \<longrightarrow> ta_row_cnt t = length (ta_rows t) \<and>
       (\<forall>r \<in> set (ta_rows t). map ce_col r = [0..<length r] \<and> (length r = ta_col_cnt t \<longrightarrow> sum_list (map ce_width r) = 42520)))"
proof -
  have s: "ids_ok start" "list_all table_ok (bu_chunks start)" "list_all chunk_safe (bu_chunks start)"
    by (simp_all add: ids_ok_def all_ids_def start_def)
  from document_effect [OF assms s(1,2)] have "ids_ok b" "list_all table_ok (bu_chunks b)" by simp_all
  moreover from this(1) have "distinct (SEC_FIRST_ID # all_ids b)" by (simp add: ids_ok_def SEC_FIRST_ID_def)
  moreover have "table_ok (Table t)" if "Table t \<in> set (bu_chunks b)" for t
    using calculation(2) that unfolding list_all_iff by (rule bspec)
  moreover have "well_nested (section_file b)"
    by (rule section_file_well_nested [OF document_safe [OF assms(1) s(3)]])
  ultimately show ?thesis by (auto simp: TXT_WIDTH_def)
qed

theorem document_well_formed_witness:
  "\<exists>b. document (\<lambda>_. 21260) [CallP [65] 20 12, CallBlank, CallTable [[49], [50]] [[[51], [52]]] (Some [25, 75])] start = Inr b \<and>
     distinct (SEC_FIRST_ID # all_ids b) \<and> length (all_ids b) = 7"
proof -
  let ?cs = "[CallP [65] 20 12, CallBlank, CallTable [[49], [50]] [[[51], [52]]] (Some [25, 75])]"
  obtain b where b: "document (\<lambda>_. 21260) ?cs start = Inr b" "length (all_ids b) = 7"
    by (simp add: do_call_def para_def blank_def add_table_def col_widths_def raw_widths_def next_pid_def next_tid_def append_chunk_def
        start_def TXT_WIDTH_def Let_def all_ids_def)
  have "list_all call_ok ?cs" by simp
  from document_well_formed [OF b(1) this] b show ?thesis by blast
qed

text \<open>
  C37. The plan is built without an error and keeps its outline: chapters I to XV and the sections of
  each chapter are numbered in order, every item hangs below one of the level above, every table is
  rectangular and its column percentages are positive and add up to 100.
\<close>

theorem plan_outline:
  "\<exists>b. document share plan start = Inr b \<and> outline plan (0, 0, 0) = Some (15, 4, 0) \<and>
     list_all call_ok plan \<and> length (filter (\<lambda>c. \<exists>t. c = CallChapter t) plan) = 15"
proof -
  have "length (filter (\<lambda>c. \<exists>t. c = CallChapter t) cs) + fst p = fst q" if "outline cs p = Some q" for cs p q
    using that
  proof (induction cs arbitrary: p)
    case (Cons c cs)
    then obtain r where "advance c p = Some r" "outline cs r = Some q" by (auto split: option.splits)
    with Cons.IH [of r] show ?case by (cases c; cases p) (auto split: if_splits)
  qed simp
  from this [OF outline_plan] outline_built [OF outline_plan, of share start] outline_plan show ?thesis by simp
qed

text \<open>
  C38. What systemd is told: the API is reported ready exactly when systemd listens and the broker
  accepted the connection; a refused connection ends the start with its exception, after
  disconnecting and before anything is disposed; otherwise the stop is clean and the engine is gone.
  The worker is reported ready exactly when its consumer subscribed in time. Its watchdog does not
  watch the consumer: one WATCHDOG message goes out per tick, those before READY included, whether
  the consumer still runs or has died, and the death only shows as the exception that ends the
  process after the stop signal, with the engine not disposed.
\<close>

theorem systemd_notified:
  assumes "app_lifespan s en connect ticks m = (ev, x, m')" "dm_ok m"
  shows "(Notify ''READY=1'' \<in> set ev \<longleftrightarrow> en \<and> connect = None) \<and> x = connect \<and> MqttDisconnect \<in> set ev \<and>
    (case connect of Some _ \<Rightarrow> m' = m | None \<Rightarrow> dm_engine m' = None \<and> dm_sessionmaker m' = None) \<and>
    (validate_security s \<noteq> [] \<longrightarrow> (\<exists>q. LogWarning q \<in> set ev)) \<and>
    fst (worker_main s True True (Dead e) early late ticks m) @ fst (dispose_engine m) =
      fst (worker_main s True True Consuming early late ticks m) \<and>
    count_list (fst (worker_main s True True con early late ticks m)) (Notify ''WATCHDOG=1'') = early + late + ticks \<and>
    snd (worker_main s True True (Dead e) early late ticks m) = (Some e, m) \<and>
    (Notify ''READY=1'' \<in> set (fst (worker_main s en in_time con early late ticks m)) \<longleftrightarrow> en \<and> in_time)"
proof -
  have w: "\<exists>q. LogWarning q \<in> set ev" if "validate_security s \<noteq> []"
    using assms(1) that by (cases "validate_security s") (auto simp: app_lifespan_def Let_def mqtt_lifespan_def split: option.splits prod.splits)
  show ?thesis
  proof (cases connect)
    case None
    with assms(1) have "x = None" "MqttDisconnect \<in> set ev" "\<exists>e. dispose_engine m = (e, m')"
      by (auto simp: app_lifespan_def Let_def mqtt_lifespan_def split: prod.splits)
    then show ?thesis using app_ready_iff [OF assms(1)] w dispose_engine_ok assms(2) None worker_watchdog by auto
  next
    case (Some e)
    with assms(1) have "x = Some e" "MqttDisconnect \<in> set ev" "m' = m"
      by (auto simp: app_lifespan_def Let_def mqtt_lifespan_def)
    then show ?thesis using app_ready_iff [OF assms(1)] w Some worker_watchdog by auto
  qed
qed

theorem systemd_notified_witness:
  "\<exists>ev m'. app_lifespan default_settings True (Some ExternalError) 3 \<lparr>dm_engine = None, dm_sessionmaker = None, dm_next = 0\<rparr> =
      (ev, Some ExternalError, m') \<and> Notify ''READY=1'' \<notin> set ev"
proof -
  let ?m = "\<lparr>dm_engine = None, dm_sessionmaker = None, dm_next = 0\<rparr>"
  obtain ev x m' where a: "app_lifespan default_settings True (Some ExternalError) 3 ?m = (ev, x, m')"
    by (cases "app_lifespan default_settings True (Some ExternalError) 3 ?m")
  have "dm_ok ?m" by (simp add: dm_ok_def)
  from systemd_notified [OF a this] a show ?thesis by auto
qed

text \<open>
  C39. The slide deck is built without an error and has the thirty-eight slides its headers
  announce: slides 2 to 37 carry a page label with their own number and the total, the first and the
  last carry none. Every frame is high enough for the fonts of its lines, no text is smaller than
  eight points or has the colour of the shape it stands in. All shapes lie on the slide but twelve:
  the third card's titles on slides 10, 22 and 36 and two labels on slide 20 run over the right
  edge, the whole card of the seventh day on slide 34 runs over the bottom edge (it starts just
  above the footer), and the accent bar of the last slide is as high as the slide is wide.
\<close>

theorem deck_layout:
  "\<exists>slides. deck = Inr slides \<and>
     length slides = 38 \<and>
     map (\<lambda>s. concat (map labels s)) slides = [[]] @ map (\<lambda>k. [page_label k TOTAL]) [2 .. 37] @ [[]] \<and>
     misfits holds_text slides = [] \<and>
     misfits readable slides = [] \<and>
     map (\<lambda>(k, sh). (k, position_of sh)) (misfits on_slide slides) =
       [(10, Some TEXTBOX, 9240, 1170, 4150, 360), (10, Some TEXTBOX, 9240, 1520, 4150, 260),
        (20, Some TEXTBOX, 9775, 4400, 4050, 280), (20, Some TEXTBOX, 9775, 4850, 4050, 280),
        (22, Some TEXTBOX, 9240, 1200, 4150, 400),
        (34, Some ROUNDED_RECTANGLE, 500, 7250, 12300, 2000), (34, Some RECTANGLE, 500, 7250, 900, 2000),
        (34, Some TEXTBOX, 600, 7300, 850, 400), (34, Some TEXTBOX, 600, 7750, 850, 1400),
        (34, Some TEXTBOX, 1550, 7350, 11150, 1800),
        (36, Some TEXTBOX, 9240, 1200, 4150, 450),
        (38, Some RECTANGLE, 11930, 0, 100, SLIDE_W)]"
proof -
  obtain slides where d: "deck = Inr slides" and a: "map audit slides = deck_remarks" using audit_deck by blast
  have n: "length slides = 38" using arg_cong [OF a, of length] by (simp add: deck_remarks_def)
  have l: "map (\<lambda>s. concat (map labels s)) slides = map labels_in (map audit slides)" by (simp add: audit_reads o_def)
  have m: "map (\<lambda>(k, sh). (k, position_of sh)) (misfits ok slides) =
      concat (map (\<lambda>(k, rs). map (Pair k) (pick rs)) (zip [1 .. 38] (map audit slides)))"
    if "\<And>s. map position_of (filter (\<lambda>sh. \<not> ok sh) s) = pick (audit s)" for ok pick
    unfolding misfits_positions numbered_def that zip_map2 by (simp add: n o_def split_def)
  have 1: "map (\<lambda>s. concat (map labels s)) slides = [[]] @ map (\<lambda>k. [page_label k TOTAL]) [2 .. 37] @ [[]]"
    unfolding l a by (simp add: deck_remarks_def in_defs upto.simps)
  have 2: "misfits holds_text slides = []" "misfits readable slides = []"
    unfolding misfits_none m [OF audit_reads(2)] m [OF audit_reads(3)] a
    by (simp_all add: deck_remarks_def in_defs upto.simps)
  note 3 = m [OF audit_reads(4), unfolded a]
  show ?thesis
    by (rule exI [of _ slides], intro conjI d n 1 2, unfold 3) (simp add: deck_remarks_def in_defs upto.simps SLIDE_W_def)
qed


end
